(* ===== verification/Prelude.thy ===== *)
theory Prelude
  imports Complex_Main "HOL-Library.Word" "HOL-Library.Monad_Syntax"
begin

text \<open>
  Shared vocabulary of the development.

  \<^item> Values of the crate \<^verbatim>\<open>rust_decimal\<close> are rational numbers; comparisons, \<^verbatim>\<open>abs\<close>,
    \<^verbatim>\<open>min\<close>, \<^verbatim>\<open>max\<close>, negation and \<^verbatim>\<open>is_zero\<close> act on the value. Its operators \<^verbatim>\<open>+\<close>, \<^verbatim>\<open>-\<close>,
    \<^verbatim>\<open>*\<close>, \<^verbatim>\<open>/\<close> round and panic on overflow (and on division by zero), so they are
    parameters: the record \<open>ext\<close> holds them, together with the functions of \<^verbatim>\<open>chrono\<close>,
    \<^verbatim>\<open>chrono_tz\<close>, \<^verbatim>\<open>serde_json\<close>, \<^verbatim>\<open>uuid\<close>, \<^verbatim>\<open>sha2\<close> and the standard hasher that the sources call.
  \<^item> A computation that may panic has type \<open>'a option\<close>, where \<open>None\<close> is the panic; a
    fallible one has type \<open>(error + 'a) option\<close>.
  \<^item> A timestamp is its number of nanoseconds since the Unix epoch, a duration its
    number of nanoseconds, a calendar date its number of days since the epoch.
  \<^item> A message built by \<^verbatim>\<open>format!\<close> is kept unrendered: a key for the format string and
    its arguments, because the arithmetic in the arguments can panic.
\<close>

section \<open>Types of the model\<close>

type_synonym decimal = rat
type_synonym money = decimal
type_synonym price = decimal
type_synonym quantity = decimal
type_synonym lots = decimal
type_synonym pct = decimal
type_synonym symbol = string
type_synonym timestamp = int
type_synonym duration = int
type_synonym date = int
type_synonym u8 = "8 word"
type_synonym u32 = "32 word"
type_synonym u64 = "64 word"
type_synonym uuid = "128 word"
type_synonym tz = string

datatype msg = Lit string | MDec decimal | MInt int | MTime timestamp | Fmt string "msg list"

text \<open>The crate's error type; the variants carry their message.\<close>

datatype error =
    InvalidConfig msg
  | RuleNotApplicable msg msg
  | NumericConversion msg
  | NotFound msg
  | Persistence msg
  | Serialization msg
  | InvalidState msg
  | RuleEval msg
  | StateConflict msg u64 u64
  | TickRejected msg
  | MissingMetric msg

type_synonym 'a res = "error + 'a"

datatype weekday = Mon | Tue | Wed | Thu | Fri | Sat | Sun

text \<open>What the sources feed to a hasher through \<^verbatim>\<open>std::hash::Hash\<close>, one item per hashed value.\<close>

datatype hash_item =
    HText string
  | HDec decimal
  | HInt int
  | HBool bool
  | HId uuid
  | HTag string
  | HNone
  | HSome hash_item
  | HPair hash_item hash_item

section \<open>Code outside the repository\<close>

text \<open>
  The operations of third-party crates, one field per function the sources call. A
  partial field is \<open>None\<close> where the called function panics (or where the caller's
  \<^verbatim>\<open>unwrap\<close>/\<^verbatim>\<open>expect\<close> on its result does).
\<close>

record ext =
  dadd :: "decimal \<Rightarrow> decimal \<Rightarrow> decimal option"
  dsub :: "decimal \<Rightarrow> decimal \<Rightarrow> decimal option"
  dmul :: "decimal \<Rightarrow> decimal \<Rightarrow> decimal option"
  ddiv :: "decimal \<Rightarrow> decimal \<Rightarrow> decimal option"
  dround_dp :: "decimal \<Rightarrow> nat \<Rightarrow> decimal"
  dto_i64 :: "decimal \<Rightarrow> int option"
  dto_u32 :: "decimal \<Rightarrow> u32 option"
  dto_u64 :: "decimal \<Rightarrow> u64 option"
  dsqrt :: "decimal \<Rightarrow> decimal option"
  json_get_decimal :: "string \<Rightarrow> string \<Rightarrow> decimal option"
  json_get_u64 :: "string \<Rightarrow> string \<Rightarrow> u64 option"
  default_hash :: "string \<Rightarrow> u64"
  sip_hash :: "hash_item list \<Rightarrow> u64"
  sha256_digest :: "hash_item list \<Rightarrow> string"
  uuid_display :: "uuid \<Rightarrow> string"
  uuid_parse :: "string \<Rightarrow> uuid option"
  dexp :: "decimal \<Rightarrow> decimal option"
  new_v4 :: "string \<Rightarrow> uuid"
  utc_now :: timestamp
  num_seconds :: "duration \<Rightarrow> int"
  num_minutes :: "duration \<Rightarrow> int"
  num_days :: "duration \<Rightarrow> int"
  dur_days :: "int \<Rightarrow> duration option"
  dur_minutes :: "int \<Rightarrow> duration option"
  dur_seconds :: "int \<Rightarrow> duration option"
  ts_add :: "timestamp \<Rightarrow> duration \<Rightarrow> timestamp option"
  ts_sub :: "timestamp \<Rightarrow> duration \<Rightarrow> timestamp option"
  utc_hour :: "timestamp \<Rightarrow> nat"
  utc_weekday :: "timestamp \<Rightarrow> weekday"
  utc_date :: "timestamp \<Rightarrow> date"
  date_succ :: "date \<Rightarrow> date option"
  utc_at_hour :: "date \<Rightarrow> nat \<Rightarrow> timestamp option"
  utc_at_time :: "date \<Rightarrow> nat \<Rightarrow> nat \<Rightarrow> timestamp"
  tz_hour :: "tz \<Rightarrow> timestamp \<Rightarrow> nat"
  tz_date :: "tz \<Rightarrow> timestamp \<Rightarrow> date"
  tz_at_hour :: "tz \<Rightarrow> date \<Rightarrow> nat \<Rightarrow> timestamp option"
  ts_from_millis :: "int \<Rightarrow> timestamp option"
  rfc3339 :: "timestamp \<Rightarrow> string"

text \<open>The digest of \<^verbatim>\<open>src/sha256_helper.rs\<close>, with its prefix.\<close>

definition finalize_hex :: "ext \<Rightarrow> hash_item list \<Rightarrow> string" where
  "finalize_hex E items = ''sha256:'' @ sha256_digest E items"

section \<open>Control flow\<close>

text \<open>The \<^verbatim>\<open>?\<close> operator: an error returns early, a panic propagates.\<close>

definition try_op :: "'a res option \<Rightarrow> ('a \<Rightarrow> 'b res option) \<Rightarrow> 'b res option" where
  "try_op m f = (case m of None \<Rightarrow> None | Some (Inl e) \<Rightarrow> Some (Inl e) | Some (Inr x) \<Rightarrow> f x)"

definition ok :: "'a \<Rightarrow> 'a res option" where
  "ok x = Some (Inr x)"

definition err :: "error \<Rightarrow> 'a res option" where
  "err e = Some (Inl e)"

definition map_err :: "(error \<Rightarrow> error) \<Rightarrow> 'a res option \<Rightarrow> 'a res option" where
  "map_err f m = (case m of Some (Inl e) \<Rightarrow> Some (Inl (f e)) | _ \<Rightarrow> m)"

definition ok_or :: "'a option \<Rightarrow> error \<Rightarrow> 'a res option" where
  "ok_or x e = (case x of None \<Rightarrow> err e | Some y \<Rightarrow> ok y)"

text \<open>The message of an error, as its \<^verbatim>\<open>Display\<close> builds it.\<close>

fun error_msg :: "error \<Rightarrow> msg" where
  "error_msg (InvalidConfig m) = Fmt ''invalid configuration: {0}'' [m]"
| "error_msg (RuleNotApplicable m n) = Fmt ''rule {0} not applicable to context kind {1}'' [m, n]"
| "error_msg (NumericConversion m) = Fmt ''numeric conversion error: {0}'' [m]"
| "error_msg (NotFound m) = Fmt ''entity not found: {0}'' [m]"
| "error_msg (Persistence m) = Fmt ''persistence error: {0}'' [m]"
| "error_msg (Serialization m) = Fmt ''serialization error: {0}'' [m]"
| "error_msg (InvalidState m) = Fmt ''invalid state: {0}'' [m]"
| "error_msg (RuleEval m) = Fmt ''rule evaluation error: {0}'' [m]"
| "error_msg (StateConflict m a b) = Fmt ''state conflict'' [m, MInt (uint a), MInt (uint b)]"
| "error_msg (TickRejected m) = Fmt ''tick rejected: {0}'' [m]"
| "error_msg (MissingMetric m) = Fmt ''missing metric: {0}'' [m]"

text \<open>
  Integer conversions of the language: \<^verbatim>\<open>as usize\<close> on a 64-bit target, wrap-around of
  \<^verbatim>\<open>i64\<close>, and the comparison \<^verbatim>\<open>x as f64 / y as f64 > 0.9\<close> for integers below \<open>2\<^sup>5\<^sup>3\<close>:
  the nearest double to 0.9 is 8106479329266893/\<open>2\<^sup>5\<^sup>3\<close>, its mantissa is odd, so the rounded
  quotient exceeds it exactly from the midpoint to the next double on.
\<close>

definition i64_as_usize :: "int \<Rightarrow> nat" where
  "i64_as_usize v = nat (v mod 2 ^ 64)"

definition i64_wrap :: "int \<Rightarrow> int" where
  "i64_wrap v = sint (word_of_int v :: 64 word)"

definition usize_as_u32 :: "nat \<Rightarrow> u32" where
  "usize_as_u32 n = of_nat n"

definition f64_ratio_above_09 :: "int \<Rightarrow> int \<Rightarrow> bool" where
  "f64_ratio_above_09 x y \<longleftrightarrow> 16212958658533787 * y \<le> x * 2 ^ 54"

text \<open>A fold whose step may panic: the iteration order is that of the source's loop.\<close>

fun foldo :: "('a \<Rightarrow> 'b \<Rightarrow> 'a option) \<Rightarrow> 'a \<Rightarrow> 'b list \<Rightarrow> 'a option" where
  "foldo f a [] = Some a"
| "foldo f a (x # xs) = Option.bind (f a x) (\<lambda>b. foldo f b xs)"

text \<open>A map whose step may panic (an iterator adaptor that is collected).\<close>

fun mapo :: "('a \<Rightarrow> 'b option) \<Rightarrow> 'a list \<Rightarrow> 'b list option" where
  "mapo f [] = Some []"
| "mapo f (x # xs) = Option.bind (f x) (\<lambda>y. Option.bind (mapo f xs) (\<lambda>ys. Some (y # ys)))"

definition dsum :: "ext \<Rightarrow> decimal list \<Rightarrow> decimal option" where
  "dsum E xs = foldo (dadd E) 0 xs"

text \<open>ASCII case mapping of \<^verbatim>\<open>to_uppercase\<close> and \<^verbatim>\<open>to_ascii_lowercase\<close>.\<close>

definition upper_char :: "char \<Rightarrow> char" where
  "upper_char c = (let n = of_char c :: nat in if 97 \<le> n \<and> n \<le> 122 then char_of (n - 32) else c)"

definition lower_char :: "char \<Rightarrow> char" where
  "lower_char c = (let n = of_char c :: nat in if 65 \<le> n \<and> n \<le> 90 then char_of (n + 32) else c)"

definition to_uppercase :: "string \<Rightarrow> string" where
  "to_uppercase s = map upper_char s"

definition to_lowercase :: "string \<Rightarrow> string" where
  "to_lowercase s = map lower_char s"

text \<open>What a computation returns, when it returns a value, satisfies a predicate.\<close>

definition returns :: "('a \<Rightarrow> bool) \<Rightarrow> 'a res option \<Rightarrow> bool" where
  "returns P m \<longleftrightarrow> (case m of Some (Inr x) \<Rightarrow> P x | _ \<Rightarrow> True)"

text \<open>
  A computation that never returns an error, and whose value, unless it panics, satisfies a
  predicate.
\<close>

definition settles :: "('a \<Rightarrow> bool) \<Rightarrow> 'a res option \<Rightarrow> bool" where
  "settles P m \<longleftrightarrow> (case m of None \<Rightarrow> True | Some (Inl e) \<Rightarrow> False | Some (Inr x) \<Rightarrow> P x)"

section \<open>Proof support\<close>

named_theorems run_simps \<open>inversion of computations that returned\<close>

lemmas [run_simps] = Option.bind_eq_Some_conv Let_def

lemma try_op_simps [simp]:
  "try_op None f = None"
  "try_op (ok x) f = f x"
  "try_op (err e) f = err e"
  by (simp_all add: try_op_def ok_def err_def)

lemma ok_simps [simp]:
  "ok x \<noteq> None" "None \<noteq> ok x" "ok x = ok y \<longleftrightarrow> x = y" "ok x \<noteq> err e" "err e \<noteq> ok x"
  "err e \<noteq> None" "None \<noteq> err e" "err d = err e \<longleftrightarrow> d = e"
  "ok x = Some (Inr y) \<longleftrightarrow> x = y" "err e = Some (Inl d) \<longleftrightarrow> e = d"
  "ok x \<noteq> Some (Inl d)" "err e \<noteq> Some (Inr y)"
  by (auto simp: ok_def err_def)

lemma try_op_eq_ok [run_simps]:
  "try_op m f = ok y \<longleftrightarrow> (\<exists>x. m = ok x \<and> f x = ok y)"
  by (auto simp: try_op_def ok_def split: option.splits sum.splits)

lemma try_op_eq_err:
  "try_op m f = err e \<longleftrightarrow> m = err e \<or> (\<exists>x. m = ok x \<and> f x = err e)"
  by (auto simp: try_op_def ok_def err_def split: option.splits sum.splits)

lemma res_option_cases:
  obtains (panics) "m = None" | (fails) e where "m = err e" | (returns) x where "m = ok x"
  by (cases m) (auto simp: ok_def err_def, metis sumE)

lemma foldo_append: "foldo f a (xs @ ys) = Option.bind (foldo f a xs) (\<lambda>b. foldo f b ys)"
  by (induction xs arbitrary: a) (auto simp: Option.bind_assoc)

lemma mapo_length: "mapo f xs = Some ys \<Longrightarrow> length ys = length xs"
  by (induction xs arbitrary: ys) (auto simp: run_simps)

lemma mapo_Some_map: "(\<And>x. x \<in> set xs \<Longrightarrow> f x = Some (g x)) \<Longrightarrow> mapo f xs = Some (map g xs)"
  by (induction xs) auto

lemma returnsD: "returns P m \<Longrightarrow> m = ok x \<Longrightarrow> P x"
  by (simp add: returns_def ok_def)

lemma returns_simps [simp]:
  "returns P (ok x) = P x" "returns P (err e)" "returns P None"
  by (simp_all add: returns_def ok_def err_def)

lemma returns_bind: "(\<And>x. m = Some x \<Longrightarrow> returns P (f x)) \<Longrightarrow> returns P (Option.bind m f)"
  by (cases m) auto

lemma returns_try: "(\<And>x. m = ok x \<Longrightarrow> returns P (f x)) \<Longrightarrow> returns P (try_op m f)"
  by (cases m rule: res_option_cases) auto

lemma returns_if: "(c \<Longrightarrow> returns P x) \<Longrightarrow> (\<not> c \<Longrightarrow> returns P y) \<Longrightarrow> returns P (if c then x else y)"
  by simp

lemma returns_case_option:
  "(m = None \<Longrightarrow> returns P x) \<Longrightarrow> (\<And>y. m = Some y \<Longrightarrow> returns P (f y)) \<Longrightarrow>
   returns P (case m of None \<Rightarrow> x | Some y \<Rightarrow> f y)"
  by (cases m) auto

lemma returns_case_sum:
  "(\<And>y. m = Inl y \<Longrightarrow> returns P (f y)) \<Longrightarrow> (\<And>y. m = Inr y \<Longrightarrow> returns P (g y)) \<Longrightarrow>
   returns P (case m of Inl y \<Rightarrow> f y | Inr y \<Rightarrow> g y)"
  by (cases m) auto

lemma returns_case_prod: "(\<And>x y. p = (x, y) \<Longrightarrow> returns P (f x y)) \<Longrightarrow> returns P (case p of (x, y) \<Rightarrow> f x y)"
  by (cases p) auto

lemmas returns_intros = returns_bind returns_try returns_if returns_case_option returns_case_sum returns_case_prod

lemma bind_eq_ok [run_simps]: "Option.bind m f = ok y \<longleftrightarrow> (\<exists>x. m = Some x \<and> f x = ok y)"
  by (cases m) auto

lemma bind_eq_err [run_simps]: "Option.bind m f = err y \<longleftrightarrow> (\<exists>x. m = Some x \<and> f x = err y)"
  by (cases m) auto

lemma map_err_simps [simp]: "map_err g None = None" "map_err g (ok x) = ok x" "map_err g (err e) = err (g e)"
  by (simp_all add: map_err_def ok_def err_def)

lemma settles_simps [simp]:
  "settles P (ok x) = P x" "\<not> settles P (err e)" "settles P None"
  by (simp_all add: settles_def ok_def err_def)

lemma settlesD: "settles P m \<Longrightarrow> m = ok x \<Longrightarrow> P x"
  by simp

lemma settles_bind: "(\<And>x. m = Some x \<Longrightarrow> settles P (f x)) \<Longrightarrow> settles P (Option.bind m f)"
  by (cases m) auto

lemma settles_try: "settles Q m \<Longrightarrow> (\<And>x. Q x \<Longrightarrow> m = ok x \<Longrightarrow> settles P (f x)) \<Longrightarrow> settles P (try_op m f)"
  by (cases m rule: res_option_cases) auto

lemma settles_if: "(c \<Longrightarrow> settles P x) \<Longrightarrow> (\<not> c \<Longrightarrow> settles P y) \<Longrightarrow> settles P (if c then x else y)"
  by simp

lemma settles_case_option:
  "(m = None \<Longrightarrow> settles P x) \<Longrightarrow> (\<And>y. m = Some y \<Longrightarrow> settles P (f y)) \<Longrightarrow>
   settles P (case m of None \<Rightarrow> x | Some y \<Rightarrow> f y)"
  by (cases m) auto

lemma settles_case_sum:
  "(\<And>y. m = Inl y \<Longrightarrow> settles P (f y)) \<Longrightarrow> (\<And>y. m = Inr y \<Longrightarrow> settles P (g y)) \<Longrightarrow>
   settles P (case m of Inl y \<Rightarrow> f y | Inr y \<Rightarrow> g y)"
  by (cases m) auto

lemma settles_case_prod: "(\<And>x y. p = (x, y) \<Longrightarrow> settles P (f x y)) \<Longrightarrow> settles P (case p of (x, y) \<Rightarrow> f x y)"
  by (cases p) auto

lemmas settles_intros = settles_bind settles_if settles_case_option settles_case_sum settles_case_prod

lemma try_op_assoc: "try_op (try_op m f) g = try_op m (\<lambda>x. try_op (f x) g)"
  by (simp add: try_op_def split: option.split sum.split)

section \<open>Text formats\<close>

lemma lower_char_idem [simp]: "lower_char (lower_char c) = lower_char c"
  by (cases c) (auto simp: lower_char_def Let_def)

lemma to_lowercase_idem [simp]: "to_lowercase (to_lowercase s) = to_lowercase s"
  by (simp add: to_lowercase_def)

lemmas lower_simps = to_lowercase_def lower_char_def Let_def

text \<open>A text format of a setting: rendering and parsing agree, and parsing ignores case.\<close>

locale text_codec =
  fixes render :: "'a \<Rightarrow> string" and parse :: "string \<Rightarrow> 'a res"
  assumes parse_render: "parse (render x) = Inr x"
    and parse_case: "parse (to_lowercase s) = parse s"
begin

lemma render_inj: "render x = render y \<longleftrightarrow> x = y"
  using parse_render by (metis sum.inject(2))

lemma parse_lower: "to_lowercase s = render x \<Longrightarrow> parse s = Inr x"
  using parse_case [of s] parse_render by simp

end

end
