(* ===== verification/Concrete_Env.thy ===== *)
theory Concrete_Env
  imports Prelude
begin

text \<open>
  What the theorems assume of the code outside the repository, as predicates on the
  parameter \<open>ext\<close>, and one concrete environment that satisfies them: exact rational
  arithmetic, the proleptic UTC day grid and a multiplicative string hash.
\<close>

section \<open>Assumptions\<close>

definition day_ns :: int where
  "day_ns = 86400000000000"

definition hour_ns :: int where
  "hour_ns = 3600000000000"

text \<open>Dates \<^verbatim>\<open>chrono\<close> can represent lie within 262143 years of the epoch; the bound is inside.\<close>

definition max_date :: int where
  "max_date = 95000000"

text \<open>
  The UTC calendar of \<^verbatim>\<open>chrono\<close>: a day has 86400 seconds, dates and times of day convert
  both ways inside the representable range.
\<close>

definition utc_calendar :: "ext \<Rightarrow> bool" where
  "utc_calendar E \<longleftrightarrow>
     (\<forall>t. \<bar>t\<bar> \<le> max_date * day_ns \<longrightarrow> utc_date E t = t div day_ns)
   \<and> (\<forall>d h. \<bar>d\<bar> \<le> max_date \<longrightarrow> h < 24 \<longrightarrow> utc_at_hour E d h = Some (d * day_ns + int h * hour_ns))
   \<and> (\<forall>d. \<bar>d\<bar> < max_date \<longrightarrow> date_succ E d = Some (d + 1))
   \<and> dur_days E 1 = Some day_ns
   \<and> (\<forall>t. \<bar>t\<bar> \<le> max_date * day_ns + day_ns \<longrightarrow> ts_sub E t day_ns = Some (t - day_ns))"

section \<open>A concrete environment\<close>

definition trunc_div :: "int \<Rightarrow> int \<Rightarrow> int" where
  "trunc_div x y = (if x \<ge> 0 then x div y else - ((- x) div y))"

definition string_hash :: "string \<Rightarrow> int" where
  "string_hash s = foldl (\<lambda>h c. (h * 131 + of_char c) mod 65521) 7 s"

primrec item_code :: "hash_item \<Rightarrow> int" where
  "item_code (HText s) = string_hash s"
| "item_code (HDec d) = fst (quotient_of d) * 131 + snd (quotient_of d)"
| "item_code (HInt i) = i"
| "item_code (HBool b) = (if b then 1 else 0)"
| "item_code (HId u) = uint u"
| "item_code (HTag s) = string_hash s"
| "item_code HNone = 0"
| "item_code (HSome i) = item_code i + 1"
| "item_code (HPair i j) = item_code i * 131 + item_code j"

definition items_hash :: "hash_item list \<Rightarrow> int" where
  "items_hash is = foldl (\<lambda>h i. (h * 131 + item_code i) mod 65521) 7 is"

text \<open>The digest of one text is the text itself, which is enough to tell request bodies apart.\<close>

definition items_digest :: "hash_item list \<Rightarrow> string" where
  "items_digest is = (case is of [HText s] \<Rightarrow> s | _ \<Rightarrow> ''digest'')"

definition uuid_bits :: "uuid \<Rightarrow> string" where
  "uuid_bits u = map (\<lambda>i. if bit u i then CHR ''1'' else CHR ''0'') [0..<128]"

definition bits_uuid :: "string \<Rightarrow> uuid option" where
  "bits_uuid s = (if length s = 128 then Some (foldr (\<lambda>c u. 2 * u + (if c = CHR ''1'' then 1 else 0)) s 0) else None)"

definition weekday_of :: "int \<Rightarrow> weekday" where
  "weekday_of d = [Thu, Fri, Sat, Sun, Mon, Tue, Wed] ! nat (d mod 7)"

definition exact_env :: "timestamp \<Rightarrow> ext" where
  "exact_env now =
     \<lparr> dadd = \<lambda>x y. Some (x + y), dsub = \<lambda>x y. Some (x - y), dmul = \<lambda>x y. Some (x * y),
       ddiv = \<lambda>x y. if y = 0 then None else Some (x / y), dround_dp = \<lambda>x n. x,
       dto_i64 = \<lambda>x. Some (floor x), dto_u32 = \<lambda>x. Some (of_int (floor x)),
       dto_u64 = \<lambda>x. Some (of_int (floor x)), dsqrt = \<lambda>x. None,
       json_get_decimal = \<lambda>s k. None, json_get_u64 = \<lambda>s k. None,
       default_hash = \<lambda>s. of_int (string_hash s), sip_hash = \<lambda>is. of_int (items_hash is),
       sha256_digest = items_digest, uuid_display = uuid_bits, uuid_parse = bits_uuid, dexp = \<lambda>x. Some 1,
       new_v4 = \<lambda>k. of_int (string_hash k),
       utc_now = now, num_seconds = \<lambda>d. trunc_div d 1000000000,
       num_minutes = \<lambda>d. trunc_div d 60000000000, num_days = \<lambda>d. trunc_div d day_ns,
       dur_days = \<lambda>n. Some (n * day_ns), dur_minutes = \<lambda>n. Some (n * 60000000000),
       dur_seconds = \<lambda>n. Some (n * 1000000000),
       ts_add = \<lambda>t d. Some (t + d), ts_sub = \<lambda>t d. Some (t - d),
       utc_hour = \<lambda>t. nat (t mod day_ns div hour_ns), utc_weekday = \<lambda>t. weekday_of (t div day_ns),
       utc_date = \<lambda>t. t div day_ns, date_succ = \<lambda>d. Some (d + 1),
       utc_at_hour = \<lambda>d h. if h < 24 then Some (d * day_ns + int h * hour_ns) else None,
       utc_at_time = \<lambda>d h m. d * day_ns + int h * hour_ns + int m * 60000000000,
       tz_hour = \<lambda>z t. nat (t mod day_ns div hour_ns), tz_date = \<lambda>z t. t div day_ns,
       tz_at_hour = \<lambda>z d h. if h < 24 then Some (d * day_ns + int h * hour_ns) else None,
       ts_from_millis = \<lambda>m. Some (m * 1000000), rfc3339 = \<lambda>t. ''time'' \<rparr>"

lemma exact_env_simps [simp]:
  "dadd (exact_env now) x y = Some (x + y)"
  "dsub (exact_env now) x y = Some (x - y)"
  "dmul (exact_env now) x y = Some (x * y)"
  "ddiv (exact_env now) x y = (if y = 0 then None else Some (x / y))"
  "dround_dp (exact_env now) x m = x"
  "default_hash (exact_env now) s = of_int (string_hash s)"
  "new_v4 (exact_env now) s = of_int (string_hash s)"
  "sip_hash (exact_env now) is = of_int (items_hash is)"
  "sha256_digest (exact_env now) is = items_digest is"
  "uuid_display (exact_env now) u = uuid_bits u"
  "uuid_parse (exact_env now) s = bits_uuid s"
  "ts_from_millis (exact_env now) m = Some (m * 1000000)"
  "utc_now (exact_env now) = now"
  "num_minutes (exact_env now) d = trunc_div d 60000000000"
  "num_seconds (exact_env now) d = trunc_div d 1000000000"
  "num_days (exact_env now) d = trunc_div d day_ns"
  "dur_days (exact_env now) k = Some (k * day_ns)"
  "ts_add (exact_env now) t d = Some (t + d)"
  "ts_sub (exact_env now) t d = Some (t - d)"
  "utc_date (exact_env now) t = t div day_ns"
  "date_succ (exact_env now) k = Some (k + 1)"
  "utc_at_hour (exact_env now) k h = (if h < 24 then Some (k * day_ns + int h * hour_ns) else None)"
  by (simp_all add: exact_env_def)

lemma exact_env_utc_calendar: "utc_calendar (exact_env now)"
  by (simp add: utc_calendar_def)

lemma string_hash_bounds: "0 \<le> string_hash s" "string_hash s < 65521"
  by (cases s rule: rev_cases; simp add: string_hash_def)+

lemma of_int_string_hash_eq:
  "(of_int (string_hash s) :: u64) = of_int (string_hash t) \<longleftrightarrow> string_hash s = string_hash t"
proof
  assume "(of_int (string_hash s) :: u64) = of_int (string_hash t)"
  then have "uint (of_int (string_hash s) :: u64) = uint (of_int (string_hash t) :: u64)" by simp
  then show "string_hash s = string_hash t"
    using string_hash_bounds [of s] string_hash_bounds [of t]
    by (simp add: uint_word_of_int_eq take_bit_int_eq_self)
qed simp

section \<open>Decimal sums\<close>

text \<open>Sums and differences of decimals are exact when they do not overflow.\<close>

definition sums_exact :: "ext \<Rightarrow> bool" where
  "sums_exact E \<longleftrightarrow> (\<forall>x y z. (dadd E x y = Some z \<longrightarrow> z = x + y) \<and> (dsub E x y = Some z \<longrightarrow> z = x - y))"

lemma exact_env_sums: "sums_exact (exact_env now)"
  by (simp add: sums_exact_def)

lemma sums_exactD:
  assumes "sums_exact E"
  shows "dadd E x y = Some z \<Longrightarrow> z = x + y" "dsub E x y = Some z \<Longrightarrow> z = x - y"
  using assms by (auto simp: sums_exact_def)

section \<open>Decimal products\<close>

text \<open>A non-negative decimal times a factor between zero and one lies between zero and itself.\<close>

definition fractions_shrink :: "ext \<Rightarrow> bool" where
  "fractions_shrink E \<longleftrightarrow> (\<forall>x y z. dmul E x y = Some z \<longrightarrow> 0 \<le> x \<longrightarrow> 0 \<le> y \<longrightarrow> y \<le> 1 \<longrightarrow> 0 \<le> z \<and> z \<le> x)"

lemma exact_env_fractions: "fractions_shrink (exact_env now)"
  by (auto simp: fractions_shrink_def mult_left_le)

section \<open>The range of decimals\<close>

text \<open>
  The range of decimals: with 96 bits of mantissa a sum, difference, product or quotient
  below ten to the power of 28 in size does not overflow, and rounding moves a product or a
  quotient by less than one.
\<close>

definition decimal_range :: "ext \<Rightarrow> bool" where
  "decimal_range E \<longleftrightarrow>
     (\<forall>x y. (\<bar>x + y\<bar> < 10 ^ 28 \<longrightarrow> dadd E x y \<noteq> None) \<and> (\<bar>x - y\<bar> < 10 ^ 28 \<longrightarrow> dsub E x y \<noteq> None)
          \<and> (\<bar>x * y\<bar> < 10 ^ 28 \<longrightarrow> (\<exists>z. dmul E x y = Some z \<and> \<bar>z\<bar> \<le> \<bar>x * y\<bar> + 1))
          \<and> (y \<noteq> 0 \<longrightarrow> \<bar>x / y\<bar> < 10 ^ 28 \<longrightarrow> (\<exists>z. ddiv E x y = Some z \<and> \<bar>z\<bar> \<le> \<bar>x / y\<bar> + 1)))"

text \<open>Amounts and factors of a size that leaves room for the arithmetic of a rule.\<close>

definition plausible :: "decimal \<Rightarrow> bool" where
  "plausible x \<longleftrightarrow> \<bar>x\<bar> \<le> 10 ^ 12"

lemma exact_env_range: "decimal_range (exact_env now)"
  by (simp add: decimal_range_def)

lemma range_sum:
  assumes "decimal_range E" "sums_exact E"
  shows "\<bar>x + y\<bar> < 10 ^ 28 \<Longrightarrow> dadd E x y = Some (x + y)" "\<bar>x - y\<bar> < 10 ^ 28 \<Longrightarrow> dsub E x y = Some (x - y)"
  using assms(1) sums_exactD [OF assms(2), of x y] unfolding decimal_range_def by blast+

lemma plausible_sums:
  assumes "decimal_range E" "sums_exact E" "\<bar>x\<bar> \<le> 10 ^ 12" "\<bar>y\<bar> \<le> 10 ^ 12"
  shows "dadd E x y = Some (x + y)" "dsub E x y = Some (x - y)"
  using assms(3,4) by (auto intro!: range_sum [OF assms(1,2)])

lemma abs_mult_le: "\<bar>x\<bar> \<le> a \<Longrightarrow> \<bar>y\<bar> \<le> b \<Longrightarrow> \<bar>x * y\<bar> \<le> a * (b :: rat)"
  by (simp add: abs_mult mult_mono')

lemma abs_div_le: "\<bar>x\<bar> \<le> a \<Longrightarrow> 1 / n \<le> \<bar>y\<bar> \<Longrightarrow> 0 < n \<Longrightarrow> \<bar>x / y\<bar> \<le> a * (n :: rat)"
proof -
  assume a: "\<bar>x\<bar> \<le> a" "1 / n \<le> \<bar>y\<bar>" "0 < n"
  have "1 \<le> n * \<bar>y\<bar>" using a(2,3) by (simp add: field_simps)
  then have "a \<le> a * (n * \<bar>y\<bar>)" using a(1) mult_left_mono [of 1 "n * \<bar>y\<bar>" a] by simp
  then have "\<bar>x\<bar> \<le> (a * n) * \<bar>y\<bar>" using a(1) by (simp add: mult.assoc)
  moreover have "0 < \<bar>y\<bar>" using a(2,3) by (meson divide_pos_pos less_le_trans zero_less_one)
  ultimately show ?thesis by (simp add: abs_divide divide_le_eq)
qed

text \<open>What the checked arithmetic does on money of plausible size.\<close>

lemma range_mul:
  assumes "decimal_range E" "\<bar>x\<bar> \<le> a" "\<bar>y\<bar> \<le> b" "a * b < 10 ^ 28"
  obtains z where "dmul E x y = Some z" "\<bar>z\<bar> \<le> a * b + 1"
proof -
  have "\<bar>x * y\<bar> < 10 ^ 28" using abs_mult_le [OF assms(2,3)] assms(4) by simp
  then obtain z where "dmul E x y = Some z" "\<bar>z\<bar> \<le> \<bar>x * y\<bar> + 1" using assms(1) by (auto simp: decimal_range_def)
  then show thesis using that abs_mult_le [OF assms(2,3)] by fastforce
qed

lemma range_div:
  assumes "decimal_range E" "\<bar>x\<bar> \<le> a" "1 / n \<le> \<bar>y\<bar>" "0 < n" "a * n < 10 ^ 28"
  obtains z where "ddiv E x y = Some z" "\<bar>z\<bar> \<le> a * n + 1"
proof -
  have "y \<noteq> 0" using assms(3,4) by (metis abs_zero divide_pos_pos less_le_not_le zero_less_one)
  moreover have "\<bar>x / y\<bar> < 10 ^ 28" using abs_div_le [OF assms(2-4)] assms(5) by simp
  ultimately obtain z where "ddiv E x y = Some z" "\<bar>z\<bar> \<le> \<bar>x / y\<bar> + 1" using assms(1) unfolding decimal_range_def by blast
  then show thesis using that abs_div_le [OF assms(2-4)] by fastforce
qed

end
