(* ===== verification/Trading_Types.thy ===== *)
theory Trading_Types
  imports Concrete_Env
begin

text \<open>
  The value types of \<^verbatim>\<open>src/core\<close>: identifiers (\<^verbatim>\<open>ids.rs\<close>, \<^verbatim>\<open>tenant.rs\<close>), orders
  (\<^verbatim>\<open>order.rs\<close>), trades (\<^verbatim>\<open>trade.rs\<close>), quotes (\<^verbatim>\<open>tick.rs\<close>), positions (\<^verbatim>\<open>position.rs\<close>),
  instruments (\<^verbatim>\<open>instrument.rs\<close>) and violations (\<^verbatim>\<open>violation.rs\<close>), each with its operations.
  Record fields carry a prefix of their type; the rest of the name is the source's.
\<close>

unbundle bit_operations_syntax

section \<open>Identifiers\<close>

definition uuid_bytes_named :: "u8 list \<Rightarrow> u8 list" where
  "uuid_bytes_named bytes =
     (let arr = bytes @ bytes;
          arr = arr[6 := (arr ! 6 AND 0x0F) OR 0x50];
          arr = arr[8 := (arr ! 8 AND 0x3F) OR 0x80]
      in arr)"

definition u64_to_be_bytes :: "u64 \<Rightarrow> u8 list" where
  "u64_to_be_bytes w = map (\<lambda>i. ucast (drop_bit (8 * i) w)) [7, 6, 5, 4, 3, 2, 1, 0]"

definition uuid_from_bytes :: "u8 list \<Rightarrow> uuid" where
  "uuid_from_bytes bs = foldl (\<lambda>acc b. push_bit 8 acc OR ucast b) 0 bs"

definition rule_id_named :: "ext \<Rightarrow> string \<Rightarrow> uuid" where
  "rule_id_named E name = uuid_from_bytes (uuid_bytes_named (u64_to_be_bytes (default_hash E name)))"

definition tenant_id_named :: "ext \<Rightarrow> string \<Rightarrow> uuid" where
  "tenant_id_named E name = uuid_from_bytes (uuid_bytes_named (u64_to_be_bytes (default_hash E name)))"

definition symbol_new :: "string \<Rightarrow> symbol" where
  "symbol_new s = to_uppercase s"

definition pct_of :: "ext \<Rightarrow> pct \<Rightarrow> money \<Rightarrow> money option" where
  "pct_of E p m = dmul E p m"

definition quantity_is_positive :: "quantity \<Rightarrow> bool" where
  "quantity_is_positive q = (0 \<le> q \<and> q \<noteq> 0)"

section \<open>Orders\<close>

datatype order_side = Buy | Sell

fun side_opposite :: "order_side \<Rightarrow> order_side" where
  "side_opposite Buy = Sell"
| "side_opposite Sell = Buy"

fun side_sign :: "order_side \<Rightarrow> decimal" where
  "side_sign Buy = 1"
| "side_sign Sell = -1"

datatype order_type = Market | Limit price | Stop price | StopLimit price price

datatype time_in_force = Gtc | Ioc | Fok | Day

datatype order_kind = Open | Close uuid "quantity option" | Reverse

datatype order_status =
  OPending | OAccepted | OPartiallyFilled | OFilled | OCancelled | ORejected | OExpired

fun order_status_is_terminal :: "order_status \<Rightarrow> bool" where
  "order_status_is_terminal OFilled = True"
| "order_status_is_terminal OCancelled = True"
| "order_status_is_terminal ORejected = True"
| "order_status_is_terminal OExpired = True"
| "order_status_is_terminal _ = False"

record order =
  o_id :: uuid
  o_account_id :: uuid
  o_symbol :: symbol
  o_side :: order_side
  o_kind :: order_kind
  o_type :: order_type
  o_quantity :: quantity
  o_tif :: time_in_force
  o_stop_loss :: "price option"
  o_take_profit :: "price option"
  o_comment :: "string option"
  o_submitted_at :: timestamp
  o_status :: order_status
  o_filled_quantity :: quantity
  o_avg_fill_price :: "price option"

definition order_market_open ::
  "uuid \<Rightarrow> uuid \<Rightarrow> symbol \<Rightarrow> order_side \<Rightarrow> quantity \<Rightarrow> price option \<Rightarrow> price option \<Rightarrow> timestamp \<Rightarrow> order" where
  "order_market_open fresh acct sy side qty sl tp now =
     \<lparr> o_id = fresh, o_account_id = acct, o_symbol = sy, o_side = side, o_kind = Open,
       o_type = Market, o_quantity = qty, o_tif = Ioc, o_stop_loss = sl, o_take_profit = tp,
       o_comment = None, o_submitted_at = now, o_status = OPending, o_filled_quantity = 0,
       o_avg_fill_price = None \<rparr>"

definition order_market_close ::
  "uuid \<Rightarrow> uuid \<Rightarrow> uuid \<Rightarrow> quantity option \<Rightarrow> timestamp \<Rightarrow> order" where
  "order_market_close fresh acct pos_id partial_qty now =
     \<lparr> o_id = fresh, o_account_id = acct, o_symbol = symbol_new ''UNKNOWN'', o_side = Buy,
       o_kind = Close pos_id partial_qty, o_type = Market,
       o_quantity = (case partial_qty of None \<Rightarrow> 0 | Some q \<Rightarrow> q), o_tif = Ioc,
       o_stop_loss = None, o_take_profit = None, o_comment = None, o_submitted_at = now,
       o_status = OPending, o_filled_quantity = 0, o_avg_fill_price = None \<rparr>"

definition requires_sl :: "order \<Rightarrow> bool" where
  "requires_sl ord \<longleftrightarrow> o_stop_loss ord = None \<and> o_kind ord = Open"

definition requires_tp :: "order \<Rightarrow> bool" where
  "requires_tp ord \<longleftrightarrow> o_take_profit ord = None \<and> o_kind ord = Open"

definition order_accepted :: "order \<Rightarrow> order res" where
  "order_accepted ord =
     (if o_status ord \<noteq> OPending then Inl (InvalidState (Fmt ''order.not_pending'' []))
      else Inr (ord\<lparr>o_status := OAccepted\<rparr>))"

definition order_rejected :: "order \<Rightarrow> string \<Rightarrow> order res" where
  "order_rejected ord reason =
     (if order_status_is_terminal (o_status ord)
      then Inl (InvalidState (Fmt ''order.already_terminal'' []))
      else Inr (ord\<lparr>o_status := ORejected,
                    o_comment := Some (case o_comment ord of
                        Some c \<Rightarrow> c @ '' | rejected: '' @ reason
                      | None \<Rightarrow> ''rejected: '' @ reason)\<rparr>))"

section \<open>Trades and quotes\<close>

datatype trade_side = Entry | Exit | ReverseFill

record trade_exit =
  x_position_id :: uuid
  x_realized_pnl :: money
  x_closed_quantity :: quantity
  x_entry_price :: price
  x_exit_price :: price

record trade =
  t_id :: uuid
  t_order_id :: uuid
  t_account_id :: uuid
  t_symbol :: symbol
  t_side :: order_side
  t_trade_side :: trade_side
  t_price :: price
  t_quantity :: quantity
  t_commission :: money
  t_swap :: money
  t_executed_at :: timestamp
  t_exit_info :: "trade_exit option"
  t_comment :: "string option"

definition trade_new ::
  "uuid \<Rightarrow> uuid \<Rightarrow> uuid \<Rightarrow> symbol \<Rightarrow> order_side \<Rightarrow> trade_side \<Rightarrow> price \<Rightarrow> quantity \<Rightarrow> money \<Rightarrow> timestamp \<Rightarrow> trade" where
  "trade_new fresh order_id acct sy side tside prc qty comm now =
     \<lparr> t_id = fresh, t_order_id = order_id, t_account_id = acct, t_symbol = sy, t_side = side,
       t_trade_side = tside, t_price = prc, t_quantity = qty, t_commission = comm, t_swap = 0,
       t_executed_at = now, t_exit_info = None, t_comment = None \<rparr>"

definition net_pnl :: "ext \<Rightarrow> trade \<Rightarrow> money option" where
  "net_pnl E t = do {
     let gross = (case t_exit_info t of None \<Rightarrow> 0 | Some e \<Rightarrow> x_realized_pnl e);
     a \<leftarrow> dsub E gross (t_commission t);
     dsub E a (t_swap t) }"

record quote =
  q_bid :: price
  q_ask :: price
  q_ts :: timestamp

definition quote_mid :: "ext \<Rightarrow> quote \<Rightarrow> price option" where
  "quote_mid E q = do { s \<leftarrow> dadd E (q_bid q) (q_ask q); ddiv E s 2 }"

definition quote_spread :: "ext \<Rightarrow> quote \<Rightarrow> price option" where
  "quote_spread E q = dsub E (q_ask q) (q_bid q)"

record tick =
  tk_symbol :: symbol
  tk_quote :: quote
  tk_last :: "price option"
  tk_bid_volume :: "decimal option"
  tk_ask_volume :: "decimal option"

section \<open>Positions\<close>

datatype position_side = Long | Short

fun position_side_sign :: "position_side \<Rightarrow> decimal" where
  "position_side_sign Long = 1"
| "position_side_sign Short = -1"

fun side_from_order :: "order_side \<Rightarrow> position_side" where
  "side_from_order Buy = Long"
| "side_from_order Sell = Short"

datatype position_status = POpen | PClosed | PLiquidated

record position =
  p_id :: uuid
  p_account_id :: uuid
  p_symbol :: symbol
  p_side :: position_side
  p_opened_at :: timestamp
  p_closed_at :: "timestamp option"
  p_status :: position_status
  p_avg_entry_price :: price
  p_opened_quantity :: quantity
  p_open_quantity :: quantity
  p_realized_pnl :: money
  p_commission :: money
  p_swap :: money
  p_stop_loss :: "price option"
  p_take_profit :: "price option"
  p_magic :: "u64 option"
  p_comment :: "string option"

definition position_open ::
  "uuid \<Rightarrow> uuid \<Rightarrow> symbol \<Rightarrow> position_side \<Rightarrow> price \<Rightarrow> quantity \<Rightarrow> timestamp \<Rightarrow> money \<Rightarrow>
   price option \<Rightarrow> price option \<Rightarrow> u64 option \<Rightarrow> string option \<Rightarrow> position" where
  "position_open fresh acct sy side entry qty now comm sl tp magic comment =
     \<lparr> p_id = fresh, p_account_id = acct, p_symbol = sy, p_side = side, p_opened_at = now,
       p_closed_at = None, p_status = POpen, p_avg_entry_price = entry,
       p_opened_quantity = qty, p_open_quantity = qty, p_realized_pnl = 0,
       p_commission = comm, p_swap = 0, p_stop_loss = sl, p_take_profit = tp,
       p_magic = magic, p_comment = comment \<rparr>"

definition is_open :: "position \<Rightarrow> bool" where
  "is_open p \<longleftrightarrow> p_status p = POpen \<and> quantity_is_positive (p_open_quantity p)"

definition unrealized_pnl_of :: "ext \<Rightarrow> price \<Rightarrow> price \<Rightarrow> quantity \<Rightarrow> position_side \<Rightarrow> money option" where
  "unrealized_pnl_of E entry current qty side = do {
     diff \<leftarrow> (case side of Long \<Rightarrow> dsub E current entry | Short \<Rightarrow> dsub E entry current);
     dmul E diff qty }"

definition unrealized_pnl :: "ext \<Rightarrow> position \<Rightarrow> quote \<Rightarrow> money option" where
  "unrealized_pnl E p q =
     (if \<not> is_open p then Some 0
      else let prc = (case p_side p of Long \<Rightarrow> q_bid q | Short \<Rightarrow> q_ask q)
           in unrealized_pnl_of E (p_avg_entry_price p) prc (p_open_quantity p) (p_side p))"

definition exposure :: "ext \<Rightarrow> price \<Rightarrow> quantity \<Rightarrow> position_side \<Rightarrow> money option" where
  "exposure E prc qty side = dmul E prc (case side of Long \<Rightarrow> qty | Short \<Rightarrow> - qty)"

section \<open>Instruments\<close>

record instrument_spec =
  i_symbol :: symbol
  i_contract_size :: decimal
  i_digits :: u8
  i_pip_size :: decimal
  i_is_lowcap :: bool

definition instrument_fx :: "string \<Rightarrow> instrument_spec" where
  "instrument_fx s = \<lparr> i_symbol = symbol_new s, i_contract_size = 100000, i_digits = 5,
                       i_pip_size = 1 / 10000, i_is_lowcap = False \<rparr>"

definition instrument_fx_jpy :: "string \<Rightarrow> instrument_spec" where
  "instrument_fx_jpy s = \<lparr> i_symbol = symbol_new s, i_contract_size = 100000, i_digits = 3,
                           i_pip_size = 1 / 100, i_is_lowcap = False \<rparr>"

definition instrument_cfd :: "string \<Rightarrow> instrument_spec" where
  "instrument_cfd s = \<lparr> i_symbol = symbol_new s, i_contract_size = 1, i_digits = 2,
                        i_pip_size = 1 / 100, i_is_lowcap = False \<rparr>"

definition instrument_default :: instrument_spec where
  "instrument_default = \<lparr> i_symbol = symbol_new ''<default>'', i_contract_size = 1, i_digits = 5,
                          i_pip_size = 1 / 10000, i_is_lowcap = False \<rparr>"

definition units_to_lots :: "ext \<Rightarrow> instrument_spec \<Rightarrow> quantity \<Rightarrow> lots option" where
  "units_to_lots E spec units = ddiv E units (i_contract_size spec)"

definition lots_to_units :: "ext \<Rightarrow> instrument_spec \<Rightarrow> lots \<Rightarrow> quantity option" where
  "lots_to_units E spec l = dmul E l (i_contract_size spec)"

definition notional :: "ext \<Rightarrow> instrument_spec \<Rightarrow> lots \<Rightarrow> price \<Rightarrow> money option" where
  "notional E spec l prc = do { a \<leftarrow> dmul E l (i_contract_size spec); dmul E a prc }"

type_synonym instrument_registry = "string \<rightharpoonup> instrument_spec"

definition instruments_register :: "instrument_registry \<Rightarrow> instrument_spec \<Rightarrow> instrument_registry" where
  "instruments_register reg spec = reg(to_uppercase (i_symbol spec) \<mapsto> spec)"

definition instruments_get :: "instrument_registry \<Rightarrow> symbol \<Rightarrow> instrument_spec" where
  "instruments_get reg sy = (case reg sy of None \<Rightarrow> instrument_default | Some spec \<Rightarrow> spec)"

definition instrument_validate :: "instrument_spec \<Rightarrow> unit res" where
  "instrument_validate spec =
     (if i_contract_size spec \<le> 0 then Inl (InvalidConfig (Fmt ''instrument.contract_size'' [Lit (i_symbol spec)]))
      else if i_pip_size spec < 0 then Inl (InvalidConfig (Fmt ''instrument.pip_size'' [Lit (i_symbol spec)]))
      else Inr ())"

section \<open>Violations\<close>

datatype violation_severity = Info | Warning | Hard | LiquidateSev

datatype violation_kind =
    DailyDrawdown | MaxDrawdown | TrailingDrawdown | ProfitTargetMissed | MinTradingDays
  | MinProfitableDays | Consistency | NewsTrading | OvernightHolding | WeekendHolding
  | MaxPositionSize | MaxLotSize | MaxOpenPositions | MaxDailyTrades | TimeLimit | Cooldown
  | Hedging | GridTrading | CopyTrading | MissingStopLoss | MissingTakeProfit
  | CrossAccountHedging | LowcapExposure | Custom

text \<open>The severities are ordered as declared (\<^verbatim>\<open>derive(PartialOrd, Ord)\<close>).\<close>

fun severity_rank :: "violation_severity \<Rightarrow> nat" where
  "severity_rank Info = 0"
| "severity_rank Warning = 1"
| "severity_rank Hard = 2"
| "severity_rank LiquidateSev = 3"

instantiation violation_severity :: linorder
begin

definition less_eq_violation_severity :: "violation_severity \<Rightarrow> violation_severity \<Rightarrow> bool" where
  "a \<le> b \<longleftrightarrow> severity_rank a \<le> severity_rank b"

definition less_violation_severity :: "violation_severity \<Rightarrow> violation_severity \<Rightarrow> bool" where
  "a < b \<longleftrightarrow> severity_rank a < severity_rank b"

instance
proof
  fix a b :: violation_severity
  show "a \<le> b \<Longrightarrow> b \<le> a \<Longrightarrow> a = b"
    by (cases a; cases b) (simp_all add: less_eq_violation_severity_def)
qed (auto simp: less_eq_violation_severity_def less_violation_severity_def)

end

record violation =
  v_id :: uuid
  v_account_id :: uuid
  v_tenant_id :: uuid
  v_rule_id :: uuid
  v_rule_name :: string
  v_kind :: violation_kind
  v_severity :: violation_severity
  v_message :: msg
  v_occurred_at :: timestamp
  v_breach_value :: "money option"
  v_threshold_value :: "money option"
  v_utilization :: "decimal option"

text \<open>
  \<^verbatim>\<open>Violation::new\<close> draws two fresh identifiers: its own and a placeholder tenant. The draws of
  one evaluation are the function \<open>new_v4\<close>, taken at what they are for; a rule makes at most
  one violation per evaluation. Another evaluation has another function: Clock_Free
  compares two evaluations under different ones.
\<close>

definition violation_new ::
  "ext \<Rightarrow> uuid \<Rightarrow> uuid \<Rightarrow> string \<Rightarrow> violation_kind \<Rightarrow> violation_severity \<Rightarrow> msg \<Rightarrow> timestamp \<Rightarrow> violation" where
  "violation_new E acct rule_id name knd sev message now =
     \<lparr> v_id = new_v4 E (''violation:'' @ name), v_account_id = acct,
       v_tenant_id = new_v4 E (''tenant:'' @ name), v_rule_id = rule_id, v_rule_name = name,
       v_kind = knd, v_severity = sev, v_message = message, v_occurred_at = now,
       v_breach_value = None, v_threshold_value = None, v_utilization = None \<rparr>"

definition violation_with_tenant :: "uuid \<Rightarrow> violation \<Rightarrow> violation" where
  "violation_with_tenant t v = v\<lparr>v_tenant_id := t\<rparr>"

definition with_breach :: "ext \<Rightarrow> violation \<Rightarrow> money \<Rightarrow> money \<Rightarrow> violation option" where
  "with_breach E v breach threshold =
     (let v = v\<lparr>v_breach_value := Some breach, v_threshold_value := Some threshold\<rparr> in
      if threshold \<noteq> 0
      then do { u \<leftarrow> ddiv E breach threshold; Some (v\<lparr>v_utilization := Some u\<rparr>) }
      else Some v)"

definition violation_is_terminating :: "violation \<Rightarrow> bool" where
  "violation_is_terminating v \<longleftrightarrow> v_severity v = Hard \<or> v_severity v = LiquidateSev"

definition violation_validate :: "violation \<Rightarrow> unit res" where
  "violation_validate v =
     (if v_rule_name v = [] then Inl (InvalidState (Fmt ''violation.rule_name'' []))
      else case v_utilization v of
        None \<Rightarrow> Inr ()
      | Some u \<Rightarrow> if u < 0 then Inl (InvalidState (Fmt ''violation.utilization'' [])) else Inr ())"

section \<open>Identifiers are as distinct as the hashes\<close>

lemma bit_uuid_from_bytes:
  assumes "length bs \<le> 16" "n < 128"
  shows "bit (uuid_from_bytes bs) n \<longleftrightarrow> n div 8 < length bs \<and> bit (rev bs ! (n div 8)) (n mod 8)"
  using assms
proof (induction bs arbitrary: n rule: rev_induct)
  case Nil
  then show ?case by (simp add: uuid_from_bytes_def)
next
  case (snoc b bs)
  have step: "uuid_from_bytes (bs @ [b]) = push_bit 8 (uuid_from_bytes bs) OR ucast b"
    by (simp add: uuid_from_bytes_def)
  show ?case
  proof (cases "n < 8")
    case True
    then show ?thesis using snoc.prems by (simp add: step bit_simps)
  next
    case False
    have "\<not> bit b n" using False bit_imp_le_length [of b n] by auto
    moreover obtain q where "n div 8 = Suc q" "(n - 8) div 8 = q" "(n - 8) mod 8 = n mod 8"
      using False by (auto simp: le_div_geq le_mod_geq)
    ultimately show ?thesis using False snoc.IH [of "n - 8"] snoc.prems
      by (simp add: step bit_simps)
  qed
qed

lemma uuid_from_bytes_inj:
  assumes "length bs = 16" "length cs = 16" "uuid_from_bytes bs = uuid_from_bytes cs"
  shows "bs = cs"
proof -
  have "rev bs = rev cs"
  proof (rule nth_equalityI)
    fix i assume i: "i < length (rev bs)"
    show "rev bs ! i = rev cs ! i"
    proof (rule bit_word_eqI)
      fix m assume m: "m < LENGTH(8)"
      have "(8 * i + m) div 8 = i" "(8 * i + m) mod 8 = m" using m by auto
      then show "bit (rev bs ! i) m = bit (rev cs ! i) m"
        using bit_uuid_from_bytes [of bs "8 * i + m"] bit_uuid_from_bytes [of cs "8 * i + m"] assms i m by simp
    qed
  qed (simp add: assms)
  then show ?thesis by simp
qed

lemma u64_to_be_bytes_inj:
  assumes "u64_to_be_bytes v = u64_to_be_bytes w" shows "v = w"
proof (rule bit_word_eqI)
  fix n assume n: "n < LENGTH(64)"
  have eq: "ucast (drop_bit (8 * i) v) = (ucast (drop_bit (8 * i) w) :: u8)" if "i < 8" for i
    using assms that by (auto simp: u64_to_be_bytes_def less_Suc_eq numeral_eq_Suc)
  have "n = 8 * (n div 8) + n mod 8" "n mod 8 < 8" "n div 8 < 8" using n by auto
  then show "bit v n = bit w n"
    using arg_cong [OF eq [of "n div 8"], of "\<lambda>x. bit x (n mod 8)"] n by (simp add: bit_simps)
qed

lemma uuid_bytes_named_inj:
  assumes "length bs = 8" "length cs = 8" "uuid_bytes_named bs = uuid_bytes_named cs"
  shows "bs = cs"
proof (rule nth_equalityI)
  fix i assume i: "i < length bs"
  have lift: "uuid_bytes_named xs ! j = (xs @ xs) ! j" if "j \<noteq> 6" "j \<noteq> 8" for xs j
    using that by (simp add: uuid_bytes_named_def Let_def)
  show "bs ! i = cs ! i"
  proof (cases "i = 6")
    case True
    then show ?thesis using lift [of 14 bs] lift [of 14 cs] assms by (simp add: nth_append)
  next
    case False
    then show ?thesis using lift [of i bs] lift [of i cs] assms i by (simp add: nth_append)
  qed
qed (simp add: assms)

lemma rule_id_named_eq_iff:
  "rule_id_named E a = rule_id_named E b \<longleftrightarrow> default_hash E a = default_hash E b"
proof
  have len: "length (u64_to_be_bytes w) = 8" "length (uuid_bytes_named (u64_to_be_bytes w)) = 16" for w
    by (simp_all add: u64_to_be_bytes_def uuid_bytes_named_def Let_def)
  assume "rule_id_named E a = rule_id_named E b"
  then show "default_hash E a = default_hash E b"
    unfolding rule_id_named_def by (metis len uuid_from_bytes_inj uuid_bytes_named_inj u64_to_be_bytes_inj)
qed (simp add: rule_id_named_def)

text \<open>
  The identifier derived from a rule name determines the 64-bit hash of the name: the
  version and variant bits that \<^verbatim>\<open>RuleId::named\<close> overwrites are kept in the other copy of the
  hash, so two names get the same rule id only if their hashes collide.
\<close>

lemma rule_id_collides_iff_hash_collides:
  "rule_id_named E a = rule_id_named E b \<longleftrightarrow> default_hash E a = default_hash E b"
  by (rule rule_id_named_eq_iff)

end
