(* ===== verification/Plan.thy ===== *)
theory Plan
  imports Trading_Types
begin

text \<open>
  The challenge plan of \<^verbatim>\<open>src/config/plan.rs\<close> and the payout policy of \<^verbatim>\<open>src/payout.rs\<close> it
  embeds: the enumerations with their parsers and printers, the plan record, its
  validation, its default, its builders and the two calendar functions that give the
  start of a trading day.
\<close>

section \<open>Enumerations\<close>

datatype challenge_phase = Phase1 | Phase2 | FundedPhase

datatype loss_reference = Static | Trailing | EodTrailing | IntradayTrail

fun loss_reference_display :: "loss_reference \<Rightarrow> string" where
  "loss_reference_display Static = ''static''"
| "loss_reference_display Trailing = ''trailing''"
| "loss_reference_display EodTrailing = ''eod_trailing''"
| "loss_reference_display IntradayTrail = ''intraday_trail''"

definition loss_reference_from_str :: "string \<Rightarrow> loss_reference res" where
  "loss_reference_from_str s =
     (let l = to_lowercase s in
      if l = ''static'' then Inr Static
      else if l = ''trailing'' then Inr Trailing
      else if l \<in> {''eod_trailing'', ''eodtrailing'', ''eod-trailing''} then Inr EodTrailing
      else if l \<in> {''intraday_trail'', ''intradaytrail'', ''intraday-trail''} then Inr IntradayTrail
      else Inl (InvalidConfig (Fmt ''plan.loss_reference'' [Lit l])))"

datatype daily_loss_type = DailyLossNone | PctInitial | PctPriorDay | TrailingIntradayHigh

fun daily_loss_type_display :: "daily_loss_type \<Rightarrow> string" where
  "daily_loss_type_display DailyLossNone = ''none''"
| "daily_loss_type_display PctInitial = ''pct_initial''"
| "daily_loss_type_display PctPriorDay = ''pct_prior_day''"
| "daily_loss_type_display TrailingIntradayHigh = ''trailing_intraday_high''"

definition daily_loss_type_from_str :: "string \<Rightarrow> daily_loss_type res" where
  "daily_loss_type_from_str s =
     (let l = to_lowercase s in
      if l = ''none'' then Inr DailyLossNone
      else if l \<in> {''pct_initial'', ''pctinitial''} then Inr PctInitial
      else if l \<in> {''pct_prior_day'', ''pctpriorday'', ''pct_prior''} then Inr PctPriorDay
      else if l \<in> {''trailing_intraday_high'', ''trailingintradayhigh''} then Inr TrailingIntradayHigh
      else Inl (InvalidConfig (Fmt ''plan.daily_loss_type'' [Lit l])))"

datatype consistency_type = ConsistencyNone | BestDayPctOfTotal | BestDayPctOfPositiveDays

fun consistency_type_display :: "consistency_type \<Rightarrow> string" where
  "consistency_type_display ConsistencyNone = ''none''"
| "consistency_type_display BestDayPctOfTotal = ''best_day_pct_of_total''"
| "consistency_type_display BestDayPctOfPositiveDays = ''best_day_pct_of_positive_days''"

definition consistency_type_from_str :: "string \<Rightarrow> consistency_type res" where
  "consistency_type_from_str s =
     (let l = to_lowercase s in
      if l = ''none'' then Inr ConsistencyNone
      else if l = ''best_day_pct_of_total'' then Inr BestDayPctOfTotal
      else if l = ''best_day_pct_of_positive_days'' then Inr BestDayPctOfPositiveDays
      else Inl (InvalidConfig (Fmt ''plan.consistency_type'' [Lit l])))"

section \<open>Payout policy\<close>

datatype payout_cycle = OnDemandCycle | BiWeekly | Monthly

record qualifying_days_config =
  qd_min_days :: u32
  qd_min_pnl_per_day :: money

record payout_config =
  pc_minimum_payout :: money
  pc_cycle :: payout_cycle
  pc_tiers :: "decimal list"
  pc_qualifying_days :: "qualifying_days_config option"

definition payout_config_default :: payout_config where
  "payout_config_default =
     \<lparr> pc_minimum_payout = 100, pc_cycle = OnDemandCycle, pc_tiers = [80/100, 90/100, 1],
       pc_qualifying_days = None \<rparr>"

section \<open>The plan\<close>

record plan_meta =
  firm_name :: string
  program_name :: string
  meta_version :: string
  currency :: string
  meta_description :: string

definition plan_meta_default :: plan_meta where
  "plan_meta_default =
     \<lparr> firm_name = ''Generic Prop Firm'', program_name = ''Standard Evaluation'',
       meta_version = ''1.0.0'', currency = ''USD'', meta_description = [] \<rparr>"

record challenge_plan =
  plan_id :: uuid
  plan_phase :: challenge_phase
  meta :: plan_meta
  initial_balance_money :: money
  profit_target_pct :: pct
  max_daily_drawdown_pct :: pct
  max_total_drawdown_pct :: pct
  max_loss_reference :: loss_reference
  drawdown_on_balance :: bool
  trailing_drawdown_enabled :: bool
  trailing_drawdown_pct :: pct
  min_trading_days :: u32
  time_limit_days :: "u32 option"
  max_position_lots :: "decimal option"
  max_total_lots :: "decimal option"
  max_open_positions :: "u32 option"
  max_daily_trades :: "u32 option"
  news_trading_allowed :: bool
  overnight_holding_allowed :: bool
  weekend_holding_allowed :: bool
  hedging_allowed :: bool
  grid_trading_allowed :: bool
  require_stop_loss :: bool
  require_take_profit :: bool
  consistency_pct :: "pct option"
  cooldown_seconds :: u64
  copy_trading_allowed :: bool
  refundable :: bool
  leverage :: u32
  trading_hours :: "(u8 \<times> u8) option"
  timezone :: "tz option"
  day_reset_time :: u8
  effective_at :: timestamp
  per_trade_max_loss_pct :: "pct option"
  per_trade_max_loss_money :: "money option"
  hft_ban_enabled :: bool
  hft_min_round_trip_seconds :: u64
  inactivity_days :: "u32 option"
  refund_fee_amount :: money
  daily_loss_type :: daily_loss_type
  daily_loss_soft :: bool
  consistency_type :: consistency_type
  eod_trail_locks_at_start :: bool
  min_profitable_days :: "u32 option"
  cross_account_hedging_prohibited :: bool
  lowcap_exposure_limit_pct :: "pct option"
  consistency_applies_on_funded_stage :: bool
  qualifying_day_threshold_pct :: "pct option"
  qualifying_day_pnl_band_pct :: "pct option"
  plan_payout_config :: "payout_config option"

text \<open>\<^verbatim>\<open>ChallengePlan::default\<close> draws a fresh identifier and reads the clock.\<close>

definition plan_default :: "uuid \<Rightarrow> timestamp \<Rightarrow> challenge_plan" where
  "plan_default fresh now =
     \<lparr> plan_id = fresh, plan_phase = Phase1, meta = plan_meta_default,
       initial_balance_money = 10000, profit_target_pct = 8/100,
       max_daily_drawdown_pct = 5/100, max_total_drawdown_pct = 10/100,
       max_loss_reference = Trailing, drawdown_on_balance = False,
       trailing_drawdown_enabled = False, trailing_drawdown_pct = 0, min_trading_days = 3,
       time_limit_days = Some 30, max_position_lots = Some 5, max_total_lots = Some 30,
       max_open_positions = Some 20, max_daily_trades = Some 50,
       news_trading_allowed = False, overnight_holding_allowed = True,
       weekend_holding_allowed = False, hedging_allowed = True, grid_trading_allowed = True,
       require_stop_loss = False, require_take_profit = False,
       consistency_pct = Some (50/100), cooldown_seconds = 0, copy_trading_allowed = False,
       refundable = True, leverage = 100, trading_hours = None, timezone = None,
       day_reset_time = 0, effective_at = now, per_trade_max_loss_pct = None,
       per_trade_max_loss_money = None, hft_ban_enabled = False,
       hft_min_round_trip_seconds = 60, inactivity_days = None, refund_fee_amount = 0,
       daily_loss_type = PctPriorDay, daily_loss_soft = False,
       consistency_type = BestDayPctOfPositiveDays, eod_trail_locks_at_start = False,
       min_profitable_days = None, cross_account_hedging_prohibited = False,
       lowcap_exposure_limit_pct = None, consistency_applies_on_funded_stage = False,
       qualifying_day_threshold_pct = None, qualifying_day_pnl_band_pct = None,
       plan_payout_config = Some payout_config_default \<rparr>"

definition plan_validate :: "challenge_plan \<Rightarrow> unit res" where
  "plan_validate p =
     (if initial_balance_money p \<le> 0 then Inl (InvalidConfig (Lit ''initial_balance must be positive''))
      else if profit_target_pct p < 0 then Inl (InvalidConfig (Lit ''profit_target_pct must be non-negative''))
      else if max_daily_drawdown_pct p < 0 \<or> max_daily_drawdown_pct p > 1
        then Inl (InvalidConfig (Lit ''max_daily_drawdown_pct must be in [0, 1]''))
      else if max_total_drawdown_pct p < 0 \<or> max_total_drawdown_pct p > 1
        then Inl (InvalidConfig (Lit ''max_total_drawdown_pct must be in [0, 1]''))
      else if (case consistency_pct p of None \<Rightarrow> False | Some c \<Rightarrow> c < 0 \<or> c > 1)
        then Inl (InvalidConfig (Lit ''consistency_pct must be in [0, 1]''))
      else if (case trading_hours p of None \<Rightarrow> False | Some (s, e) \<Rightarrow> s > 24 \<or> e > 24)
        then Inl (InvalidConfig (Lit ''trading_hours must be in [0, 24]''))
      else Inr ())"

section \<open>Builders\<close>

definition with_balance :: "challenge_plan \<Rightarrow> money \<Rightarrow> challenge_plan" where
  "with_balance p b = p\<lparr>initial_balance_money := b\<rparr>"

definition with_phase :: "challenge_plan \<Rightarrow> challenge_phase \<Rightarrow> challenge_plan" where
  "with_phase p ph = p\<lparr>plan_phase := ph\<rparr>"

definition with_profit_target :: "challenge_plan \<Rightarrow> pct \<Rightarrow> challenge_plan" where
  "with_profit_target p x = p\<lparr>profit_target_pct := x\<rparr>"

definition with_daily_dd :: "challenge_plan \<Rightarrow> pct \<Rightarrow> challenge_plan" where
  "with_daily_dd p x = p\<lparr>max_daily_drawdown_pct := x\<rparr>"

definition with_total_dd :: "challenge_plan \<Rightarrow> pct \<Rightarrow> challenge_plan" where
  "with_total_dd p x = p\<lparr>max_total_drawdown_pct := x\<rparr>"

definition with_loss_reference :: "challenge_plan \<Rightarrow> loss_reference \<Rightarrow> challenge_plan" where
  "with_loss_reference p m = p\<lparr>max_loss_reference := m\<rparr>"

definition with_min_days :: "challenge_plan \<Rightarrow> u32 \<Rightarrow> challenge_plan" where
  "with_min_days p d = p\<lparr>min_trading_days := d\<rparr>"

definition with_time_limit_days :: "challenge_plan \<Rightarrow> u32 \<Rightarrow> challenge_plan" where
  "with_time_limit_days p d = p\<lparr>time_limit_days := Some d\<rparr>"

definition with_trailing_dd :: "challenge_plan \<Rightarrow> pct \<Rightarrow> challenge_plan" where
  "with_trailing_dd p x = p\<lparr>trailing_drawdown_enabled := True, trailing_drawdown_pct := x\<rparr>"

definition with_consistency :: "challenge_plan \<Rightarrow> pct \<Rightarrow> challenge_plan" where
  "with_consistency p x = p\<lparr>consistency_pct := Some x\<rparr>"

definition with_per_trade_max_loss_pct :: "challenge_plan \<Rightarrow> pct \<Rightarrow> challenge_plan" where
  "with_per_trade_max_loss_pct p x = p\<lparr>per_trade_max_loss_pct := Some x\<rparr>"

definition with_hft_ban :: "challenge_plan \<Rightarrow> u64 \<Rightarrow> challenge_plan" where
  "with_hft_ban p s = p\<lparr>hft_ban_enabled := True, hft_min_round_trip_seconds := s\<rparr>"

definition with_inactivity_days :: "challenge_plan \<Rightarrow> u32 \<Rightarrow> challenge_plan" where
  "with_inactivity_days p d = p\<lparr>inactivity_days := Some d\<rparr>"

section \<open>Trading days\<close>

text \<open>
  \<^verbatim>\<open>and_hms_opt(h, 0, 0).expect(..)\<close> followed by \<^verbatim>\<open>and_utc()\<close> is \<^const>\<open>utc_at_hour\<close>; followed
  by \<^verbatim>\<open>and_local_timezone(tz).unwrap()\<close> it is \<^const>\<open>tz_at_hour\<close>, which is \<open>None\<close> also where
  the local time does not exist or is ambiguous.
\<close>

definition trading_day_start :: "ext \<Rightarrow> challenge_plan \<Rightarrow> timestamp \<Rightarrow> timestamp option" where
  "trading_day_start E p now =
     (let reset_hour = unat (day_reset_time p) in
      do {
        reset_today \<leftarrow> (case timezone p of
            Some z \<Rightarrow> tz_at_hour E z (tz_date E z now) reset_hour
          | None \<Rightarrow> utc_at_hour E (utc_date E now) reset_hour);
        if now \<ge> reset_today then Some reset_today
        else do { d \<leftarrow> dur_days E 1; ts_sub E reset_today d }
      })"

definition next_trading_day_start :: "ext \<Rightarrow> challenge_plan \<Rightarrow> timestamp \<Rightarrow> timestamp option" where
  "next_trading_day_start E p current_start =
     (let reset_hour = unat (day_reset_time p) in
      case timezone p of
        Some z \<Rightarrow> do { d \<leftarrow> date_succ E (tz_date E z current_start); tz_at_hour E z d reset_hour }
      | None \<Rightarrow> do { d \<leftarrow> date_succ E (utc_date E current_start); utc_at_hour E d reset_hour })"

section \<open>The calendar of a UTC plan\<close>

text \<open>The reset instants of the days, and the day an instant belongs to.\<close>

definition boundary :: "nat \<Rightarrow> int \<Rightarrow> timestamp" where
  "boundary h k = k * day_ns + int h * hour_ns"

definition day_of :: "nat \<Rightarrow> timestamp \<Rightarrow> int" where
  "day_of h t = (t - int h * hour_ns) div day_ns"

definition utc_plan :: "challenge_plan \<Rightarrow> bool" where
  "utc_plan p \<longleftrightarrow> timezone p = None \<and> unat (day_reset_time p) < 24"

lemma boundary_mono [simp]: "boundary h j \<le> boundary h k \<longleftrightarrow> j \<le> k" "boundary h j < boundary h k \<longleftrightarrow> j < k"
  by (auto simp: boundary_def day_ns_def)

lemma boundary_le: "boundary h (day_of h t) \<le> t" "t < boundary h (day_of h t + 1)"
proof -
  have "t - int h * hour_ns = day_ns * day_of h t + (t - int h * hour_ns) mod day_ns"
    unfolding day_of_def by (simp add: mult.commute)
  moreover have "0 \<le> (t - int h * hour_ns) mod day_ns" "(t - int h * hour_ns) mod day_ns < day_ns"
    by (simp_all add: day_ns_def)
  ultimately show "boundary h (day_of h t) \<le> t" "t < boundary h (day_of h t + 1)"
    by (simp_all add: boundary_def algebra_simps)
qed

lemma day_of_unique: "boundary h k \<le> t \<Longrightarrow> t < boundary h (k + 1) \<Longrightarrow> day_of h t = k"
  using boundary_le [where h = h and t = t] boundary_mono(2) [of h "day_of h t" "k + 1"] boundary_mono(2) [of h k "day_of h t + 1"]
  by (metis add_le_cancel_right le_less_trans order_antisym zless_add1_eq zle_add1_eq_le)

lemma day_of_boundary [simp]: "day_of h (boundary h k) = k"
  by (rule day_of_unique) simp_all

lemma hour_offset: "h < 24 \<Longrightarrow> 0 \<le> int h * hour_ns" "h < 24 \<Longrightarrow> int h * hour_ns < day_ns"
  by (simp_all add: hour_ns_def day_ns_def)

lemma trading_day_start_utc:
  assumes "utc_calendar E" "utc_plan p" "\<bar>t\<bar> \<le> max_date * day_ns"
  shows "trading_day_start E p t = Some (boundary (unat (day_reset_time p)) (day_of (unat (day_reset_time p)) t))"
proof -
  let ?h = "unat (day_reset_time p)"
  let ?d = "t div day_ns"
  have h: "?h < 24" "timezone p = None" using assms(2) by (auto simp: utc_plan_def)
  have hh: "0 \<le> int ?h * hour_ns" "int ?h * hour_ns < day_ns" by (rule hour_offset [OF h(1)])+
  have d: "\<bar>?d\<bar> \<le> max_date" "?d * day_ns \<le> t" "t < (?d + 1) * day_ns"
    using assms(3) by (auto simp: day_ns_def max_date_def)
  have date: "utc_date E t = ?d" and at: "utc_at_hour E ?d ?h = Some (boundary ?h ?d)"
    using assms(1,3) d(1) h(1) by (auto simp: utc_calendar_def boundary_def)
  have sub: "dur_days E 1 = Some day_ns" "ts_sub E (boundary ?h ?d) day_ns = Some (boundary ?h ?d - day_ns)"
    using assms(1) d(1) hh by (auto simp: utc_calendar_def boundary_def day_ns_def max_date_def)
  show ?thesis
  proof (cases "t \<ge> boundary ?h ?d")
    case True
    have "t < boundary ?h (?d + 1)" using d(3) hh(1) unfolding boundary_def by linarith
    with True have "day_of ?h t = ?d" by (rule day_of_unique)
    then show ?thesis using True by (simp add: trading_day_start_def Let_def h date at)
  next
    case False
    have "boundary ?h (?d - 1) \<le> t" using d(2) hh(2) by (simp add: boundary_def algebra_simps)
    with False have "day_of ?h t = ?d - 1" by (intro day_of_unique) simp_all
    then show ?thesis using False sub by (simp add: trading_day_start_def Let_def h date at) (simp add: boundary_def algebra_simps)
  qed
qed

lemma next_trading_day_start_utc:
  assumes "utc_calendar E" "utc_plan p" "\<bar>k\<bar> < max_date - 1"
  shows "next_trading_day_start E p (boundary (unat (day_reset_time p)) k) =
           Some (boundary (unat (day_reset_time p)) (k + 1))"
proof -
  let ?h = "unat (day_reset_time p)"
  have h: "?h < 24" "timezone p = None" using assms(2) by (auto simp: utc_plan_def)
  have hh: "0 \<le> int ?h * hour_ns" "int ?h * hour_ns < day_ns" by (rule hour_offset [OF h(1)])+
  have b: "\<bar>boundary ?h k\<bar> \<le> max_date * day_ns"
    using assms(3) hh by (auto simp: boundary_def day_ns_def max_date_def)
  have "boundary ?h k div day_ns = k"
    using hh by (simp add: boundary_def div_add1_eq)
  then show ?thesis
    using assms(1,3) b h by (auto simp: next_trading_day_start_def Let_def utc_calendar_def boundary_def)
qed

lemma boundary_range:
  assumes "h < 24" "\<bar>k\<bar> < max_date - 1"
  shows "\<bar>boundary h k\<bar> \<le> max_date * day_ns"
  using hour_offset [OF assms(1)] assms(2) by (auto simp: boundary_def day_ns_def max_date_def)

lemma day_of_range:
  assumes "h < 24" "\<bar>t\<bar> \<le> (max_date - 3) * day_ns"
  shows "\<bar>day_of h t\<bar> < max_date - 1"
proof -
  have D: "0 < day_ns" by (simp add: day_ns_def)
  note b = boundary_le [where h = h and t = t] hour_offset [OF assms(1)] assms(2)
  have "day_of h t * day_ns < (max_date - 1) * day_ns" "(1 - max_date) * day_ns < day_of h t * day_ns"
    using b D by (auto simp: boundary_def algebra_simps)
  then show ?thesis using D by (simp add: mult_less_cancel_right)
qed

text \<open>
  C34. In a plan on UTC with a valid reset hour, the trading day of an instant is the
  24-hour window that contains it: its start is at the reset hour and not after the instant,
  and the next trading day starts 24 hours later, after the instant.
\<close>

theorem trading_day_window:
  assumes "utc_calendar E" "utc_plan p" "\<bar>t\<bar> \<le> (max_date - 3) * day_ns"
  shows "\<exists>s. trading_day_start E p t = Some s \<and> s \<le> t \<and> t < s + day_ns
           \<and> s mod day_ns = int (unat (day_reset_time p)) * hour_ns
           \<and> next_trading_day_start E p s = Some (s + day_ns)"
proof -
  let ?h = "unat (day_reset_time p)"
  have h: "?h < 24" using assms(2) by (simp add: utc_plan_def)
  have "\<bar>t\<bar> \<le> max_date * day_ns" using assms(3) by (simp add: max_date_def day_ns_def)
  then have "trading_day_start E p t = Some (boundary ?h (day_of ?h t))"
    by (rule trading_day_start_utc [OF assms(1,2)])
  moreover have "next_trading_day_start E p (boundary ?h (day_of ?h t)) = Some (boundary ?h (day_of ?h t) + day_ns)"
    using next_trading_day_start_utc [OF assms(1,2) day_of_range [OF h assms(3)]] by (simp add: boundary_def algebra_simps)
  moreover have "boundary ?h (day_of ?h t) mod day_ns = int ?h * hour_ns"
    using hour_offset [OF h] by (simp add: boundary_def)
  ultimately show ?thesis
    using boundary_le [where h = ?h and t = t] by (auto simp: boundary_def algebra_simps)
qed

theorem trading_day_window_witness:
  "\<exists>s. trading_day_start (exact_env 0) ((plan_default 3 0)\<lparr>day_reset_time := 17\<rparr>) (16 * hour_ns) = Some s
     \<and> s \<le> 16 * hour_ns \<and> s mod day_ns = 17 * hour_ns"
  using trading_day_window [of "exact_env 0" "(plan_default 3 0)\<lparr>day_reset_time := 17\<rparr>" "16 * hour_ns"]
    exact_env_utc_calendar [of 0]
  by (auto simp: utc_plan_def plan_default_def max_date_def day_ns_def hour_ns_def)

section \<open>Text formats\<close>

lemma loss_reference_reads [simp]: "loss_reference_from_str (loss_reference_display x) = Inr x"
  by (cases x) (simp_all add: loss_reference_from_str_def lower_simps)

interpretation loss_reference_text: text_codec loss_reference_display loss_reference_from_str
  by unfold_locales (simp_all, simp add: loss_reference_from_str_def)

lemma daily_loss_type_reads [simp]: "daily_loss_type_from_str (daily_loss_type_display x) = Inr x"
  by (cases x) (simp_all add: daily_loss_type_from_str_def lower_simps)

interpretation daily_loss_text: text_codec daily_loss_type_display daily_loss_type_from_str
  by unfold_locales (simp_all, simp add: daily_loss_type_from_str_def)

lemma consistency_type_reads [simp]: "consistency_type_from_str (consistency_type_display x) = Inr x"
  by (cases x) (simp_all add: consistency_type_from_str_def lower_simps)

interpretation consistency_text: text_codec consistency_type_display consistency_type_from_str
  by unfold_locales (simp_all, simp add: consistency_type_from_str_def)

end
