(* ===== verification/Account_Model.thy ===== *)
theory Account_Model
  imports Plan
begin

text \<open>
  The account aggregate of \<^verbatim>\<open>src/core/account.rs\<close>: its status machine, its record, its
  construction and start, the drawdown and target measures and the snapshot.
\<close>

datatype account_type = TPhase1 | TPhase2 | TFunded | TDemo

datatype account_status =
    Pending | Active | TargetHitPending | Passed | Failed | Funded | PayoutPending | Closed
  | EmergencyStopped

datatype evaluation_mode = Evaluate | SkipMode

fun is_active :: "account_status \<Rightarrow> bool" where
  "is_active Active = True"
| "is_active Funded = True"
| "is_active TargetHitPending = True"
| "is_active _ = False"

fun is_terminal :: "account_status \<Rightarrow> bool" where
  "is_terminal Passed = True"
| "is_terminal Failed = True"
| "is_terminal Closed = True"
| "is_terminal EmergencyStopped = True"
| "is_terminal _ = False"

fun is_breach_terminal :: "account_status \<Rightarrow> bool" where
  "is_breach_terminal Failed = True"
| "is_breach_terminal EmergencyStopped = True"
| "is_breach_terminal _ = False"

fun evaluation_mode_of :: "account_status \<Rightarrow> evaluation_mode" where
  "evaluation_mode_of Active = Evaluate"
| "evaluation_mode_of Funded = Evaluate"
| "evaluation_mode_of TargetHitPending = Evaluate"
| "evaluation_mode_of PayoutPending = Evaluate"
| "evaluation_mode_of _ = SkipMode"

record account =
  acc_id :: uuid
  account_type :: account_type
  status :: account_status
  challenge_id :: "uuid option"
  plan :: challenge_plan
  tenant_id :: uuid
  initial_balance :: money
  balance :: money
  equity :: money
  estimated_equity :: money
  estimated_balance :: money
  peak_equity :: money
  peak_balance :: money
  started_at :: "timestamp option"
  deadline :: "timestamp option"
  day_start_balance :: money
  trading_day_index :: u32
  active_trading_days :: u32
  day_counted_today :: bool
  today_realized_pnl :: money
  total_realized_pnl :: money
  total_commissions :: money
  total_swaps :: money
  largest_day_profit :: money
  largest_day_loss :: money
  sum_positive_days_profit :: money
  day_start_equity :: money
  intraday_peak_equity :: money
  profitable_days_count :: u32
  qualifying_trading_days_count :: u32
  current_trading_day_start :: "timestamp option"
  target_reached_at :: "timestamp option"
  target_reached_on_day :: "u32 option"
  version :: u64
  last_tick_ts :: "timestamp option"
  last_trade_at :: "timestamp option"
  payout_count :: u32
  balance_at_last_payout :: money
  last_payout_at :: "timestamp option"
  refund_used :: bool
  status_before_breach :: "account_status option"
  acc_open_positions :: "position list"
  acc_today_trades :: "trade list"

fun account_type_of_phase :: "challenge_phase \<Rightarrow> account_type" where
  "account_type_of_phase Phase1 = TPhase1"
| "account_type_of_phase Phase2 = TPhase2"
| "account_type_of_phase FundedPhase = TFunded"

definition account_new :: "uuid \<Rightarrow> uuid \<Rightarrow> challenge_plan \<Rightarrow> account" where
  "account_new fresh_tenant ident p =
     (let initial = initial_balance_money p in
      \<lparr> acc_id = ident, account_type = account_type_of_phase (plan_phase p), status = Pending,
        challenge_id = Some (plan_id p), plan = p, tenant_id = fresh_tenant,
        initial_balance = initial, balance = initial, equity = initial,
        estimated_equity = initial, estimated_balance = initial, peak_equity = initial,
        peak_balance = initial, started_at = None, deadline = None,
        day_start_balance = initial, trading_day_index = 0, active_trading_days = 0,
        day_counted_today = False, today_realized_pnl = 0, total_realized_pnl = 0,
        total_commissions = 0, total_swaps = 0, largest_day_profit = 0, largest_day_loss = 0,
        sum_positive_days_profit = 0, day_start_equity = initial,
        intraday_peak_equity = initial, profitable_days_count = 0,
        qualifying_trading_days_count = 0, current_trading_day_start = None,
        target_reached_at = None, target_reached_on_day = None, version = 0,
        last_tick_ts = None, last_trade_at = None, payout_count = 0,
        balance_at_last_payout = initial, last_payout_at = None, refund_used = False,
        status_before_breach = None, acc_open_positions = [], acc_today_trades = [] \<rparr>)"

definition account_with_tenant :: "account \<Rightarrow> uuid \<Rightarrow> account" where
  "account_with_tenant a t = a\<lparr>tenant_id := t\<rparr>"

definition account_start :: "ext \<Rightarrow> account \<Rightarrow> timestamp \<Rightarrow> account res option" where
  "account_start E a now =
     (if status a \<noteq> Pending then err (InvalidState (Fmt ''account.not_pending'' []))
      else do {
        let a = a\<lparr>status := Active, started_at := Some now\<rparr>;
        s \<leftarrow> trading_day_start E (plan a) now;
        let a = a\<lparr>current_trading_day_start := Some s\<rparr>;
        case time_limit_days (plan a) of
          None \<Rightarrow> ok a
        | Some days \<Rightarrow> do {
            d \<leftarrow> dur_days E (uint days);
            t \<leftarrow> ts_add E now d;
            ok (a\<lparr>deadline := Some t\<rparr>) }
      })"

section \<open>Drawdown and target measures\<close>

definition daily_dd_limit :: "ext \<Rightarrow> account \<Rightarrow> money option" where
  "daily_dd_limit E a =
     dmul E (max_daily_drawdown_pct (plan a))
       (if drawdown_on_balance (plan a) then day_start_balance a else day_start_equity a)"

definition max_dd_limit_static :: "ext \<Rightarrow> account \<Rightarrow> money option" where
  "max_dd_limit_static E a = dmul E (max_total_drawdown_pct (plan a)) (initial_balance a)"

definition max_dd_limit_trailing :: "ext \<Rightarrow> account \<Rightarrow> money option" where
  "max_dd_limit_trailing E a = dmul E (max_total_drawdown_pct (plan a)) (peak_balance a)"

definition max_dd_limit_eod_trailing :: "ext \<Rightarrow> account \<Rightarrow> money option" where
  "max_dd_limit_eod_trailing E a = dmul E (max_total_drawdown_pct (plan a)) (day_start_balance a)"

definition max_dd_limit :: "ext \<Rightarrow> account \<Rightarrow> money option" where
  "max_dd_limit E a =
     (case max_loss_reference (plan a) of
        Static \<Rightarrow> max_dd_limit_static E a
      | Trailing \<Rightarrow> max_dd_limit_trailing E a
      | EodTrailing \<Rightarrow> max_dd_limit_eod_trailing E a
      | IntradayTrail \<Rightarrow>
          dmul E (max_total_drawdown_pct (plan a))
            (if drawdown_on_balance (plan a) then peak_balance a else peak_equity a))"

definition total_drawdown :: "ext \<Rightarrow> account \<Rightarrow> money option" where
  "total_drawdown E a =
     (let reference = (case max_loss_reference (plan a) of
            Static \<Rightarrow> initial_balance a
          | Trailing \<Rightarrow> peak_balance a
          | EodTrailing \<Rightarrow> day_start_balance a
          | IntradayTrail \<Rightarrow>
              if drawdown_on_balance (plan a) then peak_balance a else peak_equity a);
          current = (if drawdown_on_balance (plan a) then balance a else equity a)
      in do { d \<leftarrow> dsub E reference current; Some (max d 0) })"

definition balance_drawdown :: "ext \<Rightarrow> account \<Rightarrow> money option" where
  "balance_drawdown E a = do { d \<leftarrow> dsub E (peak_balance a) (balance a); Some (max d 0) }"

definition profit_target :: "ext \<Rightarrow> account \<Rightarrow> money option" where
  "profit_target E a = dmul E (profit_target_pct (plan a)) (initial_balance a)"

definition equity_drawdown :: "ext \<Rightarrow> account \<Rightarrow> money option" where
  "equity_drawdown E a = do { d \<leftarrow> dsub E (peak_equity a) (equity a); Some (max d 0) }"

definition daily_drawdown :: "ext \<Rightarrow> account \<Rightarrow> money option" where
  "daily_drawdown E a =
     (let (day_start, current) =
            (if drawdown_on_balance (plan a) then (day_start_balance a, balance a)
             else (day_start_equity a, equity a))
      in do { d \<leftarrow> dsub E day_start current; Some (max d 0) })"

definition net_profit :: "ext \<Rightarrow> account \<Rightarrow> money option" where
  "net_profit E a = dsub E (balance a) (initial_balance a)"

definition reached_profit_target :: "ext \<Rightarrow> account \<Rightarrow> bool option" where
  "reached_profit_target E a = do { n \<leftarrow> net_profit E a; t \<leftarrow> profit_target E a; Some (n \<ge> t) }"

definition daily_dd_utilization :: "ext \<Rightarrow> account \<Rightarrow> pct option" where
  "daily_dd_utilization E a = do {
     limit \<leftarrow> daily_dd_limit E a;
     if limit = 0 then Some 0
     else do { d \<leftarrow> daily_drawdown E a; ddiv E d limit } }"

definition max_dd_utilization :: "ext \<Rightarrow> account \<Rightarrow> pct option" where
  "max_dd_utilization E a = do {
     limit \<leftarrow> max_dd_limit E a;
     if limit = 0 then Some 0
     else do { d \<leftarrow> total_drawdown E a; ddiv E d limit } }"

definition target_pending :: "account \<Rightarrow> bool" where
  "target_pending a \<longleftrightarrow> target_reached_at a \<noteq> None"

definition target_fully_satisfied :: "account \<Rightarrow> bool" where
  "target_fully_satisfied a \<longleftrightarrow>
     target_reached_at a \<noteq> None \<and> active_trading_days a \<ge> min_trading_days (plan a)"

section \<open>Snapshots\<close>

record account_snapshot =
  s_id :: uuid
  s_account_type :: account_type
  s_status :: account_status
  s_initial_balance :: money
  s_balance :: money
  s_equity :: money
  s_estimated_equity :: money
  s_estimated_balance :: money
  s_peak_equity :: money
  s_peak_balance :: money
  s_day_start_balance :: money
  s_net_profit :: money
  s_daily_drawdown :: money
  s_total_drawdown :: money
  s_daily_dd_utilization :: pct
  s_max_dd_utilization :: pct
  s_profit_target :: money
  s_profit_target_utilization :: pct
  s_active_trading_days :: u32
  s_trading_day_index :: u32
  s_started_at :: "timestamp option"
  s_deadline :: "timestamp option"
  s_challenge_id :: "uuid option"
  s_target_reached_at :: "timestamp option"
  s_max_loss_reference :: loss_reference
  s_version :: u64
  s_tenant_id :: uuid

definition account_snapshot :: "ext \<Rightarrow> account \<Rightarrow> account_snapshot option" where
  "account_snapshot E a = do {
     np \<leftarrow> net_profit E a;
     dd \<leftarrow> daily_drawdown E a;
     td \<leftarrow> total_drawdown E a;
     du \<leftarrow> daily_dd_utilization E a;
     mu \<leftarrow> max_dd_utilization E a;
     t \<leftarrow> profit_target E a;
     pu \<leftarrow> (if t = 0 then Some 0 else ddiv E (max np 0) t);
     Some \<lparr> s_id = acc_id a, s_account_type = account_type a, s_status = status a,
       s_initial_balance = initial_balance a, s_balance = balance a, s_equity = equity a,
       s_estimated_equity = estimated_equity a, s_estimated_balance = estimated_balance a,
       s_peak_equity = peak_equity a, s_peak_balance = peak_balance a,
       s_day_start_balance = day_start_balance a, s_net_profit = np,
       s_daily_drawdown = dd, s_total_drawdown = td, s_daily_dd_utilization = du,
       s_max_dd_utilization = mu, s_profit_target = t, s_profit_target_utilization = pu,
       s_active_trading_days = active_trading_days a, s_trading_day_index = trading_day_index a,
       s_started_at = started_at a, s_deadline = deadline a, s_challenge_id = challenge_id a,
       s_target_reached_at = target_reached_at a,
       s_max_loss_reference = max_loss_reference (plan a), s_version = version a,
       s_tenant_id = tenant_id a \<rparr> }"

text \<open>A freshly created account on the default plan, for concrete instances.\<close>

abbreviation demo_account :: account where
  "demo_account \<equiv> account_new 5 7 (plan_default 3 0)"

end
