(* ===== verification/Domain_Events.thy ===== *)
theory Domain_Events
  imports Account_Model
begin

text \<open>
  Liquidation instructions (\<^verbatim>\<open>src/liquidation.rs\<close>) and the domain events of the log
  (\<^verbatim>\<open>src/core/events.rs\<close>).
\<close>

section \<open>Liquidation\<close>

record liquidation_position =
  lp_position_id :: uuid
  lp_symbol :: symbol
  lp_side :: position_side
  lp_open_quantity :: quantity
  lp_avg_entry_price :: price

definition liquidation_from_position :: "position \<Rightarrow> liquidation_position" where
  "liquidation_from_position p =
     \<lparr> lp_position_id = p_id p, lp_symbol = p_symbol p, lp_side = p_side p,
       lp_open_quantity = p_open_quantity p, lp_avg_entry_price = p_avg_entry_price p \<rparr>"

datatype liquidation_reason = RuleBreach violation_kind | EmergencyStopReason | Manual

record liquidation_instruction =
  li_id :: uuid
  li_account_id :: uuid
  li_tenant_id :: uuid
  li_positions :: "liquidation_position list"
  li_reason :: liquidation_reason
  li_triggered_by :: "uuid option"
  li_estimated_notional :: money
  li_issued_at :: timestamp
  li_actor_id :: string

text \<open>The constructor values the positions with a freshly created, empty registry.\<close>

definition liquidation_new ::
  "ext \<Rightarrow> uuid \<Rightarrow> uuid \<Rightarrow> position list \<Rightarrow> liquidation_reason \<Rightarrow> uuid option \<Rightarrow> string \<Rightarrow> timestamp \<Rightarrow>
   liquidation_instruction option" where
  "liquidation_new E acct tenant positions reason trig actor issued = do {
     let liq_positions = map liquidation_from_position (filter is_open positions);
     ns \<leftarrow> mapo (\<lambda>p. do {
       let spec = instruments_get Map.empty (lp_symbol p);
       l \<leftarrow> units_to_lots E spec (lp_open_quantity p);
       n \<leftarrow> notional E spec l (lp_avg_entry_price p);
       Some \<bar>n\<bar> }) liq_positions;
     est \<leftarrow> dsum E ns;
     Some \<lparr> li_id = new_v4 E ''liquidation'', li_account_id = acct, li_tenant_id = tenant,
            li_positions = liq_positions, li_reason = reason, li_triggered_by = trig,
            li_estimated_notional = est, li_issued_at = issued, li_actor_id = actor \<rparr> }"

definition liquidation_is_empty :: "liquidation_instruction \<Rightarrow> bool" where
  "liquidation_is_empty li \<longleftrightarrow> li_positions li = []"

definition liquidation_len :: "liquidation_instruction \<Rightarrow> nat" where
  "liquidation_len li = length (li_positions li)"

section \<open>Events\<close>

datatype domain_event_kind =
    EvAccountStarted challenge_plan
  | EvAccountStatusChanged account_status account_status
  | EvAccountSnapshotted account_snapshot
  | EvOrderEvent uuid order_status
  | EvTradeFilled trade
  | EvPositionOpened uuid symbol position_side quantity
  | EvPositionClosed uuid money
  | EvTickEvaluated money
  | EvDayRollover u32 money
  | EvRuleViolated violation
  | EvPlanUpgraded challenge_phase challenge_phase
  | EvPayoutRequested money money
  | EvPayoutApproved money money
  | EvLiquidationRequested liquidation_instruction
  | EvOverrideCleared uuid string string timestamp

record domain_event =
  e_id :: uuid
  e_account_id :: uuid
  e_kind :: domain_event_kind
  e_occurred_at :: timestamp
  e_causation_id :: "uuid option"

definition domain_event_new :: "ext \<Rightarrow> uuid \<Rightarrow> domain_event_kind \<Rightarrow> timestamp \<Rightarrow> domain_event" where
  "domain_event_new E acct k now =
     \<lparr> e_id = new_v4 E ''event'', e_account_id = acct, e_kind = k, e_occurred_at = now,
       e_causation_id = None \<rparr>"

definition with_causation :: "domain_event \<Rightarrow> uuid \<Rightarrow> domain_event" where
  "with_causation e parent = e\<lparr>e_causation_id := Some parent\<rparr>"

section \<open>Properties\<close>

lemma liquidation_new_positions:
  assumes "liquidation_new E acct tenant ps reason trig actor issued = Some li"
  shows "li_positions li = map liquidation_from_position (filter is_open ps)"
  using assms by (auto simp: liquidation_new_def run_simps)

lemma domain_event_new_fields [simp]:
  "e_kind (domain_event_new E i k t) = k" "e_account_id (domain_event_new E i k t) = i"
  "e_occurred_at (domain_event_new E i k t) = t"
  by (simp_all add: domain_event_new_def)

end
