(* ===== verification/Rule_Pack.thy ===== *)
theory Rule_Pack
  imports Domain_Events
begin

text \<open>
  Rule packs as data (\<^verbatim>\<open>src/rulepack.rs\<close>) and the parameters a rule takes from a pack
  entry (\<^verbatim>\<open>src/rules/params.rs\<close>). The content hash is in Pure_Eval; the JSON export is left out.
\<close>

datatype pack_lifecycle = Draft | ActivePack | Superseded

fun pack_lifecycle_display :: "pack_lifecycle \<Rightarrow> string" where
  "pack_lifecycle_display Draft = ''draft''"
| "pack_lifecycle_display ActivePack = ''active''"
| "pack_lifecycle_display Superseded = ''superseded''"

definition pack_lifecycle_from_str :: "string \<Rightarrow> pack_lifecycle res" where
  "pack_lifecycle_from_str s =
     (let l = to_lowercase s in
      if l = ''draft'' then Inr Draft
      else if l = ''active'' then Inr ActivePack
      else if l = ''superseded'' then Inr Superseded
      else Inl (InvalidConfig (Fmt ''pack.lifecycle'' [Lit l])))"

datatype rule_basis = BasisStatic | BasisTrailing | BasisEodTrailing | BasisIntradayTrail

fun rule_basis_display :: "rule_basis \<Rightarrow> string" where
  "rule_basis_display BasisStatic = ''static''"
| "rule_basis_display BasisTrailing = ''trailing''"
| "rule_basis_display BasisEodTrailing = ''eod_trailing''"
| "rule_basis_display BasisIntradayTrail = ''intraday_trail''"

definition rule_basis_from_str :: "string \<Rightarrow> rule_basis res" where
  "rule_basis_from_str s =
     (let l = to_lowercase s in
      if l = ''static'' then Inr BasisStatic
      else if l = ''trailing'' then Inr BasisTrailing
      else if l \<in> {''eod_trailing'', ''eodtrailing'', ''eod-trailing''} then Inr BasisEodTrailing
      else if l \<in> {''intraday_trail'', ''intradaytrail'', ''intraday-trail''} then Inr BasisIntradayTrail
      else Inl (InvalidConfig (Fmt ''pack.basis'' [Lit l])))"

datatype rule_unit = Percent | MoneyUnit

fun rule_unit_display :: "rule_unit \<Rightarrow> string" where
  "rule_unit_display Percent = ''percent''"
| "rule_unit_display MoneyUnit = ''money''"

definition rule_unit_from_str :: "string \<Rightarrow> rule_unit res" where
  "rule_unit_from_str s =
     (let l = to_lowercase s in
      if l = ''percent'' then Inr Percent
      else if l = ''money'' then Inr MoneyUnit
      else Inl (InvalidConfig (Fmt ''pack.unit'' [Lit l])))"

record rule_entry =
  en_id :: string
  en_kind :: string
  en_basis :: rule_basis
  en_unit :: rule_unit
  en_value :: decimal
  en_tolerance_cents :: "int option"
  en_early_warning_pct :: "decimal option"
  en_priority :: u32
  en_enabled :: bool
  en_params_json :: string
  en_severity :: "string option"
  en_failure_policy :: "string option"

definition rule_entry_new :: "string \<Rightarrow> string \<Rightarrow> decimal \<Rightarrow> rule_entry" where
  "rule_entry_new ident knd v =
     \<lparr> en_id = ident, en_kind = knd, en_basis = BasisStatic, en_unit = Percent, en_value = v,
       en_tolerance_cents = Some 1, en_early_warning_pct = Some (8/10), en_priority = 100,
       en_enabled = True, en_params_json = ''{}'', en_severity = None, en_failure_policy = None \<rparr>"

record rule_pack =
  rp_id :: string
  rp_version :: u32
  rp_tenant_id :: uuid
  rp_lifecycle :: pack_lifecycle
  rp_effective_from :: timestamp
  rp_superseded_by :: "string option"
  rp_description :: string
  rp_rules :: "rule_entry list"
  rp_initial_balance :: money
  rp_leverage :: u32
  rp_profit_target_pct :: pct

text \<open>The duplicate check inserts the ids, in order, into a set of seen ids.\<close>

fun pack_first_duplicate :: "string set \<Rightarrow> rule_entry list \<Rightarrow> string option" where
  "pack_first_duplicate seen [] = None"
| "pack_first_duplicate seen (r # rs) =
     (if en_id r \<in> seen then Some (en_id r) else pack_first_duplicate (insert (en_id r) seen) rs)"

definition pack_validate :: "rule_pack \<Rightarrow> unit res" where
  "pack_validate p =
     (if rp_id p = [] then Inl (InvalidConfig (Lit ''pack id cannot be empty''))
      else if rp_rules p = [] then Inl (InvalidConfig (Fmt ''pack.no_rules'' [Lit (rp_id p)]))
      else case pack_first_duplicate {} (rp_rules p) of
        Some d \<Rightarrow> Inl (InvalidConfig (Fmt ''pack.duplicate'' [Lit (rp_id p), Lit d]))
      | None \<Rightarrow> Inr ())"

definition pack_get :: "rule_pack \<Rightarrow> string \<Rightarrow> rule_entry option" where
  "pack_get p ident = find (\<lambda>r. en_id r = ident) (rp_rules p)"

definition synthetic_from_plan :: "string \<Rightarrow> uuid \<Rightarrow> challenge_plan \<Rightarrow> timestamp \<Rightarrow> rule_pack" where
  "synthetic_from_plan acct_display tenant p now =
     \<lparr> rp_id = ''plan-'' @ acct_display, rp_version = 1, rp_tenant_id = tenant,
       rp_lifecycle = ActivePack, rp_effective_from = now, rp_superseded_by = None,
       rp_description = ''Synthetic pack derived from account plan'', rp_rules = [],
       rp_initial_balance = initial_balance_money p, rp_leverage = leverage p,
       rp_profit_target_pct = profit_target_pct p \<rparr>"

section \<open>Rule parameters\<close>

record rule_params =
  rp_value :: "decimal option"
  rp_unit :: "rule_unit option"
  rp_basis :: "loss_reference option"
  rp_tolerance_cents :: "int option"
  rp_priority :: "u32 option"
  rp_early_warning_pct :: "decimal option"
  rp_enabled :: bool
  rp_params_json :: string
  rp_severity :: "string option"
  rp_failure_policy :: "string option"

fun loss_reference_of_basis :: "rule_basis \<Rightarrow> loss_reference" where
  "loss_reference_of_basis BasisStatic = Static"
| "loss_reference_of_basis BasisTrailing = Trailing"
| "loss_reference_of_basis BasisEodTrailing = EodTrailing"
| "loss_reference_of_basis BasisIntradayTrail = IntradayTrail"

definition params_from_entry :: "rule_entry \<Rightarrow> rule_params" where
  "params_from_entry e =
     \<lparr> rp_value = Some (en_value e), rp_unit = Some (en_unit e),
       rp_basis = Some (loss_reference_of_basis (en_basis e)),
       rp_tolerance_cents = en_tolerance_cents e, rp_priority = Some (en_priority e),
       rp_early_warning_pct = en_early_warning_pct e, rp_enabled = en_enabled e,
       rp_params_json = en_params_json e, rp_severity = en_severity e,
       rp_failure_policy = en_failure_policy e \<rparr>"

definition effective_money :: "ext \<Rightarrow> rule_params \<Rightarrow> string \<Rightarrow> money \<Rightarrow> money option res option" where
  "effective_money E p unit_context reference =
     (case rp_value p of
        None \<Rightarrow> ok None
      | Some v \<Rightarrow>
          (case rp_unit p of
             Some Percent \<Rightarrow> do { m \<leftarrow> dmul E v reference; ok (Some m) }
           | Some MoneyUnit \<Rightarrow> ok (Some v)
           | None \<Rightarrow> do { m \<leftarrow> dmul E v reference; ok (Some m) }))"

definition effective_pct :: "ext \<Rightarrow> rule_params \<Rightarrow> string \<Rightarrow> money \<Rightarrow> decimal res option" where
  "effective_pct E p unit_context reference =
     (case rp_value p of
        None \<Rightarrow> err (InvalidConfig (Fmt ''params.no_value'' [Lit unit_context]))
      | Some v \<Rightarrow>
          (case rp_unit p of
             Some MoneyUnit \<Rightarrow>
               if reference = 0
               then err (InvalidConfig (Fmt ''params.zero_reference'' [Lit unit_context, MDec v]))
               else do { q \<leftarrow> ddiv E v reference; ok q }
           | _ \<Rightarrow> ok v))"

definition params_json_decimal :: "ext \<Rightarrow> rule_params \<Rightarrow> string \<Rightarrow> decimal option" where
  "params_json_decimal E p key = json_get_decimal E (rp_params_json p) key"

definition effective_count :: "rule_params \<Rightarrow> string \<Rightarrow> decimal res option" where
  "effective_count p unit_context =
     (case rp_value p of
        None \<Rightarrow> err (InvalidConfig (Fmt ''params.no_value'' [Lit unit_context]))
      | Some v \<Rightarrow> ok v)"

section \<open>Text formats\<close>

lemma pack_lifecycle_reads [simp]: "pack_lifecycle_from_str (pack_lifecycle_display x) = Inr x"
  by (cases x) (simp_all add: pack_lifecycle_from_str_def lower_simps)

interpretation lifecycle_text: text_codec pack_lifecycle_display pack_lifecycle_from_str
  by unfold_locales (simp_all, simp add: pack_lifecycle_from_str_def)

lemma rule_basis_reads [simp]: "rule_basis_from_str (rule_basis_display x) = Inr x"
  by (cases x) (simp_all add: rule_basis_from_str_def lower_simps)

interpretation basis_text: text_codec rule_basis_display rule_basis_from_str
  by unfold_locales (simp_all, simp add: rule_basis_from_str_def)

lemma rule_unit_reads [simp]: "rule_unit_from_str (rule_unit_display x) = Inr x"
  by (cases x) (simp_all add: rule_unit_from_str_def lower_simps)

interpretation unit_text: text_codec rule_unit_display rule_unit_from_str
  by unfold_locales (simp_all, simp add: rule_unit_from_str_def)

lemma basis_reads_as_reference:
  "rule_basis_from_str s = Inr b \<longleftrightarrow> loss_reference_from_str s = Inr (loss_reference_of_basis b)"
  by (cases b) (auto simp: rule_basis_from_str_def loss_reference_from_str_def Let_def split: if_split_asm)

text \<open>
  C26. The settings survive their text form. For the six enumerations of plans and rule
  packs, the rendered text of a value, in any mixture of upper and lower case, parses back
  to that value; and a rule's basis parses exactly where a plan's loss reference does, to
  the same reference.
\<close>

theorem settings_text_roundtrip:
  "(to_lowercase s = loss_reference_display r \<longrightarrow> loss_reference_from_str s = Inr r)
 \<and> (to_lowercase s = daily_loss_type_display d \<longrightarrow> daily_loss_type_from_str s = Inr d)
 \<and> (to_lowercase s = consistency_type_display c \<longrightarrow> consistency_type_from_str s = Inr c)
 \<and> (to_lowercase s = pack_lifecycle_display l \<longrightarrow> pack_lifecycle_from_str s = Inr l)
 \<and> (to_lowercase s = rule_basis_display b \<longrightarrow> rule_basis_from_str s = Inr b)
 \<and> (to_lowercase s = rule_unit_display u \<longrightarrow> rule_unit_from_str s = Inr u)
 \<and> (rule_basis_from_str s = Inr b \<longleftrightarrow> loss_reference_from_str s = Inr (loss_reference_of_basis b))"
  by (intro conjI impI basis_reads_as_reference; rule loss_reference_text.parse_lower daily_loss_text.parse_lower
      consistency_text.parse_lower lifecycle_text.parse_lower basis_text.parse_lower unit_text.parse_lower)

theorem settings_text_roundtrip_witness:
  "loss_reference_from_str ''EOD_Trailing'' = Inr EodTrailing \<and> rule_basis_from_str ''EOD_Trailing'' = Inr BasisEodTrailing"
proof -
  have "to_lowercase ''EOD_Trailing'' = ''eod_trailing''" by code_simp
  with settings_text_roundtrip [of "''EOD_Trailing''" EodTrailing _ _ _ BasisEodTrailing] show ?thesis by simp
qed

end
