(* ===== verification/Rule_Base.thy ===== *)
theory Rule_Base
  imports Rule_Pack
begin

text \<open>
  The interface between the engine and its rules: the equity input
  (\<^verbatim>\<open>src/equity_input.rs\<close>), the per-rule configuration (\<^verbatim>\<open>src/config/rule_config.rs\<close>), the
  evaluation context (\<^verbatim>\<open>src/rules/context.rs\<close>), verdicts, reports and the rule trait
  (\<^verbatim>\<open>src/rules/traits.rs\<close>). A trait object \<^verbatim>\<open>Arc<dyn Rule>\<close> is the record \<open>rule\<close> of its
  methods, applied to the value they close over.
\<close>

section \<open>Equity input\<close>

datatype equity_input = BrokerReported money money | Estimated money money

fun ei_equity :: "equity_input \<Rightarrow> money" where
  "ei_equity (BrokerReported e b) = e"
| "ei_equity (Estimated e b) = e"

fun ei_balance :: "equity_input \<Rightarrow> money" where
  "ei_balance (BrokerReported e b) = b"
| "ei_balance (Estimated e b) = b"

fun is_broker_reported :: "equity_input \<Rightarrow> bool" where
  "is_broker_reported (BrokerReported e b) = True"
| "is_broker_reported (Estimated e b) = False"

fun broker_equity :: "equity_input \<Rightarrow> money option" where
  "broker_equity (BrokerReported e b) = Some e"
| "broker_equity (Estimated e b) = None"

definition equity_input_default :: equity_input where
  "equity_input_default = Estimated 0 0"

section \<open>Per-rule configuration\<close>

record drawdown_config =
  dc_pct :: pct
  dc_on_balance :: bool

record trailing_config =
  tc_pct :: pct
  tc_start_at_pct :: pct

record news_config =
  nc_window_minutes :: u32
  nc_allow_closes :: bool

record overnight_config =
  oc_forbidden_from_hour :: u8
  oc_forbidden_to_hour :: u8

record weekend_config =
  wc_forbidden_from_hour :: u8
  wc_weekend_starts_hour :: u8

record grid_config =
  gc_allowed :: bool
  gc_min_grid_spacing_pips :: u32

record sl_config =
  slc_required :: bool
  slc_min_distance_pips :: "u32 option"

text \<open>Configurations with a single field are that field.\<close>

record rule_config =
  cfg_daily_drawdown :: "drawdown_config option"
  cfg_max_drawdown :: "drawdown_config option"
  cfg_trailing_drawdown :: "trailing_config option"
  cfg_profit_target :: "pct option"
  cfg_min_trading_days :: "u32 option"
  cfg_consistency :: "pct option"
  cfg_news_trading :: "news_config option"
  cfg_overnight_holding :: "overnight_config option"
  cfg_weekend_holding :: "weekend_config option"
  cfg_max_position_size :: "decimal option"
  cfg_max_open_positions :: "u32 option"
  cfg_max_daily_trades :: "u32 option"
  cfg_time_limit :: "u32 option"
  cfg_cooldown :: "u64 option"
  cfg_hedging :: "bool option"
  cfg_grid_trading :: "grid_config option"
  cfg_copy_trading :: "bool option"
  cfg_sl_required :: "sl_config option"
  cfg_tp_required :: "bool option"

definition rule_config_empty :: rule_config where
  "rule_config_empty =
     \<lparr> cfg_daily_drawdown = None, cfg_max_drawdown = None, cfg_trailing_drawdown = None,
       cfg_profit_target = None, cfg_min_trading_days = None, cfg_consistency = None,
       cfg_news_trading = None, cfg_overnight_holding = None, cfg_weekend_holding = None,
       cfg_max_position_size = None, cfg_max_open_positions = None,
       cfg_max_daily_trades = None, cfg_time_limit = None, cfg_cooldown = None,
       cfg_hedging = None, cfg_grid_trading = None, cfg_copy_trading = None,
       cfg_sl_required = None, cfg_tp_required = None \<rparr>"

definition rule_config_from_plan :: "challenge_plan \<Rightarrow> rule_config" where
  "rule_config_from_plan p =
     \<lparr> cfg_daily_drawdown = Some \<lparr> dc_pct = max_daily_drawdown_pct p, dc_on_balance = drawdown_on_balance p \<rparr>,
       cfg_max_drawdown = Some \<lparr> dc_pct = max_total_drawdown_pct p, dc_on_balance = drawdown_on_balance p \<rparr>,
       cfg_trailing_drawdown =
         (if trailing_drawdown_enabled p
          then Some \<lparr> tc_pct = trailing_drawdown_pct p, tc_start_at_pct = 0 \<rparr> else None),
       cfg_profit_target = Some (profit_target_pct p),
       cfg_min_trading_days = Some (min_trading_days p),
       cfg_consistency = consistency_pct p,
       cfg_news_trading = Some \<lparr> nc_window_minutes = 2, nc_allow_closes = True \<rparr>,
       cfg_overnight_holding = Some \<lparr> oc_forbidden_from_hour = 22, oc_forbidden_to_hour = 7 \<rparr>,
       cfg_weekend_holding = Some \<lparr> wc_forbidden_from_hour = 21, wc_weekend_starts_hour = 21 \<rparr>,
       cfg_max_position_size = max_position_lots p,
       cfg_max_open_positions = max_open_positions p,
       cfg_max_daily_trades = max_daily_trades p,
       cfg_time_limit = time_limit_days p,
       cfg_cooldown = (if cooldown_seconds p > 0 then Some (cooldown_seconds p) else None),
       cfg_hedging = Some (hedging_allowed p),
       cfg_grid_trading = Some \<lparr> gc_allowed = grid_trading_allowed p, gc_min_grid_spacing_pips = 50 \<rparr>,
       cfg_copy_trading = Some (copy_trading_allowed p),
       cfg_sl_required = Some \<lparr> slc_required = require_stop_loss p, slc_min_distance_pips = None \<rparr>,
       cfg_tp_required = Some (require_take_profit p) \<rparr>"

section \<open>Evaluation context\<close>

datatype rule_context_kind =
  OnOrderSubmit | OnTradeFill | OnTick | OnDayRollover | OnEndOfDay | OnDemand

datatype evaluation_scope = PreTrade | PostTrade | TickScope | Periodic | DemandScope

record rule_context =
  c_account :: account
  c_open_positions :: "position list"
  c_today_trades :: "trade list"
  c_pending_order :: "order option"
  c_latest_trade :: "trade option"
  c_latest_tick :: "tick option"
  c_recent_events :: "domain_event list"
  c_cross_reference_trades :: "trade list"
  c_instruments :: instrument_registry
  c_server_time :: timestamp
  c_kind :: rule_context_kind
  c_rule_config :: rule_config
  c_equity_input :: equity_input

text \<open>\<^verbatim>\<open>RuleContext::new\<close> reads the clock for its server time.\<close>

definition context_new :: "timestamp \<Rightarrow> account \<Rightarrow> rule_context" where
  "context_new now a =
     \<lparr> c_account = a, c_open_positions = [], c_today_trades = [], c_pending_order = None,
       c_latest_trade = None, c_latest_tick = None, c_recent_events = [],
       c_cross_reference_trades = [], c_instruments = Map.empty, c_server_time = now,
       c_kind = OnDemand, c_rule_config = rule_config_empty,
       c_equity_input = equity_input_default \<rparr>"

definition with_broker_equity :: "rule_context \<Rightarrow> money \<Rightarrow> money \<Rightarrow> rule_context" where
  "with_broker_equity ctx eq bal = ctx\<lparr>c_equity_input := BrokerReported eq bal\<rparr>"

definition with_estimated_equity :: "rule_context \<Rightarrow> money \<Rightarrow> money \<Rightarrow> rule_context" where
  "with_estimated_equity ctx eq bal = ctx\<lparr>c_equity_input := Estimated eq bal\<rparr>"

definition for_open_order :: "timestamp \<Rightarrow> account \<Rightarrow> order \<Rightarrow> rule_context" where
  "for_open_order now a ord =
     (context_new now a)\<lparr>c_pending_order := Some ord, c_kind := OnOrderSubmit,
                         c_rule_config := rule_config_from_plan (plan a)\<rparr>"

definition for_trade_fill :: "timestamp \<Rightarrow> account \<Rightarrow> trade \<Rightarrow> rule_context" where
  "for_trade_fill now a t =
     (context_new now a)\<lparr>c_latest_trade := Some t, c_kind := OnTradeFill,
                         c_rule_config := rule_config_from_plan (plan a)\<rparr>"

definition for_tick :: "timestamp \<Rightarrow> account \<Rightarrow> tick \<Rightarrow> rule_context" where
  "for_tick now a tk =
     (context_new now a)\<lparr>c_latest_tick := Some tk, c_kind := OnTick,
                         c_rule_config := rule_config_from_plan (plan a)\<rparr>"

definition for_day_rollover :: "timestamp \<Rightarrow> account \<Rightarrow> rule_context" where
  "for_day_rollover now a =
     (context_new now a)\<lparr>c_kind := OnDayRollover, c_rule_config := rule_config_from_plan (plan a)\<rparr>"

definition equity_is_broker_reported :: "rule_context \<Rightarrow> bool" where
  "equity_is_broker_reported ctx = is_broker_reported (c_equity_input ctx)"

definition open_position_count :: "rule_context \<Rightarrow> nat" where
  "open_position_count ctx = length (filter is_open (c_open_positions ctx))"

definition total_open_lots :: "ext \<Rightarrow> rule_context \<Rightarrow> lots option" where
  "total_open_lots E ctx = dsum E (map p_open_quantity (filter is_open (c_open_positions ctx)))"

definition today_trade_count :: "rule_context \<Rightarrow> nat" where
  "today_trade_count ctx = length (c_today_trades ctx)"

abbreviation estimate_msg :: msg where
  "estimate_msg \<equiv> Lit ''equity is estimated; broker-reported equity required for terminating verdicts''"

abbreviation not_started_msg :: msg where
  "not_started_msg \<equiv> Lit ''account has not been started; cannot evaluate drawdown/target rules''"

definition require_broker_equity :: "rule_context \<Rightarrow> msg + money" where
  "require_broker_equity ctx =
     (case broker_equity (c_equity_input ctx) of Some e \<Rightarrow> Inr e | None \<Rightarrow> Inl estimate_msg)"

definition require_started :: "rule_context \<Rightarrow> msg + unit" where
  "require_started ctx =
     (if started_at (c_account ctx) \<noteq> None then Inr () else Inl not_started_msg)"

section \<open>Verdicts and reports\<close>

datatype rule_verdict =
    Pass
  | Warn violation
  | Fail violation
  | SoftFail violation
  | Liquidate violation
  | TargetHit violation
  | Emergency violation
  | EarlyWarning violation
  | GapFlagged violation
  | Skip

fun is_terminating :: "rule_verdict \<Rightarrow> bool" where
  "is_terminating (Fail v) = True"
| "is_terminating (Liquidate v) = True"
| "is_terminating (Emergency v) = True"
| "is_terminating _ = False"

fun verdict_violation :: "rule_verdict \<Rightarrow> violation option" where
  "verdict_violation Pass = None"
| "verdict_violation Skip = None"
| "verdict_violation (Warn v) = Some v"
| "verdict_violation (Fail v) = Some v"
| "verdict_violation (SoftFail v) = Some v"
| "verdict_violation (Liquidate v) = Some v"
| "verdict_violation (TargetHit v) = Some v"
| "verdict_violation (Emergency v) = Some v"
| "verdict_violation (EarlyWarning v) = Some v"
| "verdict_violation (GapFlagged v) = Some v"

definition verdict_severity :: "rule_verdict \<Rightarrow> violation_severity option" where
  "verdict_severity v = map_option v_severity (verdict_violation v)"

record rule_report =
  rr_rule_id :: uuid
  rr_rule_name :: string
  rr_verdict :: rule_verdict
  rr_scope :: evaluation_scope
  rr_priority :: u32
  rr_evaluated_at :: timestamp
  rr_metadata :: "(string \<times> string) list"

definition report_new_at :: "uuid \<Rightarrow> string \<Rightarrow> rule_verdict \<Rightarrow> evaluation_scope \<Rightarrow> timestamp \<Rightarrow> rule_report" where
  "report_new_at ident name vd sc now =
     \<lparr> rr_rule_id = ident, rr_rule_name = name, rr_verdict = vd, rr_scope = sc,
       rr_priority = 100, rr_evaluated_at = now, rr_metadata = [] \<rparr>"

definition report_with_priority :: "rule_report \<Rightarrow> u32 \<Rightarrow> rule_report" where
  "report_with_priority r p = r\<lparr>rr_priority := p\<rparr>"

definition report_with_metadata :: "rule_report \<Rightarrow> string \<Rightarrow> string \<Rightarrow> rule_report" where
  "report_with_metadata r k v = r\<lparr>rr_metadata := rr_metadata r @ [(k, v)]\<rparr>"

section \<open>The rule trait\<close>

text \<open>The key from which the rule id is derived, the display name and the violation kind.\<close>

record rule_info =
  ri_key :: string
  ri_name :: string
  ri_kind :: violation_kind

record rule =
  r_info :: rule_info
  r_scope :: evaluation_scope
  r_severity :: violation_severity
  r_priority :: u32
  r_tolerance_cents :: int
  r_params :: "rule_params option"
  r_is_enabled :: "rule_context \<Rightarrow> bool option"
  r_evaluate :: "rule_context \<Rightarrow> rule_verdict res option"

definition rule_id :: "ext \<Rightarrow> rule \<Rightarrow> uuid" where
  "rule_id E r = rule_id_named E (ri_key (r_info r))"

definition build_violation ::
  "ext \<Rightarrow> rule_info \<Rightarrow> rule_context \<Rightarrow> violation_severity \<Rightarrow> msg \<Rightarrow> violation" where
  "build_violation E ri ctx sev message =
     violation_with_tenant (tenant_id (c_account ctx))
       (violation_new E (acc_id (c_account ctx)) (rule_id_named E (ri_key ri)) (ri_name ri)
          (ri_kind ri) sev message (c_server_time ctx))"

definition tolerance_money :: "ext \<Rightarrow> int \<Rightarrow> money option" where
  "tolerance_money E cents = (if cents = 0 then Some 0 else ddiv E (of_int cents) 100)"

text \<open>The three accessors most rules apply to their optional parameters.\<close>

definition param_priority :: "rule_params option \<Rightarrow> u32 \<Rightarrow> u32" where
  "param_priority ps d = (case Option.bind ps rp_priority of Some p \<Rightarrow> p | None \<Rightarrow> d)"

definition param_tolerance :: "rule_params option \<Rightarrow> int \<Rightarrow> int" where
  "param_tolerance ps d = (case Option.bind ps rp_tolerance_cents of Some c \<Rightarrow> c | None \<Rightarrow> d)"

definition param_early_warning :: "rule_params option \<Rightarrow> decimal \<Rightarrow> decimal" where
  "param_early_warning ps d = (case Option.bind ps rp_early_warning_pct of Some c \<Rightarrow> c | None \<Rightarrow> d)"

abbreviation param_disabled :: "rule_params option \<Rightarrow> bool" where
  "param_disabled ps \<equiv> (case ps of Some p \<Rightarrow> \<not> rp_enabled p | None \<Rightarrow> False)"

definition param_value :: "rule_params option \<Rightarrow> decimal option" where
  "param_value ps = Option.bind ps rp_value"

section \<open>The contract of a rule\<close>

text \<open>A violation names the account, tenant, rule and time it was found for.\<close>

definition stamped :: "ext \<Rightarrow> rule_info \<Rightarrow> rule_context \<Rightarrow> violation \<Rightarrow> bool" where
  "stamped E ri ctx x \<longleftrightarrow>
     v_account_id x = acc_id (c_account ctx) \<and> v_tenant_id x = tenant_id (c_account ctx)
   \<and> v_rule_id x = rule_id_named E (ri_key ri) \<and> v_rule_name x = ri_name ri \<and> v_kind x = ri_kind ri
   \<and> v_occurred_at x = c_server_time ctx"

text \<open>
  What every rule of the library promises of a verdict: its violation is stamped, it asks
  for liquidation only on broker-reported equity, and it never asks for an emergency stop.
\<close>

definition verdict_ok :: "ext \<Rightarrow> rule_info \<Rightarrow> rule_context \<Rightarrow> rule_verdict \<Rightarrow> bool" where
  "verdict_ok E ri ctx v \<longleftrightarrow>
     (\<forall>x. verdict_violation v = Some x \<longrightarrow> stamped E ri ctx x)
   \<and> (case v of Liquidate x \<Rightarrow> is_broker_reported (c_equity_input ctx) | Emergency x \<Rightarrow> False | _ \<Rightarrow> True)"

lemma stamped_build [simp]: "stamped E ri ctx (build_violation E ri ctx sev m)"
  by (simp add: stamped_def build_violation_def violation_new_def violation_with_tenant_def)

lemma stamped_with_breach: "with_breach E v b t = Some w \<Longrightarrow> stamped E ri ctx v \<Longrightarrow> stamped E ri ctx w"
  by (auto simp: with_breach_def Let_def run_simps stamped_def split: if_splits)

lemma stamped_breach [simp]:
  "with_breach E (build_violation E ri ctx sev m) b t = Some w \<Longrightarrow> stamped E ri ctx w"
  by (rule stamped_with_breach [OF _ stamped_build])

lemma broker_required: "require_broker_equity ctx = Inr e \<Longrightarrow> is_broker_reported (c_equity_input ctx)"
  by (cases "c_equity_input ctx") (auto simp: require_broker_equity_def)

lemma build_violation_fields:
  "v_kind (build_violation E ri ctx sev m) = ri_kind ri" "v_severity (build_violation E ri ctx sev m) = sev"
  by (simp_all add: build_violation_def violation_new_def violation_with_tenant_def)

lemma with_breach_fields: "with_breach E v b t = Some w \<Longrightarrow> v_kind w = v_kind v \<and> v_severity w = v_severity v"
  by (auto simp: with_breach_def Let_def run_simps split: if_splits)

locale rule_contract =
  fixes E :: ext and r :: rule
  assumes verdict: "returns (verdict_ok E (r_info r) ctx) (r_evaluate r ctx)"
begin

lemma violation_stamped:
  "r_evaluate r ctx = ok v \<Longrightarrow> verdict_violation v = Some x \<Longrightarrow> stamped E (r_info r) ctx x"
  using returnsD [OF verdict] by (simp add: verdict_ok_def)

lemma liquidates_only_on_broker_equity:
  "r_evaluate r ctx = ok (Liquidate x) \<Longrightarrow> is_broker_reported (c_equity_input ctx)"
  using returnsD [OF verdict] by (fastforce simp: verdict_ok_def)

lemma never_emergency: "r_evaluate r ctx \<noteq> ok (Emergency x)"
  using returnsD [OF verdict] by (fastforce simp: verdict_ok_def)

end

text \<open>A rule about losses terminates an account only on broker-reported equity.\<close>

locale breach_contract = rule_contract +
  assumes breach: "returns (\<lambda>v. is_terminating v \<longrightarrow> is_broker_reported (c_equity_input ctx)) (r_evaluate r ctx)"
begin

lemma estimate_never_terminates:
  "\<not> is_broker_reported (c_equity_input ctx) \<Longrightarrow> r_evaluate r ctx = ok v \<Longrightarrow> \<not> is_terminating v"
  using returnsD [OF breach] by blast

end

section \<open>Passing the guards\<close>

lemma guards_pass:
  assumes "started_at (c_account ctx) \<noteq> None" "is_broker_reported (c_equity_input ctx)"
  shows "require_started ctx = Inr ()" "require_broker_equity ctx = Inr (ei_equity (c_equity_input ctx))"
  using assms by (cases "c_equity_input ctx"; auto simp: require_started_def require_broker_equity_def)+

text \<open>A started account with broker-reported figures, and parameters in money, for concrete instances.\<close>

definition demo_context :: "money \<Rightarrow> money \<Rightarrow> rule_context" where
  "demo_context e b =
     (context_new 0 (demo_account\<lparr>started_at := Some 0, equity := e, balance := b\<rparr>))
       \<lparr>c_equity_input := BrokerReported e b\<rparr>"

lemmas demo_simps = demo_context_def context_new_def account_new_def plan_default_def Let_def

definition demo_params :: "decimal \<Rightarrow> rule_params" where
  "demo_params x = \<lparr> rp_value = Some x, rp_unit = Some MoneyUnit, rp_basis = None, rp_tolerance_cents = None,
     rp_priority = None, rp_early_warning_pct = None, rp_enabled = True, rp_params_json = [], rp_severity = None,
     rp_failure_policy = None \<rparr>"

end
