(* ===== verification/Eval_Risk.thy ===== *)
theory Eval_Risk
  imports Rule_Base
begin

text \<open>
  The rules about losses, targets and the calendar of the evaluation
  (\<^verbatim>\<open>src/rules/evaluators\<close>: \<^verbatim>\<open>daily_drawdown.rs\<close>, \<^verbatim>\<open>max_drawdown.rs\<close>, \<^verbatim>\<open>trailing_drawdown.rs\<close>,
  \<^verbatim>\<open>per_trade_max_loss.rs\<close>, \<^verbatim>\<open>profit_target.rs\<close>, \<^verbatim>\<open>consistency.rs\<close>, \<^verbatim>\<open>min_trading_days.rs\<close>,
  \<^verbatim>\<open>min_profitable_days.rs\<close>, \<^verbatim>\<open>time_limit.rs\<close>, \<^verbatim>\<open>inactivity.rs\<close>). Each has its \<open>_info\<close>
  (id key, name, violation kind), its \<open>_is_enabled\<close>, its \<open>_evaluate\<close> and the trait object
  \<open>_rule\<close>; \<open>None\<close> parameters are the \<^verbatim>\<open>Default\<close> instance, \<open>Some\<close> the one built from a pack
  entry.
\<close>

section \<open>Daily drawdown\<close>

abbreviation daily_drawdown_info :: rule_info where
  "daily_drawdown_info \<equiv>
     \<lparr> ri_key = ''daily_drawdown'', ri_name = ''Daily Drawdown'', ri_kind = DailyDrawdown \<rparr>"

definition daily_drawdown_effective_pct :: "rule_params option \<Rightarrow> rule_context \<Rightarrow> decimal" where
  "daily_drawdown_effective_pct ps ctx =
     (case param_value ps of Some v \<Rightarrow> v | None \<Rightarrow> max_daily_drawdown_pct (plan (c_account ctx)))"

definition daily_drawdown_is_enabled :: "rule_params option \<Rightarrow> rule_context \<Rightarrow> bool option" where
  "daily_drawdown_is_enabled ps ctx =
     Some (if param_disabled ps then False else daily_drawdown_effective_pct ps ctx > 0)"

text \<open>The reference amount of the limit and the amount the drop is measured from.\<close>

definition daily_drawdown_reference :: "daily_loss_type \<Rightarrow> account \<Rightarrow> (money \<times> money) option" where
  "daily_drawdown_reference lt a =
     (let day_start = (if drawdown_on_balance (plan a) then day_start_balance a else day_start_equity a);
          intraday_peak = (if drawdown_on_balance (plan a) then peak_balance a else intraday_peak_equity a)
      in case lt of
           DailyLossNone \<Rightarrow> None
         | PctInitial \<Rightarrow> Some (initial_balance a, day_start)
         | PctPriorDay \<Rightarrow> Some (day_start, day_start)
         | TrailingIntradayHigh \<Rightarrow> Some (intraday_peak, intraday_peak))"

definition daily_drawdown_evaluate ::
  "ext \<Rightarrow> rule_params option \<Rightarrow> rule_context \<Rightarrow> rule_verdict res option" where
  "daily_drawdown_evaluate E ps ctx =
     (let a = c_account ctx; plan_pct = daily_drawdown_effective_pct ps ctx in
      if plan_pct \<le> 0 then ok Pass
      else case require_started ctx of
        Inl m \<Rightarrow> ok (GapFlagged (build_violation E daily_drawdown_info ctx Info m))
      | Inr _ \<Rightarrow>
      case require_broker_equity ctx of
        Inl m \<Rightarrow> ok (GapFlagged (build_violation E daily_drawdown_info ctx Info m))
      | Inr _ \<Rightarrow>
      case daily_drawdown_reference (daily_loss_type (plan a)) a of
        None \<Rightarrow> ok Pass
      | Some (reference, base) \<Rightarrow> do {
          let current = (if drawdown_on_balance (plan a) then balance a else equity a);
          d \<leftarrow> dsub E base current;
          let dd = max d 0;
          limit \<leftarrow> dmul E plan_pct reference;
          tolerance \<leftarrow> tolerance_money E (param_tolerance ps 1);
          bound \<leftarrow> dadd E limit tolerance;
          if dd > bound then do {
            shown \<leftarrow> dmul E plan_pct 100;
            let sev = (if daily_loss_soft (plan a) then Warning else LiquidateSev);
            v \<leftarrow> with_breach E
                  (build_violation E daily_drawdown_info ctx sev
                     (Fmt ''daily_drawdown.breach'' [MDec dd, MDec limit, MDec tolerance, MDec shown]))
                  dd limit;
            ok (if daily_loss_soft (plan a) then EarlyWarning v else Liquidate v) }
          else do {
            warn_threshold \<leftarrow> dmul E limit (param_early_warning ps (8/10));
            if dd \<ge> warn_threshold then do {
              q \<leftarrow> ddiv E dd limit;
              p \<leftarrow> dmul E q 100;
              v \<leftarrow> with_breach E
                    (build_violation E daily_drawdown_info ctx Warning
                       (Fmt ''daily_drawdown.warn''
                          [MDec dd, MDec limit, MDec reference, MDec (dround_dp E p 2)]))
                    dd limit;
              ok (EarlyWarning v) }
            else ok Pass }
        })"

definition daily_drawdown_rule :: "ext \<Rightarrow> rule_params option \<Rightarrow> rule" where
  "daily_drawdown_rule E ps =
     \<lparr> r_info = daily_drawdown_info, r_scope = TickScope, r_severity = Hard,
       r_priority = param_priority ps 900, r_tolerance_cents = param_tolerance ps 1,
       r_params = ps, r_is_enabled = daily_drawdown_is_enabled ps,
       r_evaluate = daily_drawdown_evaluate E ps \<rparr>"

section \<open>Maximum drawdown\<close>

abbreviation max_drawdown_info :: rule_info where
  "max_drawdown_info \<equiv>
     \<lparr> ri_key = ''max_drawdown'', ri_name = ''Maximum Drawdown'', ri_kind = MaxDrawdown \<rparr>"

definition max_drawdown_effective_basis :: "rule_params option \<Rightarrow> rule_context \<Rightarrow> loss_reference" where
  "max_drawdown_effective_basis ps ctx =
     (case Option.bind ps rp_basis of Some b \<Rightarrow> b | None \<Rightarrow> max_loss_reference (plan (c_account ctx)))"

abbreviation loss_reference_amount :: "loss_reference \<Rightarrow> account \<Rightarrow> money" where
  "loss_reference_amount b a \<equiv>
     (case b of
        Static \<Rightarrow> initial_balance a
      | Trailing \<Rightarrow> peak_balance a
      | EodTrailing \<Rightarrow> day_start_balance a
      | IntradayTrail \<Rightarrow> if drawdown_on_balance (plan a) then peak_balance a else peak_equity a)"

definition max_drawdown_effective_pct :: "ext \<Rightarrow> rule_params option \<Rightarrow> rule_context \<Rightarrow> decimal option" where
  "max_drawdown_effective_pct E ps ctx =
     (case param_value ps of
        None \<Rightarrow> Some (max_total_drawdown_pct (plan (c_account ctx)))
      | Some v \<Rightarrow>
          if Option.bind ps rp_unit = Some MoneyUnit
          then let reference = loss_reference_amount (max_drawdown_effective_basis ps ctx) (c_account ctx)
               in if reference = 0 then Some v else ddiv E v reference
          else Some v)"

definition max_drawdown_is_enabled :: "ext \<Rightarrow> rule_params option \<Rightarrow> rule_context \<Rightarrow> bool option" where
  "max_drawdown_is_enabled E ps ctx =
     (if param_disabled ps then Some False
      else do { p \<leftarrow> max_drawdown_effective_pct E ps ctx; Some (p > 0) })"

definition max_drawdown_floor :: "ext \<Rightarrow> loss_reference \<Rightarrow> decimal \<Rightarrow> account \<Rightarrow> money option" where
  "max_drawdown_floor E basis plan_pct a =
     (case basis of
        EodTrailing \<Rightarrow> do {
          buffer \<leftarrow> dmul E plan_pct (initial_balance a);
          unlocked \<leftarrow> dsub E (day_start_balance a) buffer;
          Some (if eod_trail_locks_at_start (plan a) then min unlocked (initial_balance a) else unlocked) }
      | _ \<Rightarrow> do {
          let reference = loss_reference_amount basis a;
          x \<leftarrow> dmul E plan_pct reference;
          dsub E reference x })"

definition max_drawdown_evaluate ::
  "ext \<Rightarrow> rule_params option \<Rightarrow> rule_context \<Rightarrow> rule_verdict res option" where
  "max_drawdown_evaluate E ps ctx = do {
     let a = c_account ctx;
     plan_pct \<leftarrow> max_drawdown_effective_pct E ps ctx;
     if plan_pct \<le> 0 then ok Pass
     else case require_started ctx of
       Inl m \<Rightarrow> ok (GapFlagged (build_violation E max_drawdown_info ctx Info m))
     | Inr _ \<Rightarrow>
     case require_broker_equity ctx of
       Inl m \<Rightarrow> ok (GapFlagged (build_violation E max_drawdown_info ctx Info m))
     | Inr broker_eq \<Rightarrow> do {
         let basis = max_drawdown_effective_basis ps ctx;
         let current = (if drawdown_on_balance (plan a) then balance a else broker_eq);
         let reference = loss_reference_amount basis a;
         floor \<leftarrow> max_drawdown_floor E basis plan_pct a;
         d \<leftarrow> dsub E reference current;
         let dd = max d 0;
         l \<leftarrow> dsub E reference floor;
         let limit_dollars = max l 0;
         tolerance \<leftarrow> tolerance_money E (param_tolerance ps 1);
         cut \<leftarrow> dsub E floor tolerance;
         if current < cut then do {
           shown \<leftarrow> dmul E plan_pct 100;
           v \<leftarrow> with_breach E
                 (build_violation E max_drawdown_info ctx LiquidateSev
                    (Fmt ''max_drawdown.breach'' [MDec current, MDec floor, MDec tolerance, MDec shown]))
                 dd limit_dollars;
           ok (Liquidate v) }
         else do {
           w \<leftarrow> dmul E limit_dollars (param_early_warning ps (8/10));
           warn \<leftarrow> dadd E floor w;
           if current \<le> warn then do {
             q \<leftarrow> ddiv E dd (max limit_dollars 1);
             p \<leftarrow> dmul E q 100;
             v \<leftarrow> with_breach E
                   (build_violation E max_drawdown_info ctx Warning
                      (Fmt ''max_drawdown.warn'' [MDec dd, MDec limit_dollars, MDec (dround_dp E p 2)]))
                   dd limit_dollars;
             ok (EarlyWarning v) }
           else ok Pass } } }"

definition max_drawdown_rule :: "ext \<Rightarrow> rule_params option \<Rightarrow> rule" where
  "max_drawdown_rule E ps =
     \<lparr> r_info = max_drawdown_info, r_scope = TickScope, r_severity = Hard,
       r_priority = param_priority ps 1000, r_tolerance_cents = param_tolerance ps 1,
       r_params = ps, r_is_enabled = max_drawdown_is_enabled E ps,
       r_evaluate = max_drawdown_evaluate E ps \<rparr>"

section \<open>Trailing drawdown\<close>

abbreviation trailing_drawdown_info :: rule_info where
  "trailing_drawdown_info \<equiv>
     \<lparr> ri_key = ''trailing_drawdown'', ri_name = ''Trailing Drawdown'', ri_kind = TrailingDrawdown \<rparr>"

definition effective_trail_money :: "ext \<Rightarrow> rule_params option \<Rightarrow> rule_context \<Rightarrow> money option res option" where
  "effective_trail_money E ps ctx =
     (let a = c_account ctx in
      case ps of
        Some p \<Rightarrow>
          if \<not> rp_enabled p then ok None
          else (case rp_value p of
                  None \<Rightarrow> ok None
                | Some v \<Rightarrow>
                    if rp_unit p = Some MoneyUnit then ok (Some v)
                    else do { m \<leftarrow> dmul E v (peak_equity a); ok (Some m) })
      | None \<Rightarrow>
          if \<not> trailing_drawdown_enabled (plan a) then ok None
          else do { m \<leftarrow> dmul E (trailing_drawdown_pct (plan a)) (peak_equity a); ok (Some m) })"

definition trailing_drawdown_is_enabled :: "rule_params option \<Rightarrow> rule_context \<Rightarrow> bool option" where
  "trailing_drawdown_is_enabled ps ctx =
     Some (case ps of
        Some p \<Rightarrow> if \<not> rp_enabled p then False else rp_value p \<noteq> None
      | None \<Rightarrow> trailing_drawdown_enabled (plan (c_account ctx))
                \<and> trailing_drawdown_pct (plan (c_account ctx)) > 0)"

definition trailing_drawdown_evaluate ::
  "ext \<Rightarrow> rule_params option \<Rightarrow> rule_context \<Rightarrow> rule_verdict res option" where
  "trailing_drawdown_evaluate E ps ctx =
     try_op (map_err (\<lambda>e. RuleEval (Fmt ''trailing_drawdown: {e}'' [error_msg e])) (effective_trail_money E ps ctx))
       (\<lambda>t. case t of
          None \<Rightarrow> ok Pass
        | Some trail_amount \<Rightarrow>
          (case require_started ctx of
             Inl m \<Rightarrow> ok (GapFlagged (build_violation E trailing_drawdown_info ctx Info m))
           | Inr _ \<Rightarrow>
           case require_broker_equity ctx of
             Inl m \<Rightarrow> ok (GapFlagged (build_violation E trailing_drawdown_info ctx Info m))
           | Inr eq \<Rightarrow> do {
               floor \<leftarrow> dsub E (peak_equity (c_account ctx)) trail_amount;
               if eq < floor then do {
                 breach \<leftarrow> dsub E floor eq;
                 v \<leftarrow> with_breach E
                       (build_violation E trailing_drawdown_info ctx LiquidateSev
                          (Fmt ''trailing_drawdown.breach'' [MDec eq, MDec floor, MDec trail_amount]))
                       breach trail_amount;
                 ok (Liquidate v) }
               else do {
                 w \<leftarrow> dmul E trail_amount (2/10);
                 warn_floor \<leftarrow> dadd E floor w;
                 if eq < warn_floor then do {
                   gap \<leftarrow> dsub E warn_floor eq;
                   v \<leftarrow> with_breach E
                         (build_violation E trailing_drawdown_info ctx Warning
                            (Fmt ''trailing_drawdown.warn'' [MDec eq, MDec floor]))
                         gap trail_amount;
                   ok (EarlyWarning v) }
                 else ok Pass } }))"

definition trailing_drawdown_rule :: "ext \<Rightarrow> rule_params option \<Rightarrow> rule" where
  "trailing_drawdown_rule E ps =
     \<lparr> r_info = trailing_drawdown_info, r_scope = TickScope, r_severity = Hard,
       r_priority = 100, r_tolerance_cents = 1, r_params = ps,
       r_is_enabled = trailing_drawdown_is_enabled ps,
       r_evaluate = trailing_drawdown_evaluate E ps \<rparr>"

section \<open>Per-trade maximum loss\<close>

abbreviation per_trade_max_loss_info :: rule_info where
  "per_trade_max_loss_info \<equiv>
     \<lparr> ri_key = ''per_trade_max_loss'', ri_name = ''Per-Trade Max Loss'', ri_kind = Custom \<rparr>"

definition per_trade_limit_money :: "ext \<Rightarrow> rule_params option \<Rightarrow> rule_context \<Rightarrow> money option res option" where
  "per_trade_limit_money E ps ctx =
     (let a = c_account ctx in
      case ps of
        Some p \<Rightarrow>
          if rp_unit p = Some MoneyUnit
          then ok (Some (case rp_value p of Some v \<Rightarrow> v | None \<Rightarrow> 0))
          else effective_money E p ''per_trade_max_loss'' (balance a)
      | None \<Rightarrow> do {
          pct_limit \<leftarrow> (case per_trade_max_loss_pct (plan a) of
              None \<Rightarrow> Some None
            | Some p \<Rightarrow> do { m \<leftarrow> dmul E p (balance a); Some (Some m) });
          ok (case (pct_limit, per_trade_max_loss_money (plan a)) of
                (Some x, Some y) \<Rightarrow> Some (min x y)
              | (Some x, None) \<Rightarrow> Some x
              | (None, Some y) \<Rightarrow> Some y
              | (None, None) \<Rightarrow> None) })"

definition per_trade_max_loss_is_enabled :: "rule_params option \<Rightarrow> rule_context \<Rightarrow> bool option" where
  "per_trade_max_loss_is_enabled ps ctx =
     Some (case ps of
        Some p \<Rightarrow> if \<not> rp_enabled p then False else rp_value p \<noteq> None
      | None \<Rightarrow> per_trade_max_loss_pct (plan (c_account ctx)) \<noteq> None
                \<or> per_trade_max_loss_money (plan (c_account ctx)) \<noteq> None)"

definition per_trade_max_loss_evaluate ::
  "ext \<Rightarrow> rule_params option \<Rightarrow> rule_context \<Rightarrow> rule_verdict res option" where
  "per_trade_max_loss_evaluate E ps ctx =
     (case c_latest_trade ctx of
        None \<Rightarrow> ok Pass
      | Some t \<Rightarrow>
          if t_trade_side t \<noteq> Exit then ok Pass
          else case t_exit_info t of
            None \<Rightarrow> ok Pass
          | Some x \<Rightarrow>
              let loss = x_realized_pnl x in
              if loss \<ge> 0 then ok Pass
              else try_op (per_trade_limit_money E ps ctx) (\<lambda>lim. case lim of
                  None \<Rightarrow> ok Pass
                | Some max_loss \<Rightarrow> do {
                    tol \<leftarrow> tolerance_money E (param_tolerance ps 1);
                    bound \<leftarrow> dadd E max_loss tol;
                    if \<bar>loss\<bar> > bound then
                      (let sev = (if equity_is_broker_reported ctx then LiquidateSev else Warning);
                           v = build_violation E per_trade_max_loss_info ctx sev
                                 (Fmt ''per_trade_max_loss.breach'' [MDec \<bar>loss\<bar>, MDec max_loss])
                       in ok (if sev = LiquidateSev then Liquidate v else Warn v))
                    else do {
                      warn_threshold \<leftarrow> dmul E max_loss (8/10);
                      if \<bar>loss\<bar> \<ge> warn_threshold
                      then ok (EarlyWarning (build_violation E per_trade_max_loss_info ctx Warning
                             (Fmt ''per_trade_max_loss.warn'' [MDec \<bar>loss\<bar>, MDec max_loss])))
                      else ok Pass } }))"

definition per_trade_max_loss_rule :: "ext \<Rightarrow> rule_params option \<Rightarrow> rule" where
  "per_trade_max_loss_rule E ps =
     \<lparr> r_info = per_trade_max_loss_info, r_scope = PostTrade, r_severity = Hard,
       r_priority = param_priority ps 800, r_tolerance_cents = param_tolerance ps 1,
       r_params = ps, r_is_enabled = per_trade_max_loss_is_enabled ps,
       r_evaluate = per_trade_max_loss_evaluate E ps \<rparr>"

section \<open>Profit target\<close>

abbreviation profit_target_info :: rule_info where
  "profit_target_info \<equiv>
     \<lparr> ri_key = ''profit_target'', ri_name = ''Profit Target'', ri_kind = ProfitTargetMissed \<rparr>"

definition profit_target_is_enabled :: "rule_params option \<Rightarrow> rule_context \<Rightarrow> bool option" where
  "profit_target_is_enabled ps ctx =
     Some (case ps of Some p \<Rightarrow> rp_enabled p | None \<Rightarrow> profit_target_pct (plan (c_account ctx)) > 0)"

abbreviation profit_target_amount :: "ext \<Rightarrow> rule_params option \<Rightarrow> rule_context \<Rightarrow> money option" where
  "profit_target_amount E ps ctx \<equiv>
     (let a = c_account ctx in
      case param_value ps of
        Some v \<Rightarrow> if Option.bind ps rp_unit = Some MoneyUnit then Some v else dmul E v (initial_balance a)
      | None \<Rightarrow> profit_target E a)"

definition profit_target_evaluate ::
  "ext \<Rightarrow> rule_params option \<Rightarrow> rule_context \<Rightarrow> rule_verdict res option" where
  "profit_target_evaluate E ps ctx =
     (let a = c_account ctx in
      if param_disabled ps then ok Pass
      else do {
        target \<leftarrow> profit_target_amount E ps ctx;
        if target \<le> 0 then ok Pass
        else do {
          net \<leftarrow> net_profit E a;
          if target_reached_at a = None \<and> net \<ge> target then do {
            v \<leftarrow> with_breach E
                  (build_violation E profit_target_info ctx Info
                     (Fmt ''profit_target.reached'' [MDec net, MDec target]))
                  (max net 0) target;
            ok (TargetHit v) }
          else if target_reached_at a \<noteq> None then ok Pass
          else case deadline a of
            None \<Rightarrow> ok Pass
          | Some dl \<Rightarrow>
              if c_server_time ctx > dl then do {
                v \<leftarrow> with_breach E
                      (build_violation E profit_target_info ctx Hard
                         (Fmt ''profit_target.expired'' [MDec net, MDec target]))
                      target target;
                ok (Fail v) }
              else ok Pass } })"

definition profit_target_rule :: "ext \<Rightarrow> rule_params option \<Rightarrow> rule" where
  "profit_target_rule E ps =
     \<lparr> r_info = profit_target_info, r_scope = TickScope, r_severity = Info, r_priority = 100,
       r_tolerance_cents = 1, r_params = ps, r_is_enabled = profit_target_is_enabled ps,
       r_evaluate = profit_target_evaluate E ps \<rparr>"

section \<open>Consistency\<close>

abbreviation consistency_info :: rule_info where
  "consistency_info \<equiv> \<lparr> ri_key = ''consistency'', ri_name = ''Consistency'', ri_kind = Consistency \<rparr>"

definition consistency_effective_cap :: "ext \<Rightarrow> rule_params option \<Rightarrow> rule_context \<Rightarrow> decimal option res option" where
  "consistency_effective_cap E ps ctx =
     (let a = c_account ctx in
      case ps of
        Some p \<Rightarrow>
          if \<not> rp_enabled p then ok None
          else if rp_value p = None then ok None
          else if sum_positive_days_profit a = 0 then ok None
          else try_op (effective_pct E p ''consistency'' (sum_positive_days_profit a)) (\<lambda>x. ok (Some x))
      | None \<Rightarrow> ok (consistency_pct (plan a)))"

definition consistency_effective_severity :: "rule_params option \<Rightarrow> violation_severity" where
  "consistency_effective_severity ps =
     (case Option.bind ps rp_severity of
        Some s \<Rightarrow> if s = ''hard'' \<or> s = ''liquidate'' then Hard else Warning
      | None \<Rightarrow> Warning)"

definition consistency_is_enabled :: "rule_params option \<Rightarrow> rule_context \<Rightarrow> bool option" where
  "consistency_is_enabled ps ctx =
     (let pl = plan (c_account ctx) in
      Some (case ps of
          Some p \<Rightarrow> if \<not> rp_enabled p then False else rp_value p \<noteq> None
        | None \<Rightarrow>
            if plan_phase pl = FundedPhase \<and> \<not> consistency_applies_on_funded_stage pl then False
            else consistency_pct pl \<noteq> None))"

abbreviation consistency_denominator :: "consistency_type \<Rightarrow> account \<Rightarrow> money option" where
  "consistency_denominator ct a \<equiv>
     (case ct of
        ConsistencyNone \<Rightarrow> None
      | BestDayPctOfTotal \<Rightarrow> Some (total_realized_pnl a)
      | BestDayPctOfPositiveDays \<Rightarrow> Some (sum_positive_days_profit a))"

definition consistency_evaluate ::
  "ext \<Rightarrow> rule_params option \<Rightarrow> rule_context \<Rightarrow> rule_verdict res option" where
  "consistency_evaluate E ps ctx =
     (let a = c_account ctx in
      case consistency_denominator (consistency_type (plan a)) a of
        None \<Rightarrow> ok Pass
      | Some total_profit \<Rightarrow>
        try_op (map_err (\<lambda>e. RuleEval (Fmt ''consistency: {e}'' [error_msg e])) (consistency_effective_cap E ps ctx))
          (\<lambda>c. case c of
             None \<Rightarrow> ok Pass
           | Some cap_pct \<Rightarrow>
               if total_profit \<le> 0 then ok Pass
               else if largest_day_profit a \<le> 0 then ok Pass
               else do {
                 cap \<leftarrow> dmul E cap_pct total_profit;
                 if largest_day_profit a > cap then do {
                   shown \<leftarrow> dmul E cap_pct 100;
                   v \<leftarrow> with_breach E
                         (build_violation E consistency_info ctx Warning
                            (Fmt ''consistency.exceeded'' [MDec (largest_day_profit a), MDec shown, MDec cap]))
                         (largest_day_profit a) cap;
                   ok (Warn v) }
                 else ok Pass }))"

definition consistency_rule :: "ext \<Rightarrow> rule_params option \<Rightarrow> rule" where
  "consistency_rule E ps =
     \<lparr> r_info = consistency_info, r_scope = Periodic, r_severity = consistency_effective_severity ps,
       r_priority = 100, r_tolerance_cents = 1, r_params = ps,
       r_is_enabled = consistency_is_enabled ps, r_evaluate = consistency_evaluate E ps \<rparr>"

section \<open>Minimum trading days\<close>

abbreviation min_trading_days_info :: rule_info where
  "min_trading_days_info \<equiv>
     \<lparr> ri_key = ''min_trading_days'', ri_name = ''Minimum Trading Days'', ri_kind = MinTradingDays \<rparr>"

text \<open>A count read from a pack entry; shared by the rules that convert with \<^verbatim>\<open>u32::try_from\<close>.\<close>

abbreviation pack_count :: "ext \<Rightarrow> string \<Rightarrow> rule_params \<Rightarrow> u32 option res option" where
  "pack_count E key p \<equiv>
     (if \<not> rp_enabled p then ok None
      else case rp_value p of
        None \<Rightarrow> ok None
      | Some v \<Rightarrow> try_op (ok_or (dto_u32 E v) (InvalidConfig (Fmt key [MDec v]))) (\<lambda>n. ok (Some n)))"

definition min_trading_days_effective :: "ext \<Rightarrow> rule_params option \<Rightarrow> rule_context \<Rightarrow> u32 option res option" where
  "min_trading_days_effective E ps ctx =
     (case ps of
        Some p \<Rightarrow> pack_count E ''min_trading_days.count'' p
      | None \<Rightarrow> ok (Some (min_trading_days (plan (c_account ctx)))))"

definition min_trading_days_is_enabled :: "rule_params option \<Rightarrow> rule_context \<Rightarrow> bool option" where
  "min_trading_days_is_enabled ps ctx =
     Some (case ps of
        Some p \<Rightarrow> if \<not> rp_enabled p then False else rp_value p \<noteq> None
      | None \<Rightarrow> min_trading_days (plan (c_account ctx)) > 0)"

definition day_count_verdict ::
  "ext \<Rightarrow> rule_info \<Rightarrow> rule_context \<Rightarrow> u32 \<Rightarrow> u32 \<Rightarrow> rule_verdict res option" where
  "day_count_verdict E ri ctx actual required =
     (if required = 0 then ok Pass
      else if actual \<ge> required then ok Pass
      else if (case deadline (c_account ctx) of None \<Rightarrow> False | Some dl \<Rightarrow> c_server_time ctx > dl \<and> actual < required)
      then ok (Fail (build_violation E ri ctx Hard
             (Fmt ''days.deadline'' [MInt (uint actual), MInt (uint required)])))
      else ok (Warn (build_violation E ri ctx Warning
             (Fmt ''days.incomplete'' [MInt (uint actual), MInt (uint required)]))))"

definition min_trading_days_evaluate ::
  "ext \<Rightarrow> rule_params option \<Rightarrow> rule_context \<Rightarrow> rule_verdict res option" where
  "min_trading_days_evaluate E ps ctx =
     (let a = c_account ctx in
      try_op (map_err (\<lambda>e. RuleEval (Fmt ''min_trading_days: {e}'' [error_msg e])) (min_trading_days_effective E ps ctx))
        (\<lambda>r. case r of
           None \<Rightarrow> ok Pass
         | Some required \<Rightarrow>
             let actual = (if qualifying_day_threshold_pct (plan a) \<noteq> None
                              \<or> qualifying_day_pnl_band_pct (plan a) \<noteq> None
                           then qualifying_trading_days_count a else active_trading_days a)
             in day_count_verdict E min_trading_days_info ctx actual required))"

definition min_trading_days_rule :: "ext \<Rightarrow> rule_params option \<Rightarrow> rule" where
  "min_trading_days_rule E ps =
     \<lparr> r_info = min_trading_days_info, r_scope = Periodic, r_severity = Warning, r_priority = 100,
       r_tolerance_cents = 1, r_params = ps, r_is_enabled = min_trading_days_is_enabled ps,
       r_evaluate = min_trading_days_evaluate E ps \<rparr>"

section \<open>Minimum profitable days\<close>

abbreviation min_profitable_days_info :: rule_info where
  "min_profitable_days_info \<equiv>
     \<lparr> ri_key = ''min_profitable_days'', ri_name = ''Minimum Profitable Trading Days'',
       ri_kind = MinProfitableDays \<rparr>"

definition min_profitable_days_effective :: "ext \<Rightarrow> rule_params option \<Rightarrow> rule_context \<Rightarrow> u32 option res option" where
  "min_profitable_days_effective E ps ctx =
     (case ps of
        Some p \<Rightarrow> pack_count E ''min_profitable_days.count'' p
      | None \<Rightarrow> ok (min_profitable_days (plan (c_account ctx))))"

definition min_profitable_days_is_enabled :: "rule_params option \<Rightarrow> rule_context \<Rightarrow> bool option" where
  "min_profitable_days_is_enabled ps ctx =
     Some (case ps of
        Some p \<Rightarrow> if \<not> rp_enabled p then False else rp_value p \<noteq> None
      | None \<Rightarrow> min_profitable_days (plan (c_account ctx)) \<noteq> None)"

definition min_profitable_days_evaluate ::
  "ext \<Rightarrow> rule_params option \<Rightarrow> rule_context \<Rightarrow> rule_verdict res option" where
  "min_profitable_days_evaluate E ps ctx =
     try_op (map_err (\<lambda>e. RuleEval (Fmt ''min_profitable_days: {e}'' [error_msg e])) (min_profitable_days_effective E ps ctx))
       (\<lambda>r. case r of
          None \<Rightarrow> ok Pass
        | Some required \<Rightarrow>
            day_count_verdict E min_profitable_days_info ctx (profitable_days_count (c_account ctx)) required)"

definition min_profitable_days_rule :: "ext \<Rightarrow> rule_params option \<Rightarrow> rule" where
  "min_profitable_days_rule E ps =
     \<lparr> r_info = min_profitable_days_info, r_scope = Periodic, r_severity = Warning, r_priority = 100,
       r_tolerance_cents = 1, r_params = ps, r_is_enabled = min_profitable_days_is_enabled ps,
       r_evaluate = min_profitable_days_evaluate E ps \<rparr>"

section \<open>Time limit\<close>

abbreviation time_limit_info :: rule_info where
  "time_limit_info \<equiv> \<lparr> ri_key = ''time_limit'', ri_name = ''Time Limit'', ri_kind = TimeLimit \<rparr>"

definition plan_deadline :: "ext \<Rightarrow> rule_context \<Rightarrow> timestamp option res option" where
  "plan_deadline E ctx =
     (let a = c_account ctx in
      case deadline a of
        Some dl \<Rightarrow> ok (Some dl)
      | None \<Rightarrow>
          (case time_limit_days (plan a) of
             None \<Rightarrow> ok None
           | Some days \<Rightarrow>
               (case started_at a of
                  None \<Rightarrow> err (InvalidState (Lit ''time_limit: plan has a time limit but the account was never started''))
                | Some start \<Rightarrow> do {
                    d \<leftarrow> dur_days E (uint days);
                    t \<leftarrow> ts_add E start d;
                    ok (Some t) })))"

definition effective_deadline :: "ext \<Rightarrow> rule_params option \<Rightarrow> rule_context \<Rightarrow> timestamp option res option" where
  "effective_deadline E ps ctx =
     (case ps of
        None \<Rightarrow> plan_deadline E ctx
      | Some p \<Rightarrow>
          if \<not> rp_enabled p then ok None
          else case rp_value p of
            None \<Rightarrow> plan_deadline E ctx
          | Some days \<Rightarrow>
              try_op (ok_or (dto_i64 E days) (InvalidConfig (Lit ''time_limit: pack value is not a valid day count'')))
                (\<lambda>n. do {
                   let start = (case started_at (c_account ctx) of Some s \<Rightarrow> s | None \<Rightarrow> utc_now E);
                   d \<leftarrow> dur_days E n;
                   t \<leftarrow> ts_add E start d;
                   ok (Some t) }))"

definition time_limit_is_enabled :: "rule_params option \<Rightarrow> rule_context \<Rightarrow> bool option" where
  "time_limit_is_enabled ps ctx =
     Some (case ps of
        Some p \<Rightarrow> rp_enabled p
      | None \<Rightarrow> time_limit_days (plan (c_account ctx)) \<noteq> None \<or> deadline (c_account ctx) \<noteq> None)"

definition time_limit_evaluate ::
  "ext \<Rightarrow> rule_params option \<Rightarrow> rule_context \<Rightarrow> rule_verdict res option" where
  "time_limit_evaluate E ps ctx =
     try_op (effective_deadline E ps ctx) (\<lambda>od. case od of
        None \<Rightarrow> ok Pass
      | Some dl \<Rightarrow>
          let now = c_server_time ctx in
          if now > dl
          then ok (Fail (build_violation E time_limit_info ctx Hard (Fmt ''time_limit.exceeded'' [MTime dl])))
          else (case started_at (c_account ctx) of
             None \<Rightarrow> ok Pass
           | Some start \<Rightarrow>
               if f64_ratio_above_09 (num_seconds E (now - start)) (max (num_seconds E (dl - start)) 1)
               then ok (Warn (build_violation E time_limit_info ctx Warning (Fmt ''time_limit.approaching'' [MTime dl])))
               else ok Pass))"

definition time_limit_rule :: "ext \<Rightarrow> rule_params option \<Rightarrow> rule" where
  "time_limit_rule E ps =
     \<lparr> r_info = time_limit_info, r_scope = TickScope, r_severity = Hard, r_priority = 100,
       r_tolerance_cents = 1, r_params = ps, r_is_enabled = time_limit_is_enabled ps,
       r_evaluate = time_limit_evaluate E ps \<rparr>"

section \<open>Inactivity\<close>

abbreviation inactivity_info :: rule_info where
  "inactivity_info \<equiv>
     \<lparr> ri_key = ''inactivity'', ri_name = ''Inactivity Termination'', ri_kind = Custom \<rparr>"

definition inactivity_effective_days :: "ext \<Rightarrow> rule_params option \<Rightarrow> rule_context \<Rightarrow> u32 option res option" where
  "inactivity_effective_days E ps ctx =
     (case ps of
        Some p \<Rightarrow> try_op (effective_count p ''inactivity'')
          (\<lambda>v. try_op (ok_or (dto_u32 E v) (InvalidConfig (Fmt ''inactivity.count'' [MDec v]))) (\<lambda>d. ok (Some d)))
      | None \<Rightarrow> ok (inactivity_days (plan (c_account ctx))))"

definition inactivity_is_enabled :: "rule_params option \<Rightarrow> rule_context \<Rightarrow> bool option" where
  "inactivity_is_enabled ps ctx =
     Some (case ps of Some p \<Rightarrow> rp_enabled p | None \<Rightarrow> inactivity_days (plan (c_account ctx)) \<noteq> None)"

definition inactivity_evaluate ::
  "ext \<Rightarrow> rule_params option \<Rightarrow> rule_context \<Rightarrow> rule_verdict res option" where
  "inactivity_evaluate E ps ctx =
     try_op (inactivity_effective_days E ps ctx) (\<lambda>od. case od of
        None \<Rightarrow> ok Pass
      | Some days \<Rightarrow>
          if days = 0 then ok Pass
          else (case last_trade_at (c_account ctx) of
             None \<Rightarrow>
               (case started_at (c_account ctx) of
                  None \<Rightarrow> ok Pass
                | Some started \<Rightarrow>
                    if num_days E (c_server_time ctx - started) \<ge> uint days
                    then ok (Fail (build_violation E inactivity_info ctx Hard
                           (Fmt ''inactivity.never'' [MInt (uint days)])))
                    else ok Pass)
           | Some last_activity \<Rightarrow>
               let idle_days = num_days E (c_server_time ctx - last_activity) in
               if idle_days \<ge> uint days
               then ok (Fail (build_violation E inactivity_info ctx Hard
                      (Fmt ''inactivity.idle'' [MInt idle_days, MInt (uint days)])))
               else if idle_days \<ge> uint (if days = 0 then 0 else days - 1)
               then ok (Warn (build_violation E inactivity_info ctx Warning
                      (Fmt ''inactivity.warn'' [MInt idle_days, MInt (uint days)])))
               else ok Pass))"

definition inactivity_rule :: "ext \<Rightarrow> rule_params option \<Rightarrow> rule" where
  "inactivity_rule E ps =
     \<lparr> r_info = inactivity_info, r_scope = Periodic, r_severity = Hard,
       r_priority = param_priority ps 500, r_tolerance_cents = 0, r_params = ps,
       r_is_enabled = inactivity_is_enabled ps, r_evaluate = inactivity_evaluate E ps \<rparr>"

section \<open>Every rule keeps the contract\<close>

lemma daily_drawdown_verdict_ok: "returns (verdict_ok E daily_drawdown_info ctx) (daily_drawdown_evaluate E ps ctx)"
  unfolding daily_drawdown_evaluate_def Let_def
  by (intro returns_intros) (auto simp: verdict_ok_def equity_is_broker_reported_def dest: broker_required)

lemma daily_drawdown_breach:
  "returns (\<lambda>v. is_terminating v \<longrightarrow> is_broker_reported (c_equity_input ctx)) (daily_drawdown_evaluate E ps ctx)"
  unfolding daily_drawdown_evaluate_def Let_def
  by (intro returns_intros) (auto simp: equity_is_broker_reported_def dest: broker_required)

interpretation daily_drawdown: breach_contract E "daily_drawdown_rule E ps" for E ps
  by unfold_locales (simp_all add: daily_drawdown_rule_def daily_drawdown_verdict_ok daily_drawdown_breach)

lemma max_drawdown_verdict_ok: "returns (verdict_ok E max_drawdown_info ctx) (max_drawdown_evaluate E ps ctx)"
  unfolding max_drawdown_evaluate_def Let_def
  by (intro returns_intros) (auto simp: verdict_ok_def equity_is_broker_reported_def dest: broker_required)

lemma max_drawdown_breach:
  "returns (\<lambda>v. is_terminating v \<longrightarrow> is_broker_reported (c_equity_input ctx)) (max_drawdown_evaluate E ps ctx)"
  unfolding max_drawdown_evaluate_def Let_def
  by (intro returns_intros) (auto simp: equity_is_broker_reported_def dest: broker_required)

interpretation max_drawdown: breach_contract E "max_drawdown_rule E ps" for E ps
  by unfold_locales (simp_all add: max_drawdown_rule_def max_drawdown_verdict_ok max_drawdown_breach)

lemma trailing_drawdown_verdict_ok: "returns (verdict_ok E trailing_drawdown_info ctx) (trailing_drawdown_evaluate E ps ctx)"
  unfolding trailing_drawdown_evaluate_def Let_def
  by (intro returns_intros) (auto simp: verdict_ok_def equity_is_broker_reported_def dest: broker_required)

lemma trailing_drawdown_breach:
  "returns (\<lambda>v. is_terminating v \<longrightarrow> is_broker_reported (c_equity_input ctx)) (trailing_drawdown_evaluate E ps ctx)"
  unfolding trailing_drawdown_evaluate_def Let_def
  by (intro returns_intros) (auto simp: equity_is_broker_reported_def dest: broker_required)

interpretation trailing_drawdown: breach_contract E "trailing_drawdown_rule E ps" for E ps
  by unfold_locales (simp_all add: trailing_drawdown_rule_def trailing_drawdown_verdict_ok trailing_drawdown_breach)

lemma per_trade_max_loss_verdict_ok: "returns (verdict_ok E per_trade_max_loss_info ctx) (per_trade_max_loss_evaluate E ps ctx)"
  unfolding per_trade_max_loss_evaluate_def Let_def
  by (intro returns_intros) (auto simp: verdict_ok_def equity_is_broker_reported_def dest: broker_required)

lemma per_trade_max_loss_breach:
  "returns (\<lambda>v. is_terminating v \<longrightarrow> is_broker_reported (c_equity_input ctx)) (per_trade_max_loss_evaluate E ps ctx)"
  unfolding per_trade_max_loss_evaluate_def Let_def
  by (intro returns_intros) (auto simp: equity_is_broker_reported_def dest: broker_required)

interpretation per_trade_max_loss: breach_contract E "per_trade_max_loss_rule E ps" for E ps
  by unfold_locales (simp_all add: per_trade_max_loss_rule_def per_trade_max_loss_verdict_ok per_trade_max_loss_breach)

lemma profit_target_verdict_ok: "returns (verdict_ok E profit_target_info ctx) (profit_target_evaluate E ps ctx)"
  unfolding profit_target_evaluate_def Let_def
  by (intro returns_intros) (auto simp: verdict_ok_def equity_is_broker_reported_def dest: broker_required)

interpretation profit_target: rule_contract E "profit_target_rule E ps" for E ps
  by unfold_locales (simp add: profit_target_rule_def profit_target_verdict_ok)

lemma consistency_verdict_ok: "returns (verdict_ok E consistency_info ctx) (consistency_evaluate E ps ctx)"
  unfolding consistency_evaluate_def Let_def
  by (intro returns_intros) (auto simp: verdict_ok_def equity_is_broker_reported_def dest: broker_required)

interpretation consistency: rule_contract E "consistency_rule E ps" for E ps
  by unfold_locales (simp add: consistency_rule_def consistency_verdict_ok)

lemma min_trading_days_verdict_ok: "returns (verdict_ok E min_trading_days_info ctx) (min_trading_days_evaluate E ps ctx)"
  unfolding min_trading_days_evaluate_def day_count_verdict_def Let_def
  by (intro returns_intros) (auto simp: verdict_ok_def equity_is_broker_reported_def dest: broker_required)

interpretation min_trading_days: rule_contract E "min_trading_days_rule E ps" for E ps
  by unfold_locales (simp add: min_trading_days_rule_def min_trading_days_verdict_ok)

lemma min_profitable_days_verdict_ok: "returns (verdict_ok E min_profitable_days_info ctx) (min_profitable_days_evaluate E ps ctx)"
  unfolding min_profitable_days_evaluate_def day_count_verdict_def Let_def
  by (intro returns_intros) (auto simp: verdict_ok_def equity_is_broker_reported_def dest: broker_required)

interpretation min_profitable_days: rule_contract E "min_profitable_days_rule E ps" for E ps
  by unfold_locales (simp add: min_profitable_days_rule_def min_profitable_days_verdict_ok)

lemma time_limit_verdict_ok: "returns (verdict_ok E time_limit_info ctx) (time_limit_evaluate E ps ctx)"
  unfolding time_limit_evaluate_def Let_def
  by (intro returns_intros) (auto simp: verdict_ok_def equity_is_broker_reported_def dest: broker_required)

interpretation time_limit: rule_contract E "time_limit_rule E ps" for E ps
  by unfold_locales (simp add: time_limit_rule_def time_limit_verdict_ok)

lemma inactivity_verdict_ok: "returns (verdict_ok E inactivity_info ctx) (inactivity_evaluate E ps ctx)"
  unfolding inactivity_evaluate_def Let_def
  by (intro returns_intros) (auto simp: verdict_ok_def equity_is_broker_reported_def dest: broker_required)

interpretation inactivity: rule_contract E "inactivity_rule E ps" for E ps
  by unfold_locales (simp add: inactivity_rule_def inactivity_verdict_ok)

section \<open>When the loss limits are breached\<close>

lemma drop_bounds:
  fixes r c :: rat
  shows "\<bar>r\<bar> \<le> a \<Longrightarrow> \<bar>c\<bar> \<le> a \<Longrightarrow> \<bar>max (r - c) 0\<bar> \<le> 2 * a"
    and "r \<le> c \<or> c + 1 / 100 \<le> r \<Longrightarrow> max (r - c) 0 = 0 \<or> 1 / 100 \<le> \<bar>max (r - c) 0\<bar>"
  by (auto simp: max_def)

lemma range_breach:
  assumes "decimal_range E" "\<bar>b\<bar> \<le> a" "t = 0 \<or> 1 / 100 \<le> \<bar>t\<bar>" "a * 100 < 10 ^ 28"
  shows "\<exists>w. with_breach E v b t = Some w"
proof (cases "t = 0")
  case True
  then show ?thesis by (simp add: with_breach_def)
next
  case False
  obtain z where "ddiv E b t = Some z" by (rule range_div [OF assms(1,2), of 100 t]) (use assms(3,4) False in auto)
  then show ?thesis using False by (simp add: with_breach_def)
qed

text \<open>The figure the maximum drawdown is measured on, and its reference.\<close>

definition drawdown_current :: "rule_context \<Rightarrow> money" where
  "drawdown_current ctx =
     (if drawdown_on_balance (plan (c_account ctx)) then balance (c_account ctx) else ei_equity (c_equity_input ctx))"

abbreviation max_drawdown_reference :: "rule_params option \<Rightarrow> rule_context \<Rightarrow> money" where
  "max_drawdown_reference ps ctx \<equiv> loss_reference_amount (max_drawdown_effective_basis ps ctx) (c_account ctx)"

text \<open>
  C10. The maximum-drawdown rule returns, and it liquidates exactly below the floor. For a
  positive limit that is a percentage, a started account and broker-reported figures of
  plausible size, with a buffer that is empty or at least a cent, the rule neither panics
  nor returns an error, and its verdict is a liquidation exactly when the measured figure
  is below the floor of the loss basis minus the tolerance.
\<close>

theorem max_drawdown_breach_iff:
  assumes "decimal_range E" "sums_exact E" "Option.bind ps rp_unit \<noteq> Some MoneyUnit"
    and "max_drawdown_effective_pct E ps ctx = Some p" "0 < p"
    and "started_at (c_account ctx) \<noteq> None" "is_broker_reported (c_equity_input ctx)"
    and "max_drawdown_floor E (max_drawdown_effective_basis ps ctx) p (c_account ctx) = Some fl"
    and "tolerance_money E (param_tolerance ps 1) = Some tol"
    and "list_all plausible [p, max_drawdown_reference ps ctx, drawdown_current ctx, fl, tol, param_early_warning ps (8/10)]"
    and "max_drawdown_reference ps ctx \<le> fl \<or> fl + 1 / 100 \<le> max_drawdown_reference ps ctx"
  shows "\<exists>v. max_drawdown_evaluate E ps ctx = ok v \<and> ((\<exists>x. v = Liquidate x) \<longleftrightarrow> drawdown_current ctx < fl - tol)"
proof -
  let ?r = "max_drawdown_reference ps ctx" and ?c = "drawdown_current ctx"
  let ?dd = "max (?r - ?c) 0" and ?l = "max (?r - fl) 0" and ?w = "param_early_warning ps (8/10)"
  note E = assms(1)
  have b: "\<bar>p\<bar> \<le> 10 ^ 12" "\<bar>?r\<bar> \<le> 10 ^ 12" "\<bar>?c\<bar> \<le> 10 ^ 12" "\<bar>fl\<bar> \<le> 10 ^ 12" "\<bar>tol\<bar> \<le> 10 ^ 12" "\<bar>?w\<bar> \<le> 10 ^ 12"
    using assms(10) by (simp_all add: plausible_def)
  have sub: "dsub E ?r ?c = Some (?r - ?c)" "dsub E ?r fl = Some (?r - fl)" "dsub E fl tol = Some (fl - tol)"
    by (intro plausible_sums(2) [OF E assms(2)] b)+
  have dd: "\<bar>?dd\<bar> \<le> 2 * 10 ^ 12" and l: "\<bar>?l\<bar> \<le> 2 * 10 ^ 12" "?l = 0 \<or> 1 / 100 \<le> \<bar>?l\<bar>" 
    using drop_bounds(1) [OF b(2,3)] drop_bounds(1) [OF b(2,4)] drop_bounds(2) [OF assms(11)] by auto
  obtain s where s: "dmul E p 100 = Some s" by (rule range_mul [OF E b(1), of 100 100]) simp_all
  obtain w where w: "dmul E ?l ?w = Some w" "\<bar>w\<bar> \<le> 2 * 10 ^ 12 * 10 ^ 12 + 1" by (rule range_mul [OF E l(1) b(6)]) simp_all
  have warn: "dadd E fl w = Some (fl + w)" by (rule range_sum(1) [OF E assms(2)]) (use b(4) w(2) in simp)
  obtain q where q: "ddiv E ?dd (max ?l 1) = Some q" "\<bar>q\<bar> \<le> 2 * 10 ^ 12 * 1 + 1" by (rule range_div [OF E dd, of 1]) auto
  obtain u where u: "dmul E q 100 = Some u" by (rule range_mul [OF E q(2), of 100 100]) simp_all
  have "\<exists>x. with_breach E v ?dd ?l = Some x" for v by (rule range_breach [OF E dd l(2)]) simp_all
  then obtain breach where breach: "\<And>v. with_breach E v ?dd ?l = Some (breach v)" by metis
  obtain x y where eval: "max_drawdown_evaluate E ps ctx =
      (if ?c < fl - tol then ok (Liquidate x) else if ?c \<le> fl + w then ok (EarlyWarning y) else ok Pass)"
    unfolding max_drawdown_evaluate_def Let_def guards_pass [OF assms(6,7)] using assms(5)
    by (simp only: not_le [symmetric] assms(4,8,9) drawdown_current_def [symmetric] sub s w(1) warn q(1) u breach
        option.case sum.case Option.bind.simps if_False)
  then show ?thesis by auto
qed

theorem max_drawdown_breach_iff_witness:
  "\<exists>x. max_drawdown_evaluate (exact_env 0) None (demo_context 8999 10000) = ok (Liquidate x)"
  using max_drawdown_breach_iff [of "exact_env 0" None "demo_context 8999 10000" "1/10" 9000 "1/100"] exact_env_range exact_env_sums
  by (auto simp: demo_simps max_drawdown_effective_pct_def max_drawdown_effective_basis_def max_drawdown_floor_def plausible_def
      tolerance_money_def param_tolerance_def param_value_def param_early_warning_def drawdown_current_def)

text \<open>The drop of the day, measured from a base amount.\<close>

definition daily_drop :: "rule_context \<Rightarrow> money \<Rightarrow> money" where
  "daily_drop ctx base =
     max (base - (if drawdown_on_balance (plan (c_account ctx)) then balance (c_account ctx) else equity (c_account ctx))) 0"

text \<open>
  C21. The daily-drawdown rule returns, and each of its verdicts has one cause. For a positive
  limit that is a percentage and at least a cent in money, a started account and
  broker-reported figures of plausible size, the rule neither panics nor returns an error.
  It asks for liquidation exactly when the drop of the day exceeds the limit plus the
  tolerance and the plan does not make the daily loss soft. It warns when the drop exceeds
  that bound and the daily loss is soft, or stays within the bound and reaches the warning
  share of the limit, and it passes otherwise. With a warning share of at most one, a drop that reaches the limit
  never passes silently.
\<close>

theorem daily_drawdown_breach_iff:
  assumes "decimal_range E" "sums_exact E" "Option.bind ps rp_unit \<noteq> Some MoneyUnit" "0 < daily_drawdown_effective_pct ps ctx"
    and "started_at (c_account ctx) \<noteq> None" "is_broker_reported (c_equity_input ctx)"
    and "daily_drawdown_reference (daily_loss_type (plan (c_account ctx))) (c_account ctx) = Some (reference, base)"
    and "dmul E (daily_drawdown_effective_pct ps ctx) reference = Some limit" "1 / 100 \<le> limit"
    and "tolerance_money E (param_tolerance ps 1) = Some tol"
    and "list_all plausible [daily_drawdown_effective_pct ps ctx, base, balance (c_account ctx), equity (c_account ctx), limit, tol,
      param_early_warning ps (8/10)]"
  shows "\<exists>v w. daily_drawdown_evaluate E ps ctx = ok v \<and> dmul E limit (param_early_warning ps (8/10)) = Some w
     \<and> ((\<exists>x. v = Liquidate x) \<longleftrightarrow> limit + tol < daily_drop ctx base \<and> \<not> daily_loss_soft (plan (c_account ctx)))
     \<and> ((\<exists>x. v = EarlyWarning x) \<longleftrightarrow> (if limit + tol < daily_drop ctx base then daily_loss_soft (plan (c_account ctx)) else w \<le> daily_drop ctx base))
     \<and> (v = Pass \<longleftrightarrow> daily_drop ctx base \<le> limit + tol \<and> daily_drop ctx base < w)
     \<and> (fractions_shrink E \<and> 0 \<le> param_early_warning ps (8/10) \<and> param_early_warning ps (8/10) \<le> 1 \<longrightarrow>
          limit \<le> daily_drop ctx base \<longrightarrow> v \<noteq> Pass)"
proof -
  let ?c = "if drawdown_on_balance (plan (c_account ctx)) then balance (c_account ctx) else equity (c_account ctx)"
  let ?p = "daily_drawdown_effective_pct ps ctx" and ?dd = "daily_drop ctx base" and ?w = "param_early_warning ps (8/10)"
  note E = assms(1)
  have b: "\<bar>?p\<bar> \<le> 10 ^ 12" "\<bar>base\<bar> \<le> 10 ^ 12" "\<bar>?c\<bar> \<le> 10 ^ 12" "\<bar>limit\<bar> \<le> 10 ^ 12" "\<bar>tol\<bar> \<le> 10 ^ 12" "\<bar>?w\<bar> \<le> 10 ^ 12"
    using assms(11) by (simp_all add: plausible_def)
  have sub: "dsub E base ?c = Some (base - ?c)" by (rule plausible_sums(2) [OF E assms(2) b(2,3)])
  have add: "dadd E limit tol = Some (limit + tol)" by (rule plausible_sums(1) [OF E assms(2) b(4,5)])
  have dd: "\<bar>?dd\<bar> \<le> 2 * 10 ^ 12" unfolding daily_drop_def by (rule drop_bounds(1) [OF b(2,3)])
  have l: "1 / 100 \<le> \<bar>limit\<bar>" using assms(9) by simp
  obtain s where s: "dmul E ?p 100 = Some s" by (rule range_mul [OF E b(1), of 100 100]) simp_all
  obtain w where w: "dmul E limit ?w = Some w" by (rule range_mul [OF E b(4,6)]) simp_all
  obtain q where q: "ddiv E ?dd limit = Some q" "\<bar>q\<bar> \<le> 2 * 10 ^ 12 * 100 + 1" by (rule range_div [OF E dd l]) simp_all
  obtain u where u: "dmul E q 100 = Some u" by (rule range_mul [OF E q(2), of 100 100]) simp_all
  have "\<exists>x. with_breach E v ?dd limit = Some x" for v by (rule range_breach [OF E dd disjI2 [OF l]]) simp_all
  then obtain breach where breach: "\<And>v. with_breach E v ?dd limit = Some (breach v)" by metis
  have drop: "max (base - ?c) 0 = ?dd" by (simp add: daily_drop_def)
  obtain x y where eval: "daily_drawdown_evaluate E ps ctx =
      (if limit + tol < ?dd then ok (if daily_loss_soft (plan (c_account ctx)) then EarlyWarning x else Liquidate x)
       else if w \<le> ?dd then ok (EarlyWarning y) else ok Pass)"
    unfolding daily_drawdown_evaluate_def Let_def guards_pass [OF assms(5,6)] using assms(4)
    by (simp only: not_le [symmetric] assms(7,8,10) drop sub add s w q(1) u breach option.case sum.case prod.case Option.bind.simps if_False)
  have "w \<le> limit" if "fractions_shrink E" "0 \<le> ?w" "?w \<le> 1"
    using that w assms(9) unfolding fractions_shrink_def by (metis order_trans divide_nonneg_nonneg zero_le_numeral zero_le_one)
  then show ?thesis using w unfolding eval by (cases "limit + tol < ?dd"; cases "w \<le> ?dd") auto
qed

theorem daily_drawdown_breach_iff_witness:
  "\<exists>x. daily_drawdown_evaluate (exact_env 0) None (demo_context 9000 10000) = ok (Liquidate x)"
  using daily_drawdown_breach_iff [of "exact_env 0" None "demo_context 9000 10000" 10000 10000 500 "1/100"] exact_env_range exact_env_sums
  by (auto simp: demo_simps daily_drawdown_effective_pct_def daily_drawdown_reference_def plausible_def daily_drop_def
      tolerance_money_def param_tolerance_def param_value_def param_early_warning_def)

text \<open>
  Limits given in money are outside both statements. The daily rule ignores the unit of a
  pack entry, and with the end-of-day basis the maximum-drawdown rule normalises an amount
  by one reference and scales it by another.
\<close>

lemma daily_unit_ignored: "daily_drawdown_evaluate E (Some (p\<lparr>rp_unit := u\<rparr>)) ctx = daily_drawdown_evaluate E (Some p) ctx"
proof -
  have "param_value (Some (p\<lparr>rp_unit := u\<rparr>)) = param_value (Some p)" "param_tolerance (Some (p\<lparr>rp_unit := u\<rparr>)) = param_tolerance (Some p)"
      "param_early_warning (Some (p\<lparr>rp_unit := u\<rparr>)) = param_early_warning (Some p)"
    by (simp_all add: fun_eq_iff param_value_def param_tolerance_def param_early_warning_def)
  then show ?thesis by (simp only: daily_drawdown_evaluate_def daily_drawdown_effective_pct_def)
qed

lemma money_limit_scaled:
  assumes "max_drawdown_effective_basis ps ctx = EodTrailing" "Option.bind ps rp_unit = Some MoneyUnit" "param_value ps = Some v"
    and "day_start_balance (c_account ctx) \<noteq> 0" "\<not> eod_trail_locks_at_start (plan (c_account ctx))"
  obtains p where "max_drawdown_effective_pct (exact_env now) ps ctx = Some p"
    "max_drawdown_floor (exact_env now) EodTrailing p (c_account ctx) =
       Some (day_start_balance (c_account ctx) - v * initial_balance (c_account ctx) / day_start_balance (c_account ctx))"
  using assms by (simp add: max_drawdown_effective_pct_def max_drawdown_floor_def)

text \<open>
  With a trail amount, a started account and broker-reported figures, the
  trailing-drawdown rule never returns an error, and it asks for liquidation exactly when the
  reported equity is below the peak equity minus the trail.
\<close>

lemma trailing_drawdown_breach_iff:
  assumes "effective_trail_money E ps ctx = ok (Some trail)"
    and "started_at (c_account ctx) \<noteq> None" "is_broker_reported (c_equity_input ctx)"
    and "dsub E (peak_equity (c_account ctx)) trail = Some fl"
  shows "settles (\<lambda>v. (\<exists>x. v = Liquidate x) \<longleftrightarrow> ei_equity (c_equity_input ctx) < fl)
           (trailing_drawdown_evaluate E ps ctx)"
  unfolding trailing_drawdown_evaluate_def using assms guards_pass [OF assms(2,3)]
  by (auto intro!: settles_intros)

text \<open>
  The profit-target rule reports the target as hit exactly when the target is positive,
  the net profit has reached it and it has not been recorded before; once recorded, the rule
  passes whatever happens to the balance and the deadline.
\<close>

lemma target_hit_iff:
  assumes "\<not> param_disabled ps" "profit_target_amount E ps ctx = Some target" "net_profit E (c_account ctx) = Some net"
  shows "settles (\<lambda>v. ((\<exists>x. v = TargetHit x) \<longleftrightarrow> 0 < target \<and> target \<le> net \<and> target_reached_at (c_account ctx) = None)
             \<and> (target_reached_at (c_account ctx) \<noteq> None \<longrightarrow> v = Pass))
           (profit_target_evaluate E ps ctx)"
  unfolding profit_target_evaluate_def Let_def using assms
  by (intro settles_intros) auto

text \<open>
  The rules on the number of trading days and of profitable days fail an account exactly
  when it has too few days and its deadline has passed.
\<close>

lemma day_count_fails_iff:
  "(\<exists>x. day_count_verdict E ri ctx actual required = ok (Fail x)) \<longleftrightarrow>
     actual < required \<and> (\<exists>dl. deadline (c_account ctx) = Some dl \<and> dl < c_server_time ctx)"
  by (auto simp: day_count_verdict_def split: option.splits)

end
