(* ===== verification/Eval_Trading.thy ===== *)
theory Eval_Trading
  imports Rule_Base
begin

text \<open>
  The rules about orders, positions and trading style (\<^verbatim>\<open>src/rules/evaluators\<close>:
  \<^verbatim>\<open>news_trading.rs\<close>, \<^verbatim>\<open>overnight_holding.rs\<close>, \<^verbatim>\<open>weekend_holding.rs\<close>, \<^verbatim>\<open>max_position_size.rs\<close>,
  \<^verbatim>\<open>max_open_positions.rs\<close>, \<^verbatim>\<open>max_daily_trades.rs\<close>, \<^verbatim>\<open>cooldown.rs\<close>, \<^verbatim>\<open>hedging.rs\<close>,
  \<^verbatim>\<open>grid_trading.rs\<close>, \<^verbatim>\<open>copy_trading.rs\<close>, \<^verbatim>\<open>hft_scalping.rs\<close>, \<^verbatim>\<open>plan_caps.rs\<close>, \<^verbatim>\<open>sl_required.rs\<close>,
  \<^verbatim>\<open>tp_required.rs\<close>, \<^verbatim>\<open>cross_account_hedging.rs\<close>, \<^verbatim>\<open>lowcap_exposure.rs\<close>), in the layout of the
  risk rules.
\<close>

section \<open>News trading\<close>

abbreviation news_trading_info :: rule_info where
  "news_trading_info \<equiv> \<lparr> ri_key = ''news_trading'', ri_name = ''News Trading'', ri_kind = NewsTrading \<rparr>"

record news_event =
  ne_name :: string
  ne_weekday :: weekday
  ne_hour :: nat
  ne_minute :: nat

definition builtin_events :: "news_event list" where
  "builtin_events =
     [ \<lparr> ne_name = ''NFP'', ne_weekday = Fri, ne_hour = 12, ne_minute = 30 \<rparr>,
       \<lparr> ne_name = ''CPI'', ne_weekday = Wed, ne_hour = 12, ne_minute = 30 \<rparr>,
       \<lparr> ne_name = ''FOMC'', ne_weekday = Wed, ne_hour = 18, ne_minute = 0 \<rparr>,
       \<lparr> ne_name = ''ECB Rate'', ne_weekday = Thu, ne_hour = 11, ne_minute = 45 \<rparr>,
       \<lparr> ne_name = ''BOE Rate'', ne_weekday = Thu, ne_hour = 11, ne_minute = 0 \<rparr> ]"

fun num_days_from_monday :: "weekday \<Rightarrow> int" where
  "num_days_from_monday Mon = 0"
| "num_days_from_monday Tue = 1"
| "num_days_from_monday Wed = 2"
| "num_days_from_monday Thu = 3"
| "num_days_from_monday Fri = 4"
| "num_days_from_monday Sat = 5"
| "num_days_from_monday Sun = 6"

text \<open>The distance in minutes from a timestamp to the next occurrence of an event.\<close>

definition news_delta :: "ext \<Rightarrow> timestamp \<Rightarrow> news_event \<Rightarrow> int option" where
  "news_delta E ts e = do {
     let day_diff = (num_days_from_monday (ne_weekday e) - num_days_from_monday (utc_weekday E ts)) mod 7;
     d \<leftarrow> dur_days E day_diff;
     t \<leftarrow> ts_add E ts d;
     let event_utc = utc_at_time E (utc_date E t) (ne_hour e) (ne_minute e);
     Some \<bar>num_minutes E (ts - event_utc)\<bar> }"

fun first_news_event :: "ext \<Rightarrow> timestamp \<Rightarrow> int \<Rightarrow> news_event list \<Rightarrow> news_event option option" where
  "first_news_event E ts window [] = Some None"
| "first_news_event E ts window (e # es) = do {
     delta \<leftarrow> news_delta E ts e;
     if delta \<le> window then Some (Some e) else first_news_event E ts window es }"

definition within_news_window :: "ext \<Rightarrow> timestamp \<Rightarrow> int \<Rightarrow> news_event option option" where
  "within_news_window E ts window = first_news_event E ts window builtin_events"

definition news_trading_is_enabled :: "rule_params option \<Rightarrow> rule_context \<Rightarrow> bool option" where
  "news_trading_is_enabled ps ctx =
     Some (case ps of
        Some p \<Rightarrow> rp_enabled p \<and> \<not> news_trading_allowed (plan (c_account ctx))
      | None \<Rightarrow> \<not> news_trading_allowed (plan (c_account ctx)))"

definition news_trading_evaluate :: "ext \<Rightarrow> rule_context \<Rightarrow> rule_verdict res option" where
  "news_trading_evaluate E ctx =
     (if news_trading_allowed (plan (c_account ctx)) then ok Pass
      else case c_pending_order ctx of
        None \<Rightarrow> ok Pass
      | Some ord \<Rightarrow> do {
          let window = (case cfg_news_trading (c_rule_config ctx) of
                          None \<Rightarrow> 2 | Some c \<Rightarrow> uint (nc_window_minutes c));
          r \<leftarrow> within_news_window E (o_submitted_at ord) window;
          case r of
            Some e \<Rightarrow> ok (Fail (build_violation E news_trading_info ctx Hard
                          (Fmt ''news_trading.window'' [MInt window, Lit (ne_name e)])))
          | None \<Rightarrow> ok Pass })"

definition news_trading_rule :: "ext \<Rightarrow> rule_params option \<Rightarrow> rule" where
  "news_trading_rule E ps =
     \<lparr> r_info = news_trading_info, r_scope = PreTrade, r_severity = Hard, r_priority = 100,
       r_tolerance_cents = 1, r_params = ps, r_is_enabled = news_trading_is_enabled ps,
       r_evaluate = news_trading_evaluate E \<rparr>"

section \<open>Overnight holding\<close>

abbreviation overnight_holding_info :: rule_info where
  "overnight_holding_info \<equiv>
     \<lparr> ri_key = ''overnight_holding'', ri_name = ''Overnight Holding'', ri_kind = OvernightHolding \<rparr>"

definition overnight_holding_is_enabled :: "rule_params option \<Rightarrow> rule_context \<Rightarrow> bool option" where
  "overnight_holding_is_enabled ps ctx =
     Some (case ps of
        Some p \<Rightarrow> rp_enabled p \<and> \<not> overnight_holding_allowed (plan (c_account ctx))
      | None \<Rightarrow> \<not> overnight_holding_allowed (plan (c_account ctx)))"

abbreviation in_hour_window :: "nat \<Rightarrow> nat \<Rightarrow> nat \<Rightarrow> bool" where
  "in_hour_window from_h to_h hour \<equiv>
     (if from_h < to_h then hour \<ge> from_h \<and> hour < to_h else hour \<ge> from_h \<or> hour < to_h)"

definition overnight_holding_evaluate :: "ext \<Rightarrow> rule_context \<Rightarrow> rule_verdict res option" where
  "overnight_holding_evaluate E ctx =
     (if overnight_holding_allowed (plan (c_account ctx)) then ok Pass
      else case cfg_overnight_holding (c_rule_config ctx) of
        None \<Rightarrow> ok Pass
      | Some cfg \<Rightarrow>
          let hour = utc_hour E (c_server_time ctx);
              args = [MInt (uint (oc_forbidden_from_hour cfg)), MInt (uint (oc_forbidden_to_hour cfg))] in
          if \<not> in_hour_window (unat (oc_forbidden_from_hour cfg)) (unat (oc_forbidden_to_hour cfg)) hour
          then ok Pass
          else if c_open_positions ctx = [] \<and> c_pending_order ctx = None then ok Pass
          else if c_pending_order ctx \<noteq> None
          then ok (Fail (build_violation E overnight_holding_info ctx Hard (Fmt ''overnight.open'' args)))
          else ok (Warn (build_violation E overnight_holding_info ctx Warning (Fmt ''overnight.held'' args))))"

definition overnight_holding_rule :: "ext \<Rightarrow> rule_params option \<Rightarrow> rule" where
  "overnight_holding_rule E ps =
     \<lparr> r_info = overnight_holding_info, r_scope = TickScope, r_severity = Hard, r_priority = 100,
       r_tolerance_cents = 1, r_params = ps, r_is_enabled = overnight_holding_is_enabled ps,
       r_evaluate = overnight_holding_evaluate E \<rparr>"

section \<open>Weekend holding\<close>

abbreviation weekend_holding_info :: rule_info where
  "weekend_holding_info \<equiv>
     \<lparr> ri_key = ''weekend_holding'', ri_name = ''Weekend Holding'', ri_kind = WeekendHolding \<rparr>"

definition weekend_holding_is_enabled :: "rule_params option \<Rightarrow> rule_context \<Rightarrow> bool option" where
  "weekend_holding_is_enabled ps ctx =
     Some (case ps of
        Some p \<Rightarrow> rp_enabled p \<and> \<not> weekend_holding_allowed (plan (c_account ctx))
      | None \<Rightarrow> \<not> weekend_holding_allowed (plan (c_account ctx)))"

definition weekend_holding_evaluate :: "ext \<Rightarrow> rule_context \<Rightarrow> rule_verdict res option" where
  "weekend_holding_evaluate E ctx =
     (if weekend_holding_allowed (plan (c_account ctx)) then ok Pass
      else case cfg_weekend_holding (c_rule_config ctx) of
        None \<Rightarrow> ok Pass
      | Some cfg \<Rightarrow>
          let wd = utc_weekday E (c_server_time ctx);
              approaching_weekend =
                (wd = Fri \<and> utc_hour E (c_server_time ctx) \<ge> unat (wc_forbidden_from_hour cfg));
              on_weekend = (wd = Sat \<or> wd = Sun) in
          if \<not> approaching_weekend \<and> \<not> on_weekend then ok Pass
          else if c_pending_order ctx \<noteq> None
          then ok (Fail (build_violation E weekend_holding_info ctx Hard
                 (Lit ''Order submitted during weekend hold window'')))
          else if c_open_positions ctx \<noteq> []
          then ok (Warn (build_violation E weekend_holding_info ctx Warning
                 (Lit ''Open positions held during weekend window'')))
          else ok Pass)"

definition weekend_holding_rule :: "ext \<Rightarrow> rule_params option \<Rightarrow> rule" where
  "weekend_holding_rule E ps =
     \<lparr> r_info = weekend_holding_info, r_scope = TickScope, r_severity = Hard, r_priority = 100,
       r_tolerance_cents = 1, r_params = ps, r_is_enabled = weekend_holding_is_enabled ps,
       r_evaluate = weekend_holding_evaluate E \<rparr>"

section \<open>Position size and counts\<close>

abbreviation max_position_size_info :: rule_info where
  "max_position_size_info \<equiv>
     \<lparr> ri_key = ''max_position_size'', ri_name = ''Max Position Size'', ri_kind = MaxPositionSize \<rparr>"

text \<open>The lot limit of a pack entry; the plan's when there is no entry.\<close>

definition effective_max_lots :: "(challenge_plan \<Rightarrow> decimal option) \<Rightarrow> rule_params option \<Rightarrow> rule_context \<Rightarrow> decimal option" where
  "effective_max_lots plan_field ps ctx =
     (case ps of
        Some p \<Rightarrow> if \<not> rp_enabled p then None else rp_value p
      | None \<Rightarrow> plan_field (plan (c_account ctx)))"

definition max_position_size_is_enabled :: "rule_params option \<Rightarrow> rule_context \<Rightarrow> bool option" where
  "max_position_size_is_enabled ps ctx =
     Some (case ps of
        Some p \<Rightarrow> if \<not> rp_enabled p then False else rp_value p \<noteq> None
      | None \<Rightarrow> max_position_lots (plan (c_account ctx)) \<noteq> None)"

definition max_position_size_evaluate ::
  "ext \<Rightarrow> rule_params option \<Rightarrow> rule_context \<Rightarrow> rule_verdict res option" where
  "max_position_size_evaluate E ps ctx =
     (case effective_max_lots max_position_lots ps ctx of
        None \<Rightarrow> ok Pass
      | Some max_lots \<Rightarrow>
          (case c_pending_order ctx of
             None \<Rightarrow> ok Pass
           | Some ord \<Rightarrow> do {
               order_lots \<leftarrow> units_to_lots E (instruments_get (c_instruments ctx) (o_symbol ord)) (o_quantity ord);
               if order_lots > max_lots
               then ok (Fail (build_violation E max_position_size_info ctx Hard
                      (Fmt ''max_position_size.exceeded'' [MDec (o_quantity ord), MDec order_lots, MDec max_lots])))
               else do {
                 warn \<leftarrow> dmul E max_lots (8/10);
                 if order_lots > warn
                 then ok (Warn (build_violation E max_position_size_info ctx Warning
                        (Fmt ''max_position_size.warn'' [MDec order_lots, MDec max_lots])))
                 else ok Pass } }))"

definition max_position_size_rule :: "ext \<Rightarrow> rule_params option \<Rightarrow> rule" where
  "max_position_size_rule E ps =
     \<lparr> r_info = max_position_size_info, r_scope = PreTrade, r_severity = Hard, r_priority = 100,
       r_tolerance_cents = 1, r_params = ps, r_is_enabled = max_position_size_is_enabled ps,
       r_evaluate = max_position_size_evaluate E ps \<rparr>"

abbreviation max_open_positions_info :: rule_info where
  "max_open_positions_info \<equiv>
     \<lparr> ri_key = ''max_open_positions'', ri_name = ''Max Open Positions'', ri_kind = MaxOpenPositions \<rparr>"

text \<open>The count of a pack entry, converted with \<^verbatim>\<open>u32::try_from\<close>; the plan's without entry.\<close>

definition effective_max_count ::
  "ext \<Rightarrow> string \<Rightarrow> (challenge_plan \<Rightarrow> u32 option) \<Rightarrow> rule_params option \<Rightarrow> rule_context \<Rightarrow> u32 option res option" where
  "effective_max_count E key plan_field ps ctx =
     (case ps of
        Some p \<Rightarrow>
          if \<not> rp_enabled p then ok None
          else (case rp_value p of
                  None \<Rightarrow> ok None
                | Some v \<Rightarrow> try_op (ok_or (dto_u32 E v) (InvalidConfig (Fmt key [MDec v]))) (\<lambda>n. ok (Some n)))
      | None \<Rightarrow> ok (plan_field (plan (c_account ctx))))"

fun is_close_order :: "order_kind \<Rightarrow> bool" where
  "is_close_order (Close pid q) = True"
| "is_close_order _ = False"

text \<open>A new order is rejected when the count plus one (in \<^verbatim>\<open>u32\<close>) exceeds the limit.\<close>

definition count_cap_verdict :: "ext \<Rightarrow> rule_info \<Rightarrow> string \<Rightarrow> rule_context \<Rightarrow> u32 \<Rightarrow> u32 \<Rightarrow> rule_verdict res option" where
  "count_cap_verdict E ri key ctx count cap =
     (case c_pending_order ctx of
        None \<Rightarrow> ok Pass
      | Some ord \<Rightarrow>
          if is_close_order (o_kind ord) then ok Pass
          else if count + 1 > cap
          then ok (Fail (build_violation E ri ctx Hard (Fmt key [MInt (uint count), MInt (uint cap)])))
          else ok Pass)"

definition max_open_positions_is_enabled :: "rule_params option \<Rightarrow> rule_context \<Rightarrow> bool option" where
  "max_open_positions_is_enabled ps ctx =
     Some (case ps of
        Some p \<Rightarrow> if \<not> rp_enabled p then False else rp_value p \<noteq> None
      | None \<Rightarrow> max_open_positions (plan (c_account ctx)) \<noteq> None)"

definition max_open_positions_evaluate ::
  "ext \<Rightarrow> rule_params option \<Rightarrow> rule_context \<Rightarrow> rule_verdict res option" where
  "max_open_positions_evaluate E ps ctx =
     try_op (map_err (\<lambda>e. RuleEval (Fmt ''max_open_positions: {e}'' [error_msg e]))
              (effective_max_count E ''max_open_positions.count'' max_open_positions ps ctx))
       (\<lambda>m. case m of
          None \<Rightarrow> ok Pass
        | Some cap \<Rightarrow>
            count_cap_verdict E max_open_positions_info ''max_open_positions.exceeded'' ctx
              (usize_as_u32 (length (filter is_open (c_open_positions ctx)))) cap)"

definition max_open_positions_rule :: "ext \<Rightarrow> rule_params option \<Rightarrow> rule" where
  "max_open_positions_rule E ps =
     \<lparr> r_info = max_open_positions_info, r_scope = PreTrade, r_severity = Hard, r_priority = 100,
       r_tolerance_cents = 1, r_params = ps, r_is_enabled = max_open_positions_is_enabled ps,
       r_evaluate = max_open_positions_evaluate E ps \<rparr>"

abbreviation max_daily_trades_info :: rule_info where
  "max_daily_trades_info \<equiv>
     \<lparr> ri_key = ''max_daily_trades'', ri_name = ''Max Daily Trades'', ri_kind = MaxDailyTrades \<rparr>"

definition max_daily_trades_is_enabled :: "rule_params option \<Rightarrow> rule_context \<Rightarrow> bool option" where
  "max_daily_trades_is_enabled ps ctx =
     Some (case ps of
        Some p \<Rightarrow> if \<not> rp_enabled p then False else rp_value p \<noteq> None
      | None \<Rightarrow> max_daily_trades (plan (c_account ctx)) \<noteq> None)"

definition max_daily_trades_evaluate ::
  "ext \<Rightarrow> rule_params option \<Rightarrow> rule_context \<Rightarrow> rule_verdict res option" where
  "max_daily_trades_evaluate E ps ctx =
     try_op (map_err (\<lambda>e. RuleEval (Fmt ''max_daily_trades: {e}'' [error_msg e]))
              (effective_max_count E ''max_daily_trades.count'' max_daily_trades ps ctx))
       (\<lambda>m. case m of
          None \<Rightarrow> ok Pass
        | Some cap \<Rightarrow>
            count_cap_verdict E max_daily_trades_info ''max_daily_trades.exceeded'' ctx
              (usize_as_u32 (length (c_today_trades ctx))) cap)"

definition max_daily_trades_rule :: "ext \<Rightarrow> rule_params option \<Rightarrow> rule" where
  "max_daily_trades_rule E ps =
     \<lparr> r_info = max_daily_trades_info, r_scope = PreTrade, r_severity = Hard, r_priority = 100,
       r_tolerance_cents = 1, r_params = ps, r_is_enabled = max_daily_trades_is_enabled ps,
       r_evaluate = max_daily_trades_evaluate E ps \<rparr>"

section \<open>Cooldown\<close>

abbreviation cooldown_info :: rule_info where
  "cooldown_info \<equiv> \<lparr> ri_key = ''cooldown'', ri_name = ''Cooldown'', ri_kind = Cooldown \<rparr>"

definition cooldown_effective_seconds :: "ext \<Rightarrow> rule_params option \<Rightarrow> rule_context \<Rightarrow> u64 res option" where
  "cooldown_effective_seconds E ps ctx =
     (case ps of
        Some p \<Rightarrow>
          if \<not> rp_enabled p \<or> rp_value p = None then ok 0
          else let v = (case rp_value p of Some x \<Rightarrow> x | None \<Rightarrow> 0)
               in ok_or (dto_u64 E v) (InvalidConfig (Fmt ''cooldown.seconds'' [MDec v]))
      | None \<Rightarrow> ok (cooldown_seconds (plan (c_account ctx))))"

definition cooldown_is_enabled :: "rule_params option \<Rightarrow> rule_context \<Rightarrow> bool option" where
  "cooldown_is_enabled ps ctx =
     Some (case ps of
        Some p \<Rightarrow> if \<not> rp_enabled p then False else rp_value p \<noteq> None
      | None \<Rightarrow> cooldown_seconds (plan (c_account ctx)) > 0)"

definition cooldown_evaluate ::
  "ext \<Rightarrow> rule_params option \<Rightarrow> rule_context \<Rightarrow> rule_verdict res option" where
  "cooldown_evaluate E ps ctx =
     try_op (map_err (\<lambda>e. RuleEval (Fmt ''cooldown: {e}'' [error_msg e])) (cooldown_effective_seconds E ps ctx))
       (\<lambda>cooldown.
          if cooldown = 0 then ok Pass
          else case c_pending_order ctx of
            None \<Rightarrow> ok Pass
          | Some ord \<Rightarrow>
              if c_today_trades ctx = [] then ok Pass
              else let elapsed = num_seconds E (o_submitted_at ord - t_executed_at (last (c_today_trades ctx))) in
                if elapsed < sint cooldown
                then ok (Warn (build_violation E cooldown_info ctx Warning
                       (Fmt ''cooldown.violated'' [MInt elapsed, MInt (uint cooldown), MInt (i64_wrap (sint cooldown - elapsed))])))
                else ok Pass)"

definition cooldown_rule :: "ext \<Rightarrow> rule_params option \<Rightarrow> rule" where
  "cooldown_rule E ps =
     \<lparr> r_info = cooldown_info, r_scope = PreTrade, r_severity = Warning, r_priority = 100,
       r_tolerance_cents = 1, r_params = ps, r_is_enabled = cooldown_is_enabled ps,
       r_evaluate = cooldown_evaluate E ps \<rparr>"

section \<open>Hedging\<close>

abbreviation hedging_info :: rule_info where
  "hedging_info \<equiv> \<lparr> ri_key = ''hedging'', ri_name = ''Hedging'', ri_kind = Hedging \<rparr>"

definition hedging_is_enabled :: "rule_params option \<Rightarrow> rule_context \<Rightarrow> bool option" where
  "hedging_is_enabled ps ctx =
     Some (case ps of
        Some p \<Rightarrow> rp_enabled p \<and> \<not> hedging_allowed (plan (c_account ctx))
      | None \<Rightarrow> \<not> hedging_allowed (plan (c_account ctx)))"

definition hedging_evaluate :: "ext \<Rightarrow> rule_context \<Rightarrow> rule_verdict res option" where
  "hedging_evaluate E ctx =
     (if hedging_allowed (plan (c_account ctx)) then ok Pass
      else case c_pending_order ctx of
        None \<Rightarrow> ok Pass
      | Some ord \<Rightarrow>
          if o_kind ord \<noteq> Open then ok Pass
          else if list_ex (\<lambda>p. is_open p \<and> p_symbol p = o_symbol ord
                               \<and> p_side p \<noteq> side_from_order (o_side ord)) (c_open_positions ctx)
          then ok (Fail (build_violation E hedging_info ctx Hard
                 (Fmt ''hedging.detected'' [Lit (o_symbol ord)])))
          else ok Pass)"

definition hedging_rule :: "ext \<Rightarrow> rule_params option \<Rightarrow> rule" where
  "hedging_rule E ps =
     \<lparr> r_info = hedging_info, r_scope = PreTrade, r_severity = Hard, r_priority = 100,
       r_tolerance_cents = 1, r_params = ps, r_is_enabled = hedging_is_enabled ps,
       r_evaluate = hedging_evaluate E \<rparr>"

section \<open>Grid trading and martingale escalation\<close>

abbreviation grid_trading_info :: rule_info where
  "grid_trading_info \<equiv> \<lparr> ri_key = ''grid_trading'', ri_name = ''Grid Trading'', ri_kind = GridTrading \<rparr>"

definition grid_min_entries :: "ext \<Rightarrow> rule_params option \<Rightarrow> nat res option" where
  "grid_min_entries E ps =
     (case ps of
        Some p \<Rightarrow> try_op (effective_count p ''grid_trading'')
          (\<lambda>n. ok_or (map_option i64_as_usize (dto_i64 E n))
                 (InvalidConfig (Lit ''grid_trading: pack value is not a valid entry count'')))
      | None \<Rightarrow> ok 3)"

definition grid_knob :: "ext \<Rightarrow> rule_params option \<Rightarrow> string \<Rightarrow> decimal \<Rightarrow> decimal" where
  "grid_knob E ps key d =
     (case Option.bind ps (\<lambda>p. params_json_decimal E p key) of Some v \<Rightarrow> v | None \<Rightarrow> d)"

definition grid_max_window_minutes :: "ext \<Rightarrow> rule_params option \<Rightarrow> int" where
  "grid_max_window_minutes E ps =
     (case dto_i64 E (grid_knob E ps ''max_window_minutes'' 120) of Some v \<Rightarrow> v | None \<Rightarrow> 120)"

definition grid_escalation_losses :: "ext \<Rightarrow> rule_params option \<Rightarrow> nat" where
  "grid_escalation_losses E ps =
     (case dto_i64 E (grid_knob E ps ''escalation_losses'' 2) of
        None \<Rightarrow> 2 | Some v \<Rightarrow> i64_as_usize (max v 1))"

definition grid_effective_severity :: "ext \<Rightarrow> rule_params option \<Rightarrow> violation_severity" where
  "grid_effective_severity E ps =
     (case ps of
        None \<Rightarrow> Warning
      | Some p \<Rightarrow>
          let sev = (case map_option to_lowercase (rp_severity p) of
                Some s \<Rightarrow> if s \<noteq> [] then Some s
                          else map_option (\<lambda>v. if v \<ge> 1 then ''hard'' else ''warning'')
                                 (params_json_decimal E p ''severity_hard'')
              | None \<Rightarrow> map_option (\<lambda>v. if v \<ge> 1 then ''hard'' else ''warning'')
                          (params_json_decimal E p ''severity_hard''))
          in if sev = Some ''hard'' then Hard else Warning)"

fun price_gaps :: "ext \<Rightarrow> decimal list \<Rightarrow> decimal list option" where
  "price_gaps E (x # y # xs) = do { d \<leftarrow> dsub E y x; ds \<leftarrow> price_gaps E (y # xs); Some (\<bar>d\<bar> # ds) }"
| "price_gaps E _ = Some []"

definition gaps_mean :: "ext \<Rightarrow> decimal list \<Rightarrow> decimal option" where
  "gaps_mean E gaps = do { s \<leftarrow> dsum E gaps; ddiv E s (of_nat (length gaps)) }"

definition gaps_cv :: "ext \<Rightarrow> decimal list \<Rightarrow> decimal \<Rightarrow> decimal option" where
  "gaps_cv E gaps mean = do {
     sq \<leftarrow> mapo (\<lambda>g. do { d \<leftarrow> dsub E g mean; dmul E d d }) gaps;
     s \<leftarrow> dsum E sq;
     var \<leftarrow> ddiv E s (of_nat (length gaps));
     let std = (case dsqrt E var of Some r \<Rightarrow> r | None \<Rightarrow> 0);
     ddiv E std mean }"

definition detect_grid ::
  "ext \<Rightarrow> rule_params option \<Rightarrow> rule_context \<Rightarrow> symbol \<Rightarrow> nat \<Rightarrow> (decimal list \<times> decimal) option option" where
  "detect_grid E ps ctx sy min_entries = do {
     let cv_threshold = grid_knob E ps ''cv_threshold'' (5/100);
     window \<leftarrow> dur_minutes E (grid_max_window_minutes E ps);
     let entries = sort_key t_executed_at
           (filter (\<lambda>t. t_symbol t = sy \<and> t_trade_side t = Entry
                        \<and> c_server_time ctx - t_executed_at t \<le> window) (c_today_trades ctx));
     if length entries < min_entries then Some None
     else do {
       gaps \<leftarrow> price_gaps E (map t_price (rev (take 5 (rev entries))));
       if gaps = [] then Some None
       else do {
         mean \<leftarrow> gaps_mean E gaps;
         if mean = 0 then Some None
         else do {
           cv \<leftarrow> gaps_cv E gaps mean;
           Some (if cv < cv_threshold then Some (gaps, cv) else None) } } } }"

text \<open>The sizes of the losing exits at the end of the list, newest first.\<close>

fun leading_losses :: "ext \<Rightarrow> trade list \<Rightarrow> decimal list option" where
  "leading_losses E [] = Some []"
| "leading_losses E (t # ts) = do {
     net \<leftarrow> net_pnl E t;
     if net < 0 then do { ls \<leftarrow> leading_losses E ts; Some (t_quantity t # ls) } else Some [] }"

definition detect_escalation ::
  "ext \<Rightarrow> rule_params option \<Rightarrow> rule_context \<Rightarrow> symbol \<Rightarrow> (nat \<times> decimal) option option" where
  "detect_escalation E ps ctx sy = do {
     let need_losses = grid_escalation_losses E ps;
     let multiplier = grid_knob E ps ''escalation_multiplier'' (15/10);
     let exits = sort_key t_executed_at
           (filter (\<lambda>t. t_symbol t = sy \<and> t_trade_side t = Exit) (c_today_trades ctx));
     loss_sizes \<leftarrow> leading_losses E (rev exits);
     if length loss_sizes < need_losses then Some None
     else if loss_sizes = [] then Some None
     else do {
       let first_loss_size = last loss_sizes;
       let newest_entry_size = fold max
             (map t_quantity (filter (\<lambda>t. t_symbol t = sy \<and> t_trade_side t = Entry) (c_today_trades ctx))) 0;
       bound \<leftarrow> dmul E first_loss_size multiplier;
       if newest_entry_size \<ge> bound then do {
         ratio \<leftarrow> ddiv E newest_entry_size (max first_loss_size (1/10000));
         Some (Some (length loss_sizes, ratio)) }
       else Some None } }"

definition grid_trading_is_enabled :: "rule_params option \<Rightarrow> rule_context \<Rightarrow> bool option" where
  "grid_trading_is_enabled ps ctx =
     Some (case ps of
        Some p \<Rightarrow> rp_enabled p \<and> \<not> grid_trading_allowed (plan (c_account ctx))
      | None \<Rightarrow> \<not> grid_trading_allowed (plan (c_account ctx)))"

definition grid_trading_evaluate ::
  "ext \<Rightarrow> rule_params option \<Rightarrow> rule_context \<Rightarrow> rule_verdict res option" where
  "grid_trading_evaluate E ps ctx =
     (if grid_trading_allowed (plan (c_account ctx)) then ok Pass
      else try_op (grid_min_entries E ps) (\<lambda>min_entries.
        case c_pending_order ctx of
          None \<Rightarrow> ok Pass
        | Some ord \<Rightarrow> do {
            let sy = o_symbol ord;
            g \<leftarrow> detect_grid E ps ctx sy min_entries;
            case g of
              Some (gaps, cv) \<Rightarrow> do {
                mean \<leftarrow> gaps_mean E gaps;
                ok (Warn (build_violation E grid_trading_info ctx (grid_effective_severity E ps)
                      (Fmt ''grid_trading.grid'' [Lit sy, MInt (int (length gaps + 1)), MDec cv, MDec mean]))) }
            | None \<Rightarrow> do {
                e \<leftarrow> detect_escalation E ps ctx sy;
                case e of
                  Some (losses, ratio) \<Rightarrow>
                    ok (Warn (build_violation E grid_trading_info ctx (grid_effective_severity E ps)
                          (Fmt ''grid_trading.martingale'' [Lit sy, MInt (int losses), MDec ratio])))
                | None \<Rightarrow> ok Pass } }))"

definition grid_trading_rule :: "ext \<Rightarrow> rule_params option \<Rightarrow> rule" where
  "grid_trading_rule E ps =
     \<lparr> r_info = grid_trading_info, r_scope = PreTrade, r_severity = grid_effective_severity E ps,
       r_priority = 100, r_tolerance_cents = 1, r_params = ps,
       r_is_enabled = grid_trading_is_enabled ps, r_evaluate = grid_trading_evaluate E ps \<rparr>"

section \<open>Copy trading\<close>

abbreviation copy_trading_info :: rule_info where
  "copy_trading_info \<equiv> \<lparr> ri_key = ''copy_trading'', ri_name = ''Copy Trading'', ri_kind = CopyTrading \<rparr>"

definition copy_fail_threshold :: "ext \<Rightarrow> rule_params option \<Rightarrow> nat res option" where
  "copy_fail_threshold E ps =
     (case ps of
        Some p \<Rightarrow> try_op (effective_count p ''copy_trading'')
          (\<lambda>n. ok_or (map_option i64_as_usize (dto_i64 E n))
                 (InvalidConfig (Lit ''copy_trading: pack value is not a valid trade count'')))
      | None \<Rightarrow> ok 3)"

definition copy_window_seconds :: "ext \<Rightarrow> rule_params option \<Rightarrow> int" where
  "copy_window_seconds E ps =
     (case Option.bind (Option.bind ps (\<lambda>p. params_json_decimal E p ''window_seconds'')) (dto_i64 E) of
        Some v \<Rightarrow> v | None \<Rightarrow> 5)"

definition copy_hits :: "ext \<Rightarrow> int \<Rightarrow> trade \<Rightarrow> trade list \<Rightarrow> nat option" where
  "copy_hits E window t refs =
     foldo (\<lambda>n ref.
        if t_account_id ref = t_account_id t then Some n
        else if t_symbol ref \<noteq> t_symbol t then Some n
        else if t_side ref \<noteq> t_side t then Some n
        else if \<bar>num_seconds E (t_executed_at ref - t_executed_at t)\<bar> > window then Some n
        else do {
          lo \<leftarrow> dsub E 1 (10/100);
          lower \<leftarrow> dmul E (t_quantity ref) lo;
          hi \<leftarrow> dadd E 1 (10/100);
          upper \<leftarrow> dmul E (t_quantity ref) hi;
          Some (if t_quantity t \<ge> lower \<and> t_quantity t \<le> upper then n + 1 else n) }) 0 refs"

definition copy_trading_is_enabled :: "rule_params option \<Rightarrow> rule_context \<Rightarrow> bool option" where
  "copy_trading_is_enabled ps ctx =
     Some (case ps of
        Some p \<Rightarrow> rp_enabled p \<and> \<not> copy_trading_allowed (plan (c_account ctx))
      | None \<Rightarrow> \<not> copy_trading_allowed (plan (c_account ctx)))"

definition copy_trading_evaluate ::
  "ext \<Rightarrow> rule_params option \<Rightarrow> rule_context \<Rightarrow> rule_verdict res option" where
  "copy_trading_evaluate E ps ctx =
     (if copy_trading_allowed (plan (c_account ctx)) then ok Pass
      else try_op (copy_fail_threshold E ps) (\<lambda>fail_threshold.
        let window = copy_window_seconds E ps in
        case c_latest_trade ctx of
          None \<Rightarrow> ok Pass
        | Some t \<Rightarrow> do {
            hits \<leftarrow> copy_hits E window t (c_cross_reference_trades ctx);
            if hits \<ge> fail_threshold
            then ok (Fail (build_violation E copy_trading_info ctx Hard
                   (Fmt ''copy_trading.detected'' [MInt (int hits), MInt window])))
            else if hits \<ge> 1
            then ok (Warn (build_violation E copy_trading_info ctx Warning
                   (Fmt ''copy_trading.suspicious'' [MInt (int hits), MInt window])))
            else ok Pass }))"

definition copy_trading_rule :: "ext \<Rightarrow> rule_params option \<Rightarrow> rule" where
  "copy_trading_rule E ps =
     \<lparr> r_info = copy_trading_info, r_scope = PostTrade, r_severity = Hard, r_priority = 100,
       r_tolerance_cents = 1, r_params = ps, r_is_enabled = copy_trading_is_enabled ps,
       r_evaluate = copy_trading_evaluate E ps \<rparr>"

section \<open>High-frequency trading\<close>

abbreviation hft_scalping_info :: rule_info where
  "hft_scalping_info \<equiv> \<lparr> ri_key = ''hft_scalping'', ri_name = ''HFT / Scalping'', ri_kind = Custom \<rparr>"

definition hft_min_round_trip :: "ext \<Rightarrow> rule_params option \<Rightarrow> rule_context \<Rightarrow> int" where
  "hft_min_round_trip E ps ctx =
     (case Option.bind (param_value ps) (dto_i64 E) of
        Some secs \<Rightarrow> secs
      | None \<Rightarrow>
          let s = uint (hft_min_round_trip_seconds (plan (c_account ctx)))
          in if s < 2 ^ 63 then s else 60)"

definition hft_max_closes_per_minute :: "ext \<Rightarrow> rule_params option \<Rightarrow> u32" where
  "hft_max_closes_per_minute E ps =
     (case Option.bind ps (\<lambda>p. json_get_u64 E (rp_params_json p) ''max_closes_per_minute'') of
        Some n \<Rightarrow> ucast n | None \<Rightarrow> 10)"

definition hft_scalping_is_enabled :: "rule_params option \<Rightarrow> rule_context \<Rightarrow> bool option" where
  "hft_scalping_is_enabled ps ctx =
     Some (case ps of Some p \<Rightarrow> rp_enabled p | None \<Rightarrow> hft_ban_enabled (plan (c_account ctx)))"

definition hft_scalping_evaluate ::
  "ext \<Rightarrow> rule_params option \<Rightarrow> rule_context \<Rightarrow> rule_verdict res option" where
  "hft_scalping_evaluate E ps ctx =
     (case c_latest_trade ctx of
        None \<Rightarrow> ok Pass
      | Some t \<Rightarrow> do {
          let min_round_trip = hft_min_round_trip E ps ctx;
          let max_closes = hft_max_closes_per_minute E ps;
          let now = t_executed_at t;
          fast \<leftarrow> (if t_trade_side t = Exit then do {
                      d \<leftarrow> dur_seconds E min_round_trip;
                      window_start \<leftarrow> ts_sub E now d;
                      Some (usize_as_u32 (length (filter (\<lambda>u. t_symbol u = t_symbol t
                              \<and> \<not> (t_executed_at u < window_start \<or> t_executed_at u > now)
                              \<and> t_trade_side u = Entry) (c_today_trades ctx)))) }
                   else Some 0);
          if fast > 0
          then ok (Warn (build_violation E hft_scalping_info ctx Warning
                 (Fmt ''hft.round_trip'' [Lit (t_symbol t), MInt min_round_trip, MInt (uint fast)])))
          else do {
            d \<leftarrow> dur_minutes E 1;
            window_start \<leftarrow> ts_sub E now d;
            let recent_closes = usize_as_u32 (length (filter (\<lambda>u. t_executed_at u \<ge> window_start
                  \<and> t_executed_at u \<le> now \<and> t_trade_side u = Exit) (c_today_trades ctx)));
            if recent_closes > max_closes
            then ok (Warn (build_violation E hft_scalping_info ctx Warning
                   (Fmt ''hft.closes'' [MInt (uint recent_closes), MInt (uint max_closes)])))
            else ok Pass } })"

definition hft_scalping_rule :: "ext \<Rightarrow> rule_params option \<Rightarrow> rule" where
  "hft_scalping_rule E ps =
     \<lparr> r_info = hft_scalping_info, r_scope = PostTrade, r_severity = Warning,
       r_priority = param_priority ps 100, r_tolerance_cents = param_tolerance ps 0,
       r_params = ps, r_is_enabled = hft_scalping_is_enabled ps,
       r_evaluate = hft_scalping_evaluate E ps \<rparr>"

section \<open>Total lots, trading hours and margin\<close>

abbreviation max_total_lots_info :: rule_info where
  "max_total_lots_info \<equiv> \<lparr> ri_key = ''max_total_lots'', ri_name = ''Max Total Lots'', ri_kind = MaxLotSize \<rparr>"

definition max_total_lots_is_enabled :: "rule_params option \<Rightarrow> rule_context \<Rightarrow> bool option" where
  "max_total_lots_is_enabled ps ctx =
     Some (case ps of
        Some p \<Rightarrow> rp_enabled p \<and> rp_value p \<noteq> None
      | None \<Rightarrow> max_total_lots (plan (c_account ctx)) \<noteq> None)"

definition total_lots_of :: "ext \<Rightarrow> rule_context \<Rightarrow> lots option" where
  "total_lots_of E ctx = do {
     let in_lots = (\<lambda>sy q. units_to_lots E (instruments_get (c_instruments ctx) sy) q);
     held \<leftarrow> foldo (\<lambda>acc p. do { l \<leftarrow> in_lots (p_symbol p) (p_open_quantity p); dadd E acc l }) 0
              (filter is_open (c_open_positions ctx));
     case c_pending_order ctx of
       None \<Rightarrow> Some held
     | Some ord \<Rightarrow> do { l \<leftarrow> in_lots (o_symbol ord) (o_quantity ord); dadd E held l } }"

definition max_total_lots_evaluate ::
  "ext \<Rightarrow> rule_params option \<Rightarrow> rule_context \<Rightarrow> rule_verdict res option" where
  "max_total_lots_evaluate E ps ctx =
     (case effective_max_lots max_total_lots ps ctx of
        None \<Rightarrow> ok Pass
      | Some max_lots \<Rightarrow> do {
          total \<leftarrow> total_lots_of E ctx;
          if total > max_lots
          then ok (Fail (build_violation E max_total_lots_info ctx Hard
                 (Fmt ''max_total_lots.exceeded'' [MDec total, MDec max_lots])))
          else ok Pass })"

definition max_total_lots_rule :: "ext \<Rightarrow> rule_params option \<Rightarrow> rule" where
  "max_total_lots_rule E ps =
     \<lparr> r_info = max_total_lots_info, r_scope = PreTrade, r_severity = Hard, r_priority = 100,
       r_tolerance_cents = 1, r_params = ps, r_is_enabled = max_total_lots_is_enabled ps,
       r_evaluate = max_total_lots_evaluate E ps \<rparr>"

abbreviation trading_hours_info :: rule_info where
  "trading_hours_info \<equiv> \<lparr> ri_key = ''trading_hours'', ri_name = ''Trading Hours'', ri_kind = Custom \<rparr>"

definition trading_hours_is_enabled :: "rule_context \<Rightarrow> bool option" where
  "trading_hours_is_enabled ctx = Some (trading_hours (plan (c_account ctx)) \<noteq> None)"

abbreviation in_trading_window :: "nat \<Rightarrow> nat \<Rightarrow> nat \<Rightarrow> bool" where
  "in_trading_window start_h end_h hour \<equiv>
     (if start_h \<le> end_h then hour \<ge> start_h \<and> hour < end_h else hour \<ge> start_h \<or> hour < end_h)"

definition trading_hours_evaluate :: "ext \<Rightarrow> rule_context \<Rightarrow> rule_verdict res option" where
  "trading_hours_evaluate E ctx =
     (let pl = plan (c_account ctx) in
      case trading_hours pl of
        None \<Rightarrow> ok Pass
      | Some (s, e) \<Rightarrow>
          (case c_pending_order ctx of
             None \<Rightarrow> ok Pass
           | Some ord \<Rightarrow>
               let local_hour = (case timezone pl of
                     Some z \<Rightarrow> tz_hour E z (o_submitted_at ord)
                   | None \<Rightarrow> utc_hour E (o_submitted_at ord)) in
               if \<not> in_trading_window (unat s) (unat e) local_hour
               then ok (Fail (build_violation E trading_hours_info ctx Hard
                      (Fmt ''trading_hours.outside'' [MInt (int local_hour), MInt (uint s), MInt (uint e)])))
               else ok Pass))"

definition trading_hours_rule :: "ext \<Rightarrow> rule" where
  "trading_hours_rule E =
     \<lparr> r_info = trading_hours_info, r_scope = PreTrade, r_severity = Hard, r_priority = 100,
       r_tolerance_cents = 1, r_params = None, r_is_enabled = trading_hours_is_enabled,
       r_evaluate = trading_hours_evaluate E \<rparr>"

abbreviation margin_info :: rule_info where
  "margin_info \<equiv> \<lparr> ri_key = ''margin'', ri_name = ''Margin'', ri_kind = Custom \<rparr>"

definition spec_notional :: "ext \<Rightarrow> rule_context \<Rightarrow> symbol \<Rightarrow> quantity \<Rightarrow> price \<Rightarrow> money option" where
  "spec_notional E ctx sy q prc = do {
     let spec = instruments_get (c_instruments ctx) sy;
     l \<leftarrow> units_to_lots E spec q;
     notional E spec l prc }"

definition free_margin :: "ext \<Rightarrow> rule_context \<Rightarrow> decimal option" where
  "free_margin E ctx = do {
     let a = c_account ctx;
     used \<leftarrow> foldo (\<lambda>acc p. do {
                n \<leftarrow> spec_notional E ctx (p_symbol p) (p_open_quantity p) (p_avg_entry_price p);
                m \<leftarrow> ddiv E n (of_int (uint (leverage (plan a))));
                dadd E acc m }) 0 (filter is_open (c_open_positions ctx));
     dsub E (equity a) used }"

abbreviation order_margin_price :: "order \<Rightarrow> price option" where
  "order_margin_price ord \<equiv>
     (case o_avg_fill_price ord of
        Some p \<Rightarrow> Some p
      | None \<Rightarrow> (case o_type ord of Limit p \<Rightarrow> Some p | _ \<Rightarrow> None))"

definition margin_evaluate :: "ext \<Rightarrow> rule_context \<Rightarrow> rule_verdict res option" where
  "margin_evaluate E ctx =
     (case c_pending_order ctx of
        None \<Rightarrow> ok Pass
      | Some ord \<Rightarrow>
          if o_quantity ord \<le> 0 then ok Pass
          else (case order_margin_price ord of
             None \<Rightarrow> ok Pass
           | Some prc \<Rightarrow> do {
               n \<leftarrow> spec_notional E ctx (o_symbol ord) (o_quantity ord) prc;
               required_margin \<leftarrow> ddiv E n (of_int (uint (leverage (plan (c_account ctx)))));
               free \<leftarrow> free_margin E ctx;
               if required_margin > free
               then ok (Fail (build_violation E margin_info ctx Hard
                      (Fmt ''margin.insufficient'' [MDec required_margin, MDec n, MInt (uint (leverage (plan (c_account ctx)))), MDec free])))
               else ok Pass }))"

definition margin_rule :: "ext \<Rightarrow> rule" where
  "margin_rule E =
     \<lparr> r_info = margin_info, r_scope = PreTrade, r_severity = Hard, r_priority = 100,
       r_tolerance_cents = 1, r_params = None, r_is_enabled = (\<lambda>ctx. Some True),
       r_evaluate = margin_evaluate E \<rparr>"

section \<open>Required stop-loss and take-profit\<close>

abbreviation sl_required_info :: rule_info where
  "sl_required_info \<equiv>
     \<lparr> ri_key = ''sl_required'', ri_name = ''Stop-Loss Required'', ri_kind = MissingStopLoss \<rparr>"

definition sl_required_is_enabled :: "rule_params option \<Rightarrow> rule_context \<Rightarrow> bool option" where
  "sl_required_is_enabled ps ctx =
     Some (case ps of Some p \<Rightarrow> rp_enabled p | None \<Rightarrow> require_stop_loss (plan (c_account ctx)))"

definition sl_required_evaluate :: "ext \<Rightarrow> rule_context \<Rightarrow> rule_verdict res option" where
  "sl_required_evaluate E ctx =
     (if \<not> require_stop_loss (plan (c_account ctx)) then ok Pass
      else case c_pending_order ctx of
        None \<Rightarrow> ok Pass
      | Some ord \<Rightarrow>
          if o_kind ord \<noteq> Open then ok Pass
          else if o_stop_loss ord = None
          then ok (Fail (build_violation E sl_required_info ctx Hard (Lit ''Stop-loss not set on opening order'')))
          else ok Pass)"

definition sl_required_rule :: "ext \<Rightarrow> rule_params option \<Rightarrow> rule" where
  "sl_required_rule E ps =
     \<lparr> r_info = sl_required_info, r_scope = PreTrade, r_severity = Hard, r_priority = 100,
       r_tolerance_cents = 1, r_params = ps, r_is_enabled = sl_required_is_enabled ps,
       r_evaluate = sl_required_evaluate E \<rparr>"

abbreviation tp_required_info :: rule_info where
  "tp_required_info \<equiv>
     \<lparr> ri_key = ''tp_required'', ri_name = ''Take-Profit Required'', ri_kind = MissingTakeProfit \<rparr>"

definition tp_required_is_enabled :: "rule_params option \<Rightarrow> rule_context \<Rightarrow> bool option" where
  "tp_required_is_enabled ps ctx =
     Some (case ps of Some p \<Rightarrow> rp_enabled p | None \<Rightarrow> require_take_profit (plan (c_account ctx)))"

definition tp_required_evaluate :: "ext \<Rightarrow> rule_context \<Rightarrow> rule_verdict res option" where
  "tp_required_evaluate E ctx =
     (if \<not> require_take_profit (plan (c_account ctx)) then ok Pass
      else case c_pending_order ctx of
        None \<Rightarrow> ok Pass
      | Some ord \<Rightarrow>
          if o_kind ord \<noteq> Open then ok Pass
          else if o_take_profit ord = None
          then ok (Warn (build_violation E tp_required_info ctx Warning (Lit ''Take-profit not set on opening order'')))
          else ok Pass)"

definition tp_required_rule :: "ext \<Rightarrow> rule_params option \<Rightarrow> rule" where
  "tp_required_rule E ps =
     \<lparr> r_info = tp_required_info, r_scope = PreTrade, r_severity = Warning, r_priority = 100,
       r_tolerance_cents = 1, r_params = ps, r_is_enabled = tp_required_is_enabled ps,
       r_evaluate = tp_required_evaluate E \<rparr>"

section \<open>Cross-account hedging\<close>

abbreviation cross_account_hedging_info :: rule_info where
  "cross_account_hedging_info \<equiv>
     \<lparr> ri_key = ''cross_account_hedging'', ri_name = ''Cross-Account Hedging'', ri_kind = CrossAccountHedging \<rparr>"

definition cross_account_hedging_is_enabled :: "rule_params option \<Rightarrow> rule_context \<Rightarrow> bool option" where
  "cross_account_hedging_is_enabled ps ctx =
     Some (if param_disabled ps then False else cross_account_hedging_prohibited (plan (c_account ctx)))"

abbreviation hedged_symbols :: "rule_context \<Rightarrow> symbol list" where
  "hedged_symbols ctx \<equiv>
     map p_symbol (filter (\<lambda>pos. list_ex (\<lambda>r. p_symbol pos = t_symbol r
                              \<and> p_side pos \<noteq> side_from_order (t_side r)) (c_cross_reference_trades ctx))
                     (acc_open_positions (c_account ctx)))"

definition cross_account_hedging_evaluate :: "ext \<Rightarrow> rule_context \<Rightarrow> rule_verdict res option" where
  "cross_account_hedging_evaluate E ctx =
     (if hedged_symbols ctx = [] then ok Pass
      else ok (Warn (build_violation E cross_account_hedging_info ctx Warning
             (Fmt ''cross_account_hedging.detected''
                (MInt (int (length (hedged_symbols ctx))) # map Lit (hedged_symbols ctx))))))"

definition cross_account_hedging_rule :: "ext \<Rightarrow> rule_params option \<Rightarrow> rule" where
  "cross_account_hedging_rule E ps =
     \<lparr> r_info = cross_account_hedging_info, r_scope = TickScope, r_severity = Warning, r_priority = 100,
       r_tolerance_cents = 1, r_params = ps, r_is_enabled = cross_account_hedging_is_enabled ps,
       r_evaluate = cross_account_hedging_evaluate E \<rparr>"

section \<open>Low-capitalisation exposure\<close>

abbreviation lowcap_exposure_info :: rule_info where
  "lowcap_exposure_info \<equiv>
     \<lparr> ri_key = ''lowcap_exposure'', ri_name = ''Low-Capitalisation Asset Exposure'', ri_kind = LowcapExposure \<rparr>"

definition lowcap_exposure_is_enabled :: "rule_params option \<Rightarrow> rule_context \<Rightarrow> bool option" where
  "lowcap_exposure_is_enabled ps ctx =
     Some (if param_disabled ps then False else lowcap_exposure_limit_pct (plan (c_account ctx)) \<noteq> None)"

definition lowcap_exposure_evaluate :: "ext \<Rightarrow> rule_context \<Rightarrow> rule_verdict res option" where
  "lowcap_exposure_evaluate E ctx =
     (let a = c_account ctx in
      case lowcap_exposure_limit_pct (plan a) of
        None \<Rightarrow> ok Pass
      | Some limit_pct \<Rightarrow> do {
          n \<leftarrow> foldo (\<lambda>acc pos.
             let spec = instruments_get (c_instruments ctx) (p_symbol pos) in
             if i_is_lowcap spec then do {
               x \<leftarrow> dmul E (p_opened_quantity pos) (i_contract_size spec);
               n \<leftarrow> dmul E x (p_avg_entry_price pos);
               dadd E acc n }
             else Some acc) 0 (acc_open_positions a);
          if balance a \<le> 0 then ok Pass
          else do {
            limit_dollars \<leftarrow> dmul E limit_pct (balance a);
            if n > limit_dollars then do {
              shown \<leftarrow> dmul E limit_pct 100;
              ok (Warn (build_violation E lowcap_exposure_info ctx Warning
                    (Fmt ''lowcap_exposure.exceeded'' [MDec n, MDec shown, MDec (balance a), MDec limit_dollars]))) }
            else ok Pass } })"

definition lowcap_exposure_rule :: "ext \<Rightarrow> rule_params option \<Rightarrow> rule" where
  "lowcap_exposure_rule E ps =
     \<lparr> r_info = lowcap_exposure_info, r_scope = TickScope, r_severity = Warning, r_priority = 100,
       r_tolerance_cents = 1, r_params = ps, r_is_enabled = lowcap_exposure_is_enabled ps,
       r_evaluate = lowcap_exposure_evaluate E \<rparr>"

section \<open>Every rule keeps the contract\<close>

lemma news_trading_verdict_ok: "returns (verdict_ok E news_trading_info ctx) (news_trading_evaluate E ctx)"
  unfolding news_trading_evaluate_def Let_def
  by (intro returns_intros) (auto simp: verdict_ok_def equity_is_broker_reported_def dest: broker_required)

interpretation news_trading: rule_contract E "news_trading_rule E ps" for E ps
  by unfold_locales (simp add: news_trading_rule_def news_trading_verdict_ok)

lemma overnight_holding_verdict_ok: "returns (verdict_ok E overnight_holding_info ctx) (overnight_holding_evaluate E ctx)"
  unfolding overnight_holding_evaluate_def Let_def
  by (intro returns_intros) (auto simp: verdict_ok_def equity_is_broker_reported_def dest: broker_required)

interpretation overnight_holding: rule_contract E "overnight_holding_rule E ps" for E ps
  by unfold_locales (simp add: overnight_holding_rule_def overnight_holding_verdict_ok)

lemma weekend_holding_verdict_ok: "returns (verdict_ok E weekend_holding_info ctx) (weekend_holding_evaluate E ctx)"
  unfolding weekend_holding_evaluate_def Let_def
  by (intro returns_intros) (auto simp: verdict_ok_def equity_is_broker_reported_def dest: broker_required)

interpretation weekend_holding: rule_contract E "weekend_holding_rule E ps" for E ps
  by unfold_locales (simp add: weekend_holding_rule_def weekend_holding_verdict_ok)

lemma max_position_size_verdict_ok: "returns (verdict_ok E max_position_size_info ctx) (max_position_size_evaluate E ps ctx)"
  unfolding max_position_size_evaluate_def Let_def
  by (intro returns_intros) (auto simp: verdict_ok_def equity_is_broker_reported_def dest: broker_required)

interpretation max_position_size: rule_contract E "max_position_size_rule E ps" for E ps
  by unfold_locales (simp add: max_position_size_rule_def max_position_size_verdict_ok)

lemma max_open_positions_verdict_ok: "returns (verdict_ok E max_open_positions_info ctx) (max_open_positions_evaluate E ps ctx)"
  unfolding max_open_positions_evaluate_def count_cap_verdict_def Let_def
  by (intro returns_intros) (auto simp: verdict_ok_def equity_is_broker_reported_def dest: broker_required)

interpretation max_open_positions: rule_contract E "max_open_positions_rule E ps" for E ps
  by unfold_locales (simp add: max_open_positions_rule_def max_open_positions_verdict_ok)

lemma max_daily_trades_verdict_ok: "returns (verdict_ok E max_daily_trades_info ctx) (max_daily_trades_evaluate E ps ctx)"
  unfolding max_daily_trades_evaluate_def count_cap_verdict_def Let_def
  by (intro returns_intros) (auto simp: verdict_ok_def equity_is_broker_reported_def dest: broker_required)

interpretation max_daily_trades: rule_contract E "max_daily_trades_rule E ps" for E ps
  by unfold_locales (simp add: max_daily_trades_rule_def max_daily_trades_verdict_ok)

lemma cooldown_verdict_ok: "returns (verdict_ok E cooldown_info ctx) (cooldown_evaluate E ps ctx)"
  unfolding cooldown_evaluate_def Let_def
  by (intro returns_intros) (auto simp: verdict_ok_def equity_is_broker_reported_def dest: broker_required)

interpretation cooldown: rule_contract E "cooldown_rule E ps" for E ps
  by unfold_locales (simp add: cooldown_rule_def cooldown_verdict_ok)

lemma hedging_verdict_ok: "returns (verdict_ok E hedging_info ctx) (hedging_evaluate E ctx)"
  unfolding hedging_evaluate_def Let_def
  by (intro returns_intros) (auto simp: verdict_ok_def equity_is_broker_reported_def dest: broker_required)

interpretation hedging: rule_contract E "hedging_rule E ps" for E ps
  by unfold_locales (simp add: hedging_rule_def hedging_verdict_ok)

lemma grid_trading_verdict_ok: "returns (verdict_ok E grid_trading_info ctx) (grid_trading_evaluate E ps ctx)"
  unfolding grid_trading_evaluate_def Let_def
  by (intro returns_intros) (auto simp: verdict_ok_def equity_is_broker_reported_def dest: broker_required)

interpretation grid_trading: rule_contract E "grid_trading_rule E ps" for E ps
  by unfold_locales (simp add: grid_trading_rule_def grid_trading_verdict_ok)

lemma copy_trading_verdict_ok: "returns (verdict_ok E copy_trading_info ctx) (copy_trading_evaluate E ps ctx)"
  unfolding copy_trading_evaluate_def Let_def
  by (intro returns_intros) (auto simp: verdict_ok_def equity_is_broker_reported_def dest: broker_required)

interpretation copy_trading: rule_contract E "copy_trading_rule E ps" for E ps
  by unfold_locales (simp add: copy_trading_rule_def copy_trading_verdict_ok)

lemma hft_scalping_verdict_ok: "returns (verdict_ok E hft_scalping_info ctx) (hft_scalping_evaluate E ps ctx)"
  unfolding hft_scalping_evaluate_def Let_def
  by (intro returns_intros) (auto simp: verdict_ok_def equity_is_broker_reported_def dest: broker_required)

interpretation hft_scalping: rule_contract E "hft_scalping_rule E ps" for E ps
  by unfold_locales (simp add: hft_scalping_rule_def hft_scalping_verdict_ok)

lemma max_total_lots_verdict_ok: "returns (verdict_ok E max_total_lots_info ctx) (max_total_lots_evaluate E ps ctx)"
  unfolding max_total_lots_evaluate_def Let_def
  by (intro returns_intros) (auto simp: verdict_ok_def equity_is_broker_reported_def dest: broker_required)

interpretation max_total_lots: rule_contract E "max_total_lots_rule E ps" for E ps
  by unfold_locales (simp add: max_total_lots_rule_def max_total_lots_verdict_ok)

lemma trading_hours_verdict_ok: "returns (verdict_ok E trading_hours_info ctx) (trading_hours_evaluate E ctx)"
  unfolding trading_hours_evaluate_def Let_def
  by (intro returns_intros) (auto simp: verdict_ok_def equity_is_broker_reported_def dest: broker_required)

interpretation trading_hours: rule_contract E "trading_hours_rule E" for E
  by unfold_locales (simp add: trading_hours_rule_def trading_hours_verdict_ok)

lemma margin_verdict_ok: "returns (verdict_ok E margin_info ctx) (margin_evaluate E ctx)"
  unfolding margin_evaluate_def Let_def
  by (intro returns_intros) (auto simp: verdict_ok_def equity_is_broker_reported_def dest: broker_required)

interpretation margin: rule_contract E "margin_rule E" for E
  by unfold_locales (simp add: margin_rule_def margin_verdict_ok)

lemma sl_required_verdict_ok: "returns (verdict_ok E sl_required_info ctx) (sl_required_evaluate E ctx)"
  unfolding sl_required_evaluate_def Let_def
  by (intro returns_intros) (auto simp: verdict_ok_def equity_is_broker_reported_def dest: broker_required)

interpretation sl_required: rule_contract E "sl_required_rule E ps" for E ps
  by unfold_locales (simp add: sl_required_rule_def sl_required_verdict_ok)

lemma tp_required_verdict_ok: "returns (verdict_ok E tp_required_info ctx) (tp_required_evaluate E ctx)"
  unfolding tp_required_evaluate_def Let_def
  by (intro returns_intros) (auto simp: verdict_ok_def equity_is_broker_reported_def dest: broker_required)

interpretation tp_required: rule_contract E "tp_required_rule E ps" for E ps
  by unfold_locales (simp add: tp_required_rule_def tp_required_verdict_ok)

lemma cross_account_hedging_verdict_ok: "returns (verdict_ok E cross_account_hedging_info ctx) (cross_account_hedging_evaluate E ctx)"
  unfolding cross_account_hedging_evaluate_def Let_def
  by (intro returns_intros) (auto simp: verdict_ok_def equity_is_broker_reported_def dest: broker_required)

interpretation cross_account_hedging: rule_contract E "cross_account_hedging_rule E ps" for E ps
  by unfold_locales (simp add: cross_account_hedging_rule_def cross_account_hedging_verdict_ok)

lemma lowcap_exposure_verdict_ok: "returns (verdict_ok E lowcap_exposure_info ctx) (lowcap_exposure_evaluate E ctx)"
  unfolding lowcap_exposure_evaluate_def Let_def
  by (intro returns_intros) (auto simp: verdict_ok_def equity_is_broker_reported_def dest: broker_required)

interpretation lowcap_exposure: rule_contract E "lowcap_exposure_rule E ps" for E ps
  by unfold_locales (simp add: lowcap_exposure_rule_def lowcap_exposure_verdict_ok)

end
