(* ===== verification/Registry.thy ===== *)
theory Registry
  imports Eval_Risk Eval_Trading
begin

text \<open>
  The rule registry of \<^verbatim>\<open>src/rules/registry.rs\<close>: the factory table for pack entries, the
  default library, the store of rules with its id index, and the evaluation of all
  rules of the store on a context, where a rule that errs or panics is turned into a
  verdict by its failure policy.
\<close>

section \<open>Factories and the default library\<close>

type_synonym rule_factory = "rule_entry \<Rightarrow> rule res"

definition factory_table :: "ext \<Rightarrow> (string \<times> rule_factory) list" where
  "factory_table E =
     (let mk = (\<lambda>f e. Inr (f E (Some (params_from_entry e))) :: rule res) in
      [ (''daily_drawdown'', mk daily_drawdown_rule),
        (''max_drawdown'', mk max_drawdown_rule),
        (''trailing_drawdown'', mk trailing_drawdown_rule),
        (''profit_target'', mk profit_target_rule),
        (''min_trading_days'', mk min_trading_days_rule),
        (''consistency'', mk consistency_rule),
        (''news_trading'', mk news_trading_rule),
        (''overnight_holding'', mk overnight_holding_rule),
        (''weekend_holding'', mk weekend_holding_rule),
        (''max_position_size'', mk max_position_size_rule),
        (''max_open_positions'', mk max_open_positions_rule),
        (''max_daily_trades'', mk max_daily_trades_rule),
        (''time_limit'', mk time_limit_rule),
        (''cooldown'', mk cooldown_rule),
        (''hedging'', mk hedging_rule),
        (''grid_trading'', mk grid_trading_rule),
        (''copy_trading'', mk copy_trading_rule),
        (''sl_required'', mk sl_required_rule),
        (''tp_required'', mk tp_required_rule),
        (''hft_scalping'', mk hft_scalping_rule),
        (''per_trade_max_loss'', mk per_trade_max_loss_rule),
        (''inactivity'', mk inactivity_rule),
        (''max_total_lots'', mk max_total_lots_rule),
        (''trading_hours'', \<lambda>e. Inr (trading_hours_rule E)),
        (''margin'', \<lambda>e. Inr (margin_rule E)) ])"

definition default_factory_for_kind :: "ext \<Rightarrow> string \<Rightarrow> rule_factory option" where
  "default_factory_for_kind E knd = map_of (factory_table E) knd"

definition default_factories_for_kinds :: "ext \<Rightarrow> string list \<Rightarrow> (string \<times> rule_factory) list res" where
  "default_factories_for_kinds E kind_names =
     (let unsupported = filter (\<lambda>k. default_factory_for_kind E k = None) kind_names in
      if unsupported \<noteq> [] then Inl (InvalidConfig (Fmt ''registry.unsupported_kinds'' (map Lit unsupported)))
      else Inr (map (\<lambda>k. (k, the (default_factory_for_kind E k))) kind_names))"

definition default_rules :: "ext \<Rightarrow> rule list" where
  "default_rules E =
     [ daily_drawdown_rule E None, max_drawdown_rule E None, trailing_drawdown_rule E None,
       profit_target_rule E None, min_trading_days_rule E None, min_profitable_days_rule E None,
       consistency_rule E None, news_trading_rule E None, overnight_holding_rule E None,
       weekend_holding_rule E None, max_position_size_rule E None, max_open_positions_rule E None,
       max_daily_trades_rule E None, time_limit_rule E None, cooldown_rule E None,
       hedging_rule E None, grid_trading_rule E None, copy_trading_rule E None,
       sl_required_rule E None, tp_required_rule E None, hft_scalping_rule E None,
       per_trade_max_loss_rule E None, inactivity_rule E None, max_total_lots_rule E None,
       trading_hours_rule E, margin_rule E, cross_account_hedging_rule E None,
       lowcap_exposure_rule E None ]"

section \<open>The store\<close>

record registry =
  reg_rules :: "rule list"
  reg_by_id :: "uuid \<rightharpoonup> nat"

definition registry_empty :: registry where
  "registry_empty = \<lparr> reg_rules = [], reg_by_id = Map.empty \<rparr>"

text \<open>Indexing a vector out of its range panics.\<close>

definition registry_register :: "ext \<Rightarrow> registry \<Rightarrow> rule \<Rightarrow> registry option" where
  "registry_register E reg r =
     (let ident = rule_id E r in
      case reg_by_id reg ident of
        Some idx \<Rightarrow>
          if idx < length (reg_rules reg)
          then Some (reg\<lparr>reg_rules := (reg_rules reg)[idx := r]\<rparr>) else None
      | None \<Rightarrow>
          Some (reg\<lparr>reg_rules := reg_rules reg @ [r],
                    reg_by_id := (reg_by_id reg)(ident \<mapsto> length (reg_rules reg))\<rparr>))"

abbreviation registry_reindex :: "ext \<Rightarrow> rule list \<Rightarrow> uuid \<rightharpoonup> nat" where
  "registry_reindex E rs \<equiv> fold (\<lambda>(i, r) m. m(rule_id E r \<mapsto> i)) (enumerate 0 rs) Map.empty"

definition registry_unregister :: "ext \<Rightarrow> registry \<Rightarrow> uuid \<Rightarrow> registry option" where
  "registry_unregister E reg ident =
     (case reg_by_id reg ident of
        None \<Rightarrow> Some reg
      | Some idx \<Rightarrow>
          if idx < length (reg_rules reg)
          then (let rs = take idx (reg_rules reg) @ drop (Suc idx) (reg_rules reg)
                in Some \<lparr> reg_rules = rs, reg_by_id = registry_reindex E rs \<rparr>)
          else None)"

definition registry_get :: "registry \<Rightarrow> uuid \<Rightarrow> rule option option" where
  "registry_get reg ident =
     (case reg_by_id reg ident of
        None \<Rightarrow> Some None
      | Some i \<Rightarrow> if i < length (reg_rules reg) then Some (Some (reg_rules reg ! i)) else None)"

abbreviation registry_register_all :: "ext \<Rightarrow> rule list \<Rightarrow> registry option" where
  "registry_register_all E rs \<equiv> foldo (registry_register E) registry_empty rs"

definition with_default_rules :: "ext \<Rightarrow> registry option" where
  "with_default_rules E = registry_register_all E (default_rules E)"

text \<open>A rule of the library the plan switches off; the tests are in the source's order.\<close>

definition plan_drops_rule :: "ext \<Rightarrow> challenge_plan \<Rightarrow> uuid \<Rightarrow> bool" where
  "plan_drops_rule E p ident \<longleftrightarrow>
       (ident = rule_id_named E ''hft_scalping'' \<and> \<not> hft_ban_enabled p)
     \<or> (ident = rule_id_named E ''per_trade_max_loss''
          \<and> per_trade_max_loss_pct p = None \<and> per_trade_max_loss_money p = None)
     \<or> (ident = rule_id_named E ''inactivity'' \<and> inactivity_days p = None)
     \<or> (ident = rule_id_named E ''min_profitable_days'' \<and> min_profitable_days p = None)
     \<or> (ident = rule_id_named E ''cross_account_hedging'' \<and> \<not> cross_account_hedging_prohibited p)
     \<or> (ident = rule_id_named E ''lowcap_exposure'' \<and> lowcap_exposure_limit_pct p = None)
     \<or> (ident = rule_id_named E ''hedging'' \<and> hedging_allowed p)
     \<or> (ident = rule_id_named E ''grid_trading'' \<and> grid_trading_allowed p)
     \<or> (ident = rule_id_named E ''copy_trading'' \<and> copy_trading_allowed p)
     \<or> (ident = rule_id_named E ''news_trading'' \<and> news_trading_allowed p)
     \<or> (ident = rule_id_named E ''cooldown'' \<and> cooldown_seconds p = 0)"

definition with_default_rules_for_plan :: "ext \<Rightarrow> challenge_plan \<Rightarrow> registry option" where
  "with_default_rules_for_plan E p =
     registry_register_all E (filter (\<lambda>r. \<not> plan_drops_rule E p (rule_id E r)) (default_rules E))"

fun register_entries :: "ext \<Rightarrow> string \<Rightarrow> registry \<Rightarrow> rule_entry list \<Rightarrow> registry res option" where
  "register_entries E pack_id reg [] = ok reg"
| "register_entries E pack_id reg (e # es) =
     (if \<not> en_enabled e then register_entries E pack_id reg es
      else case default_factory_for_kind E (en_kind e) of
        None \<Rightarrow> err (InvalidConfig (Fmt ''registry.unsupported_kind'' [Lit pack_id, Lit (en_kind e)]))
      | Some factory \<Rightarrow>
          (case factory e of
             Inl er \<Rightarrow> err er
           | Inr r \<Rightarrow> do {
               reg' \<leftarrow> registry_register E reg r;
               register_entries E pack_id reg' es }))"

definition build_from_pack :: "ext \<Rightarrow> rule_pack \<Rightarrow> registry res option" where
  "build_from_pack E pack = register_entries E (rp_id pack) registry_empty (rp_rules pack)"

section \<open>Evaluation\<close>

fun scope_of_kind :: "rule_context_kind \<Rightarrow> evaluation_scope" where
  "scope_of_kind OnOrderSubmit = PreTrade"
| "scope_of_kind OnTradeFill = PostTrade"
| "scope_of_kind OnTick = TickScope"
| "scope_of_kind OnDayRollover = Periodic"
| "scope_of_kind OnEndOfDay = Periodic"
| "scope_of_kind OnDemand = DemandScope"

definition registry_applicable :: "registry \<Rightarrow> rule_context_kind \<Rightarrow> rule list" where
  "registry_applicable reg k =
     filter (\<lambda>r. r_scope r = scope_of_kind k \<or> r_scope r = DemandScope) (reg_rules reg)"

fun context_kind_display :: "rule_context_kind \<Rightarrow> string" where
  "context_kind_display OnOrderSubmit = ''on_order_submit''"
| "context_kind_display OnTradeFill = ''on_trade_fill''"
| "context_kind_display OnTick = ''on_tick''"
| "context_kind_display OnDayRollover = ''on_day_rollover''"
| "context_kind_display OnEndOfDay = ''on_end_of_day''"
| "context_kind_display OnDemand = ''on_demand''"

definition evaluate_applicable :: "rule_context_kind \<Rightarrow> evaluation_scope \<Rightarrow> bool" where
  "evaluate_applicable k sc =
     (case k of
        OnDemand \<Rightarrow> True
      | _ \<Rightarrow> sc = scope_of_kind k \<or> sc = DemandScope)"

definition failure_verdict :: "rule \<Rightarrow> violation \<Rightarrow> rule_verdict" where
  "failure_verdict r base =
     (let policy = (case Option.bind (r_params r) rp_failure_policy of Some p \<Rightarrow> p | None \<Rightarrow> ''warn'') in
      if policy = ''soft_fail'' then SoftFail base
      else if policy = ''fail'' then Fail base
      else if policy = ''gap_flagged'' then GapFlagged base
      else Warn base)"

text \<open>
  \<^verbatim>\<open>catch_unwind\<close> around one rule: a panic, like an error, becomes a verdict. A panic of the
  model carries no payload, so the text appended to its message is left out.
\<close>

definition guarded_verdict :: "ext \<Rightarrow> rule_context \<Rightarrow> rule \<Rightarrow> rule_verdict" where
  "guarded_verdict E ctx r =
     (case r_evaluate r ctx of
        Some (Inr v) \<Rightarrow> v
      | Some (Inl e) \<Rightarrow> failure_verdict r
          (build_violation E (r_info r) ctx Warning (Fmt ''rule evaluation error: {e}'' [error_msg e]))
      | None \<Rightarrow> failure_verdict r
          (build_violation E (r_info r) ctx Warning (Lit ''rule panicked (caught by registry, process preserved)'')))"

definition rule_report_of :: "ext \<Rightarrow> rule_context \<Rightarrow> rule \<Rightarrow> rule_report" where
  "rule_report_of E ctx r =
     report_with_metadata
       (report_with_priority
          (report_new_at (rule_id E r) (ri_name (r_info r)) (guarded_verdict E ctx r) (r_scope r) (utc_now E))
          (r_priority r))
       ''kind'' (context_kind_display (c_kind ctx))"

fun evaluate_rules :: "ext \<Rightarrow> rule_context \<Rightarrow> rule list \<Rightarrow> rule_report list option" where
  "evaluate_rules E ctx [] = Some []"
| "evaluate_rules E ctx (r # rs) = do {
     enabled \<leftarrow> r_is_enabled r ctx;
     if \<not> enabled then evaluate_rules E ctx rs
     else if \<not> evaluate_applicable (c_kind ctx) (r_scope r) then evaluate_rules E ctx rs
     else do {
       let rep = rule_report_of E ctx r;
       reps \<leftarrow> evaluate_rules E ctx rs;
       Some (rep # reps) } }"

definition registry_evaluate :: "ext \<Rightarrow> registry \<Rightarrow> rule_context \<Rightarrow> rule_report list res option" where
  "registry_evaluate E reg ctx = do { reps \<leftarrow> evaluate_rules E ctx (reg_rules reg); ok reps }"

section \<open>Invariant and specification\<close>

text \<open>The invariant of the store: the index maps exactly the ids of the rules to their places.\<close>

definition reg_ok :: "ext \<Rightarrow> registry \<Rightarrow> bool" where
  "reg_ok E reg \<longleftrightarrow>
     (\<forall>ident i. reg_by_id reg ident = Some i \<longleftrightarrow>
        i < length (reg_rules reg) \<and> rule_id E (reg_rules reg ! i) = ident)"

text \<open>The names of the rules of the default library, in the order of registration.\<close>

definition library_keys :: "string list" where
  "library_keys =
     [''daily_drawdown'', ''max_drawdown'', ''trailing_drawdown'', ''profit_target'', ''min_trading_days'',
      ''min_profitable_days'', ''consistency'', ''news_trading'', ''overnight_holding'', ''weekend_holding'',
      ''max_position_size'', ''max_open_positions'', ''max_daily_trades'', ''time_limit'', ''cooldown'',
      ''hedging'', ''grid_trading'', ''copy_trading'', ''sl_required'', ''tp_required'', ''hft_scalping'',
      ''per_trade_max_loss'', ''inactivity'', ''max_total_lots'', ''trading_hours'', ''margin'',
      ''cross_account_hedging'', ''lowcap_exposure'']"

text \<open>The standard hasher does not collide on the names of the library.\<close>

definition hashes_distinct :: "ext \<Rightarrow> bool" where
  "hashes_distinct E \<longleftrightarrow> distinct (map (default_hash E) library_keys)"

text \<open>The names of the rules a plan switches off.\<close>

definition plan_drops_key :: "challenge_plan \<Rightarrow> string \<Rightarrow> bool" where
  "plan_drops_key p k \<longleftrightarrow>
       (k = ''hft_scalping'' \<and> \<not> hft_ban_enabled p)
     \<or> (k = ''per_trade_max_loss'' \<and> per_trade_max_loss_pct p = None \<and> per_trade_max_loss_money p = None)
     \<or> (k = ''inactivity'' \<and> inactivity_days p = None)
     \<or> (k = ''min_profitable_days'' \<and> min_profitable_days p = None)
     \<or> (k = ''cross_account_hedging'' \<and> \<not> cross_account_hedging_prohibited p)
     \<or> (k = ''lowcap_exposure'' \<and> lowcap_exposure_limit_pct p = None)
     \<or> (k = ''hedging'' \<and> hedging_allowed p)
     \<or> (k = ''grid_trading'' \<and> grid_trading_allowed p)
     \<or> (k = ''copy_trading'' \<and> copy_trading_allowed p)
     \<or> (k = ''news_trading'' \<and> news_trading_allowed p)
     \<or> (k = ''cooldown'' \<and> cooldown_seconds p = 0)"

text \<open>The rule a pack entry of a known kind builds.\<close>

definition rule_of_entry :: "ext \<Rightarrow> rule_entry \<Rightarrow> rule" where
  "rule_of_entry E e = projr (the (default_factory_for_kind E (en_kind e)) e)"

text \<open>The kind of the entry has a factory.\<close>

definition known_kind :: "ext \<Rightarrow> rule_entry \<Rightarrow> bool" where
  "known_kind E e \<longleftrightarrow> default_factory_for_kind E (en_kind e) \<noteq> None"

text \<open>A pack with two enabled entries of one kind, for concrete instances.\<close>

definition demo_pack :: rule_pack where
  "demo_pack =
     \<lparr> rp_id = ''demo'', rp_version = 1, rp_tenant_id = 5, rp_lifecycle = ActivePack,
       rp_effective_from = 0, rp_superseded_by = None, rp_description = [],
       rp_rules = [rule_entry_new ''tight'' ''daily_drawdown'' (3/100),
                   rule_entry_new ''loose'' ''daily_drawdown'' (9/100)],
       rp_initial_balance = 10000, rp_leverage = 100, rp_profit_target_pct = 8/100 \<rparr>"

section \<open>The store keeps its contract\<close>

text \<open>
  The contract of a store of items under a key: registration replaces an item with the
  same key or appends, removal deletes, lookup finds; none of them panics on a store that
  satisfies the invariant.
\<close>

locale keyed_store =
  fixes inv :: "'s \<Rightarrow> bool" and key :: "'r \<Rightarrow> 'k" and items :: "'s \<Rightarrow> 'r list"
    and reg :: "'s \<Rightarrow> 'r \<Rightarrow> 's option" and unreg :: "'s \<Rightarrow> 'k \<Rightarrow> 's option"
    and get :: "'s \<Rightarrow> 'k \<Rightarrow> 'r option option"
  assumes reg_total: "inv s \<Longrightarrow> \<exists>t. reg s r = Some t \<and> inv t"
    and unreg_total: "inv s \<Longrightarrow> \<exists>t. unreg s k = Some t \<and> inv t"
    and get_reg: "inv s \<Longrightarrow> reg s r = Some t \<Longrightarrow> get t k = (if k = key r then Some (Some r) else get s k)"
    and get_unreg: "inv s \<Longrightarrow> unreg s k = Some t \<Longrightarrow> get t k' = (if k' = k then Some None else get s k')"
    and get_items: "inv s \<Longrightarrow> get s k = Some (find (\<lambda>r. key r = k) (items s))"
    and key_distinct: "inv s \<Longrightarrow> distinct (map key (items s))"
    and items_reg: "inv s \<Longrightarrow> reg s r = Some t \<Longrightarrow> key r \<notin> key ` set (items s) \<Longrightarrow> items t = items s @ [r]"
begin

lemma reg_all_total: "inv s \<Longrightarrow> \<exists>t. foldo reg s rs = Some t \<and> inv t"
  by (induction rs arbitrary: s) (auto dest: reg_total, metis bind.bind_lunit reg_total)

lemma reg_all_get:
  "inv s \<Longrightarrow> foldo reg s rs = Some t \<Longrightarrow>
   get t k = (case find (\<lambda>r. key r = k) (rev rs) of Some r \<Rightarrow> Some (Some r) | None \<Rightarrow> get s k)"
proof (induction rs arbitrary: t rule: rev_induct)
  case (snoc r rs)
  from snoc.prems obtain u where u: "foldo reg s rs = Some u" "reg u r = Some t"
    by (auto simp: foldo_append run_simps)
  moreover have "inv u" using reg_all_total [OF snoc.prems(1), of rs] u by auto
  ultimately show ?case using snoc.IH [OF snoc.prems(1) u(1)] get_reg [of u r t k] by auto
qed simp

lemma reg_all_items:
  "inv s \<Longrightarrow> foldo reg s rs = Some t \<Longrightarrow> distinct (map key rs) \<Longrightarrow> key ` set rs \<inter> key ` set (items s) = {} \<Longrightarrow>
   items t = items s @ rs"
proof (induction rs arbitrary: s)
  case (Cons r rs)
  then obtain u where u: "reg s r = Some u" "foldo reg u rs = Some t" by (auto simp: run_simps)
  have "inv u" using reg_total [OF Cons.prems(1), of r] u by auto
  moreover have "items u = items s @ [r]" using items_reg [OF Cons.prems(1) u(1)] Cons.prems by auto
  ultimately show ?case using Cons.IH [of u] Cons.prems u by auto
qed simp

end

lemma reg_ok_empty [simp]: "reg_ok E registry_empty"
  by (simp add: reg_ok_def registry_empty_def)

lemma reg_ok_index:
  assumes "reg_ok E reg" "i < length (reg_rules reg)"
  shows "reg_by_id reg (rule_id E (reg_rules reg ! i)) = Some i"
  using assms by (simp add: reg_ok_def)

lemma reg_ok_distinct: "reg_ok E reg \<Longrightarrow> distinct (map (rule_id E) (reg_rules reg))"
  unfolding distinct_conv_nth by (metis length_map nth_map option.inject reg_ok_index)

lemma reg_ok_None:
  assumes "reg_ok E reg"
  shows "reg_by_id reg k = None \<longleftrightarrow> k \<notin> rule_id E ` set (reg_rules reg)"
proof (cases "reg_by_id reg k")
  case None
  then have "rule_id E (reg_rules reg ! i) \<noteq> k" if "i < length (reg_rules reg)" for i
    using reg_ok_index [OF assms that] by auto
  with None show ?thesis by (metis imageE in_set_conv_nth)
next
  case (Some i)
  with assms have "i < length (reg_rules reg)" "rule_id E (reg_rules reg ! i) = k"
    by (auto simp: reg_ok_def)
  with Some show ?thesis by auto
qed

lemma reindex_Some:
  assumes "distinct (map (rule_id E) rs)"
  shows "fold (\<lambda>(i, r) m. m(rule_id E r \<mapsto> i)) (enumerate n rs) m k = Some i \<longleftrightarrow>
           (n \<le> i \<and> i < n + length rs \<and> rule_id E (rs ! (i - n)) = k)
         \<or> (k \<notin> rule_id E ` set rs \<and> m k = Some i)"
  using assms
proof (induction rs arbitrary: n m)
  case (Cons r rs)
  have nin: "rule_id E (rs ! j) \<noteq> rule_id E r" if "j < length rs" for j
    using Cons.prems that by (metis distinct.simps(2) imageI list.map(2) list.set_map nth_mem)
  have nth: "(r # rs) ! (i - n) = rs ! (i - Suc n)" if "n < i" for i using that by (simp add: nth_Cons')
  show ?case
  proof (cases "k = rule_id E r")
    case True
    have "k \<notin> rule_id E ` set rs" using Cons.prems True by simp
    moreover have "\<not> (Suc n \<le> i \<and> i < Suc n + length rs \<and> rule_id E (rs ! (i - Suc n)) = k)"
      using nin [of "i - Suc n"] True by auto
    ultimately show ?thesis using Cons True nth [of i] by (cases "i = n") auto
  next
    case False
    then show ?thesis using Cons nth [of i] by (cases "i = n") auto
  qed
qed auto

lemma reg_ok_reindex:
  "distinct (map (rule_id E) rs) \<Longrightarrow> reg_ok E \<lparr> reg_rules = rs, reg_by_id = registry_reindex E rs \<rparr>"
  by (simp add: reg_ok_def reindex_Some)

lemma register_replace:
  assumes "reg_ok E reg" "reg_by_id reg (rule_id E r) = Some i" "registry_register E reg r = Some reg'"
  shows "reg_rules reg' = (reg_rules reg)[i := r]" "reg_ok E reg'" "i < length (reg_rules reg)"
proof -
  from assms(1,2) have i: "i < length (reg_rules reg)" "rule_id E (reg_rules reg ! i) = rule_id E r"
    by (auto simp: reg_ok_def)
  with assms(2,3) have r: "reg' = reg\<lparr>reg_rules := (reg_rules reg)[i := r]\<rparr>"
    by (simp add: registry_register_def)
  have "rule_id E ((reg_rules reg)[i := r] ! j) = rule_id E (reg_rules reg ! j)" for j
    using i by (cases "j = i") auto
  with r assms(1) show "reg_ok E reg'" by (simp add: reg_ok_def)
  from r i show "reg_rules reg' = (reg_rules reg)[i := r]" "i < length (reg_rules reg)" by auto
qed

lemma register_fresh:
  assumes "reg_ok E reg" "reg_by_id reg (rule_id E r) = None" "registry_register E reg r = Some reg'"
  shows "reg_rules reg' = reg_rules reg @ [r]" "reg_ok E reg'"
proof -
  from assms(2,3) have r: "reg' = reg\<lparr>reg_rules := reg_rules reg @ [r],
      reg_by_id := (reg_by_id reg)(rule_id E r \<mapsto> length (reg_rules reg))\<rparr>"
    by (simp add: registry_register_def)
  then show "reg_rules reg' = reg_rules reg @ [r]" by simp
  have "rule_id E x \<noteq> rule_id E r" if "x \<in> set (reg_rules reg)" for x
    using assms(1,2) that by (metis imageI reg_ok_None)
  with r assms(1) show "reg_ok E reg'"
    by (auto simp: reg_ok_def nth_append less_Suc_eq)
qed

lemma registry_get_find:
  assumes "reg_ok E reg"
  shows "registry_get reg k = Some (find (\<lambda>r. rule_id E r = k) (reg_rules reg))"
proof (cases "reg_by_id reg k")
  case None
  then have "find (\<lambda>r. rule_id E r = k) (reg_rules reg) = None"
    using assms by (auto simp: reg_ok_None find_None_iff)
  with None show ?thesis by (simp add: registry_get_def)
next
  case (Some i)
  then have i: "i < length (reg_rules reg)" "rule_id E (reg_rules reg ! i) = k"
    using assms by (auto simp: reg_ok_def)
  moreover have "rule_id E (reg_rules reg ! j) \<noteq> k" if "j < i" for j
    using assms Some that i by (metis less_trans nat_neq_iff option.inject reg_ok_def)
  ultimately have "find (\<lambda>r. rule_id E r = k) (reg_rules reg) = Some (reg_rules reg ! i)"
    by (auto simp: find_Some_iff)
  with Some i show ?thesis by (simp add: registry_get_def)
qed

lemma find_key_update:
  assumes "i < length xs" "f (xs ! i) = f r" "distinct (map f xs)"
  shows "find (\<lambda>x. f x = k) (xs[i := r]) = (if k = f r then Some r else find (\<lambda>x. f x = k) xs)"
  using assms
proof (induction xs arbitrary: i)
  case (Cons x xs)
  then show ?case
    by (cases i) (auto simp: find_None_iff, metis image_eqI nth_mem)
qed simp

lemma register_total:
  assumes "reg_ok E reg"
  shows "\<exists>reg'. registry_register E reg r = Some reg' \<and> reg_ok E reg'"
proof (cases "reg_by_id reg (rule_id E r)")
  case None
  with assms show ?thesis using register_fresh(2) [OF assms None] by (auto simp: registry_register_def)
next
  case (Some i)
  then have "i < length (reg_rules reg)" using assms by (simp add: reg_ok_def)
  with Some have "registry_register E reg r \<noteq> None"
    by (simp add: registry_register_def)
  then show ?thesis using register_replace(2) [OF assms Some] by auto
qed

lemma find_append: "find P (xs @ ys) = (case find P xs of None \<Rightarrow> find P ys | Some x \<Rightarrow> Some x)"
  by (induction xs) auto

lemma get_register:
  assumes "reg_ok E reg" "registry_register E reg r = Some reg'"
  shows "registry_get reg' k = (if k = rule_id E r then Some (Some r) else registry_get reg k)"
proof (cases "reg_by_id reg (rule_id E r)")
  case None
  note f = register_fresh [OF assms(1) None assms(2)]
  have "rule_id E x \<noteq> rule_id E r" if "x \<in> set (reg_rules reg)" for x
    using assms(1) None that by (metis imageI reg_ok_None)
  then have "find (\<lambda>x. rule_id E x = rule_id E r) (reg_rules reg) = None"
    by (simp add: find_None_iff)
  then show ?thesis by (auto simp: registry_get_find [OF assms(1)] registry_get_find [OF f(2)] f(1) find_append split: option.splits)
next
  case (Some i)
  note f = register_replace [OF assms(1) Some assms(2)]
  have "rule_id E (reg_rules reg ! i) = rule_id E r" using assms(1) Some by (auto simp: reg_ok_def)
  then show ?thesis
    by (simp add: registry_get_find [OF assms(1)] registry_get_find [OF f(2)] f
        find_key_update reg_ok_distinct [OF assms(1)])
qed

lemma filter_remove_nth:
  assumes "distinct (map f xs)" "i < length xs"
  shows "filter (\<lambda>x. f x \<noteq> f (xs ! i)) xs = take i xs @ drop (Suc i) xs"
  using assms
proof (induction xs arbitrary: i)
  case (Cons x xs)
  show ?case
  proof (cases i)
    case 0
    have "\<forall>y \<in> set xs. f y \<noteq> f x" using Cons.prems(1) by (metis distinct.simps(2) imageI list.map(2) list.set_map)
    with 0 show ?thesis by (simp add: filter_id_conv)
  next
    case (Suc j)
    then have "f x \<noteq> f (xs ! j)" using Cons.prems by auto
    with Suc show ?thesis using Cons.IH [of j] Cons.prems by simp
  qed
qed simp

lemma unregister_filter:
  assumes "reg_ok E reg"
  shows "\<exists>reg'. registry_unregister E reg k = Some reg' \<and> reg_ok E reg'
           \<and> reg_rules reg' = filter (\<lambda>r. rule_id E r \<noteq> k) (reg_rules reg)"
proof (cases "reg_by_id reg k")
  case None
  then have "filter (\<lambda>r. rule_id E r \<noteq> k) (reg_rules reg) = reg_rules reg"
    using assms by (auto simp: reg_ok_None filter_id_conv)
  with None assms show ?thesis by (simp add: registry_unregister_def)
next
  case (Some i)
  then have i: "i < length (reg_rules reg)" "rule_id E (reg_rules reg ! i) = k"
    using assms by (auto simp: reg_ok_def)
  let ?rs = "reg_rules reg" and ?f = "filter (\<lambda>r. rule_id E r \<noteq> k)"
  have d: "distinct (map (rule_id E) ?rs)" by (rule reg_ok_distinct [OF assms])
  then have "?f ?rs = take i ?rs @ drop (Suc i) ?rs" using filter_remove_nth [of "rule_id E" ?rs i] i by simp
  moreover from this have "distinct (map (rule_id E) (take i ?rs @ drop (Suc i) ?rs))"
    using distinct_map_filter [OF d, of "\<lambda>r. rule_id E r \<noteq> k"] by simp
  ultimately show ?thesis using Some i by (simp add: registry_unregister_def Let_def reg_ok_reindex)
qed

lemma find_filter_key:
  "find (\<lambda>x. f x = k') (filter (\<lambda>x. f x \<noteq> k) xs) = (if k' = k then None else find (\<lambda>x. f x = k') xs)"
  by (induction xs) auto

lemma get_unregister:
  assumes "reg_ok E reg" "registry_unregister E reg k = Some reg'"
  shows "registry_get reg' k' = (if k' = k then Some None else registry_get reg k')"
proof -
  have ok: "reg_ok E reg'" and eq: "reg_rules reg' = filter (\<lambda>r. rule_id E r \<noteq> k) (reg_rules reg)"
    using unregister_filter [OF assms(1), of k] assms(2) by auto
  show ?thesis
    unfolding registry_get_find [OF ok] registry_get_find [OF assms(1)] eq find_filter_key by simp
qed

lemma unregister_total:
  "reg_ok E reg \<Longrightarrow> \<exists>reg'. registry_unregister E reg k = Some reg' \<and> reg_ok E reg'"
  using unregister_filter by blast

lemma register_new_item:
  "reg_ok E reg \<Longrightarrow> registry_register E reg r = Some reg' \<Longrightarrow> rule_id E r \<notin> rule_id E ` set (reg_rules reg) \<Longrightarrow>
   reg_rules reg' = reg_rules reg @ [r]"
  by (rule register_fresh(1)) (simp_all add: reg_ok_None)

interpretation rules: keyed_store "reg_ok E" "rule_id E" reg_rules "registry_register E" "registry_unregister E" registry_get
  for E
  by unfold_locales
    (fact register_total unregister_total get_register get_unregister registry_get_find reg_ok_distinct register_new_item)+

section \<open>Evaluation\<close>

lemma evaluate_rules_filter:
  assumes "\<And>r. r \<in> set rs \<Longrightarrow> r_is_enabled r ctx = Some (on r)"
  shows "evaluate_rules E ctx rs =
           Some (map (rule_report_of E ctx) (filter (\<lambda>r. on r \<and> evaluate_applicable (c_kind ctx) (r_scope r)) rs))"
  using assms by (induction rs) auto

lemma evaluate_rules_skip:
  assumes "\<And>r. r \<in> set rs \<Longrightarrow> \<not> P r \<Longrightarrow> r_is_enabled r ctx = Some False"
  shows "evaluate_rules E ctx (filter P rs) = evaluate_rules E ctx rs"
  using assms
proof (induction rs)
  case (Cons r rs)
  then show ?case by (cases "r_is_enabled r ctx") (auto split: if_splits)
qed simp

lemma evaluate_rules_append:
  "evaluate_rules E ctx (rs @ rs') =
     Option.bind (evaluate_rules E ctx rs) (\<lambda>reps. Option.bind (evaluate_rules E ctx rs') (\<lambda>reps'. Some (reps @ reps')))"
proof (induction rs)
  case (Cons r rs)
  show ?case
    by (cases "r_is_enabled r ctx"; cases "evaluate_rules E ctx rs"; cases "evaluate_rules E ctx rs'") (auto simp: Cons.IH)
qed (cases "evaluate_rules E ctx rs'"; simp)

lemma evaluate_rules_total:
  assumes "list_all (\<lambda>r. r_is_enabled r ctx \<noteq> None) rs"
  shows "evaluate_rules E ctx rs = Some (map (rule_report_of E ctx)
     (filter (\<lambda>r. r_is_enabled r ctx = Some True \<and> evaluate_applicable (c_kind ctx) (r_scope r)) rs))"
  by (rule evaluate_rules_filter) (use assms in \<open>auto simp: list_all_iff\<close>)

text \<open>The verdict a failure policy asks for, with a violation that names the rule and the account.\<close>

definition policy_verdict :: "ext \<Rightarrow> rule \<Rightarrow> rule_context \<Rightarrow> rule_verdict \<Rightarrow> bool" where
  "policy_verdict E r ctx v \<longleftrightarrow>
     (\<exists>x. stamped E (r_info r) ctx x \<and> v_severity x = Warning
        \<and> (let policy = Option.bind (r_params r) rp_failure_policy in
             (policy = Some ''fail'' \<longrightarrow> v = Fail x)
           \<and> (policy = Some ''soft_fail'' \<longrightarrow> v = SoftFail x)
           \<and> (policy = Some ''gap_flagged'' \<longrightarrow> v = GapFlagged x)
           \<and> (policy \<notin> Some ` {''fail'', ''soft_fail'', ''gap_flagged''} \<longrightarrow> v = Warn x)))"

lemma failure_policy:
  assumes "r_evaluate r ctx = None \<or> (\<exists>e. r_evaluate r ctx = err e)"
  shows "policy_verdict E r ctx (guarded_verdict E ctx r)"
proof -
  obtain m where v: "guarded_verdict E ctx r = failure_verdict r (build_violation E (r_info r) ctx Warning m)"
    using assms by (auto simp: guarded_verdict_def err_def)
  show ?thesis
    unfolding policy_verdict_def v
    by (rule exI [where x = "build_violation E (r_info r) ctx Warning m"])
      (auto simp: failure_verdict_def Let_def build_violation_def violation_new_def violation_with_tenant_def stamped_def split: option.split)
qed

text \<open>
  C16. A rule that fails spoils only its own verdict. Take any registry whose enablement tests
  do not panic (they run outside the guard) and let the evaluation of one of its enabled,
  applicable rules be replaced by one that returns an error or panics. Evaluation still
  returns, with the same reports in the same order for all the other rules, and
  the report of the failing rule differs only in its verdict, which is that of its failure
  policy: fail, soft fail, gap flagged, or a warning when the policy is absent or unknown,
  with a warning-level violation that names the rule and the account.
\<close>

theorem registry_contains_failures:
  assumes "list_all (\<lambda>r. r_is_enabled r ctx \<noteq> None) (rs @ r # rs')"
    and "r_is_enabled r ctx = Some True" "evaluate_applicable (c_kind ctx) (r_scope r)"
    and "f ctx = None \<or> (\<exists>e. f ctx = err e)"
  shows "\<exists>pre rep post v.
     registry_evaluate E \<lparr> reg_rules = rs @ r # rs', reg_by_id = ids \<rparr> ctx = ok (pre @ rep # post)
   \<and> registry_evaluate E \<lparr> reg_rules = rs @ r\<lparr>r_evaluate := f\<rparr> # rs', reg_by_id = ids \<rparr> ctx =
       ok (pre @ rep\<lparr>rr_verdict := v\<rparr> # post)
   \<and> rr_rule_id rep = rule_id E r \<and> policy_verdict E r ctx v"
proof -
  let ?g = "r\<lparr>r_evaluate := f\<rparr>"
  have rs: "list_all (\<lambda>r. r_is_enabled r ctx \<noteq> None) rs" "list_all (\<lambda>r. r_is_enabled r ctx \<noteq> None) rs'" using assms(1) by simp_all
  obtain pre post where fb: "evaluate_rules E ctx rs = Some pre" "evaluate_rules E ctx rs' = Some post"
    using evaluate_rules_total [OF rs(1)] evaluate_rules_total [OF rs(2)] by blast
  have rep: "rule_report_of E ctx ?g = (rule_report_of E ctx r)\<lparr>rr_verdict := guarded_verdict E ctx ?g\<rparr>"
      "rr_rule_id (rule_report_of E ctx r) = rule_id E r"
    by (simp_all add: rule_report_of_def rule_id_def report_with_metadata_def report_with_priority_def report_new_at_def)
  have "policy_verdict E ?g ctx (guarded_verdict E ctx ?g)" by (rule failure_policy) (use assms(4) in simp)
  then have "policy_verdict E r ctx (guarded_verdict E ctx ?g)" by (simp add: policy_verdict_def)
  moreover have "registry_evaluate E \<lparr> reg_rules = rs @ r # rs', reg_by_id = ids \<rparr> ctx = ok (pre @ rule_report_of E ctx r # post)"
    and "registry_evaluate E \<lparr> reg_rules = rs @ ?g # rs', reg_by_id = ids \<rparr> ctx =
       ok (pre @ (rule_report_of E ctx r)\<lparr>rr_verdict := guarded_verdict E ctx ?g\<rparr> # post)"
    using assms(2,3) fb by (simp_all add: registry_evaluate_def evaluate_rules_append rep(1))
  ultimately show ?thesis using rep(2) by blast
qed

theorem registry_contains_failures_witness:
  "\<exists>pre x post. registry_evaluate (exact_env 0)
       \<lparr> reg_rules = [max_drawdown_rule (exact_env 0) None, (daily_drawdown_rule (exact_env 0) None)\<lparr>r_evaluate := \<lambda>ctx. None\<rparr>],
          reg_by_id = Map.empty \<rparr> (context_new 0 demo_account) = ok (pre @ x # post) \<and> (\<exists>w. rr_verdict x = Warn w \<and> v_severity w = Warning)"
proof -
  let ?E = "exact_env 0" and ?ctx = "context_new 0 demo_account"
  let ?m = "max_drawdown_rule ?E None" and ?d = "daily_drawdown_rule ?E None"
  have on: "r_is_enabled ?m ?ctx \<noteq> None" "r_is_enabled ?d ?ctx = Some True" "evaluate_applicable (c_kind ?ctx) (r_scope ?d)"
    by (simp_all add: max_drawdown_rule_def daily_drawdown_rule_def max_drawdown_is_enabled_def daily_drawdown_is_enabled_def
      max_drawdown_effective_pct_def daily_drawdown_effective_pct_def param_value_def evaluate_applicable_def demo_simps)
  obtain pre rep post v where e: "registry_evaluate ?E \<lparr> reg_rules = [?m] @ ?d\<lparr>r_evaluate := \<lambda>ctx. None\<rparr> # [], reg_by_id = Map.empty \<rparr> ?ctx =
        ok (pre @ rep\<lparr>rr_verdict := v\<rparr> # post)" and v: "policy_verdict ?E ?d ?ctx v"
    using registry_contains_failures [of ?ctx "[?m]" ?d "[]" "\<lambda>ctx. None" ?E Map.empty] on by auto
  have "\<exists>w. v = Warn w \<and> v_severity w = Warning" using v by (auto simp: policy_verdict_def daily_drawdown_rule_def)
  then show ?thesis using e by fastforce
qed

section \<open>Library\<close>

lemmas rule_defs =
  daily_drawdown_rule_def max_drawdown_rule_def trailing_drawdown_rule_def profit_target_rule_def
  min_trading_days_rule_def min_profitable_days_rule_def consistency_rule_def news_trading_rule_def
  overnight_holding_rule_def weekend_holding_rule_def max_position_size_rule_def
  max_open_positions_rule_def max_daily_trades_rule_def time_limit_rule_def cooldown_rule_def
  hedging_rule_def grid_trading_rule_def copy_trading_rule_def sl_required_rule_def
  tp_required_rule_def hft_scalping_rule_def per_trade_max_loss_rule_def inactivity_rule_def
  max_total_lots_rule_def trading_hours_rule_def margin_rule_def cross_account_hedging_rule_def
  lowcap_exposure_rule_def

lemma default_rules_keys: "map (\<lambda>r. ri_key (r_info r)) (default_rules E) = library_keys"
  by (simp add: default_rules_def library_keys_def rule_defs)

lemma named_eq_iff:
  "hashes_distinct E \<Longrightarrow> x \<in> set library_keys \<Longrightarrow> y \<in> set library_keys \<Longrightarrow>
   rule_id_named E x = rule_id_named E y \<longleftrightarrow> x = y"
  by (auto simp: hashes_distinct_def distinct_map inj_on_def rule_id_named_eq_iff)

lemma default_rules_distinct:
  assumes "hashes_distinct E"
  shows "distinct (map (rule_id E) (default_rules E))"
proof -
  have "distinct (map (rule_id_named E) library_keys)"
    using assms by (auto simp: hashes_distinct_def distinct_map inj_on_def rule_id_named_eq_iff)
  then show ?thesis
    unfolding default_rules_keys [of E, symmetric] by (simp add: rule_id_def [abs_def] comp_def)
qed

lemma droppable_keys:
  "''hft_scalping'' \<in> set library_keys" "''per_trade_max_loss'' \<in> set library_keys"
  "''inactivity'' \<in> set library_keys" "''min_profitable_days'' \<in> set library_keys"
  "''cross_account_hedging'' \<in> set library_keys" "''lowcap_exposure'' \<in> set library_keys"
  "''hedging'' \<in> set library_keys" "''grid_trading'' \<in> set library_keys"
  "''copy_trading'' \<in> set library_keys" "''news_trading'' \<in> set library_keys"
  "''cooldown'' \<in> set library_keys"
  by (simp_all add: library_keys_def)

lemma plan_drops_rule_key:
  "hashes_distinct E \<Longrightarrow> k \<in> set library_keys \<Longrightarrow>
   plan_drops_rule E p (rule_id_named E k) \<longleftrightarrow> plan_drops_key p k"
  unfolding plan_drops_rule_def plan_drops_key_def by (simp only: named_eq_iff droppable_keys)

lemmas is_enabled_defs =
  daily_drawdown_is_enabled_def max_drawdown_is_enabled_def trailing_drawdown_is_enabled_def
  profit_target_is_enabled_def min_trading_days_is_enabled_def min_profitable_days_is_enabled_def
  consistency_is_enabled_def news_trading_is_enabled_def overnight_holding_is_enabled_def
  weekend_holding_is_enabled_def max_position_size_is_enabled_def max_open_positions_is_enabled_def
  max_daily_trades_is_enabled_def time_limit_is_enabled_def cooldown_is_enabled_def
  hedging_is_enabled_def grid_trading_is_enabled_def copy_trading_is_enabled_def
  sl_required_is_enabled_def tp_required_is_enabled_def hft_scalping_is_enabled_def
  per_trade_max_loss_is_enabled_def inactivity_is_enabled_def max_total_lots_is_enabled_def
  trading_hours_is_enabled_def cross_account_hedging_is_enabled_def lowcap_exposure_is_enabled_def

lemma dropped_keys_disabled:
  "list_all (\<lambda>r. plan_drops_key (plan (c_account ctx)) (ri_key (r_info r)) \<longrightarrow> r_is_enabled r ctx = Some False)
     (default_rules E)"
  by (simp add: default_rules_def rule_defs plan_drops_key_def is_enabled_defs)

lemma default_rules_enabled_total:
  "list_all (\<lambda>r. r_is_enabled r ctx \<noteq> None) (default_rules E)"
  by (auto simp: Let_def default_rules_def rule_defs is_enabled_defs max_drawdown_effective_pct_def param_value_def)

lemma register_all_distinct:
  assumes "distinct (map (rule_id E) rs)"
  shows "\<exists>reg. registry_register_all E rs = Some reg \<and> reg_ok E reg \<and> reg_rules reg = rs"
proof -
  obtain reg where "foldo (registry_register E) registry_empty rs = Some reg" "reg_ok E reg"
    using rules.reg_all_total [OF reg_ok_empty] by blast
  moreover from this have "reg_rules reg = rs"
    using rules.reg_all_items [OF reg_ok_empty _ assms] by (simp add: registry_empty_def)
  ultimately show ?thesis by auto
qed

lemma plan_library_agrees:
  assumes "hashes_distinct E" "plan (c_account ctx) = p"
  shows "\<exists>full part. with_default_rules E = Some full \<and> with_default_rules_for_plan E p = Some part
           \<and> registry_evaluate E part ctx = registry_evaluate E full ctx"
proof -
  let ?keep = "\<lambda>r. \<not> plan_drops_rule E p (rule_id E r)"
  have d: "distinct (map (rule_id E) (default_rules E))" by (rule default_rules_distinct [OF assms(1)])
  have off: "r_is_enabled r ctx = Some False" if r: "r \<in> set (default_rules E)" "\<not> ?keep r" for r
  proof -
    have "ri_key (r_info r) \<in> set library_keys"
      using r(1) unfolding default_rules_keys [of E, symmetric] by simp
    then show ?thesis
      using r plan_drops_rule_key [OF assms(1)] dropped_keys_disabled [of ctx E]
      by (auto simp: list_all_iff rule_id_def assms(2))
  qed
  have "evaluate_rules E ctx (filter ?keep (default_rules E)) = evaluate_rules E ctx (default_rules E)"
    by (rule evaluate_rules_skip [OF off])
  moreover note register_all_distinct [OF d] register_all_distinct [OF distinct_map_filter [OF d, of ?keep]]
  ultimately show ?thesis
    by (auto simp: with_default_rules_def with_default_rules_for_plan_def registry_evaluate_def)
qed

text \<open>
  C9. Leaving the rules a plan switches off unregistered changes no evaluation: on every
  context whose account has that plan, the registry built for the plan gives the same
  reports as the registry with the whole default library. Assumes that the standard
  hasher does not collide on the 28 names of the library.
\<close>

theorem plan_library_equivalent:
  assumes "hashes_distinct E" "plan (c_account ctx) = p"
  shows "\<exists>full part. with_default_rules E = Some full \<and> with_default_rules_for_plan E p = Some part
           \<and> registry_evaluate E part ctx = registry_evaluate E full ctx"
  by (rule plan_library_agrees [OF assms])

lemma exact_env_hashes: "hashes_distinct (exact_env now)"
proof -
  have "distinct (map string_hash library_keys)" by code_simp
  then show ?thesis by (simp add: hashes_distinct_def distinct_map inj_on_def of_int_string_hash_eq)
qed

theorem plan_library_equivalent_witness:
  "\<exists>full part. with_default_rules (exact_env 0) = Some full
     \<and> with_default_rules_for_plan (exact_env 0) (plan_default 3 0) = Some part
     \<and> registry_evaluate (exact_env 0) part (context_new 0 demo_account) =
       registry_evaluate (exact_env 0) full (context_new 0 demo_account)"
  by (rule plan_library_equivalent [OF exact_env_hashes])
    (simp add: context_new_def account_new_def Let_def)

section \<open>Packs\<close>

lemma factory_table_keys:
  "list_all (\<lambda>(k, f). \<exists>r. f e = Inr r \<and> ri_key (r_info r) = k) (factory_table E)"
  by (simp add: factory_table_def Let_def rule_defs)

lemma factory_key:
  "default_factory_for_kind E k = Some f \<Longrightarrow> \<exists>r. f e = Inr r \<and> ri_key (r_info r) = k"
  using factory_table_keys [of e E] by (auto simp: default_factory_for_kind_def list_all_iff dest!: map_of_SomeD)

lemma rule_of_entry_key: "known_kind E e \<Longrightarrow> rule_id E (rule_of_entry E e) = rule_id_named E (en_kind e)"
  using factory_key [of E "en_kind e" _ e] by (auto simp: known_kind_def rule_of_entry_def rule_id_def)

lemma register_entries_known:
  assumes "\<And>e. e \<in> set es \<Longrightarrow> en_enabled e \<Longrightarrow> known_kind E e"
  shows "register_entries E pid reg es =
           Option.bind (foldo (registry_register E) reg (map (rule_of_entry E) (filter en_enabled es))) ok"
  using assms
proof (induction es arbitrary: reg)
  case (Cons e es)
  show ?case
  proof (cases "en_enabled e")
    case True
    then obtain f r where "default_factory_for_kind E (en_kind e) = Some f" "f e = Inr r"
      using Cons.prems [of e] factory_key [of E "en_kind e" _ e] by (auto simp: known_kind_def)
    with True show ?thesis
      using Cons by (cases "registry_register E reg r") (auto simp: rule_of_entry_def)
  qed (use Cons in auto)
qed simp

lemma register_entries_unknown:
  assumes "reg_ok E reg" "e \<in> set es" "en_enabled e" "\<not> known_kind E e"
  shows "\<exists>m. register_entries E pid reg es = err (InvalidConfig m)"
  using assms
proof (induction es arbitrary: reg)
  case (Cons d es)
  show ?case
  proof (cases "en_enabled d \<and> known_kind E d")
    case True
    then obtain f r where "default_factory_for_kind E (en_kind d) = Some f" "f d = Inr r"
      using factory_key [of E "en_kind d" _ d] by (auto simp: known_kind_def)
    moreover obtain reg' where "registry_register E reg r = Some reg'" "reg_ok E reg'"
      using register_total [OF Cons.prems(1)] by blast
    moreover have "e \<in> set es" using True Cons.prems by auto
    ultimately show ?thesis using Cons.IH [of reg'] Cons.prems True by simp
  next
    case False
    then show ?thesis using Cons by (auto simp: known_kind_def)
  qed
qed simp

lemma build_known:
  assumes "\<And>e. e \<in> set (rp_rules pack) \<Longrightarrow> en_enabled e \<Longrightarrow> known_kind E e"
  shows "\<exists>reg. build_from_pack E pack = ok reg \<and> reg_ok E reg
           \<and> foldo (registry_register E) registry_empty (map (rule_of_entry E) (filter en_enabled (rp_rules pack))) = Some reg"
proof -
  obtain reg where "foldo (registry_register E) registry_empty
      (map (rule_of_entry E) (filter en_enabled (rp_rules pack))) = Some reg" "reg_ok E reg"
    using rules.reg_all_total [OF reg_ok_empty] by blast
  with register_entries_known [of "rp_rules pack" E, OF assms] show ?thesis
    by (simp add: build_from_pack_def)
qed

text \<open>
  C35. Building a registry from a pack never panics and fails closed: it succeeds exactly
  when every enabled entry has a known kind, and otherwise returns a configuration
  error.
\<close>

theorem build_from_pack_total:
  "if list_all (known_kind E) (filter en_enabled (rp_rules pack))
   then \<exists>reg. build_from_pack E pack = ok reg \<and> reg_ok E reg
   else \<exists>m. build_from_pack E pack = err (InvalidConfig m)"
proof (cases "list_all (known_kind E) (filter en_enabled (rp_rules pack))")
  case True
  then have "known_kind E e" if "e \<in> set (rp_rules pack)" "en_enabled e" for e
    using that by (auto simp: list_all_iff)
  from build_known [OF this] True show ?thesis by auto
next
  case False
  then obtain e where "e \<in> set (rp_rules pack)" "en_enabled e" "\<not> known_kind E e"
    by (auto simp: list_all_iff)
  from register_entries_unknown [OF reg_ok_empty this] have "\<exists>m. build_from_pack E pack = err (InvalidConfig m)"
    unfolding build_from_pack_def .
  with False show ?thesis by simp
qed

lemma find_map_key:
  assumes "\<And>x. x \<in> set xs \<Longrightarrow> P (f x) \<longleftrightarrow> Q x"
  shows "find P (map f xs) = map_option f (find Q xs)"
  using assms by (induction xs) auto

text \<open>
  The registry built from a pack holds, for each kind, the rule of the last enabled
  entry of that kind: an earlier enabled entry of the same kind is silently dropped, even
  though the pack gives the two entries different ids.
\<close>

lemma pack_last_entry_wins:
  assumes "build_from_pack E pack = ok reg"
    and "\<forall>e \<in> set (rp_rules pack). rule_id_named E (en_kind e) = rule_id_named E k \<longrightarrow> en_kind e = k"
  shows "registry_get reg (rule_id_named E k) =
           Some (map_option (rule_of_entry E)
             (find (\<lambda>e. en_kind e = k) (rev (filter en_enabled (rp_rules pack)))))"
proof -
  let ?es = "filter en_enabled (rp_rules pack)"
  have known: "known_kind E e" if "e \<in> set (rp_rules pack)" "en_enabled e" for e
    using assms(1) register_entries_unknown [OF reg_ok_empty that, of E "rp_id pack"]
    unfolding build_from_pack_def by (metis ok_simps(4))
  have "foldo (registry_register E) registry_empty (map (rule_of_entry E) ?es) = Some reg"
    using build_known [of pack E, OF known] assms(1) by auto
  from rules.reg_all_get [OF reg_ok_empty this, of "rule_id_named E k"]
  have "registry_get reg (rule_id_named E k) =
          Some (find (\<lambda>r. rule_id E r = rule_id_named E k) (map (rule_of_entry E) (rev ?es)))"
    by (simp add: rev_map registry_get_def registry_empty_def split: option.splits)
  also have "find (\<lambda>r. rule_id E r = rule_id_named E k) (map (rule_of_entry E) (rev ?es)) =
               map_option (rule_of_entry E) (find (\<lambda>e. en_kind e = k) (rev ?es))"
    using assms(2) by (intro find_map_key) (auto simp: rule_of_entry_key known)
  finally show ?thesis .
qed

lemma demo_pack_kinds:
  "e \<in> set (rp_rules demo_pack) \<Longrightarrow> en_kind e = ''daily_drawdown''"
  "e \<in> set (rp_rules demo_pack) \<Longrightarrow> known_kind E e"
  by (auto simp: demo_pack_def rule_entry_new_def known_kind_def default_factory_for_kind_def factory_table_def Let_def)

text \<open>
  Registering a rule in a well-formed store never panics, keeps the store well-formed
  and makes exactly one lookup change: the rule's own id now finds this rule (the new one
  when the id was taken).
\<close>

lemma register_then_lookup:
  assumes "reg_ok E reg"
  shows "\<exists>reg'. registry_register E reg r = Some reg' \<and> reg_ok E reg'
           \<and> (\<forall>k. registry_get reg' k = (if k = rule_id E r then Some (Some r) else registry_get reg k))"
  using rules.reg_total [OF assms] rules.get_reg [OF assms] by blast

text \<open>
  Unregistering an id never panics, rebuilds the index correctly, keeps the order of
  the other rules, and makes exactly the lookup of that id fail.
\<close>

lemma unregister_then_lookup:
  assumes "reg_ok E reg"
  shows "\<exists>reg'. registry_unregister E reg k = Some reg' \<and> reg_ok E reg'
           \<and> reg_rules reg' = filter (\<lambda>r. rule_id E r \<noteq> k) (reg_rules reg)
           \<and> (\<forall>k'. registry_get reg' k' = (if k' = k then Some None else registry_get reg k'))"
  using unregister_filter [OF assms] rules.get_unreg [OF assms] by blast

section \<open>Registries the engine builds\<close>

text \<open>A registry with the default library, with its part for a plan, or built from a pack.\<close>

definition library_registry :: "ext \<Rightarrow> registry \<Rightarrow> bool" where
  "library_registry E reg \<longleftrightarrow>
     with_default_rules E = Some reg \<or> (\<exists>p. with_default_rules_for_plan E p = Some reg)
   \<or> (\<exists>pack. build_from_pack E pack = ok reg)"

lemmas rule_contracts =
  daily_drawdown.rule_contract_axioms max_drawdown.rule_contract_axioms trailing_drawdown.rule_contract_axioms
  profit_target.rule_contract_axioms min_trading_days.rule_contract_axioms min_profitable_days.rule_contract_axioms
  consistency.rule_contract_axioms news_trading.rule_contract_axioms overnight_holding.rule_contract_axioms
  weekend_holding.rule_contract_axioms max_position_size.rule_contract_axioms max_open_positions.rule_contract_axioms
  max_daily_trades.rule_contract_axioms time_limit.rule_contract_axioms cooldown.rule_contract_axioms
  hedging.rule_contract_axioms grid_trading.rule_contract_axioms copy_trading.rule_contract_axioms
  sl_required.rule_contract_axioms tp_required.rule_contract_axioms hft_scalping.rule_contract_axioms
  per_trade_max_loss.rule_contract_axioms inactivity.rule_contract_axioms max_total_lots.rule_contract_axioms
  trading_hours.rule_contract_axioms margin.rule_contract_axioms cross_account_hedging.rule_contract_axioms
  lowcap_exposure.rule_contract_axioms

lemma default_rules_contract: "list_all (rule_contract E) (default_rules E)"
  by (simp add: default_rules_def rule_contracts)

lemma factory_contract:
  "default_factory_for_kind E k = Some f \<Longrightarrow> f e = Inr r \<Longrightarrow> rule_contract E r"
proof -
  have "list_all (\<lambda>(k, f). \<forall>r. f e = Inr r \<longrightarrow> rule_contract E r) (factory_table E)"
    by (simp add: factory_table_def Let_def rule_contracts)
  then show "default_factory_for_kind E k = Some f \<Longrightarrow> f e = Inr r \<Longrightarrow> rule_contract E r"
    by (auto simp: default_factory_for_kind_def list_all_iff dest!: map_of_SomeD)
qed

lemma register_rules:
  "registry_register E reg r = Some reg' \<Longrightarrow> set (reg_rules reg') \<subseteq> insert r (set (reg_rules reg))"
  by (auto simp: registry_register_def Let_def split: option.splits if_splits dest: set_update_subset_insert [THEN subsetD])

lemma register_all_rules:
  "foldo (registry_register E) reg rs = Some reg' \<Longrightarrow> set (reg_rules reg') \<subseteq> set rs \<union> set (reg_rules reg)"
  by (induction rs arbitrary: reg) (auto simp: run_simps dest!: register_rules subsetD)

lemma register_entries_contract:
  "register_entries E pid reg es = ok reg' \<Longrightarrow> list_all (rule_contract E) (reg_rules reg) \<Longrightarrow>
   list_all (rule_contract E) (reg_rules reg')"
proof (induction es arbitrary: reg)
  case (Cons e es)
  then show ?case
    by (force simp: run_simps list_all_iff split: if_splits option.splits sum.splits
        dest!: register_rules factory_contract)
qed simp

lemma library_contract: "library_registry E reg \<Longrightarrow> list_all (rule_contract E) (reg_rules reg)"
  using default_rules_contract [of E]
  by (fastforce simp: library_registry_def with_default_rules_def with_default_rules_for_plan_def
      build_from_pack_def list_all_iff registry_empty_def
      dest: register_all_rules register_entries_contract)

lemma guarded_verdict_ok:
  assumes "rule_contract E r"
  shows "verdict_ok E (r_info r) ctx (guarded_verdict E ctx r)"
  using rule_contract.verdict [OF assms, of ctx]
  by (auto simp: guarded_verdict_def returns_def verdict_ok_def failure_verdict_def Let_def
      split: option.splits sum.splits if_splits)

text \<open>Also when the registry was built under an earlier reading of the clock.\<close>

lemma guarded_verdict_mild:
  assumes "rule_contract E0 r"
  shows "case guarded_verdict E ctx r of Liquidate x \<Rightarrow> is_broker_reported (c_equity_input ctx) | Emergency x \<Rightarrow> False | _ \<Rightarrow> True"
  using rule_contract.verdict [OF assms, of ctx]
  by (auto simp: guarded_verdict_def returns_def verdict_ok_def failure_verdict_def Let_def
      split: option.splits sum.splits if_splits)

lemma evaluate_rules_reports:
  "evaluate_rules E ctx rs = Some reps \<Longrightarrow> rep \<in> set reps \<Longrightarrow> \<exists>r\<in>set rs. rep = rule_report_of E ctx r"
  by (induction rs arbitrary: reps) (auto simp: run_simps split: if_splits)

lemma library_report_ok:
  assumes "library_registry E reg" "registry_evaluate E reg ctx = ok reps" "rep \<in> set reps"
  obtains r where "rr_rule_id rep = rule_id E r" "verdict_ok E (r_info r) ctx (rr_verdict rep)"
proof -
  obtain r where r: "r \<in> set (reg_rules reg)" "rep = rule_report_of E ctx r"
    using assms by (auto simp: registry_evaluate_def run_simps dest: evaluate_rules_reports)
  then have "rule_contract E r"
    using library_contract [OF assms(1)] by (simp add: list_all_iff)
  note verdict = guarded_verdict_ok [OF this, of ctx]
  have "rr_rule_id rep = rule_id E r" "rr_verdict rep = guarded_verdict E ctx r"
    unfolding r(2) by (simp_all add: rule_report_of_def report_with_metadata_def report_with_priority_def report_new_at_def)
  then show thesis using verdict by (intro that [of r]) simp_all
qed

lemma library_report_mild:
  assumes "library_registry E0 reg" "registry_evaluate E reg ctx = ok reps" "rep \<in> set reps"
  shows "case rr_verdict rep of Liquidate x \<Rightarrow> is_broker_reported (c_equity_input ctx) | Emergency x \<Rightarrow> False | _ \<Rightarrow> True"
proof -
  obtain r where r: "r \<in> set (reg_rules reg)" "rep = rule_report_of E ctx r"
    using assms by (auto simp: registry_evaluate_def run_simps dest: evaluate_rules_reports)
  then have "rule_contract E0 r" using library_contract [OF assms(1)] by (simp add: list_all_iff)
  moreover have "rr_verdict rep = guarded_verdict E ctx r"
    unfolding r(2) by (simp add: rule_report_of_def report_with_metadata_def report_with_priority_def report_new_at_def)
  ultimately show ?thesis by (simp only: guarded_verdict_mild)
qed

text \<open>
  C33. Whatever registry the engine builds, from the default library, for a plan or from a
  pack with any parameters, every report of an evaluation is sound: its violation names
  the account, the tenant, the reporting rule and the time of the context; liquidation is
  asked for only on broker-reported equity; and no rule asks for an emergency stop.
\<close>

theorem library_reports_sound:
  assumes "library_registry E reg" "registry_evaluate E reg ctx = ok reps" "rep \<in> set reps"
  shows "(\<forall>x. verdict_violation (rr_verdict rep) = Some x \<longrightarrow>
            v_account_id x = acc_id (c_account ctx) \<and> v_tenant_id x = tenant_id (c_account ctx)
          \<and> v_rule_id x = rr_rule_id rep \<and> v_occurred_at x = c_server_time ctx)
       \<and> ((\<exists>x. rr_verdict rep = Liquidate x) \<longrightarrow> is_broker_reported (c_equity_input ctx))
       \<and> (\<forall>x. rr_verdict rep \<noteq> Emergency x)"
  by (rule library_report_ok [OF assms]) (auto simp: verdict_ok_def stamped_def rule_id_def)

lemma default_library:
  assumes "hashes_distinct E"
  obtains reg where "with_default_rules E = Some reg" "reg_rules reg = default_rules E"
  using register_all_distinct [OF default_rules_distinct [OF assms]] that by (auto simp: with_default_rules_def)

lemma default_library_evaluate:
  assumes "reg_rules reg = default_rules E"
  obtains reps where "registry_evaluate E reg ctx = ok reps"
    "set reps = rule_report_of E ctx ` {r \<in> set (default_rules E).
       r_is_enabled r ctx = Some True \<and> evaluate_applicable (c_kind ctx) (r_scope r)}"
proof -
  have "r_is_enabled r ctx = Some (r_is_enabled r ctx = Some True)" if "r \<in> set (reg_rules reg)" for r
    using default_rules_enabled_total [of ctx E] that by (auto simp: list_all_iff assms)
  from evaluate_rules_filter [where on = "\<lambda>r. r_is_enabled r ctx = Some True", OF this]
  show ?thesis using that by (simp add: registry_evaluate_def assms)
qed

theorem library_reports_sound_witness:
  "\<exists>reg reps rep. library_registry (exact_env 0) reg
     \<and> registry_evaluate (exact_env 0) reg (demo_context 9000 10000) = ok reps \<and> rep \<in> set reps
     \<and> (\<forall>x. verdict_violation (rr_verdict rep) = Some x \<longrightarrow> v_account_id x = 7 \<and> v_tenant_id x = 5)"
proof -
  let ?E = "exact_env 0" and ?ctx = "demo_context 9000 10000"
  obtain reg where reg: "with_default_rules ?E = Some reg" "reg_rules reg = default_rules ?E"
    by (rule default_library [OF exact_env_hashes])
  obtain reps where reps: "registry_evaluate ?E reg ?ctx = ok reps"
    "set reps = rule_report_of ?E ?ctx ` {r \<in> set (default_rules ?E).
       r_is_enabled r ?ctx = Some True \<and> evaluate_applicable (c_kind ?ctx) (r_scope r)}"
    by (rule default_library_evaluate [OF reg(2)])
  have lib: "library_registry ?E reg" using reg(1) by (simp add: library_registry_def)
  have rep: "rule_report_of ?E ?ctx (daily_drawdown_rule ?E None) \<in> set reps"
    unfolding reps(2) by (rule imageI) (simp add: default_rules_def daily_drawdown_rule_def daily_drawdown_is_enabled_def
        daily_drawdown_effective_pct_def param_value_def demo_simps evaluate_applicable_def)
  from library_reports_sound [OF lib reps(1) rep] show ?thesis
    using lib reps(1) rep by (auto simp: demo_context_def context_new_def account_new_def Let_def)
qed

section \<open>Ticks without broker figures\<close>

text \<open>A verdict that fails an account does so because its time has run out.\<close>

definition out_of_time :: "violation \<Rightarrow> bool" where
  "out_of_time x \<longleftrightarrow> v_kind x \<in> {ProfitTargetMissed, TimeLimit} \<and> v_severity x = Hard"

abbreviation fails_only_late :: "rule_verdict \<Rightarrow> bool" where
  "fails_only_late v \<equiv> (\<forall>x. v = Fail x \<longrightarrow> out_of_time x)"

lemma tick_rules_fail_late:
  assumes "r \<in> set (default_rules E)" "evaluate_applicable OnTick (r_scope r)" "c_pending_order ctx = None"
    and "\<not> is_broker_reported (c_equity_input ctx)"
  shows "returns fails_only_late (r_evaluate r ctx)" "r_params r = None"
proof -
  have no: "require_broker_equity ctx \<noteq> Inr e" for e using broker_required [of ctx] assms(4) by blast
  have "returns fails_only_late (daily_drawdown_evaluate E None ctx)" "returns fails_only_late (max_drawdown_evaluate E None ctx)"
    "returns fails_only_late (trailing_drawdown_evaluate E None ctx)"
    unfolding daily_drawdown_evaluate_def max_drawdown_evaluate_def trailing_drawdown_evaluate_def Let_def
    by (intro returns_intros; use no in auto)+
  moreover have "returns fails_only_late (profit_target_evaluate E None ctx)" "returns fails_only_late (time_limit_evaluate E None ctx)"
    unfolding profit_target_evaluate_def time_limit_evaluate_def Let_def
    by (intro returns_intros; auto simp: out_of_time_def build_violation_fields dest!: with_breach_fields)+
  moreover have "returns fails_only_late (overnight_holding_evaluate E ctx)" "returns fails_only_late (weekend_holding_evaluate E ctx)"
    "returns fails_only_late (cross_account_hedging_evaluate E ctx)" "returns fails_only_late (lowcap_exposure_evaluate E ctx)"
    unfolding overnight_holding_evaluate_def weekend_holding_evaluate_def cross_account_hedging_evaluate_def lowcap_exposure_evaluate_def Let_def
    by (intro returns_intros; use assms(3) in auto)+
  ultimately show "returns fails_only_late (r_evaluate r ctx)" "r_params r = None"
    using assms(1,2) by (auto simp: default_rules_def rule_defs evaluate_applicable_def)
qed

lemma evaluate_rules_applicable:
  "evaluate_rules E ctx rs = Some reps \<Longrightarrow> rep \<in> set reps \<Longrightarrow>
   \<exists>r\<in>set rs. rep = rule_report_of E ctx r \<and> evaluate_applicable (c_kind ctx) (r_scope r)"
  by (induction rs arbitrary: reps) (auto simp: run_simps split: if_splits)

end
