(* ===== verification/Decision.thy ===== *)
theory Decision
  imports Registry "HOL-Library.Multiset"
begin

text \<open>
  The combination of all rule verdicts of one evaluation into a decision
  (\<^verbatim>\<open>src/engine/decision.rs\<close>).
\<close>

datatype decision_kind =
    DPass | DWarn | DEarlyWarning | DTargetHit | DFail | DSoftFail | DGapFlagged | DLiquidate
  | DEmergency

fun decision_kind_is_terminating :: "decision_kind \<Rightarrow> bool" where
  "decision_kind_is_terminating DFail = True"
| "decision_kind_is_terminating DLiquidate = True"
| "decision_kind_is_terminating DEmergency = True"
| "decision_kind_is_terminating _ = False"

fun intrinsic_weight :: "decision_kind \<Rightarrow> u32" where
  "intrinsic_weight DEmergency = 10000"
| "intrinsic_weight DLiquidate = 1000"
| "intrinsic_weight DFail = 900"
| "intrinsic_weight DSoftFail = 850"
| "intrinsic_weight DGapFlagged = 800"
| "intrinsic_weight DTargetHit = 100"
| "intrinsic_weight DEarlyWarning = 50"
| "intrinsic_weight DWarn = 40"
| "intrinsic_weight DPass = 0"

datatype decision_reason =
    AllRulesPassed
  | Warnings "violation list"
  | EarlyWarnings "violation list"
  | TargetHitReached violation
  | HardViolation violation
  | SoftFailReached violation
  | LiquidationRequested violation
  | EmergencyStopReached violation
  | GapFlaggedReached violation

record decision =
  d_kind :: decision_kind
  d_reason :: decision_reason
  d_winning_priority :: u32
  d_all_violations :: "violation list"

definition decision_default :: decision where
  "decision_default =
     \<lparr> d_kind = DPass, d_reason = AllRulesPassed, d_winning_priority = 0, d_all_violations = [] \<rparr>"

text \<open>
  One pass over the reports sorts the violations into a list per category, each paired
  with the priority of its report. The category of a verdict that carries a violation is
  the decision kind it would produce alone.
\<close>

fun verdict_category :: "rule_verdict \<Rightarrow> decision_kind option" where
  "verdict_category (Emergency v) = Some DEmergency"
| "verdict_category (Liquidate v) = Some DLiquidate"
| "verdict_category (Fail v) = Some DFail"
| "verdict_category (SoftFail v) = Some DSoftFail"
| "verdict_category (TargetHit v) = Some DTargetHit"
| "verdict_category (EarlyWarning v) = Some DEarlyWarning"
| "verdict_category (GapFlagged v) = Some DGapFlagged"
| "verdict_category (Warn v) = Some DWarn"
| "verdict_category Pass = None"
| "verdict_category Skip = None"

definition reports_in :: "decision_kind \<Rightarrow> rule_report list \<Rightarrow> (u32 \<times> violation) list" where
  "reports_in k reports =
     map (\<lambda>r. (rr_priority r, the (verdict_violation (rr_verdict r))))
       (filter (\<lambda>r. verdict_category (rr_verdict r) = Some k) reports)"

definition all_violations_of :: "rule_report list \<Rightarrow> violation list" where
  "all_violations_of reports = List.map_filter (\<lambda>r. verdict_violation (rr_verdict r)) reports"

text \<open>\<^verbatim>\<open>Iterator::max_by\<close> keeps the later of two elements that compare equal.\<close>

fun pick_winner :: "(u32 \<times> violation) list \<Rightarrow> (u32 \<times> violation) option" where
  "pick_winner [] = None"
| "pick_winner (x # xs) = Some (fold (\<lambda>y acc. if fst acc \<le> fst y then y else acc) xs x)"

definition from_reports :: "rule_report list \<Rightarrow> decision" where
  "from_reports reports =
     (let all = all_violations_of reports;
          mk = (\<lambda>k reason p. \<lparr> d_kind = k, d_reason = reason, d_winning_priority = p, d_all_violations = all \<rparr>) in
      case pick_winner (reports_in DEmergency reports) of Some (p, v) \<Rightarrow> mk DEmergency (EmergencyStopReached v) p
      | None \<Rightarrow>
      case pick_winner (reports_in DLiquidate reports) of Some (p, v) \<Rightarrow> mk DLiquidate (LiquidationRequested v) p
      | None \<Rightarrow>
      case pick_winner (reports_in DFail reports) of Some (p, v) \<Rightarrow> mk DFail (HardViolation v) p
      | None \<Rightarrow>
      case pick_winner (reports_in DSoftFail reports) of Some (p, v) \<Rightarrow> mk DSoftFail (SoftFailReached v) p
      | None \<Rightarrow>
      case pick_winner (reports_in DGapFlagged reports) of Some (p, v) \<Rightarrow> mk DGapFlagged (GapFlaggedReached v) p
      | None \<Rightarrow>
      case pick_winner (reports_in DTargetHit reports) of Some (p, v) \<Rightarrow> mk DTargetHit (TargetHitReached v) p
      | None \<Rightarrow>
      case pick_winner (reports_in DEarlyWarning reports) of
        Some (p, v) \<Rightarrow> mk DEarlyWarning (EarlyWarnings (map snd (reports_in DEarlyWarning reports))) p
      | None \<Rightarrow>
      case pick_winner (reports_in DWarn reports) of
        Some (p, v) \<Rightarrow> mk DWarn (Warnings (map snd (reports_in DWarn reports))) p
      | None \<Rightarrow> mk DPass AllRulesPassed 0)"

definition account_status_target :: "decision \<Rightarrow> account_status option" where
  "account_status_target d =
     (case d_kind d of
        DFail \<Rightarrow> Some Failed
      | DLiquidate \<Rightarrow> Some Failed
      | DEmergency \<Rightarrow> Some EmergencyStopped
      | _ \<Rightarrow> None)"

definition max_severity :: "decision \<Rightarrow> violation_severity option" where
  "max_severity d =
     (case map v_severity (d_all_violations d) of
        [] \<Rightarrow> None
      | s # ss \<Rightarrow> Some (fold max ss s))"

section \<open>Specification\<close>

text \<open>The order in which the categories are tried.\<close>

fun kind_rank :: "decision_kind \<Rightarrow> nat" where
  "kind_rank DEmergency = 8"
| "kind_rank DLiquidate = 7"
| "kind_rank DFail = 6"
| "kind_rank DSoftFail = 5"
| "kind_rank DGapFlagged = 4"
| "kind_rank DTargetHit = 3"
| "kind_rank DEarlyWarning = 2"
| "kind_rank DWarn = 1"
| "kind_rank DPass = 0"

text \<open>Reports for concrete instances.\<close>

definition demo_violation :: "u32 \<Rightarrow> violation" where
  "demo_violation p = violation_new (exact_env 0) 7 1 ''demo'' Custom Hard (MInt (uint p)) 0"

definition demo_report :: "u32 \<Rightarrow> (violation \<Rightarrow> rule_verdict) \<Rightarrow> rule_report" where
  "demo_report p vd =
     \<lparr> rr_rule_id = 1, rr_rule_name = ''demo'', rr_verdict = vd (demo_violation p), rr_scope = TickScope,
       rr_priority = p, rr_evaluated_at = 0, rr_metadata = [] \<rparr>"

section \<open>Properties\<close>

lemma pick_winner_None [simp]: "pick_winner xs = None \<longleftrightarrow> xs = []"
  by (cases xs) auto

lemma fold_later_max:
  fixes acc :: "u32 \<times> violation"
  defines "m \<equiv> (\<lambda>xs acc. fold (\<lambda>y acc. if fst acc \<le> fst y then y else acc) xs acc)"
  shows "m xs acc \<in> set (acc # xs) \<and> (\<forall>y \<in> set (acc # xs). fst y \<le> fst (m xs acc))"
proof (induction xs arbitrary: acc)
  case (Cons x xs)
  show ?case using Cons [of "if fst acc \<le> fst x then x else acc"]
    by (auto simp: m_def split: if_splits)
qed (simp add: m_def)

lemma pick_winner_Some:
  assumes "pick_winner xs = Some w"
  shows "w \<in> set xs \<and> (\<forall>y \<in> set xs. fst y \<le> fst w)"
  using assms fold_later_max by (cases xs) auto

lemma reports_in_empty:
  "reports_in k rs = [] \<longleftrightarrow> (\<forall>r \<in> set rs. verdict_category (rr_verdict r) \<noteq> Some k)"
  by (auto simp: reports_in_def filter_empty_conv)

lemma category_no_pass: "verdict_category v \<noteq> Some DPass"
  by (cases v) auto

lemma from_reports_cases:
  obtains k p v where "k \<noteq> DPass" "pick_winner (reports_in k rs) = Some (p, v)"
      "d_kind (from_reports rs) = k" "d_winning_priority (from_reports rs) = p"
      "\<forall>k'. kind_rank k < kind_rank k' \<longrightarrow> reports_in k' rs = []"
  | "\<forall>k'. reports_in k' rs = []" "from_reports rs = decision_default\<lparr>d_all_violations := all_violations_of rs\<rparr>"
proof -
  have all: "(\<forall>k'. P k') \<longleftrightarrow> P DPass \<and> P DWarn \<and> P DEarlyWarning \<and> P DTargetHit \<and> P DFail \<and> P DSoftFail
      \<and> P DGapFlagged \<and> P DLiquidate \<and> P DEmergency" for P :: "decision_kind \<Rightarrow> bool"
    by (metis decision_kind.exhaust)
  have pass: "reports_in DPass rs = []"
    by (simp add: reports_in_empty category_no_pass)
  have opt: "xs = [] \<or> (\<exists>p v. pick_winner xs = Some (p, v))" for xs
    by (metis pick_winner_None option.exhaust surj_pair)
  show thesis
    using that(1) [of DEmergency] that(1) [of DLiquidate] that(1) [of DFail] that(1) [of DSoftFail] that(1) [of DGapFlagged]
      that(1) [of DTargetHit] that(1) [of DEarlyWarning] that(1) [of DWarn] that(2) pass
    unfolding all
    by (auto simp: from_reports_def Let_def decision_default_def split: option.splits prod.splits)
      (use opt [of "reports_in DEmergency rs"] opt [of "reports_in DLiquidate rs"] opt [of "reports_in DFail rs"] opt [of "reports_in DSoftFail rs"]
        opt [of "reports_in DGapFlagged rs"] opt [of "reports_in DTargetHit rs"] opt [of "reports_in DEarlyWarning rs"] opt [of "reports_in DWarn rs"] in blast)
qed


lemma reports_in_rank:
  assumes "r \<in> set rs" "verdict_category (rr_verdict r) = Some k"
  shows "kind_rank k \<le> kind_rank (d_kind (from_reports rs))"
proof (cases rule: from_reports_cases [of rs])
  case (1 k' p v)
  then show ?thesis using assms reports_in_empty [of k rs] by (metis not_le)
next
  case 2
  then show ?thesis using assms reports_in_empty [of k rs] by blast
qed

lemma all_violations_member:
  "rep \<in> set reps \<Longrightarrow> verdict_violation (rr_verdict rep) = Some x \<Longrightarrow> x \<in> set (d_all_violations (from_reports reps))"
proof -
  have "d_all_violations (from_reports reps) = all_violations_of reps"
    by (auto simp: from_reports_def Let_def split: option.splits prod.splits)
  then show "rep \<in> set reps \<Longrightarrow> verdict_violation (rr_verdict rep) = Some x \<Longrightarrow> ?thesis"
    by (force simp: all_violations_of_def List.map_filter_def)
qed

lemma from_reports_member:
  assumes "d_kind (from_reports rs) \<noteq> DPass"
  shows "\<exists>r \<in> set rs. verdict_category (rr_verdict r) = Some (d_kind (from_reports rs))
           \<and> rr_priority r = d_winning_priority (from_reports rs)
           \<and> (\<forall>s \<in> set rs. verdict_category (rr_verdict s) = Some (d_kind (from_reports rs)) \<longrightarrow>
                rr_priority s \<le> d_winning_priority (from_reports rs))"
proof (cases rule: from_reports_cases [of rs])
  case (1 k p v)
  then have "(p, v) \<in> set (reports_in k rs) \<and> (\<forall>y \<in> set (reports_in k rs). fst y \<le> p)"
    using pick_winner_Some [OF 1(2)] by simp
  with 1 show ?thesis by (auto simp: reports_in_def)
qed (use assms in \<open>simp add: decision_default_def\<close>)

lemma terminating_category:
  "is_terminating v \<longleftrightarrow> (\<exists>k. verdict_category v = Some k \<and> decision_kind_is_terminating k)"
  by (cases v) auto

lemma terminating_rank: "decision_kind_is_terminating k \<longleftrightarrow> 6 \<le> kind_rank k"
  by (cases k) auto

lemma kind_rank_inj: "kind_rank k = kind_rank k' \<longleftrightarrow> k = k'"
  by (cases k; cases k') auto

lemma weight_rank: "intrinsic_weight k \<le> intrinsic_weight k' \<longleftrightarrow> kind_rank k \<le> kind_rank k'"
  by (cases k; cases k') simp_all

text \<open>
  C1. The decision is the strongest verdict: no report has a category of higher intrinsic
  weight than the decision's kind, and unless every report passes (or is skipped) the kind
  is the category of some report, whose priority is the winning priority and the highest
  one within that category.
\<close>

theorem decision_is_strongest_verdict:
  "(\<forall>r \<in> set rs. \<forall>k. verdict_category (rr_verdict r) = Some k \<longrightarrow>
      intrinsic_weight k \<le> intrinsic_weight (d_kind (from_reports rs)))
   \<and> (d_kind (from_reports rs) = DPass \<or>
      (\<exists>r \<in> set rs. verdict_category (rr_verdict r) = Some (d_kind (from_reports rs))
         \<and> rr_priority r = d_winning_priority (from_reports rs)
         \<and> (\<forall>s \<in> set rs. verdict_category (rr_verdict s) = Some (d_kind (from_reports rs)) \<longrightarrow>
              rr_priority s \<le> d_winning_priority (from_reports rs))))"
  unfolding weight_rank using reports_in_rank from_reports_member by blast

theorem decision_is_strongest_verdict_witness:
  "intrinsic_weight DFail \<le> intrinsic_weight (d_kind (from_reports [demo_report 7 Fail, demo_report 9 Warn]))
   \<and> d_winning_priority (from_reports [demo_report 7 Fail, demo_report 9 Warn]) = 7"
  using decision_is_strongest_verdict [of "[demo_report 7 Fail, demo_report 9 Warn]"]
  by (auto simp: demo_report_def from_reports_def reports_in_def)

text \<open>
  A decision terminates the account exactly when some rule's verdict does: a breach
  always wins over a profit target hit in the same evaluation, and nothing else than a
  terminating verdict can terminate.
\<close>

lemma decision_terminates_iff:
  "decision_kind_is_terminating (d_kind (from_reports rs)) \<longleftrightarrow> list_ex (\<lambda>r. is_terminating (rr_verdict r)) rs"
proof
  assume t: "decision_kind_is_terminating (d_kind (from_reports rs))"
  then have "d_kind (from_reports rs) \<noteq> DPass" by auto
  from from_reports_member [OF this] t show "list_ex (\<lambda>r. is_terminating (rr_verdict r)) rs"
    by (auto simp: list_ex_iff terminating_category)
next
  assume "list_ex (\<lambda>r. is_terminating (rr_verdict r)) rs"
  then obtain r k where "r \<in> set rs" "verdict_category (rr_verdict r) = Some k" "decision_kind_is_terminating k"
    by (auto simp: list_ex_iff terminating_category)
  with reports_in_rank [of r rs k] show "decision_kind_is_terminating (d_kind (from_reports rs))"
    by (simp add: terminating_rank)
qed

text \<open>
  The decision does not depend on the order in which the rules are registered: kind,
  winning priority and the multiset of violations are those of every permutation of the
  reports.
\<close>

lemma decision_order_independent:
  assumes "mset rs = mset ss"
  shows "d_kind (from_reports rs) = d_kind (from_reports ss)
       \<and> d_winning_priority (from_reports rs) = d_winning_priority (from_reports ss)
       \<and> mset (d_all_violations (from_reports rs)) = mset (d_all_violations (from_reports ss))"
proof -
  have set: "set rs = set ss" using assms by (metis set_mset_mset)
  have le: "kind_rank (d_kind (from_reports xs)) \<le> kind_rank (d_kind (from_reports ys))"
    if "set xs \<subseteq> set ys" for xs ys
    using that from_reports_member [of xs] reports_in_rank [of _ ys] by (cases "d_kind (from_reports xs) = DPass") auto
  have kind: "d_kind (from_reports rs) = d_kind (from_reports ss)"
    using le [of rs ss] le [of ss rs] set by (simp flip: kind_rank_inj)
  have prio: "d_winning_priority (from_reports rs) = d_winning_priority (from_reports ss)"
  proof (cases "d_kind (from_reports rs) = DPass")
    case True
    then show ?thesis using kind
      by (cases rule: from_reports_cases [of rs]; cases rule: from_reports_cases [of ss]) (auto simp: decision_default_def)
  next
    case False
    then show ?thesis using kind set from_reports_member [of rs] from_reports_member [of ss] by (metis order_antisym)
  qed
  have viol: "d_all_violations (from_reports xs) = all_violations_of xs" for xs
    by (auto simp: from_reports_def Let_def split: option.splits prod.splits)
  have "mset (all_violations_of xs) = {# the (verdict_violation (rr_verdict r)). r \<in># filter_mset (\<lambda>r. verdict_violation (rr_verdict r) \<noteq> None) (mset xs) #}" for xs
    by (simp add: all_violations_of_def List.map_filter_def comp_def flip: mset_filter)
  with assms kind prio show ?thesis by (simp add: viol)
qed

text \<open>
  Between two failing reports of the same priority the later one gives the reason of
  the decision.
\<close>

lemma decision_tie_goes_to_last:
  assumes "rr_verdict r = Fail v" "rr_verdict s = Fail w" "rr_priority r = rr_priority s"
  shows "d_reason (from_reports [r, s]) = HardViolation w"
  using assms by (simp add: from_reports_def reports_in_def)

end
