(* ===== verification/Account_State.thy ===== *)
theory Account_State
  imports Decision
begin

text \<open>
  The state transitions of \<^verbatim>\<open>src/engine/state.rs\<close>. \<^verbatim>\<open>AccountState\<close> wraps one account, so a
  transition is a function on accounts; it is partial where its decimal arithmetic can
  panic. Also the override record of \<^verbatim>\<open>src/override_engine.rs\<close>.
\<close>

section \<open>Profit, equity and balance\<close>

definition apply_realized_pnl ::
  "ext \<Rightarrow> account \<Rightarrow> money \<Rightarrow> money \<Rightarrow> money \<Rightarrow> timestamp \<Rightarrow> account option" where
  "apply_realized_pnl E a pnl commission swap now = do {
     x \<leftarrow> dsub E pnl commission;
     net \<leftarrow> dsub E x swap;
     bal \<leftarrow> dadd E (balance a) net;
     today \<leftarrow> dadd E (today_realized_pnl a) net;
     total \<leftarrow> dadd E (total_realized_pnl a) net;
     comms \<leftarrow> dadd E (total_commissions a) commission;
     swaps \<leftarrow> dadd E (total_swaps a) swap;
     Some (a\<lparr>balance := bal, equity := bal,
             peak_balance := (if bal > peak_balance a then bal else peak_balance a),
             today_realized_pnl := today, total_realized_pnl := total,
             total_commissions := comms, total_swaps := swaps,
             last_trade_at := Some now\<rparr>) }"

definition update_equity :: "account \<Rightarrow> money \<Rightarrow> account" where
  "update_equity a eq =
     a\<lparr>equity := eq,
       peak_equity := (if eq > peak_equity a then eq else peak_equity a),
       intraday_peak_equity := (if eq > intraday_peak_equity a then eq else intraday_peak_equity a)\<rparr>"

definition set_estimated_equity :: "account \<Rightarrow> money \<Rightarrow> money \<Rightarrow> account" where
  "set_estimated_equity a eq bal = a\<lparr>estimated_equity := eq, estimated_balance := bal\<rparr>"

definition update_balance :: "account \<Rightarrow> money \<Rightarrow> account" where
  "update_balance a bal =
     a\<lparr>balance := bal, peak_balance := (if bal > peak_balance a then bal else peak_balance a)\<rparr>"

section \<open>Day rollover\<close>

text \<open>Whether the day meets a threshold of the plan; an unset threshold is met.\<close>

abbreviation threshold_met :: "ext \<Rightarrow> pct option \<Rightarrow> money \<Rightarrow> money \<Rightarrow> bool option" where
  "threshold_met E t initial abs_pnl \<equiv>
     (case t of None \<Rightarrow> Some True | Some p \<Rightarrow> map_option (\<lambda>m. abs_pnl \<ge> m) (dmul E p initial))"

text \<open>The day's net result enters the extremes, the sum and the counts, in the source's order.\<close>

definition stamp_day_extremes :: "account \<Rightarrow> account" where
  "stamp_day_extremes a =
     (let today_net = today_realized_pnl a in
      a\<lparr>largest_day_profit := (if today_net > largest_day_profit a then today_net else largest_day_profit a),
        largest_day_loss := (if today_net < largest_day_loss a then today_net else largest_day_loss a)\<rparr>)"

definition add_winning_day :: "ext \<Rightarrow> account \<Rightarrow> account option" where
  "add_winning_day E a =
     (let today_net = today_realized_pnl a in
      if today_net > 0 then do {
        s \<leftarrow> dadd E (sum_positive_days_profit a) today_net;
        Some (a\<lparr>sum_positive_days_profit := s, profitable_days_count := profitable_days_count a + 1\<rparr>) }
      else Some a)"

definition count_qualifying_day :: "ext \<Rightarrow> account \<Rightarrow> account option" where
  "count_qualifying_day E a =
     (let abs_pnl = \<bar>today_realized_pnl a\<bar> in
      if qualifying_day_threshold_pct (plan a) \<noteq> None \<or> qualifying_day_pnl_band_pct (plan a) \<noteq> None
      then do {
        notional_ok \<leftarrow> threshold_met E (qualifying_day_threshold_pct (plan a)) (initial_balance a) abs_pnl;
        band_ok \<leftarrow> threshold_met E (qualifying_day_pnl_band_pct (plan a)) (initial_balance a) abs_pnl;
        Some (if notional_ok \<and> band_ok
              then a\<lparr>qualifying_trading_days_count := qualifying_trading_days_count a + 1\<rparr> else a) }
      else Some a)"

definition close_trading_day :: "ext \<Rightarrow> account \<Rightarrow> account option" where
  "close_trading_day E a = do {
     b \<leftarrow> add_winning_day E (stamp_day_extremes a);
     c \<leftarrow> count_qualifying_day E b;
     Some (if \<not> day_counted_today c then c\<lparr>active_trading_days := active_trading_days c + 1\<rparr> else c) }"

definition start_trading_day :: "account \<Rightarrow> account" where
  "start_trading_day a =
     a\<lparr>trading_day_index := trading_day_index a + 1, day_start_balance := balance a,
       day_start_equity := equity a, intraday_peak_equity := equity a, today_realized_pnl := 0,
       acc_today_trades := [], day_counted_today := False\<rparr>"

definition new_day_start :: "ext \<Rightarrow> account \<Rightarrow> timestamp option \<Rightarrow> timestamp option" where
  "new_day_start E a target_ts =
     (case target_ts of
        Some ts \<Rightarrow> trading_day_start E (plan a) ts
      | None \<Rightarrow> do {
          current \<leftarrow> (case current_trading_day_start a of
              Some c \<Rightarrow> Some c
            | None \<Rightarrow> trading_day_start E (plan a) (utc_now E));
          next_trading_day_start E (plan a) current })"

definition rollover_day :: "ext \<Rightarrow> account \<Rightarrow> bool \<Rightarrow> timestamp option \<Rightarrow> account option" where
  "rollover_day E a had_trades_today target_ts = do {
     b \<leftarrow> (if had_trades_today then close_trading_day E a else Some a);
     s \<leftarrow> new_day_start E (start_trading_day b) target_ts;
     Some ((start_trading_day b)\<lparr>current_trading_day_start := Some s\<rparr>) }"

definition rollover_day_single :: "ext \<Rightarrow> account \<Rightarrow> bool \<Rightarrow> account option" where
  "rollover_day_single E a had_trades_today = rollover_day E a had_trades_today None"

definition mark_active_trading_day :: "account \<Rightarrow> account" where
  "mark_active_trading_day a =
     (if \<not> day_counted_today a
      then a\<lparr>active_trading_days := active_trading_days a + 1, day_counted_today := True\<rparr>
      else a)"

section \<open>Status transitions\<close>

definition upgrade_phase :: "account \<Rightarrow> challenge_phase \<Rightarrow> account res" where
  "upgrade_phase a to_phase =
     (if (plan_phase (plan a), to_phase) \<in> {(Phase1, Phase2), (Phase2, FundedPhase)}
      then Inr (a\<lparr>plan := with_phase (plan a) to_phase, account_type := account_type_of_phase to_phase\<rparr>)
      else Inl (InvalidState (Fmt ''state.phase_transition'' [])))"

definition mark_target_reached :: "account \<Rightarrow> timestamp \<Rightarrow> account" where
  "mark_target_reached a now =
     (if target_reached_at a = None
      then a\<lparr>target_reached_at := Some now, target_reached_on_day := Some (trading_day_index a),
             status := (if status a = Active then TargetHitPending else status a)\<rparr>
      else a)"

definition emergency_stop :: "account \<Rightarrow> account" where
  "emergency_stop a =
     a\<lparr>status_before_breach := (if status_before_breach a = None then Some (status a) else status_before_breach a),
       status := EmergencyStopped\<rparr>"

record override_record =
  ov_id :: uuid
  ov_account_id :: uuid
  ov_clears_violation_id :: uuid
  ov_reason :: string
  ov_actor_id :: string
  ov_at :: timestamp

definition is_ascii_space :: "char \<Rightarrow> bool" where
  "is_ascii_space c \<longleftrightarrow> (let n = of_char c :: nat in n = 32 \<or> (9 \<le> n \<and> n \<le> 13))"

definition override_validate :: "override_record \<Rightarrow> unit res" where
  "override_validate ov =
     (if list_all is_ascii_space (ov_reason ov)
      then Inl (InvalidState (Lit ''override reason cannot be empty''))
      else if list_all is_ascii_space (ov_actor_id ov)
      then Inl (InvalidState (Lit ''override actor_id cannot be empty''))
      else Inr ())"

definition clear_breach :: "account \<Rightarrow> account res" where
  "clear_breach a =
     (if status a = Failed \<or> status a = EmergencyStopped
      then Inr (a\<lparr>status := (case status_before_breach a of
                      Some s \<Rightarrow> s
                    | None \<Rightarrow> if account_type a = TFunded then Funded else Active),
                  status_before_breach := None\<rparr>)
      else Inl (InvalidState (Fmt ''state.clear_breach'' [])))"

definition terminate :: "account \<Rightarrow> account_status \<Rightarrow> account" where
  "terminate a s = a\<lparr>status := s\<rparr>"

definition mark_payout_pending :: "account \<Rightarrow> account res" where
  "mark_payout_pending a =
     (case status a of
        Funded \<Rightarrow> Inr (a\<lparr>status := PayoutPending\<rparr>)
      | PayoutPending \<Rightarrow> Inr a
      | _ \<Rightarrow> Inl (InvalidState (Fmt ''state.payout'' [])))"

record state_delta =
  sd_balance :: money
  sd_equity :: money
  sd_peak_balance :: money
  sd_peak_equity :: money
  sd_total_realized :: money

definition delta :: "account \<Rightarrow> state_delta" where
  "delta a =
     \<lparr> sd_balance = balance a, sd_equity = equity a, sd_peak_balance = peak_balance a,
       sd_peak_equity = peak_equity a, sd_total_realized = total_realized_pnl a \<rparr>"

definition equity_after_tick :: "ext \<Rightarrow> money \<Rightarrow> position list \<Rightarrow> quote \<Rightarrow> money option" where
  "equity_after_tick E bal positions q = do {
     unreal \<leftarrow> foldo (\<lambda>acc p. do { u \<leftarrow> unrealized_pnl E p q; dadd E acc u }) 0 (filter is_open positions);
     dadd E bal unreal }"

section \<open>A ledger of days\<close>

text \<open>A fill is its profit, commission, swap and time; a day of trading is a list of fills.\<close>

type_synonym fill = "money \<times> money \<times> money \<times> timestamp"

fun fill_net :: "fill \<Rightarrow> money" where
  "fill_net (pnl, commission, swap, t) = pnl - commission - swap"

definition day_net :: "fill list \<Rightarrow> money" where
  "day_net fs = sum_list (map fill_net fs)"

text \<open>The transitions of a day of fills, and of days each closed by a rollover.\<close>

fun trade_day :: "ext \<Rightarrow> account \<Rightarrow> fill list \<Rightarrow> account option" where
  "trade_day E a [] = Some a"
| "trade_day E a ((pnl, commission, swap, t) # fs) = do {
     b \<leftarrow> apply_realized_pnl E a pnl commission swap t;
     trade_day E (mark_active_trading_day b) fs }"

fun run_days :: "ext \<Rightarrow> account \<Rightarrow> (fill list \<times> timestamp option) list \<Rightarrow> account option" where
  "run_days E a [] = Some a"
| "run_days E a ((fs, ts) # days) = do {
     b \<leftarrow> trade_day E a fs;
     c \<leftarrow> rollover_day E b (today_realized_pnl b \<noteq> 0) ts;
     run_days E c days }"

text \<open>What the books of an account should say after a number of days.\<close>

record ledger =
  lg_total :: money
  lg_best :: money
  lg_worst :: money
  lg_winning_sum :: money
  lg_winning :: nat
  lg_traded :: nat
  lg_days :: nat

definition ledger_day :: "fill list \<Rightarrow> ledger \<Rightarrow> ledger" where
  "ledger_day fs l =
     (let n = day_net fs in
      \<lparr> lg_total = lg_total l + n, lg_best = max (lg_best l) n, lg_worst = min (lg_worst l) n,
        lg_winning_sum = lg_winning_sum l + max n 0, lg_winning = lg_winning l + (if n > 0 then 1 else 0),
        lg_traded = lg_traded l + (if fs = [] then 0 else 1), lg_days = lg_days l + 1 \<rparr>)"

definition ledger_rel :: "ledger \<Rightarrow> account \<Rightarrow> bool" where
  "ledger_rel l a \<longleftrightarrow>
     total_realized_pnl a = lg_total l \<and> largest_day_profit a = lg_best l \<and> largest_day_loss a = lg_worst l
   \<and> sum_positive_days_profit a = lg_winning_sum l \<and> profitable_days_count a = of_nat (lg_winning l)
   \<and> active_trading_days a = of_nat (lg_traded l) \<and> trading_day_index a = of_nat (lg_days l)
   \<and> today_realized_pnl a = 0 \<and> \<not> day_counted_today a \<and> 0 \<le> lg_best l \<and> lg_worst l \<le> 0"

section \<open>Profit and rollover\<close>

lemma apply_realized_pnl_exact:
  assumes "sums_exact E" "apply_realized_pnl E a pnl commission swap t = Some b"
  shows "b = a\<lparr>balance := balance a + (pnl - commission - swap), equity := balance a + (pnl - commission - swap),
               peak_balance := max (peak_balance a) (balance a + (pnl - commission - swap)),
               today_realized_pnl := today_realized_pnl a + (pnl - commission - swap),
               total_realized_pnl := total_realized_pnl a + (pnl - commission - swap),
               total_commissions := total_commissions a + commission, total_swaps := total_swaps a + swap,
               last_trade_at := Some t\<rparr>"
proof -
  obtain x net bal today total comms swaps where s:
    "dsub E pnl commission = Some x" "dsub E x swap = Some net" "dadd E (balance a) net = Some bal"
    "dadd E (today_realized_pnl a) net = Some today" "dadd E (total_realized_pnl a) net = Some total"
    "dadd E (total_commissions a) commission = Some comms" "dadd E (total_swaps a) swap = Some swaps"
    and b: "b = a\<lparr>balance := bal, equity := bal,
             peak_balance := (if bal > peak_balance a then bal else peak_balance a),
             today_realized_pnl := today, total_realized_pnl := total,
             total_commissions := comms, total_swaps := swaps, last_trade_at := Some t\<rparr>"
    using assms(2) unfolding apply_realized_pnl_def by (auto simp only: Option.bind_eq_Some_conv option.inject)
  note e = s(1,2) [THEN sums_exactD(2) [OF assms(1)]] s(3-7) [THEN sums_exactD(1) [OF assms(1)]]
  show ?thesis unfolding b e by (simp add: max_def)
qed

lemma trade_day_counts:
  assumes "sums_exact E" "trade_day E a fs = Some b"
  shows "total_realized_pnl b = total_realized_pnl a + day_net fs
    \<and> today_realized_pnl b = today_realized_pnl a + day_net fs
    \<and> largest_day_profit b = largest_day_profit a \<and> largest_day_loss b = largest_day_loss a
    \<and> sum_positive_days_profit b = sum_positive_days_profit a \<and> profitable_days_count b = profitable_days_count a
    \<and> trading_day_index b = trading_day_index a
    \<and> active_trading_days b = active_trading_days a + (if fs = [] \<or> day_counted_today a then 0 else 1)
    \<and> day_counted_today b = (fs \<noteq> [] \<or> day_counted_today a)"
  using assms
proof (induction E a fs rule: trade_day.induct)
  case (2 E a pnl commission swap t fs)
  from "2.prems"(2) obtain c where c: "apply_realized_pnl E a pnl commission swap t = Some c"
    and r: "trade_day E (mark_active_trading_day c) fs = Some b" by (auto simp: Option.bind_eq_Some_conv)
  from "2.IH" [OF c "2.prems"(1) r] apply_realized_pnl_exact [OF "2.prems"(1) c] show ?case
    by (simp add: mark_active_trading_day_def day_net_def)
qed (simp add: day_net_def)

lemma add_winning_day_exact:
  assumes "sums_exact E" "add_winning_day E a = Some b"
  shows "b = a\<lparr>sum_positive_days_profit := sum_positive_days_profit a + max (today_realized_pnl a) 0,
               profitable_days_count := profitable_days_count a + (if today_realized_pnl a > 0 then 1 else 0)\<rparr>"
  using assms(2) by (auto simp: add_winning_day_def Let_def Option.bind_eq_Some_conv
      dest!: sums_exactD(1) [OF assms(1)] split: if_split_asm)

lemma count_qualifying_day_cases:
  assumes "count_qualifying_day E a = Some b"
  shows "b = a \<or> b = a\<lparr>qualifying_trading_days_count := qualifying_trading_days_count a + 1\<rparr>"
  using assms by (auto simp: count_qualifying_day_def Let_def Option.bind_eq_Some_conv split: if_split_asm)

lemma close_trading_day_counts:
  assumes "sums_exact E" "close_trading_day E a = Some b"
  shows "total_realized_pnl b = total_realized_pnl a
    \<and> largest_day_profit b = max (largest_day_profit a) (today_realized_pnl a)
    \<and> largest_day_loss b = min (largest_day_loss a) (today_realized_pnl a)
    \<and> sum_positive_days_profit b = sum_positive_days_profit a + max (today_realized_pnl a) 0
    \<and> profitable_days_count b = profitable_days_count a + (if today_realized_pnl a > 0 then 1 else 0)
    \<and> trading_day_index b = trading_day_index a
    \<and> active_trading_days b = active_trading_days a + (if day_counted_today a then 0 else 1)"
proof -
  obtain c d where c: "add_winning_day E (stamp_day_extremes a) = Some c" and d: "count_qualifying_day E c = Some d"
    and b: "b = (if \<not> day_counted_today d then d\<lparr>active_trading_days := active_trading_days d + 1\<rparr> else d)"
    using assms(2) unfolding close_trading_day_def by (auto simp only: Option.bind_eq_Some_conv option.inject)
  show ?thesis
    using add_winning_day_exact [OF assms(1) c] count_qualifying_day_cases [OF d]
    by (elim disjE) (simp_all add: b stamp_day_extremes_def Let_def max_def min_def)
qed

lemma rollover_day_cases:
  assumes "rollover_day E a h ts = Some c"
  obtains b s where "(if h then close_trading_day E a else Some a) = Some b"
    "c = (start_trading_day b)\<lparr>current_trading_day_start := Some s\<rparr>"
  using assms unfolding rollover_day_def by (auto simp only: Option.bind_eq_Some_conv option.inject)

lemma ledger_day_step:
  assumes "sums_exact E" "ledger_rel l a" "trade_day E a fs = Some b"
    and "rollover_day E b (today_realized_pnl b \<noteq> 0) ts = Some c"
  shows "ledger_rel (ledger_day fs l) c"
proof -
  note b = trade_day_counts [OF assms(1,3)]
  obtain d s where d: "(if today_realized_pnl b \<noteq> 0 then close_trading_day E b else Some b) = Some d"
    and c: "c = (start_trading_day d)\<lparr>current_trading_day_start := Some s\<rparr>"
    using assms(4) by (rule rollover_day_cases)
  show ?thesis
  proof (cases "today_realized_pnl b = 0")
    case True
    then show ?thesis using assms(2) b d
      by (auto simp: ledger_rel_def ledger_day_def Let_def c start_trading_day_def)
  next
    case False
    then have cl: "close_trading_day E b = Some d" using d by simp
    have ne: "fs \<noteq> []" using False b assms(2) by (auto simp: ledger_rel_def day_net_def)
    show ?thesis using assms(2) b close_trading_day_counts [OF assms(1) cl] ne
      by (simp add: ledger_rel_def ledger_day_def Let_def c start_trading_day_def le_max_iff_disj min_le_iff_disj)
  qed
qed

text \<open>
  C4. Trading refines a ledger of days. When an account goes through days of fills, each
  closed by a rollover that counts the day as traded if its net result is not zero, its
  running total, best and worst day, sum and number of winning days, number of days with
  a fill and day index are exactly those of the ledger: every fill counts in its own day,
  and no day counts twice. Counters wrap at 32 bits.
\<close>

theorem day_ledger_refinement:
  assumes "sums_exact E" "ledger_rel l a" "run_days E a days = Some b"
  shows "ledger_rel (fold (\<lambda>(fs, ts). ledger_day fs) days l) b"
  using assms(2,3)
proof (induction days arbitrary: l a)
  case (Cons d days)
  obtain fs ts where d: "d = (fs, ts)" by force
  from Cons.prems(2) obtain x y where x: "trade_day E a fs = Some x"
    and y: "rollover_day E x (today_realized_pnl x \<noteq> 0) ts = Some y" and r: "run_days E y days = Some b"
    by (auto simp: d Option.bind_eq_Some_conv)
  show ?case using Cons.IH [OF ledger_day_step [OF assms(1) Cons.prems(1) x y] r] by (simp add: d)
qed simp

theorem day_ledger_refinement_witness:
  "\<exists>b. run_days (exact_env 0) demo_account [([(100, 1, 0, 5)], Some day_ns), ([(-50, 0, 0, 6)], Some (2 * day_ns))] = Some b
     \<and> total_realized_pnl b = 49 \<and> largest_day_profit b = 99 \<and> largest_day_loss b = -50
     \<and> profitable_days_count b = 1 \<and> active_trading_days b = 2"
proof -
  let ?days = "[([(100, 1, 0, 5)], Some day_ns), ([(-50, 0, 0, 6)], Some (2 * day_ns))]"
  have t: "trading_day_start (exact_env 0) (plan_default 3 0) day_ns = Some day_ns"
    "trading_day_start (exact_env 0) (plan_default 3 0) (2 * day_ns) = Some (2 * day_ns)"
    using trading_day_start_utc [OF exact_env_utc_calendar, of "plan_default 3 0"]
    by (simp_all add: utc_plan_def plan_default_def boundary_def day_of_def max_date_def day_ns_def)
  obtain b where b: "run_days (exact_env 0) demo_account ?days = Some b"
    using t by (simp add: apply_realized_pnl_def mark_active_trading_day_def rollover_day_def new_day_start_def
        close_trading_day_def add_winning_day_def count_qualifying_day_def stamp_day_extremes_def start_trading_day_def
        account_new_def Let_def plan_default_def)
  have r: "ledger_rel \<lparr>lg_total = 0, lg_best = 0, lg_worst = 0, lg_winning_sum = 0, lg_winning = 0, lg_traded = 0, lg_days = 0\<rparr> demo_account"
    by (simp add: ledger_rel_def account_new_def Let_def)
  from day_ledger_refinement [OF exact_env_sums r b] show ?thesis
    using b by (simp add: ledger_rel_def ledger_day_def day_net_def Let_def)
qed

lemma add_winning_day_cases:
  assumes "add_winning_day E a = Some b"
  obtains n s where "b = a\<lparr>sum_positive_days_profit := s, profitable_days_count := n\<rparr>"
proof (cases "today_realized_pnl a > 0")
  case True
  then obtain s where "b = a\<lparr>sum_positive_days_profit := s, profitable_days_count := profitable_days_count a + 1\<rparr>"
    using assms by (auto simp: add_winning_day_def Option.bind_eq_Some_conv)
  then show thesis by (rule that)
next
  case False
  then have "b = a\<lparr>sum_positive_days_profit := sum_positive_days_profit a, profitable_days_count := profitable_days_count a\<rparr>"
    using assms by (simp add: add_winning_day_def)
  then show thesis by (rule that)
qed

lemma close_trading_day_frame:
  assumes "close_trading_day E a = Some b"
  shows "plan b = plan a \<and> balance b = balance a \<and> equity b = equity a \<and> peak_balance b = peak_balance a
    \<and> trading_day_index b = trading_day_index a \<and> status b = status a \<and> acc_id b = acc_id a"
proof -
  obtain c d where c: "add_winning_day E (stamp_day_extremes a) = Some c" and d: "count_qualifying_day E c = Some d"
    and b: "b = (if \<not> day_counted_today d then d\<lparr>active_trading_days := active_trading_days d + 1\<rparr> else d)"
    using assms unfolding close_trading_day_def by (auto simp only: Option.bind_eq_Some_conv option.inject)
  obtain n s where cc: "c = (stamp_day_extremes a)\<lparr>sum_positive_days_profit := s, profitable_days_count := n\<rparr>"
    using c by (rule add_winning_day_cases)
  from count_qualifying_day_cases [OF d] show ?thesis
    by (elim disjE) (simp_all add: b cc stamp_day_extremes_def Let_def)
qed

lemma rollover_day_returns:
  assumes "h \<Longrightarrow> close_trading_day E a \<noteq> None" "trading_day_start E (plan a) ts = Some s"
  obtains b where "rollover_day E a h (Some ts) = Some b" "plan b = plan a" "balance b = balance a"
    "trading_day_index b = trading_day_index a + 1" "current_trading_day_start b = Some s" "day_start_balance b = balance a"
proof -
  obtain c where c: "(if h then close_trading_day E a else Some a) = Some c" using assms(1) by (cases h) auto
  have eqs: "plan c = plan a" "balance c = balance a" "trading_day_index c = trading_day_index a"
    using c by (auto dest: close_trading_day_frame split: if_splits)
  show thesis
    by (rule that [of "(start_trading_day c)\<lparr>current_trading_day_start := Some s\<rparr>"])
      (simp_all add: rollover_day_def c new_day_start_def start_trading_day_def eqs assms(2))
qed

end
