(* ===== verification/Payout.thy ===== *)
theory Payout
  imports Account_State
begin

text \<open>The payout engine of \<^verbatim>\<open>src/payout.rs\<close>: the quote for a funded account and its execution.\<close>

definition min_gap :: "ext \<Rightarrow> payout_cycle \<Rightarrow> duration option option" where
  "min_gap E c =
     (case c of
        OnDemandCycle \<Rightarrow> Some None
      | BiWeekly \<Rightarrow> do { d \<leftarrow> dur_days E 14; Some (Some d) }
      | Monthly \<Rightarrow> do { d \<leftarrow> dur_days E 30; Some (Some d) })"

definition trader_share_for :: "payout_config \<Rightarrow> u32 \<Rightarrow> decimal" where
  "trader_share_for cfg n =
     (if pc_tiers cfg = [] then 0
      else pc_tiers cfg ! min (unat n) (length (pc_tiers cfg) - 1))"

datatype payout_error = BelowMinimum money | CycleNotReached timestamp | NoProfit

record payout_quote =
  pq_profit_basis :: money
  pq_trader_share :: decimal
  pq_fee_refund :: money
  pq_amount :: money
  pq_rejected :: "payout_error option"

definition payout_rejection ::
  "ext \<Rightarrow> payout_config \<Rightarrow> money \<Rightarrow> money \<Rightarrow> timestamp option \<Rightarrow> timestamp \<Rightarrow> payout_error option option" where
  "payout_rejection E cfg profit_basis amount last_at now =
     (if profit_basis \<le> 0 then Some (Some NoProfit)
      else if amount < pc_minimum_payout cfg then Some (Some (BelowMinimum (pc_minimum_payout cfg)))
      else do {
        gap \<leftarrow> min_gap E (pc_cycle cfg);
        case (gap, last_at) of
          (Some g, Some l) \<Rightarrow> do {
            next_allowed \<leftarrow> ts_add E l g;
            Some (if now < next_allowed then Some (CycleNotReached next_allowed) else None) }
        | _ \<Rightarrow> Some None })"

definition quote_payout ::
  "ext \<Rightarrow> account \<Rightarrow> payout_config \<Rightarrow> timestamp option \<Rightarrow> money option \<Rightarrow> bool \<Rightarrow> timestamp \<Rightarrow> payout_quote option" where
  "quote_payout E a cfg last_at bal_at_last used now = do {
     let reference = (case bal_at_last of Some b \<Rightarrow> b | None \<Rightarrow> initial_balance a);
     d \<leftarrow> dsub E (balance a) reference;
     let profit_basis = max d 0;
     let share = trader_share_for cfg (payout_count a);
     let fee_refund = (if payout_count a = 0 \<and> \<not> used then refund_fee_amount (plan a) else 0);
     x \<leftarrow> dmul E profit_basis share;
     amount \<leftarrow> dadd E x fee_refund;
     rejected \<leftarrow> payout_rejection E cfg profit_basis amount last_at now;
     Some \<lparr> pq_profit_basis = profit_basis, pq_trader_share = share, pq_fee_refund = fee_refund,
            pq_amount = amount, pq_rejected = rejected \<rparr> }"

text \<open>\<^verbatim>\<open>saturating_add\<close> on the payout counter.\<close>

definition u32_saturating_inc :: "u32 \<Rightarrow> u32" where
  "u32_saturating_inc n = (if n = - 1 then n else n + 1)"

definition record_payout :: "ext \<Rightarrow> account \<Rightarrow> money \<Rightarrow> money \<Rightarrow> timestamp \<Rightarrow> account res option" where
  "record_payout E a amount fee_refund now =
     (if status a \<noteq> Funded \<and> status a \<noteq> PayoutPending
      then err (InvalidState (Fmt ''payout.not_funded'' []))
      else do {
        x \<leftarrow> dsub E (balance a) amount;
        bal \<leftarrow> dadd E x fee_refund;
        ok (a\<lparr>payout_count := u32_saturating_inc (payout_count a),
              balance_at_last_payout := balance a, last_payout_at := Some now,
              balance := bal,
              status := (if status a = PayoutPending then Funded else status a)\<rparr>) })"

section \<open>Quotes and payouts\<close>

lemma trader_share_member: "pc_tiers cfg \<noteq> [] \<Longrightarrow> trader_share_for cfg n \<in> set (pc_tiers cfg)"
  by (auto simp: trader_share_for_def min_less_iff_disj intro!: nth_mem)

lemma quote_payout_cases:
  assumes "quote_payout E a cfg last_at (Some reference) used now = Some q"
  obtains d x where "dsub E (balance a) reference = Some d" "pq_profit_basis q = max d 0"
    "pq_trader_share q = trader_share_for cfg (payout_count a)"
    "pq_fee_refund q = (if payout_count a = 0 \<and> \<not> used then refund_fee_amount (plan a) else 0)"
    "dmul E (pq_profit_basis q) (trader_share_for cfg (payout_count a)) = Some x" "dadd E x (pq_fee_refund q) = Some (pq_amount q)"
    "payout_rejection E cfg (pq_profit_basis q) (pq_amount q) last_at now = Some (pq_rejected q)"
  using assms unfolding quote_payout_def Let_def by (auto simp: Option.bind_eq_Some_conv)

lemma record_payout_cases:
  assumes "record_payout E a amount fee now = ok b"
  obtains x bal where "status a = Funded \<or> status a = PayoutPending" "dsub E (balance a) amount = Some x" "dadd E x fee = Some bal"
    "b = a\<lparr>payout_count := u32_saturating_inc (payout_count a), balance_at_last_payout := balance a,
           last_payout_at := Some now, balance := bal,
           status := (if status a = PayoutPending then Funded else status a)\<rparr>"
  using assms unfolding record_payout_def by (auto simp: run_simps split: if_split_asm)

lemma saturating_inc_nonzero [simp]: "u32_saturating_inc n \<noteq> 0"
  unfolding u32_saturating_inc_def by (auto simp: eq_neg_iff_add_eq_0)

text \<open>A funded account and its quote, for concrete instances.\<close>

definition demo_funded :: account where
  "demo_funded = demo_account\<lparr>status := Funded, balance := 12000\<rparr>"

definition demo_quote :: payout_quote where
  "demo_quote = \<lparr> pq_profit_basis = 2000, pq_trader_share = 80/100, pq_fee_refund = 0, pq_amount = 1600, pq_rejected = None \<rparr>"

lemma demo_payout:
  "quote_payout (exact_env 0) demo_funded payout_config_default None (Some 10000) False 0 = Some demo_quote"
  "record_payout (exact_env 0) demo_funded (pq_amount demo_quote) (pq_fee_refund demo_quote) 0 =
     ok (demo_funded\<lparr>payout_count := 1, balance_at_last_payout := 12000, last_payout_at := Some 0, balance := 10400\<rparr>)"
  by (simp_all add: quote_payout_def demo_funded_def demo_quote_def payout_rejection_def min_gap_def payout_config_default_def
      trader_share_for_def record_payout_def u32_saturating_inc_def account_new_def plan_default_def Let_def)

lemma payout_balance_bounds:
  assumes "sums_exact E" "fractions_shrink E" "list_all (\<lambda>s. 0 \<le> s \<and> s \<le> 1) (pc_tiers cfg)" "pc_tiers cfg \<noteq> []"
    and "quote_payout E a cfg last_at (Some reference) used now = Some q" "pq_rejected q = None"
    and "record_payout E a (pq_amount q) (pq_fee_refund q) now = ok b"
  shows "reference \<le> balance b \<and> balance b \<le> balance a \<and> pq_amount q \<le> pq_profit_basis q + pq_fee_refund q"
proof -
  have s: "0 \<le> trader_share_for cfg (payout_count a)" "trader_share_for cfg (payout_count a) \<le> 1"
    using trader_share_member [OF assms(4)] assms(3) by (auto simp: list_all_iff)
  from assms(5) obtain d x where q: "dsub E (balance a) reference = Some d" "pq_profit_basis q = max d 0"
    "dmul E (pq_profit_basis q) (trader_share_for cfg (payout_count a)) = Some x" "dadd E x (pq_fee_refund q) = Some (pq_amount q)"
    "payout_rejection E cfg (pq_profit_basis q) (pq_amount q) last_at now = Some (pq_rejected q)"
    by (rule quote_payout_cases)
  have x: "0 \<le> x" "x \<le> pq_profit_basis q"
    using assms(2) q(2,3) s unfolding fractions_shrink_def by (metis max.cobounded2)+
  have d: "d = balance a - reference" "pq_amount q = x + pq_fee_refund q"
    using q(1,4) by (auto dest!: sums_exactD [OF assms(1)])
  have p: "0 < pq_profit_basis q" using q(5) assms(6) by (auto simp: payout_rejection_def split: if_split_asm)
  from assms(7) obtain y bal where b: "dsub E (balance a) (pq_amount q) = Some y" "dadd E y (pq_fee_refund q) = Some bal"
    "b = a\<lparr>payout_count := u32_saturating_inc (payout_count a), balance_at_last_payout := balance a,
           last_payout_at := Some now, balance := bal,
           status := (if status a = PayoutPending then Funded else status a)\<rparr>"
    by (rule record_payout_cases)
  have "balance b = balance a - x"
    using b d(2) by (auto dest!: sums_exactD [OF assms(1)])
  then show ?thesis using x d p q(2) by (auto simp: max_def split: if_split_asm)
qed

text \<open>
  C3. With tiers between zero and one, an accepted payout never takes the balance below the
  reference the profit was measured from and never raises it; it pays at most the profit and
  the fee refund.
\<close>

theorem payout_keeps_reference:
  assumes "sums_exact E" "fractions_shrink E" "list_all (\<lambda>s. 0 \<le> s \<and> s \<le> 1) (pc_tiers cfg)" "pc_tiers cfg \<noteq> []"
    and "quote_payout E a cfg last_at (Some reference) used now = Some q" "pq_rejected q = None"
    and "record_payout E a (pq_amount q) (pq_fee_refund q) now = ok b"
  shows "reference \<le> balance b \<and> balance b \<le> balance a \<and> pq_amount q \<le> pq_profit_basis q + pq_fee_refund q"
  by (rule payout_balance_bounds [OF assms])

theorem payout_keeps_reference_witness:
  "\<exists>b. record_payout (exact_env 0) demo_funded 1600 0 0 = ok b \<and> 10000 \<le> balance b \<and> balance b \<le> balance demo_funded"
  using payout_keeps_reference [OF exact_env_sums exact_env_fractions _ _ demo_payout(1) _ demo_payout(2)] demo_payout(2)
  by (simp add: payout_config_default_def demo_quote_def)

text \<open>
  After a payout the fee refund is used up, and the next profit is measured from the
  balance before the payout: a gain counts only as far as it exceeds the share just paid, and
  a request without such a gain is rejected for lack of profit.
\<close>

lemma payout_then_quote:
  assumes "sums_exact E" "quote_payout E a cfg last_at (Some reference) used now = Some q"
    and "record_payout E a (pq_amount q) (pq_fee_refund q) now = ok b"
    and "quote_payout E (b\<lparr>balance := balance b + g\<rparr>) cfg (last_payout_at b) (Some (balance_at_last_payout b)) used' later = Some q'"
  shows "pq_profit_basis q' = max (g - (pq_amount q - pq_fee_refund q)) 0 \<and> pq_fee_refund q' = 0
       \<and> (g \<le> pq_amount q - pq_fee_refund q \<longrightarrow> pq_rejected q' = Some NoProfit)"
proof -
  from assms(3) obtain x bal where b: "dsub E (balance a) (pq_amount q) = Some x" "dadd E x (pq_fee_refund q) = Some bal"
    "b = a\<lparr>payout_count := u32_saturating_inc (payout_count a), balance_at_last_payout := balance a,
           last_payout_at := Some now, balance := bal,
           status := (if status a = PayoutPending then Funded else status a)\<rparr>"
    by (rule record_payout_cases)
  have bal: "bal = balance a - pq_amount q + pq_fee_refund q"
    using b(1,2) by (auto dest!: sums_exactD [OF assms(1)])
  from assms(4) show ?thesis
    by (rule quote_payout_cases)
      (auto simp: b(3) bal payout_rejection_def dest!: sums_exactD [OF assms(1)] split: if_split_asm)
qed

end
