(* ===== verification/Event_Store.thy ===== *)
theory Event_Store
  imports Payout
begin

text \<open>
  The in-memory event log of \<^verbatim>\<open>src/events/store.rs\<close>: a list of events per account, appended
  at the end, read whole or by its last events, and replayed into an account.
\<close>

type_synonym event_store = "uuid \<rightharpoonup> domain_event list"

definition store_empty :: event_store where
  "store_empty = Map.empty"

definition store_append :: "event_store \<Rightarrow> domain_event \<Rightarrow> event_store" where
  "store_append st ev =
     st(e_account_id ev \<mapsto> (case st (e_account_id ev) of None \<Rightarrow> [] | Some es \<Rightarrow> es) @ [ev])"

definition store_all :: "event_store \<Rightarrow> uuid \<Rightarrow> domain_event list" where
  "store_all st ident = (case st ident of None \<Rightarrow> [] | Some es \<Rightarrow> es)"

definition store_recent :: "event_store \<Rightarrow> uuid \<Rightarrow> nat \<Rightarrow> domain_event list" where
  "store_recent st ident n =
     (let all = store_all st ident; len = length all in
      if len > n then drop (len - n) all else all)"

text \<open>\<^verbatim>\<open>iter_mut().find(..)\<close>: the first element that satisfies the predicate is updated.\<close>

fun update_first :: "('a \<Rightarrow> bool) \<Rightarrow> ('a \<Rightarrow> 'a) \<Rightarrow> 'a list \<Rightarrow> 'a list" where
  "update_first P f [] = []"
| "update_first P f (x # xs) = (if P x then f x # xs else x # update_first P f xs)"

abbreviation replay_status_of_violation :: "violation_kind \<Rightarrow> account_status option" where
  "replay_status_of_violation k \<equiv>
     (case k of
        DailyDrawdown \<Rightarrow> Some Failed
      | MaxDrawdown \<Rightarrow> Some Failed
      | TrailingDrawdown \<Rightarrow> Some Failed
      | ProfitTargetMissed \<Rightarrow> Some Passed
      | _ \<Rightarrow> None)"

abbreviation replay_position :: "uuid \<Rightarrow> uuid \<Rightarrow> symbol \<Rightarrow> position_side \<Rightarrow> quantity \<Rightarrow> timestamp \<Rightarrow> position" where
  "replay_position ident pid sy side qty now \<equiv>
     \<lparr> p_id = pid, p_account_id = ident, p_symbol = sy, p_side = side, p_opened_at = now,
       p_closed_at = None, p_status = POpen, p_avg_entry_price = 0, p_opened_quantity = qty,
       p_open_quantity = qty, p_realized_pnl = 0, p_commission = 0, p_swap = 0,
       p_stop_loss = None, p_take_profit = None, p_magic = None, p_comment = None \<rparr>"

fun replay_event :: "ext \<Rightarrow> uuid \<Rightarrow> account \<Rightarrow> timestamp \<Rightarrow> domain_event_kind \<Rightarrow> account res option" where
  "replay_event E ident acc now (EvAccountStarted p) = account_start E acc now"
| "replay_event E ident acc now (EvAccountStatusChanged s t) = ok (acc\<lparr>status := t\<rparr>)"
| "replay_event E ident acc now (EvTradeFilled t) = do {
     net \<leftarrow> net_pnl E t;
     bal \<leftarrow> dadd E (balance acc) net;
     total \<leftarrow> dadd E (total_realized_pnl acc) net;
     ok (acc\<lparr>balance := bal, total_realized_pnl := total,
             peak_balance := (if bal > peak_balance acc then bal else peak_balance acc)\<rparr>) }"
| "replay_event E ident acc now (EvDayRollover idx day_start) =
     ok (acc\<lparr>active_trading_days := (if today_realized_pnl acc \<noteq> 0 then active_trading_days acc + 1
                                    else active_trading_days acc),
             trading_day_index := idx, day_start_balance := day_start, today_realized_pnl := 0\<rparr>)"
| "replay_event E ident acc now (EvTickEvaluated eq) =
     ok (acc\<lparr>equity := eq, peak_equity := (if eq > peak_equity acc then eq else peak_equity acc)\<rparr>)"
| "replay_event E ident acc now (EvAccountSnapshotted s) =
     ok (acc\<lparr>status := s_status s, balance := s_balance s, equity := s_equity s,
             peak_equity := s_peak_equity s, peak_balance := s_peak_balance s,
             day_start_balance := s_day_start_balance s,
             active_trading_days := s_active_trading_days s,
             trading_day_index := s_trading_day_index s,
             target_reached_at := s_target_reached_at s, version := s_version s\<rparr>)"
| "replay_event E ident acc now (EvOrderEvent oid s) = ok acc"
| "replay_event E ident acc now (EvPositionOpened pid sy side qty) =
     ok (if list_ex (\<lambda>p. p_id p = pid) (acc_open_positions acc) then acc
         else acc\<lparr>acc_open_positions := acc_open_positions acc @ [replay_position ident pid sy side qty now]\<rparr>)"
| "replay_event E ident acc now (EvPositionClosed pid pnl) =
     ok (acc\<lparr>acc_open_positions := update_first (\<lambda>p. p_id p = pid)
             (\<lambda>p. p\<lparr>p_status := PClosed, p_closed_at := Some now, p_realized_pnl := pnl, p_open_quantity := 0\<rparr>)
             (acc_open_positions acc)\<rparr>)"
| "replay_event E ident acc now (EvRuleViolated v) =
     ok (case replay_status_of_violation (v_kind v) of None \<Rightarrow> acc | Some s \<Rightarrow> acc\<lparr>status := s\<rparr>)"
| "replay_event E ident acc now (EvPlanUpgraded f t) = ok (acc\<lparr>account_type := account_type_of_phase t\<rparr>)"
| "replay_event E ident acc now (EvPayoutRequested b m) = ok (acc\<lparr>status := PayoutPending\<rparr>)"
| "replay_event E ident acc now (EvPayoutApproved amount fee_refund) = do {
     bal \<leftarrow> dsub E (balance acc) amount;
     ok (acc\<lparr>balance := bal, balance_at_last_payout := bal, last_payout_at := Some now,
             payout_count := payout_count acc + 1,
             refund_used := (if fee_refund > 0 then True else refund_used acc), status := Funded\<rparr>) }"
| "replay_event E ident acc now (EvLiquidationRequested i) = ok (acc\<lparr>status := Closed\<rparr>)"
| "replay_event E ident acc now (EvOverrideCleared v r a t) = ok (acc\<lparr>status := Active\<rparr>)"

fun replay_events :: "ext \<Rightarrow> uuid \<Rightarrow> account \<Rightarrow> domain_event list \<Rightarrow> account res option" where
  "replay_events E ident acc [] = ok acc"
| "replay_events E ident acc (ev # evs) =
     try_op (replay_event E ident acc (e_occurred_at ev) (e_kind ev)) (\<lambda>acc'. replay_events E ident acc' evs)"

definition replay :: "ext \<Rightarrow> event_store \<Rightarrow> uuid \<Rightarrow> account res option" where
  "replay E st ident =
     (let events = store_all st ident in
      case events of
        ev # _ \<Rightarrow>
          (case e_kind ev of
             EvAccountStarted p \<Rightarrow> replay_events E ident (account_new (new_v4 E ''tenant'') ident p) events
           | _ \<Rightarrow> err (NotFound (Fmt ''store.no_start'' [])))
      | [] \<Rightarrow> err (NotFound (Fmt ''store.no_start'' [])))"

section \<open>The log\<close>

text \<open>An append-only log with one list of entries per key.\<close>

locale append_log =
  fixes append :: "'s \<Rightarrow> 'e \<Rightarrow> 's" and all :: "'s \<Rightarrow> 'k \<Rightarrow> 'e list" and key :: "'e \<Rightarrow> 'k"
  assumes all_append: "all (append s e) k = (if key e = k then all s k @ [e] else all s k)"
begin

lemma all_appended: "all (foldl append s es) k = all s k @ filter (\<lambda>e. key e = k) es"
  by (induction es arbitrary: s) (simp_all add: all_append)

lemma append_commutes: "key d \<noteq> key e \<Longrightarrow> all (append (append s d) e) k = all (append (append s e) d) k"
  by (auto simp: all_append)

end

interpretation store_log: append_log store_append store_all e_account_id
  by unfold_locales (simp add: store_append_def store_all_def)

lemma store_recent_suffix: "store_recent st i n = drop (length (store_all st i) - n) (store_all st i)"
  by (simp add: store_recent_def Let_def)

text \<open>
  The event store is an append-only log per account. After any sequence of appends the
  events of an account are its earlier events followed by its new ones, in the order of
  appending and untouched by the events of other accounts, and the recent events are the
  last n of them, or all when there are fewer.
\<close>

lemma store_keeps_order:
  "store_all (foldl store_append st es) i = store_all st i @ filter (\<lambda>e. e_account_id e = i) es
 \<and> (\<exists>older. store_all st i = older @ store_recent st i n)
 \<and> length (store_recent st i n) = min n (length (store_all st i))"
proof (intro conjI)
  have "store_all st i = take (length (store_all st i) - n) (store_all st i) @ store_recent st i n"
    by (simp add: store_recent_suffix)
  then show "\<exists>older. store_all st i = older @ store_recent st i n" by blast
qed (simp_all add: store_log.all_appended store_recent_suffix)

section \<open>Replay\<close>

lemma replay_events_append:
  "replay_events E i c (es @ fs) = try_op (replay_events E i c es) (\<lambda>d. replay_events E i d fs)"
  by (induction es arbitrary: c) (simp_all add: try_op_assoc)

lemma replay_more:
  assumes "store_all st i \<noteq> []"
  shows "replay E (foldl store_append st es) i =
           try_op (replay E st i) (\<lambda>c. replay_events E i c (filter (\<lambda>e. e_account_id e = i) es))"
proof -
  obtain e0 rest where e0: "store_all st i = e0 # rest" using assms by (cases "store_all st i") auto
  show ?thesis
    by (cases "e_kind e0")
      (simp_all add: replay_def store_log.all_appended e0 Let_def replay_events_append try_op_assoc)
qed

lemma replay_starts: "replay E st i = ok c \<Longrightarrow> store_all st i \<noteq> []"
  by (auto simp: replay_def)

text \<open>
  Replay and the live account disagree on payouts. Recording an approved payout adds the
  fee refund to the balance and keeps the balance before the payout as watermark; replaying
  its event does not give the refund back and takes the balance after the payout, so the
  two accounts differ by the refund and by the watermark.
\<close>

lemma replay_payout_differs:
  assumes "sums_exact E" "record_payout E a amount refund now = ok b"
    and "replay_event E i a now (EvPayoutApproved amount refund) = ok c"
  shows "balance b = balance c + refund \<and> balance_at_last_payout b = balance a \<and> balance_at_last_payout c = balance a - amount"
  using assms(2,3) by (auto elim!: record_payout_cases dest!: sums_exactD [OF assms(1)] simp: run_simps)

end
