(* ===== verification/Pipeline.thy ===== *)
theory Pipeline
  imports Event_Store
begin

text \<open>
  The evaluator (\<^verbatim>\<open>src/engine/evaluator.rs\<close>), the snapshot (\<^verbatim>\<open>src/engine/snapshot.rs\<close>) and the
  pipeline (\<^verbatim>\<open>src/engine/pipeline.rs\<close>): one event is applied to an account, the rules are
  evaluated, the decision is applied. \<^const>\<open>utc_now\<close> is the clock reading of the processed
  event; the notifier is a parameter.
\<close>

section \<open>Evaluator\<close>

record evaluation_result =
  er_reports :: "rule_report list"
  er_decision :: decision

definition evaluator_evaluate :: "ext \<Rightarrow> registry \<Rightarrow> rule_context \<Rightarrow> evaluation_result res option" where
  "evaluator_evaluate E reg ctx =
     try_op (registry_evaluate E reg ctx)
       (\<lambda>reports. ok \<lparr> er_reports = reports, er_decision = from_reports reports \<rparr>)"

definition er_passed :: "evaluation_result \<Rightarrow> bool" where
  "er_passed r \<longleftrightarrow> d_kind (er_decision r) = DPass"

definition er_failed :: "evaluation_result \<Rightarrow> bool" where
  "er_failed r \<longleftrightarrow> decision_kind_is_terminating (d_kind (er_decision r))"

definition er_violations :: "evaluation_result \<Rightarrow> violation list" where
  "er_violations r = List.map_filter (\<lambda>rep. verdict_violation (rr_verdict rep)) (er_reports r)"

definition with_lists :: "rule_context \<Rightarrow> position list \<Rightarrow> trade list \<Rightarrow> domain_event list \<Rightarrow> rule_context" where
  "with_lists ctx ps ts es = ctx\<lparr>c_open_positions := ps, c_today_trades := ts, c_recent_events := es\<rparr>"

definition evaluate_order ::
  "ext \<Rightarrow> registry \<Rightarrow> account \<Rightarrow> order \<Rightarrow> position list \<Rightarrow> trade list \<Rightarrow> domain_event list \<Rightarrow> evaluation_result res option" where
  "evaluate_order E reg a ord ps ts es =
     evaluator_evaluate E reg (with_lists (for_open_order (utc_now E) a ord) ps ts es)"

definition evaluate_trade ::
  "ext \<Rightarrow> registry \<Rightarrow> account \<Rightarrow> trade \<Rightarrow> position list \<Rightarrow> trade list \<Rightarrow> domain_event list \<Rightarrow> evaluation_result res option" where
  "evaluate_trade E reg a t ps ts es =
     evaluator_evaluate E reg (with_lists (for_trade_fill (utc_now E) a t) ps ts es)"

definition evaluate_tick ::
  "ext \<Rightarrow> registry \<Rightarrow> account \<Rightarrow> tick \<Rightarrow> position list \<Rightarrow> trade list \<Rightarrow> domain_event list \<Rightarrow> evaluation_result res option" where
  "evaluate_tick E reg a tk ps ts es =
     evaluator_evaluate E reg
       (with_broker_equity (with_lists (for_tick (utc_now E) a tk) ps ts es) (equity a) (balance a))"

definition evaluate_tick_estimated ::
  "ext \<Rightarrow> registry \<Rightarrow> account \<Rightarrow> tick \<Rightarrow> position list \<Rightarrow> trade list \<Rightarrow> domain_event list \<Rightarrow> evaluation_result res option" where
  "evaluate_tick_estimated E reg a tk ps ts es =
     evaluator_evaluate E reg
       (with_estimated_equity (with_lists (for_tick (utc_now E) a tk) ps ts es) (equity a) (balance a))"

definition evaluate_day_rollover :: "ext \<Rightarrow> registry \<Rightarrow> account \<Rightarrow> evaluation_result res option" where
  "evaluate_day_rollover E reg a = evaluator_evaluate E reg (for_day_rollover (utc_now E) a)"

definition make_violation_event :: "ext \<Rightarrow> uuid \<Rightarrow> violation \<Rightarrow> uuid option \<Rightarrow> domain_event" where
  "make_violation_event E ident v causation =
     (let ev = domain_event_new E ident (EvRuleViolated v) (v_occurred_at v) in
      case causation of Some c \<Rightarrow> with_causation ev c | None \<Rightarrow> ev)"

fun context_label :: "rule_context_kind \<Rightarrow> string" where
  "context_label OnOrderSubmit = ''order_submit''"
| "context_label OnTradeFill = ''trade_fill''"
| "context_label OnTick = ''tick''"
| "context_label OnDayRollover = ''day_rollover''"
| "context_label OnEndOfDay = ''end_of_day''"
| "context_label OnDemand = ''on_demand''"

record snapshot =
  sn_account_id :: uuid
  sn_at :: timestamp
  sn_account :: account_snapshot
  sn_decision :: decision

definition snapshot_new :: "ext \<Rightarrow> account \<Rightarrow> decision \<Rightarrow> snapshot option" where
  "snapshot_new E a d = do {
     s \<leftarrow> account_snapshot E a;
     Some \<lparr> sn_account_id = acc_id a, sn_at = utc_now E, sn_account = s, sn_decision = d \<rparr> }"

section \<open>Events of the pipeline\<close>

datatype pipeline_event =
    PAccountStarted timestamp
  | POrderSubmitted order
  | PTradeFilled trade
  | PTick tick money money
  | PTickEstimated tick
  | PDayRollover bool
  | PEndOfDay
  | POnDemand
  | PEmergencyStop string string timestamp
  | POverrideBreach override_record
  | PPayoutRequest
  | PPayoutApprove

fun event_timestamp :: "ext \<Rightarrow> pipeline_event \<Rightarrow> timestamp" where
  "event_timestamp E (PAccountStarted t) = t"
| "event_timestamp E (POrderSubmitted ord) = o_submitted_at ord"
| "event_timestamp E (PTradeFilled t) = t_executed_at t"
| "event_timestamp E (PTick tk eq bal) = q_ts (tk_quote tk)"
| "event_timestamp E (PTickEstimated tk) = q_ts (tk_quote tk)"
| "event_timestamp E (PDayRollover h) = utc_now E"
| "event_timestamp E PEndOfDay = utc_now E"
| "event_timestamp E POnDemand = utc_now E"
| "event_timestamp E (PEmergencyStop r actor t) = t"
| "event_timestamp E (POverrideBreach ov) = ov_at ov"
| "event_timestamp E PPayoutRequest = utc_now E"
| "event_timestamp E PPayoutApprove = utc_now E"

section \<open>Applying a decision\<close>

fun next_phase_for :: "challenge_phase \<Rightarrow> challenge_phase" where
  "next_phase_for Phase1 = Phase2"
| "next_phase_for Phase2 = FundedPhase"
| "next_phase_for FundedPhase = Phase1"

text \<open>The first block: a target hit is recorded and announced.\<close>

definition decision_target :: "ext \<Rightarrow> account \<Rightarrow> decision \<Rightarrow> timestamp \<Rightarrow> account \<times> domain_event list" where
  "decision_target E a d now =
     (if d_kind d = DTargetHit
      then (mark_target_reached a now,
            [domain_event_new E (acc_id a) (EvAccountStatusChanged (status a) TargetHitPending) now])
      else (a, []))"

text \<open>The fields reset when an account is promoted to its next phase.\<close>

definition reset_for_phase :: "account \<Rightarrow> account" where
  "reset_for_phase a =
     a\<lparr>status := Active, target_reached_at := None, target_reached_on_day := None,
       active_trading_days := 0, trading_day_index := 0, day_counted_today := False,
       today_realized_pnl := 0, largest_day_profit := 0, largest_day_loss := 0,
       sum_positive_days_profit := 0, day_start_balance := balance a,
       day_start_equity := equity a, current_trading_day_start := None,
       peak_equity := equity a, peak_balance := balance a\<rparr>"

text \<open>The second block: promotion once the target and the day count are met.\<close>

definition decision_promote :: "ext \<Rightarrow> account \<Rightarrow> timestamp \<Rightarrow> (account \<times> domain_event list) res" where
  "decision_promote E a now =
     (if target_reached_at a \<noteq> None \<and> status a = TargetHitPending
         \<and> active_trading_days a \<ge> min_trading_days (plan a)
      then (let from_phase = plan_phase (plan a); next_phase = next_phase_for from_phase in
            case upgrade_phase (a\<lparr>status := Passed\<rparr>) next_phase of
              Inl e \<Rightarrow> Inl (InvalidState (Fmt ''phase upgrade failed: {e}'' [error_msg e]))
            | Inr b \<Rightarrow> Inr (reset_for_phase b,
                [domain_event_new E (acc_id a) (EvAccountStatusChanged (status a) Passed) now,
                 domain_event_new E (acc_id a) (EvPlanUpgraded from_phase next_phase) now]))
      else Inr (a, []))"

abbreviation liquidation_reason_of :: "decision \<Rightarrow> liquidation_reason" where
  "liquidation_reason_of d \<equiv>
     (case d_kind d of
        DLiquidate \<Rightarrow>
          (let v = (case find (\<lambda>v. v_severity v \<ge> LiquidateSev) (d_all_violations d) of
                      Some v \<Rightarrow> Some v
                    | None \<Rightarrow> (case d_all_violations d of [] \<Rightarrow> None | v # _ \<Rightarrow> Some v))
           in RuleBreach (case v of None \<Rightarrow> Custom | Some v \<Rightarrow> v_kind v))
      | DEmergency \<Rightarrow> EmergencyStopReason
      | _ \<Rightarrow> Manual)"

text \<open>The third block: a terminating decision sets the status and may request liquidation.\<close>

definition decision_terminate ::
  "ext \<Rightarrow> account \<Rightarrow> decision \<Rightarrow> timestamp \<Rightarrow> string \<Rightarrow> (account \<times> domain_event list) option" where
  "decision_terminate E a d now actor =
     (case account_status_target d of
        None \<Rightarrow> Some (a, [])
      | Some target \<Rightarrow> do {
          let b = a\<lparr>status_before_breach :=
                      (if target = Failed \<or> target = EmergencyStopped then Some (status a)
                       else status_before_breach a),
                    status := target\<rparr>;
          let changed = domain_event_new E (acc_id a) (EvAccountStatusChanged (status a) target) now;
          if d_kind d = DLiquidate \<or> d_kind d = DEmergency then do {
            li \<leftarrow> liquidation_new E (acc_id a) (tenant_id b) (acc_open_positions b)
                   (liquidation_reason_of d)
                   (case d_all_violations d of [] \<Rightarrow> None | v # _ \<Rightarrow> Some (v_id v)) actor now;
            Some (b, [changed, domain_event_new E (acc_id a) (EvLiquidationRequested li) now]) }
          else Some (b, [changed]) })"

definition apply_decision ::
  "ext \<Rightarrow> account \<Rightarrow> decision \<Rightarrow> timestamp \<Rightarrow> string \<Rightarrow> (account \<times> domain_event list) res option" where
  "apply_decision E a d now actor =
     (let (a1, ev1) = decision_target E a d now in
      case decision_promote E a1 now of
        Inl e \<Rightarrow> err e
      | Inr (a2, ev2) \<Rightarrow> do {
          (a3, ev3) \<leftarrow> decision_terminate E a2 d now actor;
          ok (a3, ev1 @ ev2 @ ev3) })"

section \<open>Automatic day rollover\<close>

text \<open>
  The loop closes one trading day per iteration until the account's day is the event's.
  It is a partial function: a panic in it and a loop that does not end are both \<open>None\<close>.
\<close>

partial_function (option) rollover_loop ::
  "ext \<Rightarrow> timestamp \<Rightarrow> timestamp \<Rightarrow> bool \<Rightarrow> account \<Rightarrow> account option" where
  "rollover_loop E event_ts event_day_start first a =
     (if (case current_trading_day_start a of Some s \<Rightarrow> s < event_day_start | None \<Rightarrow> True)
      then Option.bind (current_trading_day_start a) (\<lambda>cur.
           Option.bind (next_trading_day_start E (plan a) cur) (\<lambda>next_start.
           Option.bind (rollover_day E a (if first then today_realized_pnl a \<noteq> 0 else False)
                  (Some (if next_start \<ge> event_day_start then event_ts else next_start)))
             (\<lambda>b. rollover_loop E event_ts event_day_start False b)))
      else Some a)"

definition auto_rollover :: "ext \<Rightarrow> account \<Rightarrow> pipeline_event \<Rightarrow> (account \<times> domain_event list) option" where
  "auto_rollover E a ev =
     (case ev of
        PDayRollover h \<Rightarrow> Some (a, [])
      | _ \<Rightarrow> do {
          let event_ts = event_timestamp E ev;
          event_day_start \<leftarrow> trading_day_start E (plan a) event_ts;
          current_day_start \<leftarrow> (case current_trading_day_start a of
              Some s \<Rightarrow> Some s
            | None \<Rightarrow> trading_day_start E (plan a) event_ts);
          if event_day_start > current_day_start then do {
            b \<leftarrow> rollover_loop E event_ts event_day_start True a;
            Some (b, [domain_event_new E (acc_id a)
                        (EvDayRollover (trading_day_index b) (day_start_balance b)) event_ts]) }
          else Some (a, []) })"

section \<open>Applying an event\<close>

definition stale_tick_threshold_minutes :: int where
  "stale_tick_threshold_minutes = 10"

record applied_event =
  ap_state :: account
  ap_ctx_kind :: rule_context_kind
  ap_open_positions :: "position list"
  ap_today_trades :: "trade list"
  ap_recent_events :: "domain_event list"
  ap_trade_fill :: "(trade \<times> position) option"
  ap_events :: "domain_event list"

definition filled_position :: "ext \<Rightarrow> position list \<Rightarrow> trade \<Rightarrow> position res" where
  "filled_position E open_positions t =
     (let opened = position_open (new_v4 E ''position'') (t_account_id t) (t_symbol t)
            (side_from_order (t_side t)) (t_price t) (t_quantity t) (t_executed_at t)
            (t_commission t) None None None (t_comment t) in
      case t_trade_side t of
        Exit \<Rightarrow>
          (case t_exit_info t of
             None \<Rightarrow> Inl (Persistence (Lit ''exit trade missing exit_info''))
           | Some x \<Rightarrow>
               (case find (\<lambda>p. p_id p = x_position_id x) open_positions of
                  Some pos \<Rightarrow> Inr (pos\<lparr>p_status := PClosed, p_closed_at := Some (t_executed_at t),
                                    p_realized_pnl := x_realized_pnl x, p_open_quantity := 0\<rparr>)
                | None \<Rightarrow> Inr
                    \<lparr> p_id = x_position_id x, p_account_id = t_account_id t, p_symbol = t_symbol t,
                      p_side = side_from_order (t_side t), p_opened_at = t_executed_at t,
                      p_closed_at = Some (t_executed_at t), p_status = PClosed,
                      p_avg_entry_price = x_entry_price x, p_opened_quantity = x_closed_quantity x,
                      p_open_quantity = 0, p_realized_pnl = x_realized_pnl x,
                      p_commission = t_commission t, p_swap = t_swap t, p_stop_loss = None,
                      p_take_profit = None, p_magic = None, p_comment = t_comment t \<rparr>))
      | _ \<Rightarrow> Inr opened)"

fun payout_error_msg :: "payout_error \<Rightarrow> msg" where
  "payout_error_msg (BelowMinimum m) = Fmt ''BelowMinimum'' [MDec m]"
| "payout_error_msg (CycleNotReached t) = Fmt ''CycleNotReached'' [MTime t]"
| "payout_error_msg NoProfit = Lit ''NoProfit''"

text \<open>The quote both payout events take; a rejected quote is their error, with their own text.\<close>

definition payout_quote_for :: "ext \<Rightarrow> account \<Rightarrow> string \<Rightarrow> payout_quote res option" where
  "payout_quote_for E a failed =
     (case plan_payout_config (plan a) of
        None \<Rightarrow> err (InvalidState (Lit ''plan has no payout configuration''))
      | Some cfg \<Rightarrow> do {
          q \<leftarrow> quote_payout E a cfg (last_payout_at a) (Some (balance_at_last_payout a)) (refund_used a) (utc_now E);
          case pq_rejected q of
            Some r \<Rightarrow> err (InvalidState (Fmt failed [payout_error_msg r]))
          | None \<Rightarrow> ok q })"

text \<open>The arms of \<^verbatim>\<open>apply_event\<close>: the new account, the context kind, the fill and the events.\<close>

fun apply_arm ::
  "ext \<Rightarrow> account \<Rightarrow> position list \<Rightarrow> pipeline_event \<Rightarrow>
   (account \<times> rule_context_kind \<times> (trade \<times> position) option \<times> domain_event list) res option" where
  "apply_arm E a ops (PAccountStarted t) =
     try_op (account_start E a t) (\<lambda>b.
       ok (b, OnDemand, None, [domain_event_new E (acc_id b) (EvAccountStarted (plan a)) t]))"
| "apply_arm E a ops (POrderSubmitted ord) = ok (a, OnOrderSubmit, None, [])"
| "apply_arm E a ops (PTradeFilled t) = do {
     let pnl = (case t_exit_info t of Some x \<Rightarrow> x_realized_pnl x | None \<Rightarrow> 0);
     b \<leftarrow> apply_realized_pnl E a pnl (t_commission t) (t_swap t) (t_executed_at t);
     let b = mark_active_trading_day b;
     case filled_position E ops t of
       Inl e \<Rightarrow> err e
     | Inr pos \<Rightarrow> ok (b, OnTradeFill, Some (t, pos),
                   [domain_event_new E (acc_id b) (EvTradeFilled t) (t_executed_at t)]) }"
| "apply_arm E a ops (PTick tk eq bal) =
     (let staleness = num_minutes E (utc_now E - q_ts (tk_quote tk)) in
      if staleness > stale_tick_threshold_minutes
      then err (TickRejected (Fmt ''tick.stale''
             [MTime (q_ts (tk_quote tk)), MInt staleness, MInt stale_tick_threshold_minutes]))
      else if (case last_tick_ts a of None \<Rightarrow> False | Some l \<Rightarrow> q_ts (tk_quote tk) \<le> l)
      then err (TickRejected (Fmt ''tick.out_of_order''
             [MTime (q_ts (tk_quote tk)), MTime (the (last_tick_ts a))]))
      else (let b = update_balance (update_equity a eq) bal in
            ok (b, OnTick, None, [domain_event_new E (acc_id b) (EvTickEvaluated eq) (q_ts (tk_quote tk))])))"
| "apply_arm E a ops (PTickEstimated tk) = do {
     eq \<leftarrow> equity_after_tick E (balance a) ops (tk_quote tk);
     let b = set_estimated_equity a eq (balance a);
     ok (b, OnTick, None, [domain_event_new E (acc_id b) (EvTickEvaluated eq) (q_ts (tk_quote tk))]) }"
| "apply_arm E a ops (PDayRollover had_trades_today) = do {
     b \<leftarrow> rollover_day E a had_trades_today None;
     ok (b, OnDayRollover, None,
         [domain_event_new E (acc_id b) (EvDayRollover (trading_day_index b) (day_start_balance b)) (utc_now E)]) }"
| "apply_arm E a ops PEndOfDay = ok (a, OnEndOfDay, None, [])"
| "apply_arm E a ops POnDemand = ok (a, OnDemand, None, [])"
| "apply_arm E a ops (PEmergencyStop reason actor t) =
     (let b = emergency_stop a in
      ok (b, OnDemand, None, [domain_event_new E (acc_id b) (EvAccountStatusChanged (status a) EmergencyStopped) t]))"
| "apply_arm E a ops (POverrideBreach ov) =
     (case override_validate ov of
        Inl e \<Rightarrow> err e
      | Inr _ \<Rightarrow>
          if ov_account_id ov \<noteq> acc_id a then err (InvalidState (Fmt ''override.account''
            [MInt (uint (ov_account_id ov)), MInt (uint (acc_id a))]))
          else (case clear_breach a of
             Inl e \<Rightarrow> err e
           | Inr b \<Rightarrow> ok (b, OnDemand, None,
               [domain_event_new E (acc_id b) (EvAccountStatusChanged Failed Active) (ov_at ov),
                domain_event_new E (acc_id b)
                  (EvOverrideCleared (ov_clears_violation_id ov) (ov_reason ov) (ov_actor_id ov) (ov_at ov)) (ov_at ov)])))"
| "apply_arm E a ops PPayoutRequest =
     try_op (payout_quote_for E a ''payout request rejected: {rejected:?}'') (\<lambda>q.
       case mark_payout_pending a of
         Inl e \<Rightarrow> err e
       | Inr b \<Rightarrow> ok (b, OnDemand, None,
           domain_event_new E (acc_id a) (EvPayoutRequested (pq_profit_basis q) (pq_amount q)) (utc_now E)
           # (if status a \<noteq> status b
              then [domain_event_new E (acc_id a) (EvAccountStatusChanged (status a) (status b)) (utc_now E)]
              else [])))"
| "apply_arm E a ops PPayoutApprove =
     try_op (payout_quote_for E a ''payout approval rejected: {rejected:?}'') (\<lambda>q.
       try_op (record_payout E a (pq_amount q) (pq_fee_refund q) (utc_now E)) (\<lambda>b.
         let c = b\<lparr>refund_used := (refund_used b \<or> pq_fee_refund q > 0)\<rparr> in
         ok (c, OnDemand, None,
             [domain_event_new E (acc_id a) (EvPayoutApproved (pq_amount q) (pq_fee_refund q)) (utc_now E)])))"

definition apply_event :: "ext \<Rightarrow> event_store \<Rightarrow> account \<Rightarrow> pipeline_event \<Rightarrow> applied_event res option" where
  "apply_event E st a ev = do {
     day_start \<leftarrow> trading_day_start E (plan a) (event_timestamp E ev);
     let recent = store_recent st (acc_id a) 50;
     let a1 = a\<lparr>acc_today_trades := filter (\<lambda>t. t_executed_at t \<ge> day_start) (acc_today_trades a)\<rparr>;
     try_op (apply_arm E a1 (acc_open_positions a1) ev) (\<lambda>(b, k, fill, evs).
       ok \<lparr> ap_state = b, ap_ctx_kind = k, ap_open_positions = acc_open_positions a1,
            ap_today_trades = acc_today_trades a1, ap_recent_events = recent,
            ap_trade_fill = fill, ap_events = evs \<rparr>) }"

section \<open>Processing\<close>

definition build_context ::
  "ext \<Rightarrow> account \<Rightarrow> rule_context_kind \<Rightarrow> pipeline_event \<Rightarrow> position list \<Rightarrow> trade list \<Rightarrow> domain_event list \<Rightarrow> rule_context" where
  "build_context E a k ev ps ts recent =
     (let ctx = (context_new (utc_now E) a)\<lparr>c_kind := k, c_open_positions := ps, c_today_trades := ts,
                  c_recent_events := recent, c_rule_config := rule_config_from_plan (plan a)\<rparr> in
      case ev of
        POrderSubmitted ord \<Rightarrow> ctx\<lparr>c_pending_order := Some ord\<rparr>
      | PTradeFilled t \<Rightarrow> ctx\<lparr>c_latest_trade := Some t\<rparr>
      | PTick tk eq bal \<Rightarrow> ctx\<lparr>c_latest_tick := Some tk, c_equity_input := BrokerReported eq bal\<rparr>
      | PTickEstimated tk \<Rightarrow>
          ctx\<lparr>c_latest_tick := Some tk, c_equity_input := Estimated (estimated_equity a) (estimated_balance a)\<rparr>
      | _ \<Rightarrow> ctx)"

definition emit_decision_event :: "ext \<Rightarrow> uuid \<Rightarrow> decision \<Rightarrow> domain_event list" where
  "emit_decision_event E ident d =
     (if d_kind d = DFail \<or> d_kind d = DLiquidate
      then [domain_event_new E ident (EvAccountStatusChanged Active Failed) (utc_now E)] else [])"

definition consume_fill :: "account \<Rightarrow> (trade \<times> position) option \<Rightarrow> account" where
  "consume_fill a fill =
     (case fill of
        None \<Rightarrow> a
      | Some (t, pos) \<Rightarrow>
          (let kept = filter (\<lambda>p. p_id p \<noteq> p_id pos) (acc_open_positions a) in
           a\<lparr>acc_open_positions := (if is_open pos then kept @ [pos] else kept),
             acc_today_trades := acc_today_trades a @ [t]\<rparr>))"

fun actor_of :: "pipeline_event \<Rightarrow> string" where
  "actor_of (PEmergencyStop r actor t) = actor"
| "actor_of _ = ''rule_engine''"

fun stamp_last_tick :: "account \<Rightarrow> pipeline_event \<Rightarrow> account" where
  "stamp_last_tick a (PTick tk eq bal) = a\<lparr>last_tick_ts := Some (q_ts (tk_quote tk))\<rparr>"
| "stamp_last_tick a (PTickEstimated tk) = a\<lparr>last_tick_ts := Some (q_ts (tk_quote tk))\<rparr>"
| "stamp_last_tick a _ = a"

fun notify_all :: "(violation \<Rightarrow> unit res) \<Rightarrow> violation list \<Rightarrow> unit res option" where
  "notify_all notify [] = ok ()"
| "notify_all notify (v # vs) = (case notify v of Inl e \<Rightarrow> err e | Inr _ \<Rightarrow> notify_all notify vs)"

record pipeline_result =
  pr_snapshot :: snapshot
  pr_events :: "domain_event list"
  pr_result :: evaluation_result
  pr_account :: account

definition process ::
  "ext \<Rightarrow> registry \<Rightarrow> event_store \<Rightarrow> (violation \<Rightarrow> unit res) \<Rightarrow> account \<Rightarrow> pipeline_event \<Rightarrow> pipeline_result res option" where
  "process E reg st notify a ev = do {
     (a0, ev0) \<leftarrow> auto_rollover E a ev;
     try_op (apply_event E st a0 ev) (\<lambda>ap.
       let ctx = build_context E (ap_state ap) (ap_ctx_kind ap) ev (ap_open_positions ap)
                   (ap_today_trades ap) (ap_recent_events ap) in
       try_op (evaluator_evaluate E reg ctx) (\<lambda>res.
         let a1 = consume_fill (ap_state ap) (ap_trade_fill ap) in
         try_op (apply_decision E a1 (er_decision res) (c_server_time ctx) (actor_of ev)) (\<lambda>(a2, dev).
           let a3 = stamp_last_tick a2 ev in do {
           snap \<leftarrow> snapshot_new E a3 (er_decision res);
           let viol = map (\<lambda>v. domain_event_new E (acc_id a) (EvRuleViolated v) (c_server_time ctx)) (er_violations res);
           try_op (notify_all notify (er_violations res)) (\<lambda>_.
             ok \<lparr> pr_snapshot = snap,
                  pr_events = ev0 @ ap_events ap @ dev @ emit_decision_event E (acc_id a) (er_decision res) @ viol,
                  pr_result = res, pr_account = a3 \<rparr>) }))) }"

section \<open>The rollover loop\<close>

lemma rollover_loop_steps:
  assumes "utc_calendar E" "h < 24" "\<bar>event_ts\<bar> \<le> (max_date - 3) * day_ns"
  shows "\<lbrakk>utc_plan (plan a); unat (day_reset_time (plan a)) = h; day_of h event_ts = k + int n; \<bar>k\<bar> < max_date - 1;
     current_trading_day_start a = Some (boundary h k); first \<Longrightarrow> close_trading_day E a \<noteq> None\<rbrakk> \<Longrightarrow>
     \<exists>b. rollover_loop E event_ts (boundary h (k + int n)) first a = Some b
       \<and> current_trading_day_start b = Some (boundary h (k + int n))
       \<and> trading_day_index b = trading_day_index a + of_nat n"
proof (induction n arbitrary: k a first)
  case 0
  then show ?case by (subst rollover_loop.simps) simp
next
  case (Suc n)
  let ?e = "boundary h (k + int (Suc n))"
  let ?ts = "if boundary h (k + 1) \<ge> ?e then event_ts else boundary h (k + 1)"
  have hk: "unat (day_reset_time (plan a)) = h" by (rule Suc.prems(2))
  have k1: "\<bar>k + 1\<bar> < max_date - 1"
    using Suc.prems(3,4) day_of_range [OF assms(2,3)] by auto
  have nx: "next_trading_day_start E (plan a) (boundary h k) = Some (boundary h (k + 1))"
    using next_trading_day_start_utc [OF assms(1) Suc.prems(1,4)] by (simp add: hk)
  have ev: "trading_day_start E (plan a) event_ts = Some (boundary h (k + int (Suc n)))"
    using trading_day_start_utc [OF assms(1) Suc.prems(1), of event_ts] assms(3) Suc.prems(3)
    by (simp add: hk max_date_def)
  have nd: "trading_day_start E (plan a) (boundary h (k + 1)) = Some (boundary h (k + 1))"
    using trading_day_start_utc [OF assms(1) Suc.prems(1) boundary_range [OF assms(2) k1]] by (simp add: hk)
  have ts: "trading_day_start E (plan a) ?ts = Some (boundary h (k + 1))"
    using ev nd by (cases "n = 0") auto
  have cl: "(if first then today_realized_pnl a \<noteq> 0 else False) \<Longrightarrow> close_trading_day E a \<noteq> None"
    using Suc.prems(6) by (auto split: if_splits)
  obtain b where b: "rollover_day E a (if first then today_realized_pnl a \<noteq> 0 else False) (Some ?ts) = Some b"
    "plan b = plan a" "trading_day_index b = trading_day_index a + 1" "current_trading_day_start b = Some (boundary h (k + 1))"
    using cl ts by (rule rollover_day_returns)
  have "\<exists>c. rollover_loop E event_ts (boundary h (k + 1 + int n)) False b = Some c
     \<and> current_trading_day_start c = Some (boundary h (k + 1 + int n))
     \<and> trading_day_index c = trading_day_index b + of_nat n"
  proof (rule Suc.IH)
    show "utc_plan (plan b)" "unat (day_reset_time (plan b)) = h" using Suc.prems(1,2) by (simp_all add: b(2))
    show "day_of h event_ts = k + 1 + int n" using Suc.prems(3) by simp
  qed (use k1 b(4) in simp_all)
  moreover have "rollover_loop E event_ts ?e first a = rollover_loop E event_ts ?e False b"
    using b(1) by (subst rollover_loop.simps) (auto simp: Suc.prems(5) nx split: if_splits)
  ultimately show ?case by (auto simp: b(3) algebra_simps)
qed

text \<open>
  C8. The rollover loop returns. In a plan on UTC, from an account whose trading day
  starts at a reset instant, and whose current day can be closed without overflow, the loop
  ends with the account on the trading day of the event, having advanced the day index by
  the number of days between.
\<close>

theorem rollover_loop_reaches:
  assumes "utc_calendar E" "utc_plan (plan a)" "\<bar>event_ts\<bar> \<le> (max_date - 3) * day_ns"
    and "trading_day_start E (plan a) event_ts = Some s"
    and "current_trading_day_start a = Some (boundary (unat (day_reset_time (plan a))) k)" "\<bar>k\<bar> < max_date - 1"
    and "close_trading_day E a \<noteq> None"
    and "k \<le> day_of (unat (day_reset_time (plan a))) event_ts"
  shows "\<exists>b. rollover_loop E event_ts s True a = Some b \<and> current_trading_day_start b = Some s
     \<and> trading_day_index b = trading_day_index a + of_nat (nat (day_of (unat (day_reset_time (plan a))) event_ts - k))"
proof -
  let ?h = "unat (day_reset_time (plan a))"
  have h: "?h < 24" using assms(2) by (simp add: utc_plan_def)
  have s: "s = boundary ?h (day_of ?h event_ts)"
    using trading_day_start_utc [OF assms(1,2), of event_ts] assms(3,4) by (simp add: max_date_def)
  show ?thesis
    using rollover_loop_steps [OF assms(1) h assms(3,2) refl _ assms(6,5), of "nat (day_of ?h event_ts - k)"] assms(7,8) s
    by simp
qed

theorem rollover_loop_reaches_witness:
  "\<exists>b. rollover_loop (exact_env 0) (3 * day_ns + 5) (3 * day_ns) True
           (demo_account\<lparr>current_trading_day_start := Some 0\<rparr>) = Some b
       \<and> current_trading_day_start b = Some (3 * day_ns) \<and> trading_day_index b = 3"
proof -
  let ?a = "demo_account\<lparr>current_trading_day_start := Some 0\<rparr>"
  have p: "utc_plan (plan ?a)" "unat (day_reset_time (plan ?a)) = 0" "trading_day_index ?a = 0"
    by (simp_all add: utc_plan_def demo_simps)
  have d: "day_of 0 (3 * day_ns + 5) = 3" by (simp add: day_of_def day_ns_def)
  have t: "trading_day_start (exact_env 0) (plan ?a) (3 * day_ns + 5) = Some (3 * day_ns)"
    using trading_day_start_utc [OF exact_env_utc_calendar p(1), of "3 * day_ns + 5", unfolded p(2) d]
    by (simp add: boundary_def day_ns_def max_date_def)
  have c: "close_trading_day (exact_env 0) ?a \<noteq> None"
    by (simp add: close_trading_day_def add_winning_day_def count_qualifying_day_def stamp_day_extremes_def demo_simps)
  from rollover_loop_reaches [OF exact_env_utc_calendar p(1) _ t, of 0, unfolded p d]
  show ?thesis using c by (simp add: boundary_def day_ns_def max_date_def)
qed

end
