(* ===== verification/Pipeline_Runs.thy ===== *)
theory Pipeline_Runs
  imports Pipeline
begin

text \<open>
  Runs of the pipeline: an account goes through a sequence of events, each handled by
  \<^const>\<open>process\<close> with its own clock, registry, store and notifier, or refused with an error
  and without effect. The locale \<open>account_transitions\<close> is the contract of an invariant:
  when every transition of the account keeps a predicate, every run does. Its
  interpretations give the life cycle of the status, the high-water mark, the position
  book, the identity of the account and its plan, and where money moves.
\<close>

section \<open>Runs\<close>

inductive account_run :: "(ext \<Rightarrow> bool) \<Rightarrow> account \<Rightarrow> pipeline_event list \<Rightarrow> account \<Rightarrow> bool" for env where
  idle: "account_run env a [] a"
| handled: "account_run env a evs b \<Longrightarrow> env E \<Longrightarrow> process E reg st notify b ev = ok r \<Longrightarrow>
    account_run env a (evs @ [ev]) (pr_account r)"
| refused: "account_run env a evs b \<Longrightarrow> process E reg st notify b ev = err e \<Longrightarrow> account_run env a (evs @ [ev]) b"

text \<open>Classes of events.\<close>

fun is_override :: "pipeline_event \<Rightarrow> bool" where
  "is_override (POverrideBreach ov) = True"
| "is_override _ = False"

fun is_tick :: "pipeline_event \<Rightarrow> bool" where
  "is_tick (PTick tk eq bal) = True"
| "is_tick (PTickEstimated tk) = True"
| "is_tick _ = False"

fun is_estimate :: "pipeline_event \<Rightarrow> bool" where
  "is_estimate (PTickEstimated tk) = True"
| "is_estimate _ = False"

fun moves_money :: "pipeline_event \<Rightarrow> bool" where
  "moves_money (PTradeFilled t) = True"
| "moves_money (PTick tk eq bal) = True"
| "moves_money PPayoutApprove = True"
| "moves_money _ = False"

text \<open>The life cycle of the status of an account that is not overridden.\<close>

inductive status_step :: "account_status \<Rightarrow> account_status \<Rightarrow> bool" where
  starts: "status_step Pending Active"
| hits_target: "status_step Active TargetHitPending"
| is_promoted: "status_step TargetHitPending Active"
| requests_payout: "status_step Funded PayoutPending"
| is_paid: "status_step PayoutPending Funded"
| fails: "status_step s Failed"
| is_stopped: "status_step s EmergencyStopped"

text \<open>What the invariants speak about.\<close>

definition positions_ok :: "account \<Rightarrow> bool" where
  "positions_ok a \<longleftrightarrow> distinct (map p_id (acc_open_positions a)) \<and> list_all is_open (acc_open_positions a)"

definition tiers_ok :: "challenge_plan \<Rightarrow> bool" where
  "tiers_ok p = (case plan_payout_config p of None \<Rightarrow> True
     | Some cfg \<Rightarrow> pc_tiers cfg \<noteq> [] \<and> list_all (\<lambda>s. 0 \<le> s \<and> s \<le> 1) (pc_tiers cfg))"

definition decimal_laws :: "ext \<Rightarrow> bool" where
  "decimal_laws E \<longleftrightarrow> sums_exact E \<and> fractions_shrink E"

fun phase_rank :: "challenge_phase \<Rightarrow> nat" where
  "phase_rank Phase1 = 0"
| "phase_rank Phase2 = 1"
| "phase_rank FundedPhase = 2"

text \<open>Ticks, a sink for notifications and a rule that always liquidates, for concrete instances.\<close>

abbreviation quiet_notify :: "violation \<Rightarrow> unit res" where
  "quiet_notify \<equiv> \<lambda>v. Inr ()"

definition demo_tick :: "timestamp \<Rightarrow> tick" where
  "demo_tick t = \<lparr> tk_symbol = ''EURUSD'', tk_quote = \<lparr> q_bid = 1, q_ask = 1, q_ts = t \<rparr>, tk_last = None,
     tk_bid_volume = None, tk_ask_volume = None \<rparr>"

definition demo_liquidating_rule :: rule where
  "demo_liquidating_rule =
     \<lparr> r_info = max_drawdown_info, r_scope = DemandScope, r_severity = Hard, r_priority = 1, r_tolerance_cents = 0,
       r_params = None, r_is_enabled = (\<lambda>ctx. Some True), r_evaluate = (\<lambda>ctx. ok (Liquidate (demo_violation 1))) \<rparr>"

definition demo_liquidating_registry :: registry where
  "demo_liquidating_registry = \<lparr> reg_rules = [demo_liquidating_rule], reg_by_id = Map.empty \<rparr>"

section \<open>The effect of each transition\<close>

lemma close_trading_day_update:
  assumes "close_trading_day E a = Some b"
  obtains p l s n q d where "b = a\<lparr>largest_day_profit := p, largest_day_loss := l, sum_positive_days_profit := s,
    profitable_days_count := n, qualifying_trading_days_count := q, active_trading_days := d\<rparr>"
proof -
  obtain c e where c: "add_winning_day E (stamp_day_extremes a) = Some c" and e: "count_qualifying_day E c = Some e"
    and b: "b = (if \<not> day_counted_today e then e\<lparr>active_trading_days := active_trading_days e + 1\<rparr> else e)"
    using assms unfolding close_trading_day_def by (auto simp only: Option.bind_eq_Some_conv option.inject)
  obtain n s where cc: "c = (stamp_day_extremes a)\<lparr>sum_positive_days_profit := s, profitable_days_count := n\<rparr>"
    using c by (rule add_winning_day_cases)
  obtain q where ee: "e = c\<lparr>qualifying_trading_days_count := q\<rparr>"
  proof (rule that)
    show "e = c\<lparr>qualifying_trading_days_count := qualifying_trading_days_count e\<rparr>"
      using count_qualifying_day_cases [OF e] by (elim disjE) simp_all
  qed
  have aa: "stamp_day_extremes a = a\<lparr>largest_day_profit := largest_day_profit (stamp_day_extremes a),
      largest_day_loss := largest_day_loss (stamp_day_extremes a)\<rparr>"
    by (simp add: stamp_day_extremes_def Let_def)
  have bb: "b = e\<lparr>active_trading_days := active_trading_days b\<rparr>" unfolding b by simp
  show thesis by (rule that [where p = "largest_day_profit (stamp_day_extremes a)"
      and l = "largest_day_loss (stamp_day_extremes a)" and s = s and n = n and q = q and d = "active_trading_days b"])
      (subst bb, subst ee, subst cc, subst aa, simp)
qed

lemma rollover_day_update:
  assumes "rollover_day E a h ts = Some c"
  obtains b p l s n q d t where "b = a\<lparr>largest_day_profit := p, largest_day_loss := l, sum_positive_days_profit := s,
    profitable_days_count := n, qualifying_trading_days_count := q, active_trading_days := d\<rparr>"
    "c = (start_trading_day b)\<lparr>current_trading_day_start := Some t\<rparr>"
  using assms
proof (rule rollover_day_cases)
  fix b t assume b: "(if h then close_trading_day E a else Some a) = Some b"
    and c: "c = (start_trading_day b)\<lparr>current_trading_day_start := Some t\<rparr>"
  show thesis
  proof (cases h)
    case True
    then have "close_trading_day E a = Some b" using b by simp
    then show thesis by (rule close_trading_day_update) (rule that [OF _ c])
  next
    case False
    then have "b = a\<lparr>largest_day_profit := largest_day_profit a, largest_day_loss := largest_day_loss a,
      sum_positive_days_profit := sum_positive_days_profit a, profitable_days_count := profitable_days_count a,
      qualifying_trading_days_count := qualifying_trading_days_count a, active_trading_days := active_trading_days a\<rparr>"
      using b by simp
    then show thesis using c by (rule that)
  qed
qed

lemma account_start_update:
  assumes "account_start E a t = ok b"
  obtains s d where "status a = Pending"
    "b = a\<lparr>status := Active, started_at := Some t, current_trading_day_start := Some s, deadline := d\<rparr>"
proof -
  from assms have p: "status a = Pending" by (auto simp: account_start_def split: if_split_asm)
  show thesis
  proof (cases "time_limit_days (plan a)")
    case None
    then show thesis using assms p that [where d = "deadline a"]
      by (auto simp: account_start_def run_simps)
  next
    case (Some n)
    then show thesis using assms p that by (auto simp: account_start_def run_simps)
  qed
qed

lemma apply_realized_pnl_update:
  assumes "apply_realized_pnl E a pnl commission swap t = Some b"
  obtains bal today total comms swaps where
    "b = a\<lparr>balance := bal, equity := bal, peak_balance := max bal (peak_balance a), today_realized_pnl := today,
       total_realized_pnl := total, total_commissions := comms, total_swaps := swaps, last_trade_at := Some t\<rparr>"
proof -
  obtain bal today total comms swaps where b: "b = a\<lparr>balance := bal, equity := bal,
             peak_balance := (if bal > peak_balance a then bal else peak_balance a),
             today_realized_pnl := today, total_realized_pnl := total,
             total_commissions := comms, total_swaps := swaps, last_trade_at := Some t\<rparr>"
    using assms unfolding apply_realized_pnl_def by (auto simp only: Option.bind_eq_Some_conv option.inject)
  show thesis by (rule that [where bal = bal and today = today and total = total and comms = comms and swaps = swaps]) (simp add: b max_def)
qed

lemma decision_promote_update:
  assumes "decision_promote E a t = Inr (b, evs)"
  obtains (stays) "b = a" "evs = []"
  | (promotes) p where "status a = TargetHitPending" "target_reached_at a \<noteq> None" "min_trading_days (plan a) \<le> active_trading_days a"
      "p = next_phase_for (plan_phase (plan a))" "(plan_phase (plan a), p) \<in> {(Phase1, Phase2), (Phase2, FundedPhase)}"
      "b = reset_for_phase (a\<lparr>status := Passed, plan := with_phase (plan a) p, account_type := account_type_of_phase p\<rparr>)"
proof (cases "target_reached_at a \<noteq> None \<and> status a = TargetHitPending \<and> active_trading_days a \<ge> min_trading_days (plan a)")
  case True
  let ?p = "next_phase_for (plan_phase (plan a))"
  have t: "(plan_phase (plan a), ?p) \<in> {(Phase1, Phase2), (Phase2, FundedPhase)}"
    using assms True by (auto simp: decision_promote_def upgrade_phase_def Let_def split: if_split_asm)
  have "b = reset_for_phase (a\<lparr>status := Passed, plan := with_phase (plan a) ?p, account_type := account_type_of_phase ?p\<rparr>)"
    using assms True t by (simp add: decision_promote_def upgrade_phase_def Let_def)
  then show thesis using True t by (intro promotes [OF _ _ _ refl]) auto
next
  case False
  have "decision_promote E a t = Inr (a, [])" unfolding decision_promote_def by (rule if_not_P [OF False])
  then show thesis using assms by (intro stays) simp_all
qed

lemma decision_terminate_update:
  assumes "decision_terminate E a d t actor = Some (b, evs)"
  obtains (goes_on) "account_status_target d = None" "b = a" "evs = []"
  | (ends) s where "account_status_target d = Some s" "s = Failed \<or> s = EmergencyStopped"
      "b = a\<lparr>status_before_breach := Some (status a), status := s\<rparr>"
proof (cases "account_status_target d")
  case None
  then show thesis using assms goes_on by (simp add: decision_terminate_def)
next
  case (Some s)
  then have s: "s = Failed \<or> s = EmergencyStopped" by (auto simp: account_status_target_def split: decision_kind.split_asm)
  have "b = a\<lparr>status_before_breach := Some (status a), status := s\<rparr>"
    using assms s Some by (auto simp: decision_terminate_def Let_def Option.bind_eq_Some_conv split: if_split_asm)
  then show thesis using ends Some s by blast
qed

lemma consume_fill_frame [simp]:
  "acc_id (consume_fill a f) = acc_id a" "tenant_id (consume_fill a f) = tenant_id a"
  "initial_balance (consume_fill a f) = initial_balance a" "status (consume_fill a f) = status a"
  "balance (consume_fill a f) = balance a" "equity (consume_fill a f) = equity a"
  "peak_balance (consume_fill a f) = peak_balance a" "peak_equity (consume_fill a f) = peak_equity a"
  "plan (consume_fill a f) = plan a" "payout_count (consume_fill a f) = payout_count a"
  "last_tick_ts (consume_fill a f) = last_tick_ts a" "account_type (consume_fill a f) = account_type a"
  "total_realized_pnl (consume_fill a f) = total_realized_pnl a"
  by (simp_all add: consume_fill_def Let_def split: option.split)

lemma stamp_last_tick_frame [simp]:
  "acc_id (stamp_last_tick a ev) = acc_id a" "tenant_id (stamp_last_tick a ev) = tenant_id a"
  "initial_balance (stamp_last_tick a ev) = initial_balance a" "status (stamp_last_tick a ev) = status a"
  "balance (stamp_last_tick a ev) = balance a" "equity (stamp_last_tick a ev) = equity a"
  "peak_balance (stamp_last_tick a ev) = peak_balance a" "peak_equity (stamp_last_tick a ev) = peak_equity a"
  "plan (stamp_last_tick a ev) = plan a" "payout_count (stamp_last_tick a ev) = payout_count a"
  "acc_open_positions (stamp_last_tick a ev) = acc_open_positions a"
  "total_realized_pnl (stamp_last_tick a ev) = total_realized_pnl a"
  by (cases ev; simp)+

lemma stamp_last_tick_untouched [simp]: "\<not> is_tick ev \<Longrightarrow> stamp_last_tick a ev = a"
  by (cases ev) simp_all

lemmas op_defs = mark_active_trading_day_def update_balance_def update_equity_def set_estimated_equity_def
  emergency_stop_def mark_target_reached_def start_trading_day_def reset_for_phase_def with_phase_def

lemma mark_payout_pending_update:
  "mark_payout_pending a = Inr b \<Longrightarrow>
     (status a = Funded \<or> status a = PayoutPending) \<and> b = a\<lparr>status := PayoutPending\<rparr>"
  by (auto simp: mark_payout_pending_def split: account_status.split_asm)

lemma clear_breach_update:
  "clear_breach a = Inr b \<Longrightarrow> (status a = Failed \<or> status a = EmergencyStopped)
     \<and> (\<exists>s. b = a\<lparr>status := s, status_before_breach := None\<rparr>)"
  by (auto simp: clear_breach_def split: if_split_asm)

lemmas op_elims = account_start_update apply_realized_pnl_update rollover_day_update record_payout_cases
  decision_promote_update decision_terminate_update

lemmas op_dests = mark_payout_pending_update clear_breach_update

section \<open>The steps of the pipeline\<close>

lemma c_server_time_build [simp]: "c_server_time (build_context E a k ev ps ts recent) = utc_now E"
  by (cases ev) (simp_all add: build_context_def context_new_def)

lemma apply_decision_cases:
  assumes "apply_decision E a d t actor = ok (b, evs)"
  obtains a1 ev1 a2 ev2 ev3 where "decision_target E a d t = (a1, ev1)" "decision_promote E a1 t = Inr (a2, ev2)"
    "decision_terminate E a2 d t actor = Some (b, ev3)" "evs = ev1 @ ev2 @ ev3"
proof -
  obtain a1 ev1 where 1: "decision_target E a d t = (a1, ev1)" by force
  obtain a2 ev2 where 2: "decision_promote E a1 t = Inr (a2, ev2)"
    using assms by (cases "decision_promote E a1 t") (auto simp: apply_decision_def 1)
  from assms show thesis
    by (auto simp: apply_decision_def 1 2 run_simps intro: that [OF 1 2])
qed

lemma process_cases:
  assumes "process E reg st notify a ev = ok r"
  obtains a0 ev0 ap a2 dev where
    "auto_rollover E a ev = Some (a0, ev0)" "apply_event E st a0 ev = ok ap"
    "evaluator_evaluate E reg (build_context E (ap_state ap) (ap_ctx_kind ap) ev (ap_open_positions ap)
       (ap_today_trades ap) (ap_recent_events ap)) = ok (pr_result r)"
    "apply_decision E (consume_fill (ap_state ap) (ap_trade_fill ap)) (er_decision (pr_result r)) (utc_now E) (actor_of ev) = ok (a2, dev)"
    "pr_account r = stamp_last_tick a2 ev"
    "pr_events r = ev0 @ ap_events ap @ dev @ emit_decision_event E (acc_id a) (er_decision (pr_result r))
       @ map (\<lambda>v. domain_event_new E (acc_id a) (EvRuleViolated v) (utc_now E)) (er_violations (pr_result r))"
  using assms unfolding process_def Let_def
  by (auto simp: run_simps c_server_time_build split: prod.splits)

lemma apply_event_cases:
  assumes "apply_event E st a ev = ok ap"
  obtains ts where "apply_arm E (a\<lparr>acc_today_trades := ts\<rparr>) (acc_open_positions a) ev =
      ok (ap_state ap, ap_ctx_kind ap, ap_trade_fill ap, ap_events ap)" "ap_open_positions ap = acc_open_positions a"
  using assms unfolding apply_event_def Let_def by (auto simp: run_simps split: prod.splits)

section \<open>Invariants of runs\<close>

text \<open>What closing days keeps, and what every transition keeps of an account.\<close>

locale day_transitions =
  fixes env :: "ext \<Rightarrow> bool" and P :: "account \<Rightarrow> bool"
  assumes rolled: "env E \<Longrightarrow> P a \<Longrightarrow> rollover_day E a had_trades ts = Some b \<Longrightarrow> P b"
begin

lemma loop_kept:
  assumes "rollover_loop E event_ts day first a = Some b"
  shows "env E \<longrightarrow> P a \<longrightarrow> P b"
proof (rule rollover_loop.raw_induct [where P = "\<lambda>E ts d f a b. env E \<longrightarrow> P a \<longrightarrow> P b", OF _ assms], intro impI)
  fix loop E event_ts day first a b
  assume IH: "\<And>E ts d f a b. loop E ts d f a = Some b \<Longrightarrow> env E \<longrightarrow> P a \<longrightarrow> P b"
    and eq: "(if case current_trading_day_start a of None \<Rightarrow> True | Some s \<Rightarrow> s < day
      then Option.bind (current_trading_day_start a) (\<lambda>cur.
           Option.bind (next_trading_day_start E (plan a) cur) (\<lambda>next_start.
           Option.bind (rollover_day E a (if first then today_realized_pnl a \<noteq> 0 else False)
                  (Some (if next_start \<ge> day then event_ts else next_start)))
             (\<lambda>c. loop E event_ts day False c)))
      else Some a) = Some b"
    and e: "env E" and a: "P a"
  show "P b"
  proof (cases "case current_trading_day_start a of None \<Rightarrow> True | Some s \<Rightarrow> s < day")
    case True
    then obtain h ts c where "rollover_day E a h ts = Some c" "loop E event_ts day False c = Some b"
      using eq by (auto simp only: if_True Option.bind_eq_Some_conv)
    then show ?thesis using rolled [OF e a] IH e by blast
  next
    case False
    then show ?thesis using eq a by simp
  qed
qed

lemma rollover_kept: "env E \<Longrightarrow> P a \<Longrightarrow> auto_rollover E a ev = Some (b, evs) \<Longrightarrow> P b"
  by (cases "\<exists>h. ev = PDayRollover h")
    (auto simp: auto_rollover_def Let_def Option.bind_eq_Some_conv split: if_split_asm pipeline_event.split_asm
      dest: loop_kept)

end

locale account_transitions = day_transitions env P
  for env :: "ext \<Rightarrow> bool" and allowed :: "pipeline_event \<Rightarrow> bool" and P :: "account \<Rightarrow> bool" +
  assumes started: "allowed (PAccountStarted t) \<Longrightarrow> env E \<Longrightarrow> P a \<Longrightarrow> account_start E a t = ok b \<Longrightarrow> P b"
    and realized: "allowed (PTradeFilled tr) \<Longrightarrow> env E \<Longrightarrow> P a \<Longrightarrow>
      apply_realized_pnl E a pnl commission swap t = Some b \<Longrightarrow> P (mark_active_trading_day b)"
    and reported: "allowed (PTick tk eq bal) \<Longrightarrow> P a \<Longrightarrow> P (update_balance (update_equity a eq) bal)"
    and estimated: "allowed (PTickEstimated tk) \<Longrightarrow> P a \<Longrightarrow> P (set_estimated_equity a eq bal)"
    and stopped: "allowed (PEmergencyStop reason actor t) \<Longrightarrow> P a \<Longrightarrow> P (emergency_stop a)"
    and cleared: "allowed (POverrideBreach ov) \<Longrightarrow> P a \<Longrightarrow> clear_breach a = Inr b \<Longrightarrow> P b"
    and requested: "allowed PPayoutRequest \<Longrightarrow> P a \<Longrightarrow> mark_payout_pending a = Inr b \<Longrightarrow> P b"
    and paid: "allowed PPayoutApprove \<Longrightarrow> env E \<Longrightarrow> P a \<Longrightarrow> payout_quote_for E a m = ok q \<Longrightarrow>
      record_payout E a (pq_amount q) (pq_fee_refund q) (utc_now E) = ok b \<Longrightarrow> P (b\<lparr>refund_used := u\<rparr>)"
    and stamped: "allowed ev \<Longrightarrow> P a \<Longrightarrow> P (stamp_last_tick a ev)"
    and listed: "P a \<Longrightarrow> P (a\<lparr>acc_today_trades := ts'\<rparr>)"
    and filled: "P a \<Longrightarrow> P (consume_fill a fill)"
    and targeted: "P a \<Longrightarrow> P (mark_target_reached a t)"
    and promoted: "P a \<Longrightarrow> decision_promote E a t = Inr (b, evs) \<Longrightarrow> P b"
    and terminated: "P a \<Longrightarrow> decision_terminate E a d t actor = Some (b, evs) \<Longrightarrow> P b"
begin

lemma arm_kept:
  assumes "env E" "allowed ev" "P a" "apply_arm E a ops ev = ok (b, k, fill, evs)"
  shows "P b"
proof (cases ev)
  case (PAccountStarted t)
  with assms show ?thesis by (auto simp: run_simps dest: started)
next
  case (PTradeFilled t)
  with assms show ?thesis by (cases "filled_position E ops t") (auto simp: run_simps dest: realized)
next
  case (PTick tk eq bal)
  with assms show ?thesis by (auto simp: run_simps dest: reported split: if_split_asm)
next
  case (PTickEstimated tk)
  with assms show ?thesis by (auto simp: run_simps dest: estimated)
next
  case (PDayRollover h)
  with assms show ?thesis by (auto simp: run_simps dest: rolled)
next
  case (POverrideBreach ov)
  with assms show ?thesis by (auto split: sum.split_asm if_split_asm dest: cleared)
next
  case PPayoutRequest
  with assms show ?thesis by (cases "mark_payout_pending a") (auto simp: run_simps dest: requested)
next
  case PPayoutApprove
  with assms show ?thesis by (auto simp: run_simps dest: paid)
qed (use assms in \<open>auto simp: Let_def dest: stopped\<close>)

lemma decision_kept:
  assumes "P a" "apply_decision E a d t actor = ok (b, evs)"
  shows "P b"
  using assms(2)
proof (rule apply_decision_cases)
  fix a1 ev1 a2 ev2 ev3
  assume 1: "decision_target E a d t = (a1, ev1)" and 2: "decision_promote E a1 t = Inr (a2, ev2)"
    and 3: "decision_terminate E a2 d t actor = Some (b, ev3)"
  have "P a1" using 1 assms(1) by (auto simp: decision_target_def split: if_split_asm intro: targeted)
  from terminated [OF promoted [OF this 2] 3] show ?thesis .
qed

lemma process_kept:
  assumes "env E" "allowed ev" "P a" "process E reg st notify a ev = ok r"
  shows "P (pr_account r)"
  using assms(4)
proof (rule process_cases)
  fix a0 ev0 ap a2 dev
  assume roll: "auto_rollover E a ev = Some (a0, ev0)" and app: "apply_event E st a0 ev = ok ap"
    and dec: "apply_decision E (consume_fill (ap_state ap) (ap_trade_fill ap)) (er_decision (pr_result r)) (utc_now E) (actor_of ev) = ok (a2, dev)"
    and r: "pr_account r = stamp_last_tick a2 ev"
  from app obtain ts where arm: "apply_arm E (a0\<lparr>acc_today_trades := ts\<rparr>) (acc_open_positions a0) ev =
      ok (ap_state ap, ap_ctx_kind ap, ap_trade_fill ap, ap_events ap)" by (rule apply_event_cases)
  have "P (ap_state ap)"
    using arm_kept [OF assms(1,2) listed [OF rollover_kept [OF assms(1,3) roll]] arm] .
  then show ?thesis unfolding r by (intro stamped [OF assms(2)] decision_kept [OF filled dec])
qed

lemma run_kept: "account_run env a evs b \<Longrightarrow> P a \<Longrightarrow> list_all allowed evs \<Longrightarrow> P b"
proof (induction rule: account_run.induct)
  case (handled a evs b E reg st notify ev r)
  then show ?case by (auto intro: process_kept)
qed simp_all

end

interpretation identity: account_transitions "\<lambda>E. True" "\<lambda>ev. True"
  "\<lambda>a. acc_id a = i \<and> tenant_id a = t \<and> initial_balance a = b" for i t b
  by unfold_locales (auto simp: op_defs elim!: op_elims dest!: op_dests)

lemma positions_ok_fill: "positions_ok a \<Longrightarrow> positions_ok (consume_fill a f)"
  by (auto simp: positions_ok_def consume_fill_def Let_def list_all_iff distinct_map_filter split: option.split)

interpretation positions: account_transitions "\<lambda>E. True" "\<lambda>ev. True" positions_ok
  by unfold_locales
    (auto simp: positions_ok_fill, (auto simp: positions_ok_def op_defs elim!: op_elims dest!: op_dests)+)

interpretation paid: account_transitions "\<lambda>E. True" "\<lambda>ev. True" "\<lambda>a. payout_count a \<noteq> 0"
  by unfold_locales (auto simp: op_defs elim!: op_elims dest!: op_dests)

lemma status_then: "status_step s t \<Longrightarrow> status_step\<^sup>*\<^sup>* r s \<Longrightarrow> status_step\<^sup>*\<^sup>* r t"
  by simp

lemmas status_run = status_step.intros [THEN status_then]

interpretation lifecycle: account_transitions "\<lambda>E. True" "\<lambda>ev. \<not> is_override ev" "\<lambda>a. status_step\<^sup>*\<^sup>* s (status a)" for s
  by unfold_locales (auto simp: op_defs elim!: op_elims dest!: op_dests intro: status_run)

interpretation unticked: account_transitions "\<lambda>E. True" "\<lambda>ev. \<not> is_tick ev" "\<lambda>a. last_tick_ts a = l" for l
  by unfold_locales (auto simp: op_defs elim!: op_elims dest!: op_dests)

interpretation quiet: account_transitions "\<lambda>E. True" "\<lambda>ev. \<not> moves_money ev" "\<lambda>a. balance a = x \<and> equity a = y" for x y
  by unfold_locales (auto simp: op_defs elim!: op_elims dest!: op_dests)

lemma payout_lowers_balance:
  assumes "decimal_laws E" "tiers_ok (plan a)" "payout_quote_for E a m = ok q"
    and "record_payout E a (pq_amount q) (pq_fee_refund q) (utc_now E) = ok b"
  shows "balance b \<le> balance a"
proof -
  have laws: "sums_exact E" "fractions_shrink E" using assms(1) by (simp_all add: decimal_laws_def)
  obtain cfg where cfg: "plan_payout_config (plan a) = Some cfg"
    and q: "quote_payout E a cfg (last_payout_at a) (Some (balance_at_last_payout a)) (refund_used a) (utc_now E) = Some q"
      "pq_rejected q = None"
    using assms(3) by (auto simp: payout_quote_for_def run_simps split: option.split_asm)
  show ?thesis
    using payout_balance_bounds [OF laws _ _ q assms(4)] assms(2) by (simp add: tiers_ok_def cfg)
qed

interpretation high_water: account_transitions decimal_laws "\<lambda>ev. True"
  "\<lambda>a. balance a \<le> peak_balance a \<and> tiers_ok (plan a)"
proof unfold_locales
  fix E a m q b u
  assume a: "decimal_laws E" "balance a \<le> peak_balance a \<and> tiers_ok (plan a)" "payout_quote_for E a m = ok q"
    and b: "record_payout E a (pq_amount q) (pq_fee_refund q) (utc_now E) = ok b"
  have "balance b \<le> balance a" using payout_lowers_balance [OF a(1) _ a(3) b] a(2) by blast
  moreover have "peak_balance b = peak_balance a" "plan b = plan a" using b by (auto elim!: record_payout_cases)
  ultimately show "balance (b\<lparr>refund_used := u\<rparr>) \<le> peak_balance (b\<lparr>refund_used := u\<rparr>) \<and> tiers_ok (plan (b\<lparr>refund_used := u\<rparr>))"
    using a(2) by simp
qed (auto simp: op_defs tiers_ok_def elim!: op_elims dest!: op_dests)

interpretation plans: account_transitions "\<lambda>E. True" "\<lambda>ev. True"
  "\<lambda>a. plan a = with_phase p (plan_phase (plan a)) \<and> phase_rank (plan_phase p) \<le> phase_rank (plan_phase (plan a))" for p
  by unfold_locales (auto simp: op_defs elim!: op_elims dest!: op_dests)

interpretation day_frame: day_transitions "\<lambda>E. True"
  "\<lambda>a. plan a = p \<and> status a = s \<and> equity a = e \<and> acc_open_positions a = ops" for p s e ops
  by unfold_locales (auto simp: op_defs elim!: op_elims)

section \<open>Concrete runs\<close>

lemmas measure_defs = account_snapshot_def net_profit_def daily_drawdown_def total_drawdown_def daily_dd_utilization_def
  max_dd_utilization_def profit_target_def daily_dd_limit_def max_dd_limit_def max_dd_limit_static_def max_dd_limit_trailing_def
  max_dd_limit_eod_trailing_def balance_drawdown_def

lemmas process_eval = process_def auto_rollover_def trading_day_start_def apply_event_def Let_def evaluator_evaluate_def
  registry_evaluate_def registry_empty_def consume_fill_def apply_decision_def decision_target_def decision_promote_def
  decision_terminate_def from_reports_def reports_in_def account_status_target_def snapshot_new_def account_new_def
  plan_default_def measure_defs er_violations_def all_violations_of_def

lemma demo_stop:
  "\<exists>r. process (exact_env 0) registry_empty store_empty quiet_notify demo_account (PEmergencyStop ''r'' ''ops'' 0) = ok r
     \<and> status (pr_account r) = EmergencyStopped"
  by (simp add: process_eval emergency_stop_def)

lemma demo_run:
  assumes "env (exact_env 0)"
  obtains b where "account_run env demo_account [PEmergencyStop ''r'' ''ops'' 0] b"
proof -
  obtain r where "process (exact_env 0) registry_empty store_empty quiet_notify demo_account (PEmergencyStop ''r'' ''ops'' 0) = ok r"
    using demo_stop by blast
  from account_run.handled [where env = env, OF account_run.idle assms this] show thesis using that by simp
qed

lemma exact_env_decimal: "decimal_laws (exact_env now)"
  by (simp add: decimal_laws_def exact_env_sums exact_env_fractions)

lemma demo_fails:
  "\<exists>b evs. apply_decision (exact_env 0) a (from_reports [demo_report 7 Fail]) 0 ''x'' = ok (b, evs)"
  if "status a \<noteq> TargetHitPending"
  using that by (simp add: apply_decision_def decision_target_def decision_promote_def decision_terminate_def
      from_reports_def reports_in_def demo_report_def account_status_target_def Let_def)

lemma demo_promotion:
  "\<exists>b evs. apply_decision (exact_env 0) (demo_account\<lparr>status := TargetHitPending, target_reached_at := Some 0, active_trading_days := 3\<rparr>)
     decision_default 0 ''x'' = ok (b, evs) \<and> plan_phase (plan b) = Phase2"
  by (simp add: apply_decision_def decision_target_def decision_promote_def decision_terminate_def upgrade_phase_def
      reset_for_phase_def with_phase_def account_status_target_def decision_default_def account_new_def plan_default_def Let_def)

lemma demo_liquidating_fields [simp]:
  "r_is_enabled demo_liquidating_rule ctx = Some True" "r_scope demo_liquidating_rule = DemandScope"
  "r_evaluate demo_liquidating_rule ctx = ok (Liquidate (demo_violation 1))"
  by (simp_all add: demo_liquidating_rule_def)

lemma demo_liquidating_reports:
  "registry_evaluate E demo_liquidating_registry (build_context E a OnDemand POnDemand ps ts evs) =
     ok [rule_report_of E (build_context E a OnDemand POnDemand ps ts evs) demo_liquidating_rule]"
  by (simp add: registry_evaluate_def demo_liquidating_registry_def evaluate_applicable_def build_context_def context_new_def)

lemma demo_liquidating_verdict:
  "rr_verdict (rule_report_of E ctx demo_liquidating_rule) = Liquidate (demo_violation 1)"
  by (simp add: rule_report_of_def guarded_verdict_def report_with_metadata_def report_with_priority_def report_new_at_def)
    (simp add: ok_def)

lemma demo_liquidation_decision:
  "d_kind (from_reports [rule_report_of E ctx demo_liquidating_rule]) = DLiquidate"
  by (simp add: from_reports_def reports_in_def demo_liquidating_verdict Let_def)

lemma demo_breach:
  "\<exists>r. process (exact_env 0) demo_liquidating_registry store_empty quiet_notify demo_account POnDemand = ok r
     \<and> d_kind (er_decision (pr_result r)) = DLiquidate"
  by (simp add: process_def auto_rollover_def trading_day_start_def apply_event_def evaluator_evaluate_def
      demo_liquidating_reports demo_liquidating_verdict demo_liquidation_decision consume_fill_def apply_decision_def decision_target_def decision_promote_def
      decision_terminate_def account_status_target_def liquidation_new_def dsum_def snapshot_new_def account_new_def plan_default_def
      measure_defs er_violations_def map_filter_simps Let_def)

lemma empty_pack_registry: "library_registry E registry_empty"
proof -
  have "build_from_pack E (demo_pack\<lparr>rp_rules := []\<rparr>) = ok registry_empty" by (simp add: build_from_pack_def)
  then show ?thesis unfolding library_registry_def by blast
qed

section \<open>The life cycle\<close>

lemma breach_closed: "status_step\<^sup>*\<^sup>* s t \<Longrightarrow> s \<in> {Failed, EmergencyStopped} \<Longrightarrow> t \<in> {Failed, EmergencyStopped}"
  by (induction rule: rtranclp_induct) (auto elim: status_step.cases)

lemma unfunded_closed: "status_step\<^sup>*\<^sup>* s t \<Longrightarrow> s \<notin> {Funded, PayoutPending} \<Longrightarrow> t \<notin> {Funded, PayoutPending}"
  by (induction rule: rtranclp_induct) (auto elim: status_step.cases)

lemma lifecycle_run:
  "account_run (\<lambda>E. True) a evs b \<Longrightarrow> list_all (\<lambda>ev. \<not> is_override ev) evs \<Longrightarrow> status_step\<^sup>*\<^sup>* (status a) (status b)"
  using lifecycle.run_kept [of a evs b "status a"] by simp

text \<open>
  C6. The status follows the life cycle: whatever events an account meets in whatever order,
  overrides apart, its status moves only along the steps from pending to active, to target
  hit and back on promotion, between funded and payout pending, and to failed or stopped.
\<close>

theorem run_follows_lifecycle:
  assumes "account_run (\<lambda>E. True) a evs b" "list_all (\<lambda>ev. \<not> is_override ev) evs"
  shows "status_step\<^sup>*\<^sup>* (status a) (status b)"
  by (rule lifecycle_run [OF assms])

theorem run_follows_lifecycle_witness:
  "\<exists>b. account_run (\<lambda>E. True) demo_account [PEmergencyStop ''r'' ''ops'' 0] b \<and> status_step\<^sup>*\<^sup>* Pending (status b)"
proof -
  obtain b where b: "account_run (\<lambda>E. True) demo_account [PEmergencyStop ''r'' ''ops'' 0] b" by (rule demo_run) simp
  from run_follows_lifecycle [OF this] show ?thesis using b by (auto simp: account_new_def Let_def)
qed

text \<open>
  C2. A breach is final: an account that is failed or emergency stopped stays so through every
  sequence of events that has no override, whatever the rules decide.
\<close>

theorem breach_is_final:
  assumes "account_run (\<lambda>E. True) a evs b" "list_all (\<lambda>ev. \<not> is_override ev) evs" "status a \<in> {Failed, EmergencyStopped}"
  shows "status b \<in> {Failed, EmergencyStopped}"
  using breach_closed [OF lifecycle_run] assms by blast

theorem breach_is_final_witness:
  "\<exists>b. account_run (\<lambda>E. True) (demo_account\<lparr>status := Failed\<rparr>) [POnDemand] b \<and> status b \<in> {Failed, EmergencyStopped}"
proof -
  obtain r where r: "process (exact_env 0) registry_empty store_empty quiet_notify (demo_account\<lparr>status := Failed\<rparr>) POnDemand = ok r"
    by (simp add: process_eval)
  have run: "account_run (\<lambda>E. True) (demo_account\<lparr>status := Failed\<rparr>) [POnDemand] (pr_account r)"
    using account_run.handled [OF account_run.idle _ r, of "\<lambda>E. True"] by simp
  from breach_is_final [OF run] show ?thesis using run by auto
qed

lemma payout_refused:
  assumes "status a \<notin> {Funded, PayoutPending}" "process E reg st notify a ev = ok r"
  shows "ev \<noteq> PPayoutRequest \<and> ev \<noteq> PPayoutApprove"
  using assms(2)
proof (rule process_cases)
  fix a0 ev0 ap
  assume roll: "auto_rollover E a ev = Some (a0, ev0)" and app: "apply_event E st a0 ev = ok ap"
  from app obtain ts where arm: "apply_arm E (a0\<lparr>acc_today_trades := ts\<rparr>) (acc_open_positions a0) ev =
      ok (ap_state ap, ap_ctx_kind ap, ap_trade_fill ap, ap_events ap)" by (rule apply_event_cases)
  have "status_step\<^sup>*\<^sup>* (status a) (status a0)" by (rule lifecycle.rollover_kept [OF _ _ roll]) simp_all
  then have "status a0 \<notin> {Funded, PayoutPending}" using assms(1) by (rule unfunded_closed)
  then show ?thesis using arm
    by (auto simp: run_simps mark_payout_pending_def elim!: record_payout_cases split: sum.split_asm account_status.split_asm)
qed

text \<open>
  C27. No new account reaches a payout: without overrides, after any sequence of events both a
  payout request and a payout approval are refused, because promotion to the funded phase
  leaves the status active and only funded accounts are paid.
\<close>

theorem payouts_unreachable:
  assumes "account_run (\<lambda>E. True) (account_new tenant ident p) evs b" "list_all (\<lambda>ev. \<not> is_override ev) evs"
  shows "process E reg st notify b PPayoutRequest \<noteq> ok r \<and> process E reg st notify b PPayoutApprove \<noteq> ok r"
proof -
  have "status b \<notin> {Funded, PayoutPending}"
    using unfunded_closed [OF lifecycle_run [OF assms]] by (auto simp: account_new_def Let_def)
  then show ?thesis using payout_refused by blast
qed

theorem payouts_unreachable_witness:
  "\<exists>b. account_run (\<lambda>E. True) demo_account [PEmergencyStop ''r'' ''ops'' 0] b
     \<and> (\<forall>r. process (exact_env 0) registry_empty store_empty quiet_notify b PPayoutRequest \<noteq> ok r)"
proof -
  obtain b where b: "account_run (\<lambda>E. True) demo_account [PEmergencyStop ''r'' ''ops'' 0] b" by (rule demo_run) simp
  from payouts_unreachable [OF this] show ?thesis using b by auto
qed

lemma apply_decision_fails:
  assumes "apply_decision E a d t actor = ok (b, evs)" "d_kind d = DFail \<or> d_kind d = DLiquidate"
  shows "status b = Failed \<and> (status a = Failed \<longrightarrow> status_before_breach b = Some Failed)"
  using assms(1)
proof (rule apply_decision_cases)
  fix a1 ev1 a2 ev2 ev3
  assume 1: "decision_target E a d t = (a1, ev1)" and 2: "decision_promote E a1 t = Inr (a2, ev2)"
    and 3: "decision_terminate E a2 d t actor = Some (b, ev3)"
  have a1: "a1 = a" using 1 assms(2) by (auto simp: decision_target_def split: if_split_asm)
  have "status a = Failed \<longrightarrow> status a2 = Failed" using 2 unfolding a1 by (auto elim!: decision_promote_update)
  then show ?thesis using 3 assms(2)
    by (elim decision_terminate_update) (auto simp: account_status_target_def)
qed

text \<open>
  A second breach defeats the override: after two decisions that fail an account, clearing
  the breach succeeds but leaves the account failed, because the second decision recorded
  the failed status as the one to restore.
\<close>

lemma second_breach_defeats_override:
  assumes "apply_decision E a d t actor = ok (b, evs)" "d_kind d = DFail \<or> d_kind d = DLiquidate"
    and "apply_decision E b d' t' actor' = ok (c, evs')" "d_kind d' = DFail \<or> d_kind d' = DLiquidate"
  shows "\<exists>x. clear_breach c = Inr x \<and> status x = Failed"
  using apply_decision_fails [OF assms(1,2)] apply_decision_fails [OF assms(3,4)] by (simp add: clear_breach_def)

section \<open>Phases and identity\<close>

text \<open>
  C17. An account changes phase only by passing: the target is reached, now or before, the
  account is active or waiting on its target, it has the minimum number of trading days, and
  it moves to the phase after its own; a funded account never changes phase.
\<close>

theorem phase_change_requires:
  assumes "apply_decision E a d t actor = ok (b, evs)" "plan_phase (plan b) \<noteq> plan_phase (plan a)"
  shows "(d_kind d = DTargetHit \<or> target_reached_at a \<noteq> None) \<and> status a \<in> {Active, TargetHitPending}
       \<and> min_trading_days (plan a) \<le> active_trading_days a
       \<and> plan_phase (plan b) = next_phase_for (plan_phase (plan a)) \<and> plan_phase (plan a) \<noteq> FundedPhase"
  using assms(1)
proof (rule apply_decision_cases)
  fix a1 ev1 a2 ev2 ev3
  assume 1: "decision_target E a d t = (a1, ev1)" and 2: "decision_promote E a1 t = Inr (a2, ev2)"
    and 3: "decision_terminate E a2 d t actor = Some (b, ev3)"
  have b: "plan b = plan a2" using 3 by (elim decision_terminate_update) auto
  have a1: "plan a1 = plan a" "active_trading_days a1 = active_trading_days a"
    "status a1 = TargetHitPending \<Longrightarrow> status a \<in> {Active, TargetHitPending}"
    "target_reached_at a1 \<noteq> None \<Longrightarrow> d_kind d = DTargetHit \<or> target_reached_at a \<noteq> None"
    using 1 by (auto simp: decision_target_def mark_target_reached_def split: if_split_asm)
  from 2 show ?thesis
  proof (cases rule: decision_promote_update)
    case stays
    then show ?thesis using assms(2) b a1(1) by simp
  next
    case (promotes p)
    then show ?thesis using b a1 by (auto simp: reset_for_phase_def with_phase_def)
  qed
qed

theorem phase_change_requires_witness:
  "\<exists>b evs. apply_decision (exact_env 0) (demo_account\<lparr>status := TargetHitPending, target_reached_at := Some 0, active_trading_days := 3\<rparr>)
       decision_default 0 ''x'' = ok (b, evs) \<and> plan_phase (plan b) = next_phase_for Phase1"
proof -
  let ?a = "demo_account\<lparr>status := TargetHitPending, target_reached_at := Some 0, active_trading_days := 3\<rparr>"
  obtain b evs where b: "apply_decision (exact_env 0) ?a decision_default 0 ''x'' = ok (b, evs)" "plan_phase (plan b) = Phase2"
    using demo_promotion by blast
  have a: "plan_phase (plan ?a) = Phase1" by (simp add: account_new_def plan_default_def Let_def)
  have "plan_phase (plan b) \<noteq> plan_phase (plan ?a)" unfolding a b(2) by simp
  from phase_change_requires [OF b(1) this] have "plan_phase (plan b) = next_phase_for Phase1" unfolding a by blast
  then show ?thesis using b(1) by blast
qed

text \<open>
  C30. No sequence of events changes who an account is or what it agreed to: its id, tenant and
  initial balance stay, its plan differs at most in the phase, and the phase never goes
  back.
\<close>

theorem account_terms_fixed:
  assumes "account_run (\<lambda>E. True) a evs b"
  shows "acc_id b = acc_id a \<and> tenant_id b = tenant_id a \<and> initial_balance b = initial_balance a
       \<and> plan b = with_phase (plan a) (plan_phase (plan b))
       \<and> phase_rank (plan_phase (plan a)) \<le> phase_rank (plan_phase (plan b))"
  using identity.run_kept [OF assms] plans.run_kept [OF assms, of "plan a"] by (simp add: list_all_iff with_phase_def)

theorem account_terms_fixed_witness:
  "\<exists>b. account_run (\<lambda>E. True) demo_account [PEmergencyStop ''r'' ''ops'' 0] b \<and> acc_id b = 7 \<and> tenant_id b = 5"
proof -
  obtain b where b: "account_run (\<lambda>E. True) demo_account [PEmergencyStop ''r'' ''ops'' 0] b" by (rule demo_run) simp
  from account_terms_fixed [OF this] show ?thesis using b by (auto simp: account_new_def Let_def)
qed

section \<open>Money\<close>

text \<open>
  C18. The balance never exceeds its recorded peak: when decimal sums are exact and products
  with a fraction do not grow, and the payout shares of the plan lie between zero and one,
  every sequence of events keeps the balance at or below the peak balance.
\<close>

theorem balance_below_peak:
  assumes "account_run decimal_laws a evs b" "balance a \<le> peak_balance a" "tiers_ok (plan a)"
  shows "balance b \<le> peak_balance b"
  using high_water.run_kept [OF assms(1)] assms(2,3) by (simp add: list_all_iff)

theorem balance_below_peak_witness:
  "\<exists>b. account_run decimal_laws demo_account [PEmergencyStop ''r'' ''ops'' 0] b \<and> balance b \<le> peak_balance b"
proof -
  obtain b where b: "account_run decimal_laws demo_account [PEmergencyStop ''r'' ''ops'' 0] b"
    by (rule demo_run) (rule exact_env_decimal)
  from balance_below_peak [OF this] show ?thesis using b
    by (auto simp: account_new_def plan_default_def tiers_ok_def payout_config_default_def Let_def)
qed

text \<open>
  Balance and equity change only by fills, broker ticks and approved payouts; orders,
  estimated ticks, rollovers, stops, overrides and payout requests leave both untouched, in
  any number and order.
\<close>

lemma money_moves_only_by:
  assumes "account_run (\<lambda>E. True) a evs b" "list_all (\<lambda>ev. \<not> moves_money ev) evs"
  shows "balance b = balance a \<and> equity b = equity a"
  by (rule quiet.run_kept [OF assms(1) _ assms(2)]) simp

text \<open>The fee refund is paid at most once: after a payout no later quote contains it.\<close>

lemma refund_paid_once:
  assumes "account_run (\<lambda>E. True) a evs b" "payout_count a \<noteq> 0"
    and "quote_payout E b cfg last_at (Some reference) used now = Some q"
  shows "pq_fee_refund q = 0"
proof -
  have "payout_count b \<noteq> 0" using paid.run_kept [OF assms(1,2)] by (simp add: list_all_iff)
  with assms(3) show ?thesis by (auto elim!: quote_payout_cases)
qed

section \<open>Payouts\<close>

lemma payout_frame [simp]:
  "last_payout_at (consume_fill a f) = last_payout_at a" "last_payout_at (stamp_last_tick a ev) = last_payout_at a"
  "balance_at_last_payout (consume_fill a f) = balance_at_last_payout a"
  "balance_at_last_payout (stamp_last_tick a ev) = balance_at_last_payout a"
  by (simp_all add: consume_fill_def Let_def split: option.split) (cases ev; simp)+

interpretation between_payouts: account_transitions "\<lambda>E. True" "\<lambda>ev. ev \<noteq> PPayoutApprove"
  "\<lambda>a. last_payout_at a = l \<and> balance_at_last_payout a = w \<and> plan_payout_config (plan a) = c" for l w c
  by unfold_locales (auto simp: op_defs with_phase_def elim!: op_elims dest!: op_dests)

interpretation unpaid_days: day_transitions "\<lambda>E. True"
  "\<lambda>a. balance a = x \<and> last_payout_at a = l \<and> balance_at_last_payout a = w \<and> plan_payout_config (plan a) = c" for x l w c
  by unfold_locales (auto simp: op_defs elim!: op_elims)

text \<open>The payout cycle of a plan has run from one instant to another.\<close>

fun cycle_elapsed :: "ext \<Rightarrow> payout_cycle \<Rightarrow> timestamp \<Rightarrow> timestamp \<Rightarrow> bool" where
  "cycle_elapsed E OnDemandCycle from_ts to_ts = True"
| "cycle_elapsed E BiWeekly from_ts to_ts = (\<exists>d n. dur_days E 14 = Some d \<and> ts_add E from_ts d = Some n \<and> n \<le> to_ts)"
| "cycle_elapsed E Monthly from_ts to_ts = (\<exists>d n. dur_days E 30 = Some d \<and> ts_add E from_ts d = Some n \<and> n \<le> to_ts)"

lemma accepted_cycle:
  assumes "payout_rejection E cfg basis amount last_at now = Some None"
  shows "0 < basis \<and> (\<forall>l. last_at = Some l \<longrightarrow> cycle_elapsed E (pc_cycle cfg) l now)"
  using assms by (cases "pc_cycle cfg")
    (auto simp: payout_rejection_def min_gap_def Option.bind_eq_Some_conv split: if_split_asm option.split_asm)

lemma approved_payout:
  assumes "process E reg st notify a PPayoutApprove = ok r"
  obtains cfg d where "plan_payout_config (plan a) = Some cfg" "dsub E (balance a) (balance_at_last_payout a) = Some d" "0 < d"
    "\<forall>l. last_payout_at a = Some l \<longrightarrow> cycle_elapsed E (pc_cycle cfg) l (utc_now E)"
    "last_payout_at (pr_account r) = Some (utc_now E)" "balance_at_last_payout (pr_account r) = balance a"
    "plan_payout_config (plan (pr_account r)) = Some cfg"
  using assms
proof (rule process_cases)
  fix a0 ev0 ap a2 dev
  assume roll: "auto_rollover E a PPayoutApprove = Some (a0, ev0)" and app: "apply_event E st a0 PPayoutApprove = ok ap"
    and dec: "apply_decision E (consume_fill (ap_state ap) (ap_trade_fill ap)) (er_decision (pr_result r)) (utc_now E)
      (actor_of PPayoutApprove) = ok (a2, dev)" and r: "pr_account r = stamp_last_tick a2 PPayoutApprove"
  from app obtain ts where arm: "apply_arm E (a0\<lparr>acc_today_trades := ts\<rparr>) (acc_open_positions a0) PPayoutApprove =
      ok (ap_state ap, ap_ctx_kind ap, ap_trade_fill ap, ap_events ap)" by (rule apply_event_cases)
  have same: "balance a0 = balance a" "last_payout_at a0 = last_payout_at a" "balance_at_last_payout a0 = balance_at_last_payout a"
      "plan_payout_config (plan a0) = plan_payout_config (plan a)"
    using unpaid_days.rollover_kept [OF _ _ roll, of "balance a" "last_payout_at a" "balance_at_last_payout a" "plan_payout_config (plan a)"]
    by simp_all
  obtain q b u m where q: "payout_quote_for E (a0\<lparr>acc_today_trades := ts\<rparr>) m = ok q"
    and b: "record_payout E (a0\<lparr>acc_today_trades := ts\<rparr>) (pq_amount q) (pq_fee_refund q) (utc_now E) = ok b"
    and ap: "b\<lparr>refund_used := u\<rparr> = ap_state ap"
    using arm by (auto simp: run_simps Let_def)
  have b': "last_payout_at b = Some (utc_now E)" "balance_at_last_payout b = balance a" "plan b = plan a0"
    using b same by (auto elim!: record_payout_cases)
  obtain cfg where cfg: "plan_payout_config (plan a) = Some cfg"
    and quote: "quote_payout E (a0\<lparr>acc_today_trades := ts\<rparr>) cfg (last_payout_at a) (Some (balance_at_last_payout a)) (refund_used a0) (utc_now E) = Some q"
      "pq_rejected q = None"
    using q same by (auto simp: payout_quote_for_def run_simps split: option.split_asm)
  from quote(1) obtain d where d: "dsub E (balance a) (balance_at_last_payout a) = Some d" "0 < d"
      "\<forall>l. last_payout_at a = Some l \<longrightarrow> cycle_elapsed E (pc_cycle cfg) l (utc_now E)"
    by (rule quote_payout_cases) (use quote(2) same accepted_cycle in \<open>fastforce simp: max_def split: if_split_asm\<close>)
  have "last_payout_at a2 = Some (utc_now E) \<and> balance_at_last_payout a2 = balance a \<and> plan_payout_config (plan a2) = Some cfg"
    by (rule between_payouts.decision_kept [OF _ dec]) (simp add: ap [symmetric] b' same cfg)
  then show thesis using that [OF cfg d] by (simp add: r)
qed

text \<open>
  C29. Payouts are a cycle and a new profit apart. When an approved payout is followed by any
  events other than approvals and then by another approved payout, the payout cycle of the
  plan, two weeks or thirty days, has elapsed between the two, and the balance stands above
  the balance from before the first one, so no profit is paid twice. Since that mark is
  taken before the payment leaves the account, the amount paid has to be regained first.
\<close>

theorem payouts_a_cycle_apart:
  assumes "process E reg st notify a PPayoutApprove = ok r"
    and "account_run (\<lambda>E. True) (pr_account r) evs b" "list_all (\<lambda>ev. ev \<noteq> PPayoutApprove) evs"
    and "process E' reg' st' notify' b PPayoutApprove = ok r'" "sums_exact E'"
  shows "\<exists>cfg. plan_payout_config (plan a) = Some cfg \<and> cycle_elapsed E' (pc_cycle cfg) (utc_now E) (utc_now E')
     \<and> balance a < balance b"
proof -
  from assms(1) obtain cfg where a: "plan_payout_config (plan a) = Some cfg" "last_payout_at (pr_account r) = Some (utc_now E)"
      "balance_at_last_payout (pr_account r) = balance a" "plan_payout_config (plan (pr_account r)) = Some cfg"
    by (rule approved_payout)
  have b: "last_payout_at b = Some (utc_now E) \<and> balance_at_last_payout b = balance a \<and> plan_payout_config (plan b) = Some cfg"
    using between_payouts.run_kept [OF assms(2) _ assms(3)] a by blast
  from assms(4) show ?thesis
    by (rule approved_payout) (use a(1) b in \<open>auto dest!: sums_exactD [OF assms(5)]\<close>)
qed

text \<open>A funded account on a two-week cycle.\<close>

definition demo_biweekly :: account where
  "demo_biweekly = demo_funded\<lparr>plan := (plan demo_funded)\<lparr>plan_payout_config := Some (payout_config_default\<lparr>pc_cycle := BiWeekly\<rparr>)\<rparr>\<rparr>"

definition demo_paid :: account where
  "demo_paid = demo_biweekly\<lparr>payout_count := 1, balance_at_last_payout := 12000, last_payout_at := Some 0, balance := 10400\<rparr>"

definition demo_regained :: account where
  "demo_regained = demo_paid\<lparr>balance := 13000, equity := 13000, peak_balance := 13000, peak_equity := 13000,
     intraday_peak_equity := 13000, last_tick_ts := Some (14 * day_ns)\<rparr>"

lemmas payout_eval = process_eval demo_biweekly_def demo_paid_def demo_regained_def demo_funded_def payout_quote_for_def quote_payout_def payout_rejection_def
  min_gap_def payout_config_default_def trader_share_for_def record_payout_def u32_saturating_inc_def



lemma demo_payouts:
  "\<exists>r. process (exact_env 0) registry_empty store_empty quiet_notify demo_biweekly PPayoutApprove = ok r \<and> pr_account r = demo_paid"
  "\<exists>r. process (exact_env (14 * day_ns)) registry_empty store_empty quiet_notify demo_paid
     (PTick (demo_tick (14 * day_ns)) 13000 13000) = ok r \<and> pr_account r = demo_regained"
  "\<exists>r. process (exact_env (14 * day_ns)) registry_empty store_empty quiet_notify demo_regained PPayoutApprove = ok r"
  by (simp_all add: payout_eval demo_tick_def update_balance_def update_equity_def trunc_div_def stale_tick_threshold_minutes_def
      day_ns_def hour_ns_def)

theorem payouts_a_cycle_apart_witness:
  "\<exists>b evs. account_run (\<lambda>E. True) demo_paid evs b \<and> (\<exists>r. process (exact_env (14 * day_ns)) registry_empty store_empty quiet_notify b PPayoutApprove = ok r)
     \<and> cycle_elapsed (exact_env (14 * day_ns)) BiWeekly 0 (14 * day_ns) \<and> balance demo_biweekly < balance b"
proof -
  obtain r r' r'' where
    r: "process (exact_env 0) registry_empty store_empty quiet_notify demo_biweekly PPayoutApprove = ok r" "pr_account r = demo_paid"
    and r': "process (exact_env (14 * day_ns)) registry_empty store_empty quiet_notify demo_paid
        (PTick (demo_tick (14 * day_ns)) 13000 13000) = ok r'" "pr_account r' = demo_regained"
    and r'': "process (exact_env (14 * day_ns)) registry_empty store_empty quiet_notify demo_regained PPayoutApprove = ok r''"
    using demo_payouts by blast
  have run: "account_run (\<lambda>E. True) demo_paid [PTick (demo_tick (14 * day_ns)) 13000 13000] demo_regained"
    using account_run.handled [OF account_run.idle TrueI r'(1)] r'(2) by simp
  have "plan_payout_config (plan demo_biweekly) = Some (payout_config_default\<lparr>pc_cycle := BiWeekly\<rparr>)"
    by (simp add: demo_biweekly_def)
  then show ?thesis
    using payouts_a_cycle_apart [OF r(1) _ _ r'' exact_env_sums, unfolded r(2), OF run] run r'' by auto
qed

section \<open>Positions\<close>

text \<open>
  C31. The position book stays sound: through every sequence of events the open positions of an
  account have distinct ids and are all open.
\<close>

theorem positions_stay_distinct:
  assumes "account_run (\<lambda>E. True) a evs b" "positions_ok a"
  shows "positions_ok b"
  using positions.run_kept [OF assms] by (simp add: list_all_iff)

theorem positions_stay_distinct_witness:
  "\<exists>b. account_run (\<lambda>E. True) demo_account [PEmergencyStop ''r'' ''ops'' 0] b \<and> positions_ok b"
proof -
  obtain b where b: "account_run (\<lambda>E. True) demo_account [PEmergencyStop ''r'' ''ops'' 0] b" by (rule demo_run) simp
  from positions_stay_distinct [OF this] show ?thesis using b by (auto simp: positions_ok_def account_new_def Let_def)
qed

lemma decision_events_liquidation:
  assumes "apply_decision E a d t actor = ok (b, evs)" "e \<in> set evs" "e_kind e = EvLiquidationRequested li"
  shows "d_kind d = DLiquidate \<or> d_kind d = DEmergency"
  using assms(1)
proof (rule apply_decision_cases)
  fix a1 ev1 a2 ev2 ev3
  assume 1: "decision_target E a d t = (a1, ev1)" and 2: "decision_promote E a1 t = Inr (a2, ev2)"
    and 3: "decision_terminate E a2 d t actor = Some (b, ev3)" and evs: "evs = ev1 @ ev2 @ ev3"
  have "e \<notin> set ev1" using 1 assms(3) by (auto simp: decision_target_def domain_event_new_def split: if_split_asm)
  moreover have "e \<notin> set ev2" using 2 assms(3)
    by (auto simp: decision_promote_def Let_def domain_event_new_def split: if_split_asm sum.split_asm)
  ultimately have "e \<in> set ev3" using assms(2) evs by auto
  then show ?thesis using 3 assms(3)
    by (auto simp: decision_terminate_def Let_def Option.bind_eq_Some_conv domain_event_new_def split: option.split_asm if_split_asm)
qed

text \<open>
  C12. A liquidating decision fails the account and requests the liquidation of all its
  positions: the emitted instruction lists exactly the open positions of the resulting
  account.
\<close>

theorem breach_liquidates_everything:
  assumes "process E reg st notify a ev = ok r" "d_kind (er_decision (pr_result r)) = DLiquidate" "positions_ok a"
  shows "status (pr_account r) = Failed
       \<and> (\<exists>e \<in> set (pr_events r). \<exists>li. e_kind e = EvLiquidationRequested li
            \<and> li_positions li = map liquidation_from_position (acc_open_positions (pr_account r)))"
  using assms(1)
proof (rule process_cases)
  fix a0 ev0 and ap :: applied_event and a2 dev
  let ?d = "er_decision (pr_result r)"
  assume dec: "apply_decision E (consume_fill (ap_state ap) (ap_trade_fill ap)) ?d (utc_now E) (actor_of ev) = ok (a2, dev)"
    and r: "pr_account r = stamp_last_tick a2 ev"
    and evs: "pr_events r = ev0 @ ap_events ap @ dev @ emit_decision_event E (acc_id a) ?d
       @ map (\<lambda>v. domain_event_new E (acc_id a) (EvRuleViolated v) (utc_now E)) (er_violations (pr_result r))"
  have ps: "positions_ok (pr_account r)" using positions.process_kept [OF _ _ assms(3,1)] by simp
  from dec obtain b ev3 ev12 where trm: "decision_terminate E b ?d (utc_now E) (actor_of ev) = Some (a2, ev3)" and dev: "dev = ev12 @ ev3"
    by (rule apply_decision_cases) (metis append.assoc)
  from trm assms(2) obtain li where li: "liquidation_new E (acc_id b) (tenant_id a2) (acc_open_positions a2) (liquidation_reason_of ?d)
        (case d_all_violations ?d of [] \<Rightarrow> None | v # _ \<Rightarrow> Some (v_id v)) (actor_of ev) (utc_now E) = Some li"
    and st: "status a2 = Failed" and e: "domain_event_new E (acc_id b) (EvLiquidationRequested li) (utc_now E) \<in> set ev3"
    by (auto simp: decision_terminate_def account_status_target_def Let_def Option.bind_eq_Some_conv)
  have "filter is_open (acc_open_positions a2) = acc_open_positions a2"
    using ps by (simp add: r positions_ok_def list_all_iff filter_id_conv)
  then have lp: "li_positions li = map liquidation_from_position (acc_open_positions (pr_account r))"
    using li by (auto simp: r liquidation_new_def Let_def Option.bind_eq_Some_conv)
  let ?e = "domain_event_new E (acc_id b) (EvLiquidationRequested li) (utc_now E)"
  have "?e \<in> set (pr_events r)" "e_kind ?e = EvLiquidationRequested li" "status (pr_account r) = Failed"
    using e st by (simp_all add: evs dev r domain_event_new_def)
  then show ?thesis using lp by blast
qed

theorem breach_liquidates_everything_witness:
  "\<exists>r. process (exact_env 0) demo_liquidating_registry store_empty quiet_notify demo_account POnDemand = ok r
     \<and> status (pr_account r) = Failed"
proof -
  obtain r where r: "process (exact_env 0) demo_liquidating_registry store_empty quiet_notify demo_account POnDemand = ok r"
    "d_kind (er_decision (pr_result r)) = DLiquidate" using demo_breach by blast
  have "positions_ok demo_account" by (simp add: positions_ok_def account_new_def Let_def)
  from breach_liquidates_everything [OF r this] show ?thesis using r(1) by blast
qed

section \<open>Ticks\<close>

lemma tick_accepted:
  assumes "process E reg st notify a (PTick tk eq bal) = ok r"
  shows "last_tick_ts a = None \<or> the (last_tick_ts a) < q_ts (tk_quote tk)"
    and "num_minutes E (utc_now E - q_ts (tk_quote tk)) \<le> stale_tick_threshold_minutes"
    and "last_tick_ts (pr_account r) = Some (q_ts (tk_quote tk))"
proof -
  from assms obtain a0 ev0 ap a2 where roll: "auto_rollover E a (PTick tk eq bal) = Some (a0, ev0)"
    and app: "apply_event E st a0 (PTick tk eq bal) = ok ap" and r: "pr_account r = stamp_last_tick a2 (PTick tk eq bal)"
    by (rule process_cases)
  from app obtain ts where arm: "apply_arm E (a0\<lparr>acc_today_trades := ts\<rparr>) (acc_open_positions a0) (PTick tk eq bal) =
      ok (ap_state ap, ap_ctx_kind ap, ap_trade_fill ap, ap_events ap)" by (rule apply_event_cases)
  have l: "last_tick_ts a0 = last_tick_ts a" by (rule unticked.rollover_kept [OF _ _ roll]) simp_all
  show "last_tick_ts a = None \<or> the (last_tick_ts a) < q_ts (tk_quote tk)"
    "num_minutes E (utc_now E - q_ts (tk_quote tk)) \<le> stale_tick_threshold_minutes"
    using arm by (auto simp: l Let_def split: if_split_asm option.split_asm)
  show "last_tick_ts (pr_account r) = Some (q_ts (tk_quote tk))" by (simp add: r)
qed

lemma tick_time_grows:
  assumes "account_run (\<lambda>E. True) a evs b" "last_tick_ts a = Some l" "list_all (\<lambda>ev. \<not> is_estimate ev) evs"
  shows "\<exists>m. last_tick_ts b = Some m \<and> l \<le> m"
  using assms
proof (induction rule: account_run.induct)
  case (handled a evs b E reg st notify ev r)
  then obtain m where m: "last_tick_ts b = Some m" "l \<le> m" by auto
  show ?case
  proof (cases "is_tick ev")
    case True
    then obtain tk eq bal where "ev = PTick tk eq bal" using handled.prems(2) by (cases ev) auto
    then show ?thesis using tick_accepted(1,3) [of E reg st notify b tk eq bal r] handled.hyps(3) m by auto
  next
    case False
    have "last_tick_ts (pr_account r) = Some m"
      by (rule unticked.process_kept [OF _ False m(1) handled.hyps(3)]) simp
    then show ?thesis using m(2) by blast
  qed
qed auto

text \<open>
  C32. Broker ticks cannot be replayed: once a broker tick has been processed, no broker tick
  with the same or an earlier time is ever accepted again, as long as no estimated tick is
  processed in between.
\<close>

theorem no_tick_replay:
  assumes "process E reg st notify a (PTick tk eq bal) = ok r"
    and "account_run (\<lambda>E. True) (pr_account r) evs b" "list_all (\<lambda>ev. \<not> is_estimate ev) evs"
    and "q_ts (tk_quote tk') \<le> q_ts (tk_quote tk)"
  shows "process E' reg' st' notify' b (PTick tk' eq' bal') \<noteq> ok r'"
proof
  assume "process E' reg' st' notify' b (PTick tk' eq' bal') = ok r'"
  from tick_accepted(1) [OF this] tick_time_grows [OF assms(2) tick_accepted(3) [OF assms(1)] assms(3)] assms(4)
  show False by auto
qed

theorem no_tick_replay_witness:
  "\<exists>r. process (exact_env 9) registry_empty store_empty quiet_notify demo_account (PTick (demo_tick 5) 10000 10000) = ok r
     \<and> (\<forall>r'. process (exact_env 9) registry_empty store_empty quiet_notify (pr_account r) (PTick (demo_tick 4) 9000 9000) \<noteq> ok r')"
proof -
  obtain r where r: "process (exact_env 9) registry_empty store_empty quiet_notify demo_account (PTick (demo_tick 5) 10000 10000) = ok r"
    by (simp add: process_eval demo_tick_def update_balance_def update_equity_def trunc_div_def stale_tick_threshold_minutes_def day_ns_def)
  have "account_run (\<lambda>E. True) (pr_account r) [] (pr_account r)" by (rule account_run.idle)
  from no_tick_replay [OF r this] show ?thesis using r by (auto simp: demo_tick_def)
qed

lemma library_decision:
  assumes "library_registry E0 reg" "evaluator_evaluate E reg ctx = ok res"
  shows "d_kind (er_decision res) \<noteq> DEmergency"
    and "d_kind (er_decision res) = DLiquidate \<Longrightarrow> is_broker_reported (c_equity_input ctx)"
proof -
  obtain reps where reps: "registry_evaluate E reg ctx = ok reps" "er_decision res = from_reports reps"
    using assms(2) by (auto simp: evaluator_evaluate_def run_simps)
  have "\<exists>rep \<in> set reps. verdict_category (rr_verdict rep) = Some k" if "d_kind (er_decision res) = k" "k \<noteq> DPass" for k
    using from_reports_member [of reps] that by (auto simp: reps(2))
  then have *: "\<exists>rep \<in> set reps. verdict_category (rr_verdict rep) = Some k \<and>
      (case rr_verdict rep of Liquidate x \<Rightarrow> is_broker_reported (c_equity_input ctx) | Emergency x \<Rightarrow> False | _ \<Rightarrow> True)"
    if "d_kind (er_decision res) = k" "k \<noteq> DPass" for k
    using that library_report_mild [OF assms(1) reps(1)] by blast
  show "d_kind (er_decision res) \<noteq> DEmergency"
  proof
    assume "d_kind (er_decision res) = DEmergency"
    from * [OF this, simplified] obtain rep where "rep \<in> set reps" "verdict_category (rr_verdict rep) = Some DEmergency"
        "case rr_verdict rep of Liquidate x \<Rightarrow> is_broker_reported (c_equity_input ctx) | Emergency x \<Rightarrow> False | _ \<Rightarrow> True"
      by blast
    then show False by (cases "rr_verdict rep") auto
  qed
  assume "d_kind (er_decision res) = DLiquidate"
  from * [OF this, simplified] obtain rep where "rep \<in> set reps" "verdict_category (rr_verdict rep) = Some DLiquidate"
      "case rr_verdict rep of Liquidate x \<Rightarrow> is_broker_reported (c_equity_input ctx) | Emergency x \<Rightarrow> False | _ \<Rightarrow> True"
    by blast
  then show "is_broker_reported (c_equity_input ctx)" by (cases "rr_verdict rep") auto
qed

lemma tick_decision_late:
  assumes "set (reg_rules reg) \<subseteq> set (default_rules E0)" "evaluator_evaluate E reg ctx = ok res"
    and "c_kind ctx = OnTick" "c_pending_order ctx = None" "\<not> is_broker_reported (c_equity_input ctx)"
    and "d_kind (er_decision res) = DFail"
  shows "\<exists>x \<in> set (d_all_violations (er_decision res)). out_of_time x"
proof -
  obtain reps where reps: "registry_evaluate E reg ctx = ok reps" "er_decision res = from_reports reps"
    using assms(2) by (auto simp: evaluator_evaluate_def run_simps)
  obtain rep where rep: "rep \<in> set reps" "verdict_category (rr_verdict rep) = Some DFail"
    using from_reports_member [of reps] assms(6) reps(2) by auto
  obtain r where r: "r \<in> set (reg_rules reg)" "rep = rule_report_of E ctx r" "evaluate_applicable OnTick (r_scope r)"
    using reps(1) rep(1) assms(3) by (auto simp: registry_evaluate_def run_simps dest!: evaluate_rules_applicable)
  have "r \<in> set (default_rules E0)" using r(1) assms(1) by blast
  note late = tick_rules_fail_late [OF this r(3) assms(4,5)]
  have v: "rr_verdict rep = guarded_verdict E ctx r"
    unfolding r(2) by (simp add: rule_report_of_def report_with_metadata_def report_with_priority_def report_new_at_def)
  obtain x where x: "rr_verdict rep = Fail x" using rep(2) by (cases "rr_verdict rep") auto
  then have "r_evaluate r ctx = ok (Fail x)" using v late(2)
    by (auto simp: guarded_verdict_def failure_verdict_def ok_def split: option.split_asm sum.split_asm)
  then have "out_of_time x" using returnsD [OF late(1)] by blast
  then show ?thesis using all_violations_member [OF rep(1)] x reps(2) by auto
qed

lemma apply_decision_alive:
  assumes "apply_decision E a d t actor = ok (b, evs)" "d_kind d \<notin> {DFail, DLiquidate, DEmergency}"
    and "status b \<in> {Failed, EmergencyStopped}"
  shows "status a \<in> {Failed, EmergencyStopped}"
  using assms(1)
proof (rule apply_decision_cases)
  fix a1 ev1 a2 ev2 ev3
  assume s: "decision_target E a d t = (a1, ev1)" "decision_promote E a1 t = Inr (a2, ev2)"
      "decision_terminate E a2 d t actor = Some (b, ev3)"
  have "account_status_target d = None" using assms(2) by (cases "d_kind d") (simp_all add: account_status_target_def)
  then have "b = a2" using s(3) by (auto elim: decision_terminate_update)
  then have "status a2 \<in> {Failed, EmergencyStopped}" using assms(3) by simp
  then have "status a1 \<in> {Failed, EmergencyStopped}" using s(2) by (auto elim!: decision_promote_update simp: reset_for_phase_def)
  then show ?thesis using s(1) by (auto simp: decision_target_def mark_target_reached_def split: if_split_asm)
qed

lemma quiet_events:
  "auto_rollover E a ev = Some (b, evs) \<Longrightarrow> e \<in> set evs \<Longrightarrow> e_kind e \<noteq> EvLiquidationRequested li"
  "apply_arm E a ops ev = ok (c, k, fill, evs) \<Longrightarrow> e \<in> set evs \<Longrightarrow> e_kind e \<noteq> EvLiquidationRequested li"
  "e \<in> set (emit_decision_event E ident d) \<Longrightarrow> e_kind e \<noteq> EvLiquidationRequested li"
proof -
  show "auto_rollover E a ev = Some (b, evs) \<Longrightarrow> e \<in> set evs \<Longrightarrow> e_kind e \<noteq> EvLiquidationRequested li"
    by (auto simp: auto_rollover_def Let_def Option.bind_eq_Some_conv domain_event_new_def
        split: if_split_asm pipeline_event.split_asm)
  show "e \<in> set (emit_decision_event E ident d) \<Longrightarrow> e_kind e \<noteq> EvLiquidationRequested li"
    by (auto simp: emit_decision_event_def domain_event_new_def split: if_split_asm)
  assume arm: "apply_arm E a ops ev = ok (c, k, fill, evs)" and e: "e \<in> set evs"
  show "e_kind e \<noteq> EvLiquidationRequested li"
  proof (cases ev)
    case (PTradeFilled t)
    then show ?thesis using arm e
      by (cases "filled_position E ops t") (auto simp: run_simps domain_event_new_def)
  next
    case PPayoutRequest
    then show ?thesis using arm e
      by (cases "mark_payout_pending a") (auto simp: run_simps domain_event_new_def split: if_split_asm)
  qed (use arm e in \<open>auto simp: run_simps domain_event_new_def split: if_split_asm sum.split_asm\<close>)
qed

text \<open>
  An estimated tick is harmless: with any registry the engine builds, it changes neither
  balance nor equity, leads neither to a liquidation nor to an emergency decision, and emits
  no liquidation request.
\<close>

lemma estimated_tick_is_harmless:
  assumes "library_registry E reg" "process E reg st notify a (PTickEstimated tk) = ok r"
  shows "balance (pr_account r) = balance a \<and> equity (pr_account r) = equity a
       \<and> d_kind (er_decision (pr_result r)) \<notin> {DLiquidate, DEmergency}
       \<and> (\<forall>e \<in> set (pr_events r). \<forall>li. e_kind e \<noteq> EvLiquidationRequested li)"
  using assms(2)
proof (rule process_cases)
  fix a0 ev0 and ap :: applied_event and a2 dev
  let ?ctx = "build_context E (ap_state ap) (ap_ctx_kind ap) (PTickEstimated tk) (ap_open_positions ap)
       (ap_today_trades ap) (ap_recent_events ap)"
  assume roll: "auto_rollover E a (PTickEstimated tk) = Some (a0, ev0)" and app: "apply_event E st a0 (PTickEstimated tk) = ok ap"
    and ev: "evaluator_evaluate E reg ?ctx = ok (pr_result r)"
    and dec: "apply_decision E (consume_fill (ap_state ap) (ap_trade_fill ap)) (er_decision (pr_result r)) (utc_now E) (actor_of (PTickEstimated tk)) = ok (a2, dev)"
    and evs: "pr_events r = ev0 @ ap_events ap @ dev @ emit_decision_event E (acc_id a) (er_decision (pr_result r))
       @ map (\<lambda>v. domain_event_new E (acc_id a) (EvRuleViolated v) (utc_now E)) (er_violations (pr_result r))"
  from app obtain ts where arm: "apply_arm E (a0\<lparr>acc_today_trades := ts\<rparr>) (acc_open_positions a0) (PTickEstimated tk) =
      ok (ap_state ap, ap_ctx_kind ap, ap_trade_fill ap, ap_events ap)" by (rule apply_event_cases)
  have k: "d_kind (er_decision (pr_result r)) \<noteq> DLiquidate" "d_kind (er_decision (pr_result r)) \<noteq> DEmergency"
    using library_decision [OF assms(1) ev] by (auto simp: build_context_def)
  have "balance (pr_account r) = balance a \<and> equity (pr_account r) = equity a"
    by (rule quiet.process_kept [OF _ _ _ assms(2)]) simp_all
  moreover have "\<forall>e \<in> set (pr_events r). \<forall>li. e_kind e \<noteq> EvLiquidationRequested li"
    unfolding evs using quiet_events(1) [OF roll] quiet_events(2) [OF arm] quiet_events(3) decision_events_liquidation [OF dec] k
    by (auto simp: domain_event_new_def)
  ultimately show ?thesis using k by simp
qed

end
