(* ===== verification/Order_Gate.thy ===== *)
theory Order_Gate
  imports Pipeline_Runs
begin

text \<open>
  The gate for new orders, across the rule library, the registry, the decision and the
  pipeline: when the default rules are evaluated on an order, the caps of the plan that
  refuse it are exactly those of \<open>order_refused\<close>, and the pipeline fails the account for it.
\<close>

section \<open>Specification\<close>

text \<open>The context in which the evaluator and the pipeline check an order.\<close>

definition order_context :: "ext \<Rightarrow> account \<Rightarrow> order \<Rightarrow> position list \<Rightarrow> trade list \<Rightarrow> domain_event list \<Rightarrow> rule_context" where
  "order_context E a ord ps ts es = with_lists (for_open_order (utc_now E) a ord) ps ts es"

text \<open>A rule that takes part in an evaluation and answers with a terminating verdict.\<close>

definition ends_account :: "rule \<Rightarrow> rule_context \<Rightarrow> bool" where
  "ends_account r ctx \<longleftrightarrow> r_is_enabled r ctx = Some True \<and> evaluate_applicable (c_kind ctx) (r_scope r)
     \<and> (\<exists>v. r_evaluate r ctx = ok v \<and> is_terminating v)"

text \<open>
  The orders the plan does not allow: in a news window; above the lot limits, for one order
  or in total; above the number of open positions or of trades of the day; hedging an open
  position; without a required stop-loss; outside the trading hours; beyond the free margin.
\<close>

definition order_refused :: "ext \<Rightarrow> account \<Rightarrow> order \<Rightarrow> position list \<Rightarrow> trade list \<Rightarrow> bool" where
  "order_refused E a ord ps ts \<longleftrightarrow>
     (let p = plan a; ctx = order_context E a ord ps ts []; held = filter is_open ps in
      (\<not> news_trading_allowed p \<and> (\<exists>e. within_news_window E (o_submitted_at ord) 2 = Some (Some e)))
    \<or> (\<exists>cap l. max_position_lots p = Some cap
          \<and> units_to_lots E (instruments_get Map.empty (o_symbol ord)) (o_quantity ord) = Some l \<and> cap < l)
    \<or> (\<not> is_close_order (o_kind ord)
        \<and> ((\<exists>cap. max_open_positions p = Some cap \<and> cap < usize_as_u32 (length held) + 1)
         \<or> (\<exists>cap. max_daily_trades p = Some cap \<and> cap < usize_as_u32 (length ts) + 1)))
    \<or> (o_kind ord = Open
        \<and> (\<not> hedging_allowed p \<and> (\<exists>h \<in> set held. p_symbol h = o_symbol ord \<and> p_side h \<noteq> side_from_order (o_side ord))
         \<or> require_stop_loss p \<and> o_stop_loss ord = None))
    \<or> (\<exists>cap l. max_total_lots p = Some cap \<and> total_lots_of E ctx = Some l \<and> cap < l)
    \<or> (\<exists>s e. trading_hours p = Some (s, e)
          \<and> \<not> in_trading_window (unat s) (unat e)
                (case timezone p of Some z \<Rightarrow> tz_hour E z (o_submitted_at ord) | None \<Rightarrow> utc_hour E (o_submitted_at ord)))
    \<or> (\<exists>prc n m free. 0 < o_quantity ord \<and> order_margin_price ord = Some prc
          \<and> spec_notional E ctx (o_symbol ord) (o_quantity ord) prc = Some n
          \<and> ddiv E n (of_int (uint (leverage p))) = Some m \<and> free_margin E ctx = Some free \<and> free < m))"

text \<open>An account whose plan requires a stop-loss, and an order without one.\<close>

definition strict_account :: account where
  "strict_account = demo_account\<lparr>status := Active, plan := (plan demo_account)\<lparr>require_stop_loss := True\<rparr>\<rparr>"

definition demo_order :: order where
  "demo_order = order_market_open 1 7 ''EURUSD'' Buy 1 None None 0"

text \<open>The registry with the whole library, or with its part for a plan.\<close>

definition gate_library :: "ext \<Rightarrow> challenge_plan \<Rightarrow> registry \<Rightarrow> bool" where
  "gate_library E p reg \<longleftrightarrow> with_default_rules E = Some reg \<or> with_default_rules_for_plan E p = Some reg"

section \<open>The verdict of the library\<close>

lemma guarded_terminates:
  "r_params r = None \<Longrightarrow> is_terminating (guarded_verdict E ctx r) \<longleftrightarrow> (\<exists>v. r_evaluate r ctx = ok v \<and> is_terminating v)"
  by (auto simp: guarded_verdict_def failure_verdict_def ok_def Let_def split: option.splits sum.splits)

lemma default_rules_params: "list_all (\<lambda>r. r_params r = None) (default_rules E)"
  by (simp add: default_rules_def rule_defs)

lemma terminates_iff_report:
  "decision_kind_is_terminating (d_kind (from_reports rs)) \<longleftrightarrow> (\<exists>r \<in> set rs. is_terminating (rr_verdict r))"
proof
  assume t: "decision_kind_is_terminating (d_kind (from_reports rs))"
  then have "d_kind (from_reports rs) \<noteq> DPass" by auto
  from from_reports_member [OF this] t show "\<exists>r \<in> set rs. is_terminating (rr_verdict r)"
    by (auto simp: terminating_category)
next
  assume "\<exists>r \<in> set rs. is_terminating (rr_verdict r)"
  then obtain r k where "r \<in> set rs" "verdict_category (rr_verdict r) = Some k" "decision_kind_is_terminating k"
    by (auto simp: terminating_category)
  then show "decision_kind_is_terminating (d_kind (from_reports rs))"
    using reports_in_rank [of r rs k] by (simp add: terminating_rank)
qed

lemma library_fails_iff:
  assumes "reg_rules reg = default_rules E" "evaluator_evaluate E reg ctx = ok res"
  shows "er_failed res \<longleftrightarrow> list_ex (\<lambda>r. ends_account r ctx) (default_rules E)"
proof -
  obtain reps where reps: "registry_evaluate E reg ctx = ok reps"
    "set reps = rule_report_of E ctx ` {r \<in> set (default_rules E).
       r_is_enabled r ctx = Some True \<and> evaluate_applicable (c_kind ctx) (r_scope r)}"
    by (rule default_library_evaluate [OF assms(1)])
  have res: "er_decision res = from_reports reps"
    using assms(2) reps(1) by (auto simp: evaluator_evaluate_def)
  have "rr_verdict (rule_report_of E ctx r) = guarded_verdict E ctx r" for r
    by (simp add: rule_report_of_def report_with_metadata_def report_with_priority_def report_new_at_def)
  moreover have "is_terminating (guarded_verdict E ctx r) \<longleftrightarrow> (\<exists>v. r_evaluate r ctx = ok v \<and> is_terminating v)"
    if "r \<in> set (default_rules E)" for r
    using default_rules_params [of E] that by (intro guarded_terminates) (simp add: list_all_iff)
  ultimately show ?thesis
    unfolding er_failed_def res terminates_iff_report reps(2) by (auto simp: list_ex_iff ends_account_def)
qed

section \<open>The rules on an order\<close>

lemma order_context_simps [simp]:
  "c_account (order_context E a ord ps ts es) = a" "c_pending_order (order_context E a ord ps ts es) = Some ord"
  "c_open_positions (order_context E a ord ps ts es) = ps" "c_today_trades (order_context E a ord ps ts es) = ts"
  "c_kind (order_context E a ord ps ts es) = OnOrderSubmit" "c_instruments (order_context E a ord ps ts es) = Map.empty"
  "c_rule_config (order_context E a ord ps ts es) = rule_config_from_plan (plan a)"
  by (simp_all add: order_context_def with_lists_def for_open_order_def context_new_def)

lemma never_ends:
  "\<not> ends_account (cooldown_rule E None) ctx" "\<not> ends_account (tp_required_rule E None) ctx"
  "\<not> ends_account (grid_trading_rule E None) ctx"
proof -
  have "returns (\<lambda>v. \<not> is_terminating v) (cooldown_evaluate E None ctx)"
    unfolding cooldown_evaluate_def Let_def by (intro returns_intros) auto
  then show "\<not> ends_account (cooldown_rule E None) ctx" by (auto simp: ends_account_def cooldown_rule_def)
  have "returns (\<lambda>v. \<not> is_terminating v) (tp_required_evaluate E ctx)"
    unfolding tp_required_evaluate_def Let_def by (intro returns_intros) auto
  then show "\<not> ends_account (tp_required_rule E None) ctx" by (auto simp: ends_account_def tp_required_rule_def)
  have "returns (\<lambda>v. \<not> is_terminating v) (grid_trading_evaluate E None ctx)"
    unfolding grid_trading_evaluate_def Let_def by (intro returns_intros) (auto simp: grid_effective_severity_def)
  then show "\<not> ends_account (grid_trading_rule E None) ctx" by (auto simp: ends_account_def grid_trading_rule_def)
qed

text \<open>A context that presents an order to the rules, whatever else it holds.\<close>

locale order_gate =
  fixes ctx :: rule_context and a :: account and ord :: order and ps :: "position list" and ts :: "trade list"
  assumes account_eq: "c_account ctx = a" and order_eq: "c_pending_order ctx = Some ord"
    and positions_eq: "c_open_positions ctx = ps" and trades_eq: "c_today_trades ctx = ts"
    and kind_eq: "c_kind ctx = OnOrderSubmit" and instruments_eq: "c_instruments ctx = Map.empty"
    and config_eq: "c_rule_config ctx = rule_config_from_plan (plan a)"
begin

lemmas gate_simps [simp] = account_eq order_eq positions_eq trades_eq kind_eq instruments_eq config_eq

lemma off_scope: "r_scope r \<noteq> PreTrade \<Longrightarrow> r_scope r \<noteq> DemandScope \<Longrightarrow> \<not> ends_account r ctx"
  by (simp add: ends_account_def evaluate_applicable_def)

lemmas pretrade_simps = ends_account_def evaluate_applicable_def is_enabled_defs

lemma news_trading_ends:
  "ends_account (news_trading_rule E None) ctx \<longleftrightarrow>
     \<not> news_trading_allowed (plan a) \<and> (\<exists>e. within_news_window E (o_submitted_at ord) 2 = Some (Some e))"
  by (auto simp: pretrade_simps news_trading_rule_def news_trading_evaluate_def rule_config_from_plan_def
      ok_def split: Option.bind_splits option.splits)

lemma max_position_size_ends:
  "ends_account (max_position_size_rule E None) ctx \<longleftrightarrow>
     (\<exists>cap l. max_position_lots (plan a) = Some cap
        \<and> units_to_lots E (instruments_get Map.empty (o_symbol ord)) (o_quantity ord) = Some l \<and> cap < l)"
  by (auto simp: pretrade_simps max_position_size_rule_def max_position_size_evaluate_def effective_max_lots_def
      ok_def split: Option.bind_splits option.splits if_splits)

lemma count_cap_ends:
  "(\<exists>v. count_cap_verdict E ri key ctx n cap = ok v \<and> is_terminating v) \<longleftrightarrow>
     \<not> is_close_order (o_kind ord) \<and> cap < n + 1"
  by (auto simp: count_cap_verdict_def)

lemma max_open_positions_ends:
  "ends_account (max_open_positions_rule E None) ctx \<longleftrightarrow>
     \<not> is_close_order (o_kind ord) \<and>
     (\<exists>cap. max_open_positions (plan a) = Some cap \<and> cap < usize_as_u32 (length (filter is_open ps)) + 1)"
  by (cases "max_open_positions (plan a)")
    (simp_all add: pretrade_simps max_open_positions_rule_def max_open_positions_evaluate_def effective_max_count_def count_cap_ends)

lemma max_daily_trades_ends:
  "ends_account (max_daily_trades_rule E None) ctx \<longleftrightarrow>
     \<not> is_close_order (o_kind ord) \<and>
     (\<exists>cap. max_daily_trades (plan a) = Some cap \<and> cap < usize_as_u32 (length ts) + 1)"
  by (cases "max_daily_trades (plan a)")
    (simp_all add: pretrade_simps max_daily_trades_rule_def max_daily_trades_evaluate_def effective_max_count_def count_cap_ends)

lemma hedging_ends:
  "ends_account (hedging_rule E None) ctx \<longleftrightarrow>
     o_kind ord = Open \<and> \<not> hedging_allowed (plan a)
     \<and> (\<exists>h \<in> set (filter is_open ps). p_symbol h = o_symbol ord \<and> p_side h \<noteq> side_from_order (o_side ord))"
  by (auto simp: pretrade_simps hedging_rule_def hedging_evaluate_def list_ex_iff)

lemma sl_required_ends:
  "ends_account (sl_required_rule E None) ctx \<longleftrightarrow>
     o_kind ord = Open \<and> require_stop_loss (plan a) \<and> o_stop_loss ord = None"
  by (auto simp: pretrade_simps sl_required_rule_def sl_required_evaluate_def)

lemma max_total_lots_ends:
  "ends_account (max_total_lots_rule E None) ctx \<longleftrightarrow>
     (\<exists>cap l. max_total_lots (plan a) = Some cap \<and> total_lots_of E (order_context E a ord ps ts []) = Some l \<and> cap < l)"
proof -
  have "total_lots_of E ctx = total_lots_of E (order_context E a ord ps ts [])"
    by (simp add: total_lots_of_def)
  then show ?thesis
    by (auto simp: pretrade_simps max_total_lots_rule_def max_total_lots_evaluate_def effective_max_lots_def
        ok_def split: Option.bind_splits option.splits if_splits)
qed

lemma trading_hours_ends:
  "ends_account (trading_hours_rule E) ctx \<longleftrightarrow>
     (\<exists>s e. trading_hours (plan a) = Some (s, e)
          \<and> \<not> in_trading_window (unat s) (unat e)
                (case timezone (plan a) of Some z \<Rightarrow> tz_hour E z (o_submitted_at ord) | None \<Rightarrow> utc_hour E (o_submitted_at ord)))"
  by (auto simp: pretrade_simps trading_hours_rule_def trading_hours_evaluate_def Let_def split: option.splits)

lemma margin_ends:
  "ends_account (margin_rule E) ctx \<longleftrightarrow>
     (\<exists>prc n m free. 0 < o_quantity ord \<and> order_margin_price ord = Some prc
          \<and> spec_notional E (order_context E a ord ps ts []) (o_symbol ord) (o_quantity ord) prc = Some n
          \<and> ddiv E n (of_int (uint (leverage (plan a)))) = Some m
          \<and> free_margin E (order_context E a ord ps ts []) = Some free \<and> free < m)"
proof -
  have "spec_notional E ctx = spec_notional E (order_context E a ord ps ts [])"
    by (simp add: spec_notional_def fun_eq_iff)
  moreover from this have "free_margin E ctx = free_margin E (order_context E a ord ps ts [])"
    by (simp add: free_margin_def)
  ultimately show ?thesis
    by (auto simp: pretrade_simps margin_rule_def margin_evaluate_def not_le
        ok_def split: Option.bind_splits option.splits if_splits)
qed

lemmas pretrade_ends = news_trading_ends max_position_size_ends max_open_positions_ends max_daily_trades_ends
  hedging_ends sl_required_ends max_total_lots_ends trading_hours_ends margin_ends never_ends

lemma library_ends:
  "list_ex (\<lambda>r. ends_account r ctx) (default_rules E) \<longleftrightarrow> order_refused E a ord ps ts"
proof -
  have "\<not> ends_account r ctx"
    if "r \<in> {daily_drawdown_rule E None, max_drawdown_rule E None, trailing_drawdown_rule E None,
       profit_target_rule E None, min_trading_days_rule E None, min_profitable_days_rule E None, consistency_rule E None,
       overnight_holding_rule E None, weekend_holding_rule E None, time_limit_rule E None, copy_trading_rule E None,
       hft_scalping_rule E None, per_trade_max_loss_rule E None, inactivity_rule E None,
       cross_account_hedging_rule E None, lowcap_exposure_rule E None}" for r
    using that by (intro off_scope) (auto simp: rule_defs)
  then show ?thesis
    unfolding order_refused_def Let_def default_rules_def by (simp add: pretrade_ends) argo
qed

lemma fails_iff:
  "reg_rules reg = default_rules E \<Longrightarrow> evaluator_evaluate E reg ctx = ok res \<Longrightarrow> er_failed res \<longleftrightarrow> order_refused E a ord ps ts"
  using library_fails_iff library_ends by simp

end

interpretation pipeline_gate: order_gate "order_context E a ord ps ts es" a ord ps ts for E a ord ps ts es
  by unfold_locales simp_all

section \<open>The gate\<close>

lemma gate_library_full: "with_default_rules E = Some reg \<Longrightarrow> gate_library E p reg"
  by (simp add: gate_library_def)

lemma gate_library_engine: "gate_library E p reg \<Longrightarrow> library_registry E reg"
  by (auto simp: gate_library_def library_registry_def)

lemma library_order_verdict:
  assumes "gate_library E (plan a) reg" "hashes_distinct E"
  obtains res where "evaluator_evaluate E reg (order_context E a ord ps ts es) = ok res"
    "er_failed res \<longleftrightarrow> order_refused E a ord ps ts"
proof -
  let ?ctx = "order_context E a ord ps ts es"
  obtain full where full: "with_default_rules E = Some full" "reg_rules full = default_rules E"
    by (rule default_library [OF assms(2)])
  obtain reps where reps: "registry_evaluate E full ?ctx = ok reps" by (rule default_library_evaluate [OF full(2)])
  then have ev: "evaluator_evaluate E full ?ctx = ok \<lparr> er_reports = reps, er_decision = from_reports reps \<rparr>"
    by (simp add: evaluator_evaluate_def)
  have "plan (c_account ?ctx) = plan a" by (simp add: order_context_def with_lists_def for_open_order_def context_new_def)
  then have "registry_evaluate E reg ?ctx = registry_evaluate E full ?ctx"
    using plan_library_agrees [OF assms(2), of ?ctx "plan a"] assms(1) full(1) by (auto simp: gate_library_def)
  then have "evaluator_evaluate E reg ?ctx = evaluator_evaluate E full ?ctx" by (simp add: evaluator_evaluate_def)
  then show thesis using pipeline_gate.fails_iff [OF full(2) ev] ev by (intro that) simp_all
qed


lemma order_refused_frame:
  "plan a = plan b \<Longrightarrow> equity a = equity b \<Longrightarrow> order_refused E a ord ps ts = order_refused E b ord ps ts"
  by (simp add: order_refused_def total_lots_of_def free_margin_def spec_notional_def)

lemma build_order_context:
  "build_context E a OnOrderSubmit (POrderSubmitted ord) ps ts es = order_context E a ord ps ts es"
  by (simp add: build_context_def order_context_def with_lists_def for_open_order_def context_new_def)

lemma apply_decision_status:
  assumes "apply_decision E a d t actor = ok (b, evs)"
  shows "decision_kind_is_terminating (d_kind d) \<Longrightarrow> d_kind d \<noteq> DEmergency \<Longrightarrow> status b = Failed"
    and "\<not> decision_kind_is_terminating (d_kind d) \<Longrightarrow> status b = Failed \<Longrightarrow> status a = Failed"
    and "acc_today_trades b = acc_today_trades a"
  using assms
  by (auto elim!: apply_decision_cases op_elims simp: decision_target_def op_defs account_status_target_def
      split: decision_kind.splits if_splits)

text \<open>
  A refused order fails the account: when the pipeline processes an order of an active
  account under these rules, the account ends Failed if and only if the plan does not
  allow the order, given the open positions and the trades of the day.
\<close>

lemma refused_order_fails_account:
  assumes "gate_library E (plan a) reg" "hashes_distinct E" "status a = Active"
    and "process E reg st notify a (POrderSubmitted ord) = ok r"
  shows "status (pr_account r) = Failed \<longleftrightarrow>
           order_refused E a ord (acc_open_positions a) (acc_today_trades (pr_account r))"
  using assms(4)
proof (rule process_cases)
  fix a0 ev0 ap a2 dev
  assume roll: "auto_rollover E a (POrderSubmitted ord) = Some (a0, ev0)"
    and app: "apply_event E st a0 (POrderSubmitted ord) = ok ap"
    and eval: "evaluator_evaluate E reg (build_context E (ap_state ap) (ap_ctx_kind ap) (POrderSubmitted ord)
      (ap_open_positions ap) (ap_today_trades ap) (ap_recent_events ap)) = ok (pr_result r)"
    and dec: "apply_decision E (consume_fill (ap_state ap) (ap_trade_fill ap)) (er_decision (pr_result r)) (utc_now E)
      (actor_of (POrderSubmitted ord)) = ok (a2, dev)"
    and r: "pr_account r = stamp_last_tick a2 (POrderSubmitted ord)"
  have a0: "plan a0 = plan a" "status a0 = Active" "equity a0 = equity a" "acc_open_positions a0 = acc_open_positions a"
    using day_frame.rollover_kept [OF _ _ roll] assms(3) by auto
  obtain ts where ap: "ap_state ap = a0\<lparr>acc_today_trades := ts\<rparr>" "ap_ctx_kind ap = OnOrderSubmit" "ap_trade_fill ap = None"
      "ap_open_positions ap = acc_open_positions a0" "ap_today_trades ap = ts"
    using app by (auto simp: apply_event_def Let_def run_simps)
  let ?b = "a0\<lparr>acc_today_trades := ts\<rparr>"
  have dec': "apply_decision E ?b (er_decision (pr_result r)) (utc_now E) ''rule_engine'' = ok (a2, dev)"
    using dec by (simp add: ap consume_fill_def)
  have lib: "gate_library E (plan ?b) reg" using assms(1) a0(1) by simp
  obtain res where res: "evaluator_evaluate E reg (order_context E ?b ord (acc_open_positions a) ts (ap_recent_events ap)) = ok res"
    "er_failed res \<longleftrightarrow> order_refused E ?b ord (acc_open_positions a) ts"
    by (rule library_order_verdict [OF lib assms(2)])
  have "pr_result r = res" using eval res(1) by (simp add: ap a0 build_order_context)
  then have "er_failed (pr_result r) \<longleftrightarrow> order_refused E a ord (acc_open_positions a) ts"
    using res(2) order_refused_frame [of ?b a] by (simp add: a0)
  moreover have "d_kind (er_decision (pr_result r)) \<noteq> DEmergency"
    by (rule library_decision(1) [OF gate_library_engine [OF assms(1)] eval])
  ultimately show ?thesis
    using apply_decision_status [OF dec'] by (auto simp: r er_failed_def a0)
qed

lemma strict_order_refused:
  "o_kind ord = Open \<Longrightarrow> o_stop_loss ord = None \<Longrightarrow> order_refused (exact_env 0) strict_account ord ps ts"
  by (simp add: order_refused_def Let_def strict_account_def)

lemma demo_order_refused: "order_refused (exact_env 0) strict_account demo_order ps ts"
  by (rule strict_order_refused) (simp_all add: demo_order_def order_market_open_def)


lemma refused_order_processed:
  assumes "gate_library (exact_env 0) (plan strict_account) reg" "order_refused (exact_env 0) strict_account ord [] []" "o_submitted_at ord = 0"
  obtains r where "process (exact_env 0) reg store_empty quiet_notify strict_account (POrderSubmitted ord) = ok r"
proof -
  let ?E = "exact_env 0" and ?a = "strict_account"
  have lib: "library_registry ?E reg" by (rule gate_library_engine [OF assms(1)])
  obtain res where res: "evaluator_evaluate ?E reg (order_context ?E ?a ord [] [] []) = ok res" "er_failed res"
    by (rule library_order_verdict [OF assms(1) exact_env_hashes]) (use assms(2) in blast)
  have "\<not> is_broker_reported (c_equity_input (order_context ?E ?a ord [] [] []))"
    by (simp add: order_context_def with_lists_def for_open_order_def context_new_def equity_input_default_def)
  then have kind: "d_kind (er_decision res) = DFail"
    using res(2) library_decision [OF lib res(1)] by (cases "d_kind (er_decision res)") (auto simp: er_failed_def)
  have roll: "auto_rollover ?E ?a (POrderSubmitted ord) = Some (?a, [])"
    by (simp add: auto_rollover_def trading_day_start_def strict_account_def assms(3) account_new_def plan_default_def Let_def)
  have app: "apply_event ?E store_empty ?a (POrderSubmitted ord) = ok \<lparr> ap_state = ?a, ap_ctx_kind = OnOrderSubmit,
     ap_open_positions = [], ap_today_trades = [], ap_recent_events = [], ap_trade_fill = None, ap_events = [] \<rparr>"
    by (simp add: apply_event_def trading_day_start_def store_empty_def store_recent_def store_all_def
       strict_account_def assms(3) account_new_def plan_default_def Let_def)
  let ?b = "?a\<lparr>status_before_breach := Some Active, status := Failed\<rparr>"
  have act: "status ?a = Active" by (simp add: strict_account_def)
  have "decision_promote ?E ?a 0 = Inr (?a, [])" by (simp add: decision_promote_def act)
  then obtain evs where dec: "apply_decision ?E ?a (er_decision res) 0 ''rule_engine'' = ok (?b, evs)"
    by (simp add: apply_decision_def decision_target_def kind decision_terminate_def account_status_target_def act)
  obtain snap where snap: "snapshot_new ?E ?b (er_decision res) = Some snap"
    by (simp add: snapshot_new_def measure_defs strict_account_def account_new_def plan_default_def Let_def)
  have quiet: "notify_all quiet_notify vs = ok ()" for vs by (induction vs) simp_all
  show thesis
    using that by (simp add: process_def roll app build_order_context res(1) consume_fill_def dec snap quiet Let_def)
qed

end
