(* ===== verification/Clock_Free.thy ===== *)
theory Clock_Free
  imports Decision
begin

text \<open>
  Independence of the wall clock and of the random identifiers. Another run of an evaluation
  has another clock and draws other identifiers. No operation that the rules use reads the
  clock, with one exception: the deadline of the time-limit rule when a pack sets it for an
  account that was never started. Identifiers are drawn only for violations, so the results
  of the two runs are equal once the identifiers of the violations are left out.
\<close>

named_theorems clock_free \<open>operations that do not read the wall clock\<close>

abbreviation rerun :: "ext \<Rightarrow> timestamp \<Rightarrow> (string \<Rightarrow> uuid) \<Rightarrow> ext" where
  "rerun E t f \<equiv> E\<lparr>utc_now := t, new_v4 := f\<rparr>"

section \<open>Operations\<close>

lemma clock_fields [clock_free]:
  "dadd (rerun E t f) = dadd E"
  "dsub (rerun E t f) = dsub E"
  "dmul (rerun E t f) = dmul E"
  "ddiv (rerun E t f) = ddiv E"
  "dround_dp (rerun E t f) = dround_dp E"
  "dto_i64 (rerun E t f) = dto_i64 E"
  "dto_u32 (rerun E t f) = dto_u32 E"
  "dto_u64 (rerun E t f) = dto_u64 E"
  "dsqrt (rerun E t f) = dsqrt E"
  "json_get_decimal (rerun E t f) = json_get_decimal E"
  "json_get_u64 (rerun E t f) = json_get_u64 E"
  "default_hash (rerun E t f) = default_hash E"
  "sip_hash (rerun E t f) = sip_hash E"
  "sha256_digest (rerun E t f) = sha256_digest E"
  "uuid_display (rerun E t f) = uuid_display E"
  "uuid_parse (rerun E t f) = uuid_parse E"
  "dexp (rerun E t f) = dexp E"
  "num_seconds (rerun E t f) = num_seconds E"
  "num_minutes (rerun E t f) = num_minutes E"
  "num_days (rerun E t f) = num_days E"
  "dur_days (rerun E t f) = dur_days E"
  "dur_minutes (rerun E t f) = dur_minutes E"
  "dur_seconds (rerun E t f) = dur_seconds E"
  "ts_add (rerun E t f) = ts_add E"
  "ts_sub (rerun E t f) = ts_sub E"
  "utc_hour (rerun E t f) = utc_hour E"
  "utc_weekday (rerun E t f) = utc_weekday E"
  "utc_date (rerun E t f) = utc_date E"
  "date_succ (rerun E t f) = date_succ E"
  "utc_at_hour (rerun E t f) = utc_at_hour E"
  "utc_at_time (rerun E t f) = utc_at_time E"
  "tz_hour (rerun E t f) = tz_hour E"
  "tz_date (rerun E t f) = tz_date E"
  "tz_at_hour (rerun E t f) = tz_at_hour E"
  "ts_from_millis (rerun E t f) = ts_from_millis E"
  "rfc3339 (rerun E t f) = rfc3339 E"
  by simp_all

lemma clock_dsum [clock_free]: "dsum (rerun E t f) = dsum E"
  by (simp only: fun_eq_iff simp_thms dsum_def clock_free)

lemma clock_types [clock_free]:
  "rule_id_named (rerun E t f) = rule_id_named E"
  "pct_of (rerun E t f) = pct_of E"
  "net_pnl (rerun E t f) = net_pnl E"
  "quote_mid (rerun E t f) = quote_mid E"
  "quote_spread (rerun E t f) = quote_spread E"
  "unrealized_pnl_of (rerun E t f) = unrealized_pnl_of E"
  "unrealized_pnl (rerun E t f) = unrealized_pnl E"
  "units_to_lots (rerun E t f) = units_to_lots E"
  "notional (rerun E t f) = notional E"
  "with_breach (rerun E t f) = with_breach E"
  "trading_day_start (rerun E t f) = trading_day_start E"
  "next_trading_day_start (rerun E t f) = next_trading_day_start E"
  by (simp_all only: fun_eq_iff simp_thms rule_id_named_def pct_of_def net_pnl_def quote_mid_def
    quote_spread_def unrealized_pnl_of_def unrealized_pnl_def units_to_lots_def notional_def
    with_breach_def trading_day_start_def next_trading_day_start_def clock_free)

lemma clock_measures [clock_free]:
  "daily_dd_limit (rerun E t f) = daily_dd_limit E"
  "max_dd_limit_static (rerun E t f) = max_dd_limit_static E"
  "max_dd_limit_trailing (rerun E t f) = max_dd_limit_trailing E"
  "max_dd_limit_eod_trailing (rerun E t f) = max_dd_limit_eod_trailing E"
  "max_dd_limit (rerun E t f) = max_dd_limit E"
  "total_drawdown (rerun E t f) = total_drawdown E"
  "balance_drawdown (rerun E t f) = balance_drawdown E"
  "profit_target (rerun E t f) = profit_target E"
  "equity_drawdown (rerun E t f) = equity_drawdown E"
  "daily_drawdown (rerun E t f) = daily_drawdown E"
  "net_profit (rerun E t f) = net_profit E"
  "reached_profit_target (rerun E t f) = reached_profit_target E"
  "daily_dd_utilization (rerun E t f) = daily_dd_utilization E"
  "max_dd_utilization (rerun E t f) = max_dd_utilization E"
  by (simp_all only: fun_eq_iff simp_thms daily_dd_limit_def max_dd_limit_static_def max_dd_limit_trailing_def
    max_dd_limit_eod_trailing_def max_dd_limit_def total_drawdown_def balance_drawdown_def profit_target_def
    equity_drawdown_def daily_drawdown_def net_profit_def reached_profit_target_def daily_dd_utilization_def
    max_dd_utilization_def clock_free)

lemma clock_params [clock_free]:
  "effective_money (rerun E t f) = effective_money E"
  "effective_pct (rerun E t f) = effective_pct E"
  "params_json_decimal (rerun E t f) = params_json_decimal E"
  "total_open_lots (rerun E t f) = total_open_lots E"
  "rule_id (rerun E t f) = rule_id E"
  "tolerance_money (rerun E t f) = tolerance_money E"
  by (simp_all only: fun_eq_iff simp_thms effective_money_def effective_pct_def params_json_decimal_def
    total_open_lots_def rule_id_def tolerance_money_def clock_free)

lemma clock_risk_helpers [clock_free]:
  "max_drawdown_effective_pct (rerun E t f) = max_drawdown_effective_pct E"
  "max_drawdown_is_enabled (rerun E t f) = max_drawdown_is_enabled E"
  "max_drawdown_floor (rerun E t f) = max_drawdown_floor E"
  "effective_trail_money (rerun E t f) = effective_trail_money E"
  "per_trade_limit_money (rerun E t f) = per_trade_limit_money E"
  "profit_target_amount (rerun E t f) = profit_target_amount E"
  "consistency_effective_cap (rerun E t f) = consistency_effective_cap E"
  "pack_count (rerun E t f) = pack_count E"
  "min_trading_days_effective (rerun E t f) = min_trading_days_effective E"
  "min_profitable_days_effective (rerun E t f) = min_profitable_days_effective E"
  "plan_deadline (rerun E t f) = plan_deadline E"
  "inactivity_effective_days (rerun E t f) = inactivity_effective_days E"
  by (simp_all only: fun_eq_iff simp_thms max_drawdown_effective_pct_def max_drawdown_is_enabled_def
    max_drawdown_floor_def effective_trail_money_def per_trade_limit_money_def
    consistency_effective_cap_def min_trading_days_effective_def
    min_profitable_days_effective_def plan_deadline_def inactivity_effective_days_def clock_free)

lemma clock_news [clock_free]: "news_delta (rerun E t f) = news_delta E"
    "first_news_event (rerun E t f) = first_news_event E"
proof -
  show d: "news_delta (rerun E t f) = news_delta E" by (simp only: fun_eq_iff simp_thms news_delta_def clock_free)
  have "first_news_event (rerun E t f) s w es = first_news_event E s w es" for s w es
    by (induction es) (simp_all only: first_news_event.simps d)
  then show "first_news_event (rerun E t f) = first_news_event E" by (intro ext)
qed

lemma clock_price_gaps [clock_free]: "price_gaps (rerun E t f) = price_gaps E"
proof -
  have "price_gaps (rerun E t f) xs = price_gaps E xs" for xs
    by (induction E xs rule: price_gaps.induct) (auto simp: clock_free split: bind_split)
  then show ?thesis by (intro ext)
qed

lemma clock_leading_losses [clock_free]: "leading_losses (rerun E t f) = leading_losses E"
proof -
  have "leading_losses (rerun E t f) ts = leading_losses E ts" for ts
    by (induction ts) (simp_all only: leading_losses.simps clock_free)
  then show ?thesis by (intro ext)
qed

lemma clock_trading_helpers [clock_free]:
  "within_news_window (rerun E t f) = within_news_window E"
  "effective_max_count (rerun E t f) = effective_max_count E"
  "cooldown_effective_seconds (rerun E t f) = cooldown_effective_seconds E"
  "grid_min_entries (rerun E t f) = grid_min_entries E"
  "grid_knob (rerun E t f) = grid_knob E"
  "grid_max_window_minutes (rerun E t f) = grid_max_window_minutes E"
  "grid_escalation_losses (rerun E t f) = grid_escalation_losses E"
  "grid_effective_severity (rerun E t f) = grid_effective_severity E"
  "gaps_mean (rerun E t f) = gaps_mean E"
  "gaps_cv (rerun E t f) = gaps_cv E"
  "detect_grid (rerun E t f) = detect_grid E"
  "detect_escalation (rerun E t f) = detect_escalation E"
  "copy_fail_threshold (rerun E t f) = copy_fail_threshold E"
  "copy_window_seconds (rerun E t f) = copy_window_seconds E"
  "copy_hits (rerun E t f) = copy_hits E"
  "hft_min_round_trip (rerun E t f) = hft_min_round_trip E"
  "hft_max_closes_per_minute (rerun E t f) = hft_max_closes_per_minute E"
  "total_lots_of (rerun E t f) = total_lots_of E"
  "spec_notional (rerun E t f) = spec_notional E"
  "free_margin (rerun E t f) = free_margin E"
  by (simp_all only: fun_eq_iff simp_thms within_news_window_def effective_max_count_def
    cooldown_effective_seconds_def grid_min_entries_def grid_knob_def grid_max_window_minutes_def
    grid_escalation_losses_def grid_effective_severity_def gaps_mean_def gaps_cv_def detect_grid_def
    detect_escalation_def copy_fail_threshold_def copy_window_seconds_def copy_hits_def
    hft_min_round_trip_def hft_max_closes_per_minute_def total_lots_of_def spec_notional_def free_margin_def
    clock_free)

section \<open>Fresh identifiers\<close>

fun map_verdict :: "(violation \<Rightarrow> violation) \<Rightarrow> rule_verdict \<Rightarrow> rule_verdict" where
  "map_verdict g Pass = Pass"
| "map_verdict g (Warn v) = Warn (g v)"
| "map_verdict g (Fail v) = Fail (g v)"
| "map_verdict g (SoftFail v) = SoftFail (g v)"
| "map_verdict g (Liquidate v) = Liquidate (g v)"
| "map_verdict g (TargetHit v) = TargetHit (g v)"
| "map_verdict g (Emergency v) = Emergency (g v)"
| "map_verdict g (EarlyWarning v) = EarlyWarning (g v)"
| "map_verdict g (GapFlagged v) = GapFlagged (g v)"
| "map_verdict g Skip = Skip"

abbreviation relabel :: "(string \<Rightarrow> uuid) \<Rightarrow> string \<Rightarrow> violation \<Rightarrow> violation" where
  "relabel f name v \<equiv> v\<lparr>v_id := f (''violation:'' @ name)\<rparr>"

definition redraw :: "(string \<Rightarrow> uuid) \<Rightarrow> rule_info \<Rightarrow> rule_verdict res option \<Rightarrow> rule_verdict res option" where
  "redraw f ri m = map_option (map_sum id (map_verdict (relabel f (ri_name ri)))) m"

lemma redraw_build: "build_violation (rerun E t f) ri ctx sev m = relabel f (ri_name ri) (build_violation E ri ctx sev m)"
  by (simp add: build_violation_def violation_new_def violation_with_tenant_def clock_free)

lemma redraw_breach:
  "Option.bind (with_breach E (v\<lparr>v_id := i\<rparr>) b u) h = Option.bind (with_breach E v b u) (\<lambda>w. h (w\<lparr>v_id := i\<rparr>))"
  by (cases v; cases "ddiv E b u") (simp_all add: with_breach_def Let_def)

lemma redraw_results:
  "redraw f ri None = None" "redraw f ri (ok v) = ok (map_verdict (relabel f (ri_name ri)) v)" "redraw f ri (err e) = err e"
  by (simp_all add: redraw_def ok_def err_def)

lemma redraw_bind: "redraw f ri (Option.bind m h) = Option.bind m (\<lambda>x. redraw f ri (h x))"
  by (cases m) (simp_all add: redraw_def)

lemma redraw_try: "redraw f ri (try_op m h) = try_op m (\<lambda>x. redraw f ri (h x))"
  by (cases m rule: res_option_cases) (simp_all add: redraw_results)

lemma redraw_if: "redraw f ri (if c then x else y) = (if c then redraw f ri x else redraw f ri y)"
  by simp

lemma redraw_option: "redraw f ri (case m of None \<Rightarrow> x | Some y \<Rightarrow> h y) = (case m of None \<Rightarrow> redraw f ri x | Some y \<Rightarrow> redraw f ri (h y))"
  by (simp split: option.split)

lemma redraw_sum: "redraw f ri (case m of Inl y \<Rightarrow> g y | Inr y \<Rightarrow> h y) = (case m of Inl y \<Rightarrow> redraw f ri (g y) | Inr y \<Rightarrow> redraw f ri (h y))"
  by (simp split: sum.split)

lemma redraw_prod: "redraw f ri (case p of (x, y) \<Rightarrow> h x y) = (case p of (x, y) \<Rightarrow> redraw f ri (h x y))"
  by (simp split: prod.split)

lemma redraw_list: "redraw f ri (case m of [] \<Rightarrow> x | y # ys \<Rightarrow> h y ys) = (case m of [] \<Rightarrow> redraw f ri x | y # ys \<Rightarrow> redraw f ri (h y ys))"
  by (simp split: list.split)

lemma map_verdict_if: "map_verdict g (if c then x else y) = (if c then map_verdict g x else map_verdict g y)"
  by simp

lemmas redraw_simps = redraw_build redraw_breach redraw_results redraw_bind redraw_try redraw_if redraw_option redraw_sum redraw_prod
  redraw_list map_verdict_if map_verdict.simps Let_def

lemma redraw_counts [clock_free]:
  "day_count_verdict (rerun E t f) ri ctx actual required = redraw f ri (day_count_verdict E ri ctx actual required)"
  "count_cap_verdict (rerun E t f) ri key ctx cnt cap = redraw f ri (count_cap_verdict E ri key ctx cnt cap)"
  by (simp_all only: day_count_verdict_def count_cap_verdict_def redraw_simps)

lemma clock_risk [clock_free]:
  "daily_drawdown_evaluate (rerun E t f) ps ctx = redraw f daily_drawdown_info (daily_drawdown_evaluate E ps ctx)"
  "max_drawdown_evaluate (rerun E t f) ps ctx = redraw f max_drawdown_info (max_drawdown_evaluate E ps ctx)"
  "trailing_drawdown_evaluate (rerun E t f) ps ctx = redraw f trailing_drawdown_info (trailing_drawdown_evaluate E ps ctx)"
  "per_trade_max_loss_evaluate (rerun E t f) ps ctx = redraw f per_trade_max_loss_info (per_trade_max_loss_evaluate E ps ctx)"
  "profit_target_evaluate (rerun E t f) ps ctx = redraw f profit_target_info (profit_target_evaluate E ps ctx)"
  "consistency_evaluate (rerun E t f) ps ctx = redraw f consistency_info (consistency_evaluate E ps ctx)"
  "min_trading_days_evaluate (rerun E t f) ps ctx = redraw f min_trading_days_info (min_trading_days_evaluate E ps ctx)"
  "min_profitable_days_evaluate (rerun E t f) ps ctx = redraw f min_profitable_days_info (min_profitable_days_evaluate E ps ctx)"
  "inactivity_evaluate (rerun E t f) ps ctx = redraw f inactivity_info (inactivity_evaluate E ps ctx)"
  by (simp_all only: daily_drawdown_evaluate_def max_drawdown_evaluate_def trailing_drawdown_evaluate_def per_trade_max_loss_evaluate_def profit_target_evaluate_def consistency_evaluate_def min_trading_days_evaluate_def min_profitable_days_evaluate_def inactivity_evaluate_def clock_free redraw_simps)

lemma clock_trading [clock_free]:
  "news_trading_evaluate (rerun E t f) ctx = redraw f news_trading_info (news_trading_evaluate E ctx)"
  "overnight_holding_evaluate (rerun E t f) ctx = redraw f overnight_holding_info (overnight_holding_evaluate E ctx)"
  "weekend_holding_evaluate (rerun E t f) ctx = redraw f weekend_holding_info (weekend_holding_evaluate E ctx)"
  "max_position_size_evaluate (rerun E t f) ps ctx = redraw f max_position_size_info (max_position_size_evaluate E ps ctx)"
  "max_open_positions_evaluate (rerun E t f) ps ctx = redraw f max_open_positions_info (max_open_positions_evaluate E ps ctx)"
  "max_daily_trades_evaluate (rerun E t f) ps ctx = redraw f max_daily_trades_info (max_daily_trades_evaluate E ps ctx)"
  "cooldown_evaluate (rerun E t f) ps ctx = redraw f cooldown_info (cooldown_evaluate E ps ctx)"
  "hedging_evaluate (rerun E t f) ctx = redraw f hedging_info (hedging_evaluate E ctx)"
  "grid_trading_evaluate (rerun E t f) ps ctx = redraw f grid_trading_info (grid_trading_evaluate E ps ctx)"
  "copy_trading_evaluate (rerun E t f) ps ctx = redraw f copy_trading_info (copy_trading_evaluate E ps ctx)"
  "hft_scalping_evaluate (rerun E t f) ps ctx = redraw f hft_scalping_info (hft_scalping_evaluate E ps ctx)"
  "max_total_lots_evaluate (rerun E t f) ps ctx = redraw f max_total_lots_info (max_total_lots_evaluate E ps ctx)"
  "trading_hours_evaluate (rerun E t f) ctx = redraw f trading_hours_info (trading_hours_evaluate E ctx)"
  "margin_evaluate (rerun E t f) ctx = redraw f margin_info (margin_evaluate E ctx)"
  "sl_required_evaluate (rerun E t f) ctx = redraw f sl_required_info (sl_required_evaluate E ctx)"
  "tp_required_evaluate (rerun E t f) ctx = redraw f tp_required_info (tp_required_evaluate E ctx)"
  "cross_account_hedging_evaluate (rerun E t f) ctx = redraw f cross_account_hedging_info (cross_account_hedging_evaluate E ctx)"
  "lowcap_exposure_evaluate (rerun E t f) ctx = redraw f lowcap_exposure_info (lowcap_exposure_evaluate E ctx)"
  by (simp_all only: news_trading_evaluate_def overnight_holding_evaluate_def weekend_holding_evaluate_def max_position_size_evaluate_def max_open_positions_evaluate_def max_daily_trades_evaluate_def cooldown_evaluate_def hedging_evaluate_def grid_trading_evaluate_def copy_trading_evaluate_def hft_scalping_evaluate_def max_total_lots_evaluate_def trading_hours_evaluate_def margin_evaluate_def sl_required_evaluate_def tp_required_evaluate_def cross_account_hedging_evaluate_def lowcap_exposure_evaluate_def clock_free redraw_simps)

section \<open>Rules and registries\<close>

lemma time_limit_clock_started:
  assumes "started_at (c_account ctx) \<noteq> None"
  shows "time_limit_evaluate (rerun E t f) ps ctx = redraw f time_limit_info (time_limit_evaluate E ps ctx)"
proof -
  obtain s where "started_at (c_account ctx) = Some s" using assms by blast
  then have "effective_deadline (rerun E t f) ps ctx = effective_deadline E ps ctx"
    by (simp only: effective_deadline_def option.case clock_free)
  then show ?thesis by (simp only: time_limit_evaluate_def clock_free redraw_simps)
qed

text \<open>
  Two builds of one rule: on every account that was started they give the same result, up to
  the identifier of the violation.
\<close>

definition agrees :: "(string \<Rightarrow> uuid) \<Rightarrow> rule \<Rightarrow> rule \<Rightarrow> bool" where
  "agrees f r r' \<longleftrightarrow> (\<exists>ev. r' = r\<lparr>r_evaluate := ev\<rparr>
     \<and> (\<forall>ctx. started_at (c_account ctx) \<noteq> None \<longrightarrow> ev ctx = redraw f (r_info r) (r_evaluate r ctx)))"

definition reg_agrees :: "(string \<Rightarrow> uuid) \<Rightarrow> registry \<Rightarrow> registry \<Rightarrow> bool" where
  "reg_agrees f reg reg' \<longleftrightarrow> reg_by_id reg' = reg_by_id reg \<and> list_all2 (agrees f) (reg_rules reg) (reg_rules reg')"

lemma agreesI:
  assumes "r' = r\<lparr>r_evaluate := r_evaluate r'\<rparr>"
    and "\<And>ctx. started_at (c_account ctx) \<noteq> None \<Longrightarrow> r_evaluate r' ctx = redraw f (r_info r) (r_evaluate r ctx)"
  shows "agrees f r r'"
  unfolding agrees_def using assms by blast

lemma agrees_rules:
  "agrees f (daily_drawdown_rule E ps) (daily_drawdown_rule (rerun E t f) ps)"
  "agrees f (max_drawdown_rule E ps) (max_drawdown_rule (rerun E t f) ps)"
  "agrees f (trailing_drawdown_rule E ps) (trailing_drawdown_rule (rerun E t f) ps)"
  "agrees f (per_trade_max_loss_rule E ps) (per_trade_max_loss_rule (rerun E t f) ps)"
  "agrees f (profit_target_rule E ps) (profit_target_rule (rerun E t f) ps)"
  "agrees f (consistency_rule E ps) (consistency_rule (rerun E t f) ps)"
  "agrees f (min_trading_days_rule E ps) (min_trading_days_rule (rerun E t f) ps)"
  "agrees f (min_profitable_days_rule E ps) (min_profitable_days_rule (rerun E t f) ps)"
  "agrees f (inactivity_rule E ps) (inactivity_rule (rerun E t f) ps)"
  "agrees f (news_trading_rule E ps) (news_trading_rule (rerun E t f) ps)"
  "agrees f (overnight_holding_rule E ps) (overnight_holding_rule (rerun E t f) ps)"
  "agrees f (weekend_holding_rule E ps) (weekend_holding_rule (rerun E t f) ps)"
  "agrees f (max_position_size_rule E ps) (max_position_size_rule (rerun E t f) ps)"
  "agrees f (max_open_positions_rule E ps) (max_open_positions_rule (rerun E t f) ps)"
  "agrees f (max_daily_trades_rule E ps) (max_daily_trades_rule (rerun E t f) ps)"
  "agrees f (cooldown_rule E ps) (cooldown_rule (rerun E t f) ps)"
  "agrees f (hedging_rule E ps) (hedging_rule (rerun E t f) ps)"
  "agrees f (grid_trading_rule E ps) (grid_trading_rule (rerun E t f) ps)"
  "agrees f (copy_trading_rule E ps) (copy_trading_rule (rerun E t f) ps)"
  "agrees f (hft_scalping_rule E ps) (hft_scalping_rule (rerun E t f) ps)"
  "agrees f (max_total_lots_rule E ps) (max_total_lots_rule (rerun E t f) ps)"
  "agrees f (trading_hours_rule E) (trading_hours_rule (rerun E t f))"
  "agrees f (margin_rule E) (margin_rule (rerun E t f))"
  "agrees f (sl_required_rule E ps) (sl_required_rule (rerun E t f) ps)"
  "agrees f (tp_required_rule E ps) (tp_required_rule (rerun E t f) ps)"
  "agrees f (cross_account_hedging_rule E ps) (cross_account_hedging_rule (rerun E t f) ps)"
  "agrees f (lowcap_exposure_rule E ps) (lowcap_exposure_rule (rerun E t f) ps)"
  by (rule agreesI; simp only: daily_drawdown_rule_def max_drawdown_rule_def trailing_drawdown_rule_def per_trade_max_loss_rule_def profit_target_rule_def consistency_rule_def min_trading_days_rule_def min_profitable_days_rule_def inactivity_rule_def news_trading_rule_def overnight_holding_rule_def weekend_holding_rule_def max_position_size_rule_def max_open_positions_rule_def max_daily_trades_rule_def cooldown_rule_def hedging_rule_def grid_trading_rule_def copy_trading_rule_def hft_scalping_rule_def max_total_lots_rule_def trading_hours_rule_def margin_rule_def sl_required_rule_def tp_required_rule_def cross_account_hedging_rule_def lowcap_exposure_rule_def rule.simps clock_free)+

lemma agrees_time_limit: "agrees f (time_limit_rule E ps) (time_limit_rule (rerun E t f) ps)"
  by (rule agreesI) (simp_all add: time_limit_rule_def time_limit_clock_started)

lemma agrees_same: "agrees f r r' \<Longrightarrow> r_info r' = r_info r \<and> r_scope r' = r_scope r \<and> r_priority r' = r_priority r
    \<and> r_params r' = r_params r \<and> r_is_enabled r' = r_is_enabled r"
  by (auto simp: agrees_def)

lemma agrees_evaluate:
  "agrees f r r' \<Longrightarrow> started_at (c_account ctx) \<noteq> None \<Longrightarrow> r_evaluate r' ctx = redraw f (r_info r) (r_evaluate r ctx)"
  by (auto simp: agrees_def)

lemma map_of_related:
  "list_all2 (\<lambda>(k, x) (k', y). k = k' \<and> R x y) xs ys \<Longrightarrow> rel_option R (map_of xs k) (map_of ys k)"
  by (induction rule: list_all2_induct) auto

lemma factory_clock:
  "rel_option (\<lambda>g h. rel_sum (=) (agrees f) (g e) (h e)) (default_factory_for_kind E k) (default_factory_for_kind (rerun E t f) k)"
  unfolding default_factory_for_kind_def
  by (rule map_of_related) (simp add: factory_table_def Let_def agrees_rules agrees_time_limit)

lemma register_clock [clock_free]: "registry_register (rerun E t f) = registry_register E"
  by (simp only: fun_eq_iff simp_thms registry_register_def clock_free)

lemma register_agrees:
  assumes "reg_agrees f reg reg'" "agrees f r r'"
  shows "rel_option (reg_agrees f) (registry_register E reg r) (registry_register E reg' r')"
  using assms agrees_same [OF assms(2)]
  by (auto simp: registry_register_def reg_agrees_def rule_id_def Let_def list_all2_lengthD list_all2_appendI
      intro!: list_all2_update_cong split: option.split)

lemma register_entries_clock:
  "reg_agrees f reg reg' \<Longrightarrow>
   rel_option (rel_sum (=) (reg_agrees f)) (register_entries E pid reg es) (register_entries (rerun E t f) pid reg' es)"
proof (induction es arbitrary: reg reg')
  case Nil
  then show ?case by (simp add: ok_def)
next
  case (Cons e es)
  show ?case
  proof (cases "en_enabled e")
    case False
    then show ?thesis using Cons by simp
  next
    case True
    from factory_clock [of f e E "en_kind e" t] show ?thesis
    proof (cases rule: option.rel_cases)
      case None
      then show ?thesis using True by (simp add: err_def)
    next
      case (Some g h)
      from Some(3) show ?thesis
      proof (cases rule: rel_sum.cases)
        case (1 x y)
        then show ?thesis using True Some by (simp add: err_def)
      next
        case (2 r r')
        have "rel_option (reg_agrees f) (registry_register E reg r) (registry_register E reg' r')"
          by (rule register_agrees [OF Cons.prems 2(3)])
        then show ?thesis using True Some 2 Cons.IH by (cases rule: option.rel_cases) (simp_all add: clock_free)
      qed
    qed
  qed
qed

lemma build_from_pack_clock:
  assumes "build_from_pack E pack = ok reg"
  obtains reg' where "build_from_pack (rerun E t f) pack = ok reg'" "reg_agrees f reg reg'"
proof -
  have "reg_agrees f registry_empty registry_empty" by (simp add: reg_agrees_def registry_empty_def)
  from register_entries_clock [OF this, of E "rp_id pack" "rp_rules pack" t] assms that show thesis
    by (auto simp: build_from_pack_def ok_def option_rel_Some1 elim!: rel_sum.cases)
qed

section \<open>Evaluations\<close>

text \<open>What is left of a result without the identifiers of its violations and the time of its reports.\<close>

abbreviation anon :: "violation \<Rightarrow> violation" where
  "anon v \<equiv> v\<lparr>v_id := 0\<rparr>"

definition anon_report :: "rule_report \<Rightarrow> rule_report" where
  "anon_report r = r\<lparr>rr_evaluated_at := 0, rr_verdict := map_verdict anon (rr_verdict r)\<rparr>"

fun anon_reason :: "decision_reason \<Rightarrow> decision_reason" where
  "anon_reason AllRulesPassed = AllRulesPassed"
| "anon_reason (Warnings vs) = Warnings (map anon vs)"
| "anon_reason (EarlyWarnings vs) = EarlyWarnings (map anon vs)"
| "anon_reason (TargetHitReached v) = TargetHitReached (anon v)"
| "anon_reason (HardViolation v) = HardViolation (anon v)"
| "anon_reason (SoftFailReached v) = SoftFailReached (anon v)"
| "anon_reason (LiquidationRequested v) = LiquidationRequested (anon v)"
| "anon_reason (EmergencyStopReached v) = EmergencyStopReached (anon v)"
| "anon_reason (GapFlaggedReached v) = GapFlaggedReached (anon v)"

definition anon_decision :: "decision \<Rightarrow> decision" where
  "anon_decision d = d\<lparr>d_reason := anon_reason (d_reason d), d_all_violations := map anon (d_all_violations d)\<rparr>"

lemma map_verdict_map: "map_verdict g (map_verdict h v) = map_verdict (\<lambda>x. g (h x)) v"
  by (cases v) simp_all

lemma map_verdict_parts [simp]:
  "verdict_violation (map_verdict g v) = map_option g (verdict_violation v)" "verdict_category (map_verdict g v) = verdict_category v"
  by (cases v; simp)+

lemma failure_redraw: "r_params r' = r_params r \<Longrightarrow> failure_verdict r' (g v) = map_verdict g (failure_verdict r v)"
  by (simp add: failure_verdict_def Let_def)

lemma report_clock:
  assumes "agrees f r r'" "started_at (c_account ctx) \<noteq> None"
  shows "anon_report (rule_report_of (rerun E t f) ctx r') = anon_report (rule_report_of E ctx r)"
proof -
  have "guarded_verdict (rerun E t f) ctx r' = map_verdict (relabel f (ri_name (r_info r))) (guarded_verdict E ctx r)"
    using agrees_same [OF assms(1)] agrees_evaluate [OF assms] failure_redraw [of r' r]
    by (cases "r_evaluate r ctx" rule: res_option_cases) (auto simp: guarded_verdict_def redraw_results redraw_build, auto simp: ok_def err_def redraw_build)
  then show ?thesis using agrees_same [OF assms(1)]
    by (simp add: anon_report_def map_verdict_map rule_report_of_def report_with_metadata_def report_with_priority_def report_new_at_def
        rule_id_def clock_free)
qed

lemma evaluate_rules_clock:
  assumes "list_all2 (agrees f) rs rs'" "started_at (c_account ctx) \<noteq> None"
  shows "map_option (map anon_report) (evaluate_rules (rerun E t f) ctx rs') = map_option (map anon_report) (evaluate_rules E ctx rs)"
  using assms(1)
proof (induction rule: list_all2_induct)
  case (Cons r rs r' rs')
  then show ?case using agrees_same [OF Cons(1)] report_clock [OF Cons(1) assms(2), where E = E and t = t]
    by (cases "r_is_enabled r ctx"; cases "evaluate_rules E ctx rs"; cases "evaluate_rules (rerun E t f) ctx rs'") (auto simp: Let_def)
qed simp

lemma reports_in_anon: "reports_in k (map anon_report reps) = map (map_prod id anon) (reports_in k reps)"
proof (induction reps)
  case (Cons r reps)
  then show ?case by (cases "rr_verdict r") (auto simp: reports_in_def anon_report_def)
qed (simp add: reports_in_def)

lemma all_violations_anon: "all_violations_of (map anon_report reps) = map anon (all_violations_of reps)"
  by (induction reps) (simp_all add: all_violations_of_def List.map_filter_def anon_report_def option.map_sel)

lemma fold_later_anon:
  "fold (\<lambda>y acc. if fst acc \<le> fst y then y else acc) (map (map_prod id g) xs) (map_prod id g x) =
     map_prod id g (fold (\<lambda>y acc. if fst acc \<le> fst y then y else acc) xs (x :: u32 \<times> violation))"
  by (induction xs arbitrary: x) (auto simp: fst_map_prod)

lemma pick_winner_anon: "pick_winner (map (map_prod id g) xs) = map_option (map_prod id g) (pick_winner xs)"
  by (cases xs) (simp_all add: fold_later_anon)

lemma from_reports_anon: "from_reports (map anon_report reps) = anon_decision (from_reports reps)"
  unfolding from_reports_def Let_def reports_in_anon pick_winner_anon all_violations_anon
  by (simp add: anon_decision_def decision_default_def split: option.split prod.split)

end
