(* ===== verification/Pure_Eval.thy ===== *)
theory Pure_Eval
  imports Order_Gate Clock_Free
begin

text \<open>
  The stateless evaluation of \<^verbatim>\<open>src/pure.rs\<close> with its input hash, the content hash of a rule
  pack (\<^verbatim>\<open>src/rulepack.rs\<close>) and the cache of registries per plan (\<^verbatim>\<open>src/registry_cache.rs\<close>). A
  value fed to a hasher is an item of the list that is hashed; the derived hash of a fieldless
  enum is its tag.
\<close>

section \<open>Inputs and verdicts\<close>

datatype equity_source = SrcBrokerReported | SrcEstimated

definition equity_source_parse :: "string \<Rightarrow> equity_source res" where
  "equity_source_parse s =
     (let l = to_lowercase s in
      if l = ''broker_reported'' \<or> l = ''broker'' then Inr SrcBrokerReported
      else if l = ''estimated'' \<or> l = ''estimate'' then Inr SrcEstimated
      else Inl (InvalidConfig (Fmt ''unknown equity_source'' [Lit l])))"

record evaluate_inputs =
  ev_open_positions :: "position list"
  ev_today_trades :: "trade list"
  ev_recent_events :: "domain_event list"
  ev_cross_reference_trades :: "trade list"
  ev_pending_order :: "order option"
  ev_latest_trade :: "trade option"
  ev_latest_tick :: "tick option"
  ev_equity_source :: equity_source

definition inputs_default :: evaluate_inputs where
  "inputs_default =
     \<lparr> ev_open_positions = [], ev_today_trades = [], ev_recent_events = [], ev_cross_reference_trades = [],
       ev_pending_order = None, ev_latest_trade = None, ev_latest_tick = None, ev_equity_source = SrcEstimated \<rparr>"

definition inputs_for_tick :: "position list \<Rightarrow> trade list \<Rightarrow> tick \<Rightarrow> evaluate_inputs" where
  "inputs_for_tick ps ts tk =
     inputs_default\<lparr>ev_open_positions := ps, ev_today_trades := ts, ev_latest_tick := Some tk\<rparr>"

definition with_equity_source :: "evaluate_inputs \<Rightarrow> equity_source \<Rightarrow> evaluate_inputs" where
  "with_equity_source i src = i\<lparr>ev_equity_source := src\<rparr>"

definition with_cross_reference_trades :: "evaluate_inputs \<Rightarrow> trade list \<Rightarrow> evaluate_inputs" where
  "with_cross_reference_trades i ts = i\<lparr>ev_cross_reference_trades := ts\<rparr>"

record pure_verdict =
  pv_decision :: decision
  pv_reports :: "rule_report list"
  pv_input_hash :: string
  pv_pack_version :: u32
  pv_pack_id :: string

definition pv_is_terminating :: "pure_verdict \<Rightarrow> bool" where
  "pv_is_terminating v \<longleftrightarrow> decision_kind_is_terminating (d_kind (pv_decision v))"

definition evaluation_result_of :: "pure_verdict \<Rightarrow> evaluation_result" where
  "evaluation_result_of v = \<lparr> er_reports = pv_reports v, er_decision = pv_decision v \<rparr>"

section \<open>Hashes\<close>

fun hash_opt :: "('a \<Rightarrow> hash_item) \<Rightarrow> 'a option \<Rightarrow> hash_item" where
  "hash_opt f None = HNone"
| "hash_opt f (Some x) = HSome (f x)"

definition content_hash :: "ext \<Rightarrow> rule_pack \<Rightarrow> string" where
  "content_hash E pack = finalize_hex E
     ([HText (rp_id pack), HInt (uint (rp_version pack)), HId (rp_tenant_id pack)]
      @ concat (map (\<lambda>r.
          [HText (en_id r), HText (en_kind r), HTag (rule_basis_display (en_basis r)),
           HTag (rule_unit_display (en_unit r)), HDec (en_value r), HInt (uint (en_priority r)), HBool (en_enabled r),
           hash_opt HInt (en_tolerance_cents r), hash_opt HDec (en_early_warning_pct r), HText (en_params_json r)])
          (rp_rules pack))
      @ [HDec (rp_initial_balance pack), HInt (uint (rp_leverage pack)), HDec (rp_profit_target_pct pack)])"

abbreviation challenge_phase_item :: "challenge_phase \<Rightarrow> hash_item" where
  "challenge_phase_item ph \<equiv> HTag (case ph of Phase1 \<Rightarrow> ''Phase1'' | Phase2 \<Rightarrow> ''Phase2'' | FundedPhase \<Rightarrow> ''Funded'')"

definition hash_plan_into :: "challenge_plan \<Rightarrow> hash_item list" where
  "hash_plan_into p =
     [HDec (initial_balance_money p), HDec (profit_target_pct p), HDec (max_daily_drawdown_pct p),
      HDec (max_total_drawdown_pct p), HTag (loss_reference_display (max_loss_reference p)),
      HBool (drawdown_on_balance p), HBool (trailing_drawdown_enabled p), HDec (trailing_drawdown_pct p),
      HInt (uint (min_trading_days p)), hash_opt (HInt \<circ> uint) (time_limit_days p), HInt (uint (day_reset_time p)),
      hash_opt HDec (max_position_lots p), hash_opt HDec (max_total_lots p),
      hash_opt (HInt \<circ> uint) (max_open_positions p), hash_opt (HInt \<circ> uint) (max_daily_trades p),
      HBool (news_trading_allowed p), HBool (overnight_holding_allowed p), HBool (weekend_holding_allowed p),
      HBool (hedging_allowed p), HBool (grid_trading_allowed p), HBool (copy_trading_allowed p),
      HBool (require_stop_loss p), HBool (require_take_profit p), hash_opt HDec (consistency_pct p),
      HInt (uint (cooldown_seconds p)), HInt (uint (leverage p)),
      hash_opt (\<lambda>(s, e). HPair (HInt (uint s)) (HInt (uint e))) (trading_hours p),
      hash_opt HDec (per_trade_max_loss_pct p), hash_opt HDec (per_trade_max_loss_money p),
      HBool (hft_ban_enabled p), HInt (uint (hft_min_round_trip_seconds p)),
      hash_opt (HInt \<circ> uint) (inactivity_days p), challenge_phase_item (plan_phase p),
      HBool (timezone p \<noteq> None), HBool (refundable p), HDec (refund_fee_amount p),
      HBool (plan_payout_config p \<noteq> None)]"

abbreviation account_items :: "account \<Rightarrow> hash_item list" where
  "account_items a \<equiv>
     [HId (acc_id a), HId (tenant_id a),
      HTag (case account_type a of TPhase1 \<Rightarrow> ''Phase1'' | TPhase2 \<Rightarrow> ''Phase2'' | TFunded \<Rightarrow> ''Funded'' | TDemo \<Rightarrow> ''Demo''),
      HDec (balance a), HDec (equity a), HDec (estimated_equity a), HDec (estimated_balance a),
      HDec (peak_balance a), HDec (peak_equity a), HDec (day_start_balance a), HDec (day_start_equity a),
      HDec (total_realized_pnl a), HDec (today_realized_pnl a), HDec (total_commissions a), HDec (total_swaps a),
      HDec (largest_day_profit a), HDec (largest_day_loss a), HDec (sum_positive_days_profit a),
      HInt (uint (active_trading_days a)), HInt (uint (trading_day_index a)), HBool (day_counted_today a),
      hash_opt HInt (target_reached_at a), hash_opt (HInt \<circ> uint) (target_reached_on_day a),
      HTag (case status a of Pending \<Rightarrow> ''Pending'' | Active \<Rightarrow> ''Active'' | TargetHitPending \<Rightarrow> ''TargetHitPending''
              | Passed \<Rightarrow> ''Passed'' | Failed \<Rightarrow> ''Failed'' | Funded \<Rightarrow> ''Funded'' | PayoutPending \<Rightarrow> ''PayoutPending''
              | Closed \<Rightarrow> ''Closed'' | EmergencyStopped \<Rightarrow> ''EmergencyStopped''),
      HInt (uint (version a)), hash_opt HInt (last_tick_ts a), hash_opt HInt (last_trade_at a)]"

abbreviation order_side_item :: "order_side \<Rightarrow> hash_item" where
  "order_side_item s \<equiv> HTag (case s of Buy \<Rightarrow> ''Buy'' | Sell \<Rightarrow> ''Sell'')"

abbreviation position_items :: "position \<Rightarrow> hash_item list" where
  "position_items p \<equiv>
     [HId (p_id p), HText (p_symbol p), HTag (case p_side p of Long \<Rightarrow> ''Long'' | Short \<Rightarrow> ''Short''),
      HDec (p_open_quantity p), HDec (p_avg_entry_price p)]"

abbreviation today_trade_items :: "trade \<Rightarrow> hash_item list" where
  "today_trade_items t \<equiv>
     [HId (t_id t), HText (t_symbol t), order_side_item (t_side t), HDec (t_price t), HDec (t_quantity t),
      HInt (t_executed_at t)]"

abbreviation reference_trade_items :: "trade \<Rightarrow> hash_item list" where
  "reference_trade_items t \<equiv>
     [HId (t_id t), HId (t_account_id t), HText (t_symbol t), HDec (t_price t), HDec (t_quantity t)]"

definition compute_input_hash ::
  "ext \<Rightarrow> account \<Rightarrow> rule_pack \<Rightarrow> rule_context_kind \<Rightarrow> timestamp \<Rightarrow> evaluate_inputs \<Rightarrow> string" where
  "compute_input_hash E a pack k server_time i = finalize_hex E
     (account_items a
      @ hash_plan_into (plan a)
      @ [HText (content_hash E pack), HInt server_time, HText (context_kind_display k)]
      @ concat (map position_items (ev_open_positions i))
      @ concat (map today_trade_items (ev_today_trades i))
      @ concat (map reference_trade_items (ev_cross_reference_trades i))
      @ [HTag (case ev_equity_source i of SrcBrokerReported \<Rightarrow> ''BrokerReported'' | SrcEstimated \<Rightarrow> ''Estimated'')]
      @ (case ev_pending_order i of None \<Rightarrow> []
         | Some ord \<Rightarrow> [HId (o_id ord), HText (o_symbol ord), order_side_item (o_side ord), HDec (o_quantity ord),
                       HInt (o_submitted_at ord)])
      @ (case ev_latest_trade i of None \<Rightarrow> [] | Some t \<Rightarrow> [HId (t_id t), HInt (t_executed_at t)])
      @ (case ev_latest_tick i of None \<Rightarrow> []
         | Some tk \<Rightarrow> [HText (tk_symbol tk), HDec (q_bid (tk_quote tk)), HDec (q_ask (tk_quote tk)),
                      HInt (q_ts (tk_quote tk))]))"

section \<open>Stateless evaluation\<close>

definition pure_context ::
  "ext \<Rightarrow> account \<Rightarrow> rule_context_kind \<Rightarrow> timestamp \<Rightarrow> evaluate_inputs \<Rightarrow> rule_context" where
  "pure_context E a k server_time i =
     (let ctx = (context_new (utc_now E) a)\<lparr>c_kind := k, c_open_positions := ev_open_positions i,
                  c_today_trades := ev_today_trades i, c_recent_events := ev_recent_events i,
                  c_cross_reference_trades := ev_cross_reference_trades i,
                  c_rule_config := rule_config_from_plan (plan a), c_server_time := server_time\<rparr>;
          ctx1 = (case ev_equity_source i of
                    SrcBrokerReported \<Rightarrow> with_broker_equity ctx (equity a) (balance a)
                  | SrcEstimated \<Rightarrow> with_estimated_equity ctx (equity a) (balance a)) in
      ctx1\<lparr>c_pending_order := ev_pending_order i, c_latest_trade := ev_latest_trade i,
           c_latest_tick := ev_latest_tick i\<rparr>)"

definition pure_evaluate ::
  "ext \<Rightarrow> registry \<Rightarrow> account \<Rightarrow> rule_pack \<Rightarrow> rule_context_kind \<Rightarrow> timestamp \<Rightarrow> evaluate_inputs \<Rightarrow> pure_verdict res option" where
  "pure_evaluate E reg a pack k server_time i =
     (let ctx = pure_context E a k server_time i;
          input_hash = compute_input_hash E a pack k server_time i in
      try_op (registry_evaluate E reg ctx) (\<lambda>reports.
        ok \<lparr> pv_decision = from_reports reports, pv_reports = reports, pv_input_hash = input_hash,
             pv_pack_version = rp_version pack, pv_pack_id = rp_id pack \<rparr>))"

section \<open>Registry cache\<close>

definition plan_key_items :: "challenge_plan \<Rightarrow> hash_item list" where
  "plan_key_items p =
     [HDec (initial_balance_money p), HDec (profit_target_pct p), HDec (max_daily_drawdown_pct p),
      HDec (max_total_drawdown_pct p), HTag (loss_reference_display (max_loss_reference p)),
      HBool (drawdown_on_balance p), HBool (trailing_drawdown_enabled p), HDec (trailing_drawdown_pct p),
      HInt (uint (min_trading_days p)), hash_opt (HInt \<circ> uint) (time_limit_days p), HInt (uint (day_reset_time p)),
      hash_opt HDec (max_position_lots p), hash_opt HDec (max_total_lots p),
      hash_opt (HInt \<circ> uint) (max_open_positions p), hash_opt (HInt \<circ> uint) (max_daily_trades p),
      HBool (news_trading_allowed p), HBool (overnight_holding_allowed p), HBool (weekend_holding_allowed p),
      HBool (hedging_allowed p), HBool (grid_trading_allowed p), HBool (copy_trading_allowed p),
      HBool (require_stop_loss p), HBool (require_take_profit p), hash_opt HDec (consistency_pct p),
      HInt (uint (cooldown_seconds p)), HInt (uint (leverage p)),
      hash_opt (\<lambda>(s, e). HPair (HInt (uint s)) (HInt (uint e))) (trading_hours p),
      hash_opt HDec (per_trade_max_loss_pct p), hash_opt HDec (per_trade_max_loss_money p),
      HBool (hft_ban_enabled p), HInt (uint (hft_min_round_trip_seconds p)),
      hash_opt (HInt \<circ> uint) (inactivity_days p), challenge_phase_item (plan_phase p),
      HBool (timezone p \<noteq> None), HBool (plan_payout_config p \<noteq> None), HBool (refundable p),
      HDec (refund_fee_amount p)]"

definition plan_cache_key :: "ext \<Rightarrow> challenge_plan \<Rightarrow> u64" where
  "plan_cache_key E p = sip_hash E (plan_key_items p)"

text \<open>
  The cache is a value of the process. Its lock is taken twice, for the lookup and for the
  insertion of a registry built in between.
\<close>

definition get_or_build :: "ext \<Rightarrow> (u64 \<rightharpoonup> registry) \<Rightarrow> challenge_plan \<Rightarrow> ((u64 \<rightharpoonup> registry) \<times> registry) option" where
  "get_or_build E cache p =
     (case cache (plan_cache_key E p) of
        Some reg \<Rightarrow> Some (cache, reg)
      | None \<Rightarrow> do {
          reg \<leftarrow> with_default_rules_for_plan E p;
          Some (cache(plan_cache_key E p \<mapsto> reg), reg) })"

section \<open>Specification\<close>

text \<open>The registries served to a sequence of plans.\<close>

definition cache_after :: "ext \<Rightarrow> challenge_plan list \<Rightarrow> (u64 \<rightharpoonup> registry) option" where
  "cache_after E ps = foldo (\<lambda>cache p. map_option fst (get_or_build E cache p)) Map.empty ps"

text \<open>The three settings that decide which rules a plan gets and that the key of the cache leaves out.\<close>

definition same_unkeyed :: "challenge_plan \<Rightarrow> challenge_plan \<Rightarrow> bool" where
  "same_unkeyed p q \<longleftrightarrow> (min_profitable_days p = None \<longleftrightarrow> min_profitable_days q = None)
     \<and> cross_account_hedging_prohibited p = cross_account_hedging_prohibited q
     \<and> (lowcap_exposure_limit_pct p = None \<longleftrightarrow> lowcap_exposure_limit_pct q = None)"

text \<open>Another reading of the clock, and a pack with a time limit of one day, for accounts that were never started.\<close>

abbreviation clocked :: "ext \<Rightarrow> timestamp \<Rightarrow> ext" where
  "clocked E t \<equiv> E\<lparr>utc_now := t\<rparr>"

definition time_pack :: rule_pack where
  "time_pack = demo_pack\<lparr>rp_rules := [rule_entry_new ''limit'' ''time_limit'' 1]\<rparr>"

abbreviation time_params :: rule_params where
  "time_params \<equiv> params_from_entry (rule_entry_new ''limit'' ''time_limit'' 1)"

section \<open>Determinism\<close>

lemma pure_context_simps [simp]:
  "c_account (pure_context E a k now i) = a" "c_kind (pure_context E a k now i) = k"
  "c_open_positions (pure_context E a k now i) = ev_open_positions i"
  "c_today_trades (pure_context E a k now i) = ev_today_trades i"
  "c_pending_order (pure_context E a k now i) = ev_pending_order i"
  "c_instruments (pure_context E a k now i) = Map.empty" "c_server_time (pure_context E a k now i) = now"
  "c_rule_config (pure_context E a k now i) = rule_config_from_plan (plan a)"
  "is_broker_reported (c_equity_input (pure_context E a k now i)) \<longleftrightarrow> ev_equity_source i = SrcBrokerReported"
  by (simp_all add: pure_context_def context_new_def with_broker_equity_def with_estimated_equity_def Let_def
      split: equity_source.split)

lemma pure_clock [clock_free]:
  "pure_context (rerun E t f) a k now i = pure_context E a k now i"
  "compute_input_hash (rerun E t f) a pack k now i = compute_input_hash E a pack k now i"
  by (simp_all add: pure_context_def context_new_def with_broker_equity_def with_estimated_equity_def Let_def
      compute_input_hash_def content_hash_def finalize_hex_def split: equity_source.split)

text \<open>Two verdicts that are the same but for the identifiers of violations and the times of reports.\<close>

definition same_verdict :: "pure_verdict \<Rightarrow> pure_verdict \<Rightarrow> bool" where
  "same_verdict v v' \<longleftrightarrow> anon_decision (pv_decision v') = anon_decision (pv_decision v)
     \<and> map anon_report (pv_reports v') = map anon_report (pv_reports v) \<and> pv_input_hash v' = pv_input_hash v
     \<and> pv_pack_version v' = pv_pack_version v \<and> pv_pack_id v' = pv_pack_id v"

lemma pure_evaluate_clock:
  assumes "reg_agrees f reg reg'" "started_at a \<noteq> None" "pure_evaluate E reg a pack k now i = ok v"
  obtains v' where "pure_evaluate (rerun E t f) reg' a pack k now i = ok v'" "same_verdict v v'"
proof -
  let ?ctx = "pure_context E a k now i"
  have "list_all2 (agrees f) (reg_rules reg) (reg_rules reg')" using assms(1) by (simp add: reg_agrees_def)
  from evaluate_rules_clock [OF this, where ctx = ?ctx and E = E and t = t] assms(2)
  have eq: "map_option (map anon_report) (evaluate_rules (rerun E t f) ?ctx (reg_rules reg')) =
      map_option (map anon_report) (evaluate_rules E ?ctx (reg_rules reg))" by simp
  obtain reps where reps: "evaluate_rules E ?ctx (reg_rules reg) = Some reps"
      "v = \<lparr> pv_decision = from_reports reps, pv_reports = reps, pv_input_hash = compute_input_hash E a pack k now i,
             pv_pack_version = rp_version pack, pv_pack_id = rp_id pack \<rparr>"
    using assms(3) by (auto simp: pure_evaluate_def registry_evaluate_def Let_def run_simps)
  then obtain reps' where reps': "evaluate_rules (rerun E t f) ?ctx (reg_rules reg') = Some reps'" "map anon_report reps' = map anon_report reps"
    using eq by (cases "evaluate_rules (rerun E t f) ?ctx (reg_rules reg')") auto
  have "anon_decision (from_reports reps') = anon_decision (from_reports reps)" by (simp only: from_reports_anon [symmetric] reps'(2))
  then show thesis using reps reps' that
    by (simp add: pure_evaluate_def registry_evaluate_def Let_def clock_free same_verdict_def)
qed

text \<open>
  C20. A verdict can be recomputed from its recorded inputs. For an account that was started,
  evaluating the same inputs against the same rule pack in another run, at any other
  wall-clock time and with any other random identifiers, returns the same decision with the
  same reason and violations and the same reports, up to the identifiers of the violations
  and the times of the reports, and exactly the same input hash.
\<close>

theorem verdict_recomputable:
  assumes "build_from_pack E pack = ok reg" "started_at a \<noteq> None" "pure_evaluate E reg a pack k now i = ok v"
  shows "\<exists>reg' v'. build_from_pack (rerun E t f) pack = ok reg'
           \<and> pure_evaluate (rerun E t f) reg' a pack k now i = ok v' \<and> same_verdict v v'"
proof -
  obtain reg' where reg': "build_from_pack (rerun E t f) pack = ok reg'" "reg_agrees f reg reg'"
    by (rule build_from_pack_clock [OF assms(1)])
  obtain v' where "pure_evaluate (rerun E t f) reg' a pack k now i = ok v'" "same_verdict v v'"
    by (rule pure_evaluate_clock [OF reg'(2) assms(2,3)])
  with reg'(1) show ?thesis by blast
qed

lemma pure_evaluate_returns:
  assumes "list_all (\<lambda>r. r_is_enabled r (pure_context E a k now i) \<noteq> None) (reg_rules reg)"
  obtains v where "pure_evaluate E reg a pack k now i = ok v"
proof -
  have "\<exists>reps. evaluate_rules E ctx rs = Some reps" if "list_all (\<lambda>r. r_is_enabled r ctx \<noteq> None) rs" for ctx rs
    using that by (induction rs) auto
  from this [OF assms] that show thesis by (auto simp: pure_evaluate_def registry_evaluate_def Let_def)
qed

lemma pure_evaluate_single:
  assumes "r_is_enabled r (pure_context E a k now i) = Some True" "evaluate_applicable k (r_scope r)"
    and "r_evaluate r (pure_context E a k now i) = ok verdict"
  shows "\<exists>v. pure_evaluate E \<lparr> reg_rules = [r], reg_by_id = m \<rparr> a pack k now i = ok v
           \<and> (pv_is_terminating v \<longleftrightarrow> is_terminating verdict) \<and> pv_input_hash v = compute_input_hash E a pack k now i"
proof -
  let ?rep = "rule_report_of E (pure_context E a k now i) r"
  have "rr_verdict ?rep = verdict" using assms(3)
    by (simp add: rule_report_of_def report_with_metadata_def report_with_priority_def report_new_at_def guarded_verdict_def ok_def)
  then show ?thesis using assms(1,2) terminates_iff_report [of "[?rep]"]
    by (simp add: pure_evaluate_def registry_evaluate_def pv_is_terminating_def Let_def)
qed

lemma demo_pack_registry:
  "build_from_pack E demo_pack = ok \<lparr> reg_rules = [daily_drawdown_rule E (Some (params_from_entry (rule_entry_new ''loose'' ''daily_drawdown'' (9/100))))],
     reg_by_id = [rule_id_named E ''daily_drawdown'' \<mapsto> 0] \<rparr>"
  by (simp add: build_from_pack_def demo_pack_def rule_entry_new_def default_factory_for_kind_def factory_table_def
      registry_register_def registry_empty_def rule_id_def daily_drawdown_rule_def Let_def)

theorem verdict_recomputable_witness:
  "\<exists>reg reg' v v'. build_from_pack (exact_env 0) demo_pack = ok reg
     \<and> pure_evaluate (exact_env 0) reg (demo_account\<lparr>started_at := Some 0\<rparr>) demo_pack OnTick 5 inputs_default = ok v
     \<and> build_from_pack (rerun (exact_env 0) 9 (\<lambda>s. 1)) demo_pack = ok reg'
     \<and> pure_evaluate (rerun (exact_env 0) 9 (\<lambda>s. 1)) reg' (demo_account\<lparr>started_at := Some 0\<rparr>) demo_pack OnTick 5 inputs_default = ok v'
     \<and> same_verdict v v'"
proof -
  let ?a = "demo_account\<lparr>started_at := Some 0\<rparr>"
  obtain reg where reg: "build_from_pack (exact_env 0) demo_pack = ok reg"
    "list_all (\<lambda>r. r_is_enabled r (pure_context (exact_env 0) ?a OnTick 5 inputs_default) \<noteq> None) (reg_rules reg)"
    using demo_pack_registry [of "exact_env 0"] by (simp add: daily_drawdown_rule_def daily_drawdown_is_enabled_def)
  obtain v where v: "pure_evaluate (exact_env 0) reg ?a demo_pack OnTick 5 inputs_default = ok v"
    by (rule pure_evaluate_returns [OF reg(2)])
  have "started_at ?a \<noteq> None" by simp
  from verdict_recomputable [OF reg(1) this v, where t = 9 and f = "\<lambda>s. 1"] reg(1) v show ?thesis by blast
qed

lemma time_pack_registry:
  "build_from_pack E time_pack =
     ok \<lparr> reg_rules = [time_limit_rule E (Some time_params)], reg_by_id = [rule_id_named E ''time_limit'' \<mapsto> 0] \<rparr>"
  by (simp add: build_from_pack_def time_pack_def rule_entry_new_def default_factory_for_kind_def factory_table_def
      registry_register_def registry_empty_def rule_id_def time_limit_rule_def Let_def)

lemma clocked_hash: "compute_input_hash (clocked E t) a pack k now i = compute_input_hash E a pack k now i"
  by (simp add: compute_input_hash_def content_hash_def finalize_hex_def)

lemma time_pack_verdict:
  assumes "started_at (c_account ctx) = None" "c_server_time ctx = 2 * day_ns"
  obtains v where "time_limit_evaluate (clocked (exact_env 0) t) (Some time_params) ctx = ok v" "is_terminating v \<longleftrightarrow> t < day_ns"
proof -
  have "effective_deadline (clocked (exact_env 0) t) (Some time_params) ctx = ok (Some (t + day_ns))"
    using assms(1) by (simp add: effective_deadline_def params_from_entry_def rule_entry_new_def ok_or_def exact_env_def)
  then show thesis using assms that by (cases "t < day_ns") (simp_all add: time_limit_evaluate_def Let_def)
qed

lemma time_pack_pure:
  obtains v where "pure_evaluate (clocked (exact_env 0) t)
      \<lparr> reg_rules = [time_limit_rule (clocked (exact_env 0) t) (Some time_params)],
        reg_by_id = [rule_id_named (clocked (exact_env 0) t) ''time_limit'' \<mapsto> 0] \<rparr>
      demo_account time_pack OnTick (2 * day_ns) inputs_default = ok v"
    "pv_is_terminating v \<longleftrightarrow> t < day_ns"
    "pv_input_hash v = compute_input_hash (exact_env 0) demo_account time_pack OnTick (2 * day_ns) inputs_default"
proof -
  let ?E = "clocked (exact_env 0) t"
  let ?ctx = "pure_context ?E demo_account OnTick (2 * day_ns) inputs_default" and ?r = "time_limit_rule ?E (Some time_params)"
  have "started_at (c_account ?ctx) = None" "c_server_time ?ctx = 2 * day_ns" by (simp_all add: account_new_def Let_def)
  then obtain v where v: "time_limit_evaluate ?E (Some time_params) ?ctx = ok v" "is_terminating v \<longleftrightarrow> t < day_ns"
    by (rule time_pack_verdict)
  have "r_is_enabled ?r ?ctx = Some True" "evaluate_applicable OnTick (r_scope ?r)" "r_evaluate ?r ?ctx = ok v"
    using v(1) by (simp_all add: time_limit_rule_def time_limit_is_enabled_def params_from_entry_def rule_entry_new_def
      evaluate_applicable_def)
  from pure_evaluate_single [OF this, where m = "[rule_id_named ?E ''time_limit'' \<mapsto> 0]" and pack = time_pack] v(2)
  show thesis unfolding clocked_hash by (auto intro: that)
qed

text \<open>
  Without a start the deadline of a pack moves with the clock. An account that was never
  started, evaluated at the same server time against the same pack, is terminated by a
  one-day time limit when the host's clock is two days behind the server time and passes
  when it is not, although both verdicts carry the same input hash.
\<close>

lemma unstarted_deadline_reads_clock:
  "\<exists>reg reg' v v'. build_from_pack (exact_env 0) time_pack = ok reg
     \<and> pure_evaluate (exact_env 0) reg demo_account time_pack OnTick (2 * day_ns) inputs_default = ok v
     \<and> build_from_pack (clocked (exact_env 0) (2 * day_ns)) time_pack = ok reg'
     \<and> pure_evaluate (clocked (exact_env 0) (2 * day_ns)) reg' demo_account time_pack OnTick (2 * day_ns) inputs_default = ok v'
     \<and> pv_input_hash v = pv_input_hash v' \<and> pv_is_terminating v \<and> \<not> pv_is_terminating v'"
proof -
  have zero: "clocked (exact_env 0) 0 = exact_env 0" by (simp add: exact_env_def)
  have "(0 :: int) < day_ns" "\<not> 2 * day_ns < day_ns" by (simp_all add: day_ns_def)
  then show ?thesis
    using time_pack_registry time_pack_pure [of 0, unfolded zero] time_pack_pure [of "2 * day_ns"] by metis
qed

section \<open>Orders\<close>

interpretation pure_gate: order_gate "pure_context E a OnOrderSubmit now (i\<lparr>ev_pending_order := Some ord\<rparr>)"
    a ord "ev_open_positions i" "ev_today_trades i" for E a now i ord
  by unfold_locales simp_all

lemma pure_order_verdict:
  assumes "with_default_rules E = Some reg" "hashes_distinct E"
  obtains v where "pure_evaluate E reg a pack OnOrderSubmit now (i\<lparr>ev_pending_order := Some ord\<rparr>) = ok v"
    "pv_is_terminating v \<longleftrightarrow> order_refused E a ord (ev_open_positions i) (ev_today_trades i)"
proof -
  let ?ctx = "pure_context E a OnOrderSubmit now (i\<lparr>ev_pending_order := Some ord\<rparr>)"
  obtain reg' where "with_default_rules E = Some reg'" "reg_rules reg' = default_rules E"
    by (rule default_library [OF assms(2)])
  then have rules: "reg_rules reg = default_rules E" using assms(1) by simp
  obtain reps where reps: "registry_evaluate E reg ?ctx = ok reps" by (rule default_library_evaluate [OF rules])
  then have "evaluator_evaluate E reg ?ctx = ok \<lparr> er_reports = reps, er_decision = from_reports reps \<rparr>"
    by (simp add: evaluator_evaluate_def)
  note fails = pure_gate.fails_iff [OF rules this]
  obtain v where v: "pure_evaluate E reg a pack OnOrderSubmit now (i\<lparr>ev_pending_order := Some ord\<rparr>) = ok v"
      "pv_decision v = from_reports reps"
    using reps by (simp add: pure_evaluate_def Let_def)
  have "pv_is_terminating v \<longleftrightarrow> order_refused E a ord (ev_open_positions i) (ev_today_trades i)"
    using fails v(2) by (simp add: pv_is_terminating_def er_failed_def)
  with v(1) show thesis by (rule that)
qed



lemma inputs_default_simps: "ev_open_positions inputs_default = []" "ev_today_trades inputs_default = []"
  by (simp_all add: inputs_default_def)

lemma protected_order_allowed:
  "\<not> order_refused (exact_env 0) strict_account (demo_order\<lparr>o_stop_loss := Some 1\<rparr>) [] []"
proof -
  have news: "within_news_window (exact_env 0) 0 2 = Some None"
    by (simp add: within_news_window_def builtin_events_def news_delta_def exact_env_def weekday_of_def day_ns_def
        hour_ns_def trunc_div_def)
  have plan: "plan strict_account = (plan_default 3 0)\<lparr>require_stop_loss := True\<rparr>"
    by (simp add: strict_account_def account_new_def Let_def)
  show ?thesis unfolding order_refused_def Let_def plan
    by (simp add: news demo_order_def order_market_open_def plan_default_def units_to_lots_def instruments_get_def
        instrument_default_def total_lots_of_def usize_as_u32_def)
qed

text \<open>
  Equal input hashes do not mean equal verdicts. The hash leaves the stop-loss of a pending
  order out, so an order without one and the same order with one have the same input hash,
  and under a plan that requires a stop-loss the first terminates the account and the second
  does not.
\<close>

lemma input_hash_misses_stop_loss:
  "\<exists>reg v v'. with_default_rules (exact_env 0) = Some reg
     \<and> pure_evaluate (exact_env 0) reg strict_account demo_pack OnOrderSubmit 5
         (inputs_default\<lparr>ev_pending_order := Some demo_order\<rparr>) = ok v
     \<and> pure_evaluate (exact_env 0) reg strict_account demo_pack OnOrderSubmit 5
         (inputs_default\<lparr>ev_pending_order := Some (demo_order\<lparr>o_stop_loss := Some 1\<rparr>)\<rparr>) = ok v'
     \<and> pv_input_hash v = pv_input_hash v' \<and> pv_is_terminating v \<and> \<not> pv_is_terminating v'"
proof -
  obtain reg where reg: "with_default_rules (exact_env 0) = Some reg" by (rule default_library [OF exact_env_hashes])
  let ?i = "\<lambda>ord. inputs_default\<lparr>ev_pending_order := Some ord\<rparr>" and ?safe = "demo_order\<lparr>o_stop_loss := Some 1\<rparr>"
  obtain v where v: "pure_evaluate (exact_env 0) reg strict_account demo_pack OnOrderSubmit 5 (?i demo_order) = ok v"
      "pv_is_terminating v \<longleftrightarrow> order_refused (exact_env 0) strict_account demo_order [] []"
    by (rule pure_order_verdict [OF reg exact_env_hashes, where i = inputs_default, unfolded inputs_default_simps])
  obtain v' where v': "pure_evaluate (exact_env 0) reg strict_account demo_pack OnOrderSubmit 5 (?i ?safe) = ok v'"
      "pv_is_terminating v' \<longleftrightarrow> order_refused (exact_env 0) strict_account ?safe [] []"
    by (rule pure_order_verdict [OF reg exact_env_hashes, where i = inputs_default, unfolded inputs_default_simps])
  have "compute_input_hash E a pack k now (?i ?safe) = compute_input_hash E a pack k now (?i demo_order)" for E a pack k now
    by (simp add: compute_input_hash_def inputs_default_def)
  then have "pv_input_hash v = pv_input_hash v'" using v(1) v'(1) by (auto simp: pure_evaluate_def run_simps)
  then show ?thesis using reg v v' demo_order_refused protected_order_allowed by blast
qed

section \<open>The cache\<close>

lemma same_key_same_library:
  assumes "plan_key_items p = plan_key_items q" "same_unkeyed p q"
  shows "with_default_rules_for_plan E p = with_default_rules_for_plan E q"
proof -
  have k: "hft_ban_enabled p = hft_ban_enabled q" "hedging_allowed p = hedging_allowed q"
      "grid_trading_allowed p = grid_trading_allowed q" "copy_trading_allowed p = copy_trading_allowed q"
      "news_trading_allowed p = news_trading_allowed q" "uint (cooldown_seconds p) = uint (cooldown_seconds q)"
    and o: "hash_opt HDec (per_trade_max_loss_pct p) = hash_opt HDec (per_trade_max_loss_pct q)"
      "hash_opt HDec (per_trade_max_loss_money p) = hash_opt HDec (per_trade_max_loss_money q)"
      "hash_opt (HInt \<circ> uint) (inactivity_days p) = hash_opt (HInt \<circ> uint) (inactivity_days q)"
    using assms(1) by (simp_all add: plan_key_items_def)
  have "hash_opt f x = hash_opt f y \<Longrightarrow> x = None \<longleftrightarrow> y = None" for f :: "'a \<Rightarrow> hash_item" and x y
    by (cases x; cases y) auto
  note none = this [OF o(1)] this [OF o(2)] this [OF o(3)]
  have "plan_drops_rule E p = plan_drops_rule E q"
    using assms(2) by (simp add: fun_eq_iff plan_drops_rule_def same_unkeyed_def k none word_uint_eq_iff)
  then show ?thesis by (simp add: with_default_rules_for_plan_def)
qed

lemma cache_inv:
  assumes "cache_after E ps = Some cache" "cache key = Some reg"
  shows "\<exists>q \<in> set ps. key = plan_cache_key E q \<and> with_default_rules_for_plan E q = Some reg"
  using assms
proof (induction ps arbitrary: cache rule: rev_induct)
  case (snoc p ps)
  then obtain c r where c: "cache_after E ps = Some c" "get_or_build E c p = Some (cache, r)"
    by (auto simp: cache_after_def foldo_append run_simps)
  then show ?case using snoc.IH [OF c(1)] snoc.prems(2)
    by (auto simp: get_or_build_def run_simps split: option.split_asm if_split_asm)
qed (simp add: cache_after_def)

text \<open>
  The cache serves the right rules when the settings outside its key agree. After any
  sequence of lookups of plans whose keys do not collide and that agree on the three
  settings the key leaves out, a lookup returns, from the cache or not, exactly the
  registry that building it for the plan would give.
\<close>

lemma cache_serves_plan:
  assumes "cache_after E ps = Some cache" "get_or_build E cache p = Some (cache', reg)"
    and "inj_on (sip_hash E) (plan_key_items ` set (p # ps))" "\<forall>q \<in> set ps. same_unkeyed q p"
  shows "with_default_rules_for_plan E p = Some reg"
proof (cases "cache (plan_cache_key E p)")
  case None
  then show ?thesis using assms(2) by (auto simp: get_or_build_def run_simps)
next
  case (Some r)
  then obtain q where q: "q \<in> set ps" "plan_cache_key E p = plan_cache_key E q" "with_default_rules_for_plan E q = Some r"
    using cache_inv [OF assms(1)] by blast
  then have "plan_key_items q = plan_key_items p"
    using assms(3) by (auto simp: plan_cache_key_def inj_on_def)
  then have "with_default_rules_for_plan E q = with_default_rules_for_plan E p"
    using same_key_same_library assms(4) q(1) by blast
  moreover have "r = reg" using Some assms(2) by (simp add: get_or_build_def)
  ultimately show ?thesis using q(3) by simp
qed

lemma plan_library_lookup:
  assumes "hashes_distinct E" "k \<in> set library_keys"
  obtains reg where "with_default_rules_for_plan E p = Some reg"
    "registry_get reg (rule_id_named E k) = Some None \<longleftrightarrow> plan_drops_key p k"
proof -
  let ?rs = "filter (\<lambda>r. \<not> plan_drops_rule E p (rule_id E r)) (default_rules E)"
  have d: "distinct (map (rule_id E) (default_rules E))" by (rule default_rules_distinct [OF assms(1)])
  obtain reg where reg: "with_default_rules_for_plan E p = Some reg" "reg_ok E reg" "reg_rules reg = ?rs"
    using register_all_distinct [OF distinct_map_filter [OF d]] by (auto simp: with_default_rules_for_plan_def)
  have mem: "rule_id_named E k \<in> rule_id E ` set (default_rules E)"
    using assms(2) by (auto simp: rule_id_def default_rules_keys [of E, symmetric])
  have "registry_get reg (rule_id_named E k) = Some (find (\<lambda>r. rule_id E r = rule_id_named E k) ?rs)"
    using rules.get_items [OF reg(2)] reg(3) by simp
  moreover have "find (\<lambda>r. rule_id E r = rule_id_named E k) ?rs = None \<longleftrightarrow> plan_drops_rule E p (rule_id_named E k)"
    using mem by (auto simp: find_None_iff)
  ultimately show thesis using that [OF reg(1)] plan_drops_rule_key [OF assms] by simp
qed

text \<open>
  C39. The cache can hand a plan the rules of another one. Whenever a plan without a minimum
  number of profitable days is looked up first, the lookup for the same plan with such a
  minimum is answered from the cache with a registry that lacks the rule, which the registry
  built for that plan has.
\<close>

theorem cache_loses_rule:
  assumes "hashes_distinct E" "min_profitable_days p = None"
  shows "\<exists>cache reg fresh. get_or_build E Map.empty p = Some (cache, reg)
           \<and> get_or_build E cache (p\<lparr>min_profitable_days := Some n\<rparr>) = Some (cache, reg)
           \<and> with_default_rules_for_plan E (p\<lparr>min_profitable_days := Some n\<rparr>) = Some fresh
           \<and> registry_get reg (rule_id_named E ''min_profitable_days'') = Some None
           \<and> registry_get fresh (rule_id_named E ''min_profitable_days'') \<noteq> Some None"
proof -
  let ?k = "''min_profitable_days''" and ?q = "p\<lparr>min_profitable_days := Some n\<rparr>"
  have k: "?k \<in> set library_keys" by (simp add: library_keys_def)
  obtain reg where reg: "with_default_rules_for_plan E p = Some reg" "registry_get reg (rule_id_named E ?k) = Some None"
    by (rule plan_library_lookup [OF assms(1) k, of p]) (simp add: plan_drops_key_def assms(2))
  obtain fresh where fresh: "with_default_rules_for_plan E ?q = Some fresh" "registry_get fresh (rule_id_named E ?k) \<noteq> Some None"
    by (rule plan_library_lookup [OF assms(1) k, of ?q]) (simp add: plan_drops_key_def)
  have "plan_cache_key E ?q = plan_cache_key E p" by (simp add: plan_cache_key_def plan_key_items_def)
  then show ?thesis using reg fresh by (simp add: get_or_build_def)
qed

theorem cache_loses_rule_witness:
  "\<exists>cache reg. get_or_build (exact_env 0) Map.empty (plan_default 3 0) = Some (cache, reg)
     \<and> get_or_build (exact_env 0) cache ((plan_default 3 0)\<lparr>min_profitable_days := Some 5\<rparr>) = Some (cache, reg)
     \<and> registry_get reg (rule_id_named (exact_env 0) ''min_profitable_days'') = Some None"
proof -
  have "min_profitable_days (plan_default 3 0) = None" by (simp add: plan_default_def)
  from cache_loses_rule [OF exact_env_hashes this, of 0 5] show ?thesis by blast
qed

end
