(* ===== verification/Idempotency.thy ===== *)
theory Idempotency
  imports Concrete_Env "HOL-Library.AList"
begin

text \<open>
  The idempotency store of \<^verbatim>\<open>src/api/idempotency.rs\<close>: a bounded map from the composite key of
  tenant, endpoint and client key to the hash of the request body and its first response.
  Every operation holds the lock of the store, so concurrent clients are a sequence of
  operations. The readings of the monotonic clock are arguments: one when expired entries
  are pruned, a second one when an entry is inserted.
\<close>

section \<open>The store\<close>

datatype idempotency_outcome = Fresh | Replay string | Conflict | OutcomeError

record idem_entry =
  ie_body_hash :: string
  ie_response :: string
  ie_inserted_at :: int

text \<open>The keys in their order of insertion, the oldest first.\<close>

record idem_inner =
  in_entries :: "(string \<times> idem_entry) list"
  in_order :: "string list"

record idem_store =
  st_inner :: idem_inner
  st_capacity :: nat
  st_ttl :: int

definition idem_new :: "nat \<Rightarrow> int \<Rightarrow> idem_store" where
  "idem_new capacity ttl = \<lparr> st_inner = \<lparr> in_entries = [], in_order = [] \<rparr>, st_capacity = capacity, st_ttl = ttl \<rparr>"

definition idem_with_defaults :: idem_store where
  "idem_with_defaults = idem_new 10000 (24 * 60 * 60 * 1000000000)"

text \<open>Tenant, endpoint and key, separated by NUL characters.\<close>

definition composite_key :: "ext \<Rightarrow> uuid option \<Rightarrow> string \<Rightarrow> string \<Rightarrow> string" where
  "composite_key E tenant endpoint key =
     (case tenant of
        Some t \<Rightarrow> uuid_display E t @ [CHR 0x00] @ endpoint @ [CHR 0x00] @ key
      | None \<Rightarrow> endpoint @ [CHR 0x00] @ key)"

definition hash_body :: "ext \<Rightarrow> string \<Rightarrow> string" where
  "hash_body E body = finalize_hex E [HText body]"

text \<open>\<^verbatim>\<open>duration_since\<close> saturates at zero.\<close>

abbreviation entry_expired :: "int \<Rightarrow> int \<Rightarrow> idem_entry \<Rightarrow> bool" where
  "entry_expired now ttl e \<equiv> max 0 (now - ie_inserted_at e) > ttl"

definition idem_prune :: "idem_inner \<Rightarrow> int \<Rightarrow> int \<Rightarrow> idem_inner" where
  "idem_prune inner ttl now =
     (let expired = map fst (filter (\<lambda>(k, e). entry_expired now ttl e) (in_entries inner)) in
      inner\<lparr>in_entries := filter (\<lambda>(k, e). k \<notin> set expired) (in_entries inner),
            in_order := filter (\<lambda>k. k \<notin> set expired) (in_order inner)\<rparr>)"

abbreviation idem_lookup :: "idem_inner \<Rightarrow> string \<Rightarrow> string \<Rightarrow> idempotency_outcome" where
  "idem_lookup inner ckey body_hash \<equiv>
     (case map_of (in_entries inner) ckey of
        Some entry \<Rightarrow> if ie_body_hash entry = body_hash then Replay (ie_response entry) else Conflict
      | None \<Rightarrow> Fresh)"

text \<open>Recording an entry moves its key to the end and drops keys from the front above the capacity.\<close>

fun idem_evict :: "nat \<Rightarrow> (string \<times> idem_entry) list \<Rightarrow> string list \<Rightarrow> idem_inner" where
  "idem_evict capacity entries [] = \<lparr> in_entries = entries, in_order = [] \<rparr>"
| "idem_evict capacity entries (k # order) =
     (if length (k # order) > capacity then idem_evict capacity (AList.delete k entries) order
      else \<lparr> in_entries = entries, in_order = k # order \<rparr>)"

definition idem_insert :: "nat \<Rightarrow> idem_inner \<Rightarrow> string \<Rightarrow> idem_entry \<Rightarrow> idem_inner" where
  "idem_insert capacity inner ckey e =
     idem_evict capacity (AList.update ckey e (in_entries inner)) (filter (\<lambda>k. k \<noteq> ckey) (in_order inner) @ [ckey])"

definition idem_check :: "ext \<Rightarrow> int \<Rightarrow> idem_store \<Rightarrow> uuid option \<Rightarrow> string \<Rightarrow> string \<Rightarrow> string \<Rightarrow> idem_store \<times> idempotency_outcome" where
  "idem_check E now st tenant endpoint key request_body =
     (let ckey = composite_key E tenant endpoint key;
          body_hash = hash_body E request_body;
          inner = idem_prune (st_inner st) (st_ttl st) now in
      (st\<lparr>st_inner := inner\<rparr>, idem_lookup inner ckey body_hash))"

definition idem_remember ::
  "ext \<Rightarrow> int \<Rightarrow> idem_store \<Rightarrow> uuid option \<Rightarrow> string \<Rightarrow> string \<Rightarrow> string \<Rightarrow> string \<Rightarrow> idem_store \<times> idempotency_outcome" where
  "idem_remember E now st tenant endpoint key request_body response =
     (let ckey = composite_key E tenant endpoint key;
          e = \<lparr> ie_body_hash = hash_body E request_body, ie_response = response, ie_inserted_at = now \<rparr> in
      (st\<lparr>st_inner := idem_insert (st_capacity st) (st_inner st) ckey e\<rparr>, Fresh))"

text \<open>The provided method of the trait, and the atomic method the store overrides it with.\<close>

definition default_check_and_remember ::
  "ext \<Rightarrow> int \<Rightarrow> int \<Rightarrow> idem_store \<Rightarrow> uuid option \<Rightarrow> string \<Rightarrow> string \<Rightarrow> string \<Rightarrow> string \<Rightarrow> idem_store \<times> idempotency_outcome" where
  "default_check_and_remember E now later st tenant endpoint key request_body response =
     (let (st', out) = idem_check E now st tenant endpoint key request_body in
      case out of
        Fresh \<Rightarrow> (fst (idem_remember E later st' tenant endpoint key request_body response), Fresh)
      | other \<Rightarrow> (st', other))"

definition idem_check_and_remember ::
  "ext \<Rightarrow> int \<Rightarrow> int \<Rightarrow> idem_store \<Rightarrow> uuid option \<Rightarrow> string \<Rightarrow> string \<Rightarrow> string \<Rightarrow> string \<Rightarrow> idem_store \<times> idempotency_outcome" where
  "idem_check_and_remember E now later st tenant endpoint key request_body response =
     (let ckey = composite_key E tenant endpoint key;
          body_hash = hash_body E request_body;
          inner = idem_prune (st_inner st) (st_ttl st) now in
      case map_of (in_entries inner) ckey of
        Some entry \<Rightarrow>
          (st\<lparr>st_inner := inner\<rparr>, if ie_body_hash entry = body_hash then Replay (ie_response entry) else Conflict)
      | None \<Rightarrow>
          (st\<lparr>st_inner := idem_insert (st_capacity st) inner ckey
                \<lparr> ie_body_hash = body_hash, ie_response = response, ie_inserted_at = later \<rparr>\<rparr>, Fresh))"

definition idem_len :: "int \<Rightarrow> idem_store \<Rightarrow> nat" where
  "idem_len now st = length (in_entries (idem_prune (st_inner st) (st_ttl st) now))"

definition idem_is_empty :: "int \<Rightarrow> idem_store \<Rightarrow> bool" where
  "idem_is_empty now st \<longleftrightarrow> idem_len now st = 0"

section \<open>Runs\<close>

datatype idem_request =
    ReqCheck int uuid string string string
  | ReqRemember int uuid string string string string
  | ReqBoth int int uuid string string string string

fun idem_step :: "ext \<Rightarrow> idem_store \<Rightarrow> idem_request \<Rightarrow> idem_store" where
  "idem_step E st (ReqCheck now tenant endpoint key body) = fst (idem_check E now st (Some tenant) endpoint key body)"
| "idem_step E st (ReqRemember now tenant endpoint key body response) =
     fst (idem_remember E now st (Some tenant) endpoint key body response)"
| "idem_step E st (ReqBoth now later tenant endpoint key body response) =
     fst (idem_check_and_remember E now later st (Some tenant) endpoint key body response)"

fun req_time :: "idem_request \<Rightarrow> int" where
  "req_time (ReqCheck now tenant endpoint key body) = now"
| "req_time (ReqRemember now tenant endpoint key body response) = now"
| "req_time (ReqBoth now later tenant endpoint key body response) = now"

fun overwrites :: "uuid \<Rightarrow> idem_request \<Rightarrow> bool" where
  "overwrites tenant (ReqRemember now t endpoint key body response) \<longleftrightarrow> t = tenant"
| "overwrites tenant _ \<longleftrightarrow> False"

text \<open>
  Identifiers are printed injectively and at one length, as the hyphenated form of
  \<^verbatim>\<open>uuid\<close> is.
\<close>

definition uuid_texts :: "ext \<Rightarrow> bool" where
  "uuid_texts E \<longleftrightarrow> inj (uuid_display E) \<and> (\<forall>t u. length (uuid_display E t) = length (uuid_display E u))"

text \<open>The entries and the order hold the same keys, each once, and no more than the capacity.\<close>

definition inner_ok :: "nat \<Rightarrow> idem_inner \<Rightarrow> bool" where
  "inner_ok cap inner \<longleftrightarrow> distinct (map fst (in_entries inner)) \<and> distinct (in_order inner)
     \<and> set (in_order inner) = fst ` set (in_entries inner) \<and> length (in_order inner) \<le> cap"

definition idem_ok :: "idem_store \<Rightarrow> bool" where
  "idem_ok st \<longleftrightarrow> inner_ok (st_capacity st) (st_inner st)"

text \<open>An entry is held with at most a number of keys newer than its own.\<close>

definition held :: "string \<Rightarrow> idem_entry \<Rightarrow> nat \<Rightarrow> idem_inner \<Rightarrow> bool" where
  "held k e n inner \<longleftrightarrow> map_of (in_entries inner) k = Some e
     \<and> (\<exists>older newer. in_order inner = older @ k # newer \<and> k \<notin> set older \<and> length newer \<le> n)"

section \<open>Invariant\<close>

lemma inner_ok_new: "idem_ok (idem_new cap ttl)"
  by (simp add: idem_ok_def inner_ok_def idem_new_def)

lemma keys_without: "fst ` set (filter (\<lambda>(k, e). k \<notin> X) es) = fst ` set es - X"
  by force

lemma inner_ok_without:
  assumes "inner_ok cap inner"
  shows "inner_ok cap (inner\<lparr>in_entries := filter (\<lambda>(k, e). k \<notin> X) (in_entries inner),
      in_order := filter (\<lambda>k. k \<notin> X) (in_order inner)\<rparr>)"
proof -
  have "set (filter (\<lambda>k. k \<notin> X) (in_order inner)) = fst ` set (filter (\<lambda>(k, e). k \<notin> X) (in_entries inner))"
    using assms unfolding inner_ok_def keys_without by auto
  then show ?thesis using assms
    by (simp add: inner_ok_def distinct_map_filter le_trans [OF length_filter_le] del: set_filter)
qed

lemma prune_ok: "inner_ok cap inner \<Longrightarrow> inner_ok cap (idem_prune inner ttl now)"
  unfolding idem_prune_def Let_def by (rule inner_ok_without)

lemma evict_ok:
  assumes "distinct (map fst es)" "distinct order" "set order = fst ` set es"
  shows "inner_ok cap (idem_evict cap es order)"
  using assms
proof (induction order arbitrary: es)
  case (Cons k order)
  show ?case
  proof (cases "length (k # order) > cap")
    case True
    have "set order = fst ` set (AList.delete k es)" using Cons.prems by (auto simp: delete_keys simp flip: set_map)
    then show ?thesis using Cons True by (simp add: distinct_delete)
  next
    case False
    then show ?thesis using Cons.prems by (simp add: inner_ok_def)
  qed
qed (simp add: inner_ok_def)

lemma insert_ok: "inner_ok cap inner \<Longrightarrow> inner_ok cap (idem_insert cap inner k e)"
  unfolding idem_insert_def by (rule evict_ok) (auto simp: inner_ok_def distinct_update dom_update)

lemma step_frame: "st_capacity (idem_step E st r) = st_capacity st \<and> st_ttl (idem_step E st r) = st_ttl st"
  by (cases r) (auto simp: idem_check_def idem_remember_def idem_check_and_remember_def Let_def split: option.split)

lemma step_ok: "idem_ok st \<Longrightarrow> idem_ok (idem_step E st r)"
  by (cases r) (auto simp: idem_ok_def idem_check_def idem_remember_def idem_check_and_remember_def Let_def
      prune_ok insert_ok split: option.split)

lemma run_frame: "st_capacity (foldl (idem_step E) st rs) = st_capacity st \<and> st_ttl (foldl (idem_step E) st rs) = st_ttl st"
  by (induction rs arbitrary: st) (simp_all add: step_frame)

lemma run_ok: "idem_ok st \<Longrightarrow> idem_ok (foldl (idem_step E) st rs)"
  by (induction rs arbitrary: st) (simp_all add: step_ok)

text \<open>
  C23. The idempotency store stays well-formed and bounded. After any sequence of requests of
  any clients, the map and the order of a store hold the same keys, each once, and there
  are never more entries than its capacity.
\<close>

theorem idempotency_store_bounded:
  "idem_ok (foldl (idem_step E) (idem_new cap ttl) rs)
 \<and> length (in_entries (st_inner (foldl (idem_step E) (idem_new cap ttl) rs))) \<le> cap"
proof -
  let ?st = "foldl (idem_step E) (idem_new cap ttl) rs"
  have ok: "idem_ok ?st" by (rule run_ok [OF inner_ok_new])
  have "length (in_entries (st_inner ?st)) = card (fst ` set (in_entries (st_inner ?st)))"
    using ok distinct_card [of "map fst (in_entries (st_inner ?st))"] by (simp add: idem_ok_def inner_ok_def)
  also have "\<dots> = length (in_order (st_inner ?st))"
    using ok distinct_card [of "in_order (st_inner ?st)"] by (simp add: idem_ok_def inner_ok_def)
  also have "\<dots> \<le> cap" using ok run_frame [of E "idem_new cap ttl" rs] by (simp add: idem_ok_def inner_ok_def idem_new_def)
  finally show ?thesis using ok by simp
qed

section \<open>Retention\<close>

lemma held_weaken: "held k e m inner \<Longrightarrow> m \<le> n \<Longrightarrow> held k e n inner"
  by (auto simp: held_def) (metis le_trans)

lemma evict_keeps:
  "order = older @ k # newer \<Longrightarrow> k \<notin> set older \<Longrightarrow> length newer < cap \<Longrightarrow> map_of es k = Some e \<Longrightarrow>
     held k e (length newer) (idem_evict cap es order)"
proof (induction older arbitrary: order es)
  case Nil
  then show ?case by (simp add: held_def) (rule exI [of _ "[]"], simp)
next
  case (Cons x older)
  have IH: "held k e (length newer) (idem_evict cap (AList.delete x es) (older @ k # newer))"
    using Cons.prems by (intro Cons.IH) auto
  show ?case
  proof (cases "length order > cap")
    case True
    then show ?thesis using IH Cons.prems(1) by simp
  next
    case False
    then have "held k e (length newer) \<lparr> in_entries = es, in_order = x # older @ k # newer \<rparr>"
      using Cons.prems unfolding held_def by (intro conjI exI [of _ "x # older"] exI [of _ newer]) auto
    then show ?thesis using False Cons.prems(1) by simp
  qed
qed

lemma held_insert:
  assumes "held k e n inner" "n + 1 < cap" "k' \<noteq> k"
  shows "held k e (n + 1) (idem_insert cap inner k' e')"
proof -
  obtain older newer where o: "in_order inner = older @ k # newer" "k \<notin> set older" "length newer \<le> n"
    using assms(1) by (auto simp: held_def)
  let ?newer = "filter (\<lambda>x. x \<noteq> k') newer @ [k']"
  have len: "length ?newer \<le> n + 1" using o(3) le_trans [OF length_filter_le] by simp
  have "held k e (length ?newer) (idem_insert cap inner k' e')"
    unfolding idem_insert_def
    by (rule evict_keeps [where older = "filter (\<lambda>x. x \<noteq> k') older"])
      (use assms o len in \<open>auto simp: held_def update_conv'\<close>)
  then show ?thesis using len by (rule held_weaken)
qed

lemma map_of_filter_keys: "P k \<Longrightarrow> map_of (filter (\<lambda>(k, e). P k) es) k = map_of es k"
  by (induction es) auto

lemma held_without:
  assumes "held k e n inner" "k \<notin> X"
  shows "held k e n (inner\<lparr>in_entries := filter (\<lambda>(k, e). k \<notin> X) (in_entries inner),
      in_order := filter (\<lambda>k. k \<notin> X) (in_order inner)\<rparr>)"
proof -
  obtain older newer where o: "in_order inner = older @ k # newer" "k \<notin> set older" "length newer \<le> n"
    using assms(1) by (auto simp: held_def)
  have "filter (\<lambda>k. k \<notin> X) (in_order inner) = filter (\<lambda>k. k \<notin> X) older @ k # filter (\<lambda>k. k \<notin> X) newer"
    using assms(2) o(1) by simp
  moreover have "length (filter (\<lambda>k. k \<notin> X) newer) \<le> n" using o(3) le_trans [OF length_filter_le] by blast
  moreover have "map_of (filter (\<lambda>(k, e). k \<notin> X) (in_entries inner)) k = Some e"
    using assms map_of_filter_keys [where P = "\<lambda>k. k \<notin> X" and es = "in_entries inner"] by (simp add: held_def)
  ultimately show ?thesis using o(2) unfolding held_def by fastforce
qed

lemma held_prune:
  assumes "held k e n inner" "\<not> entry_expired now ttl e" "distinct (map fst (in_entries inner))"
  shows "held k e n (idem_prune inner ttl now)"
proof -
  have "map_of (in_entries inner) k = Some e" using assms(1) by (simp add: held_def)
  then have "k \<notin> set (map fst (filter (\<lambda>(k, e). entry_expired now ttl e) (in_entries inner)))"
    using assms(2) by (auto dest: map_of_is_SomeI [OF assms(3)])
  with assms(1) show ?thesis unfolding idem_prune_def Let_def by (rule held_without)
qed

lemma composite_key_tenant:
  assumes "uuid_texts E" "composite_key E (Some t) ep k = composite_key E (Some t') ep' k'"
  shows "t = t'"
proof -
  have "length (uuid_display E t) = length (uuid_display E t')" using assms(1) by (simp add: uuid_texts_def)
  then have "uuid_display E t = uuid_display E t'" using assms(2) by (simp add: composite_key_def)
  then show ?thesis using assms(1) by (auto simp: uuid_texts_def dest: injD)
qed

lemma held_step:
  assumes "uuid_texts E" "idem_ok st" "held (composite_key E (Some t) ep key) e n (st_inner st)" "n + 1 < st_capacity st"
    and "\<not> overwrites t r" "\<not> entry_expired (req_time r) (st_ttl st) e"
  shows "held (composite_key E (Some t) ep key) e (n + 1) (st_inner (idem_step E st r))"
proof -
  let ?k = "composite_key E (Some t) ep key"
  have d: "distinct (map fst (in_entries (st_inner st)))" using assms(2) by (simp add: idem_ok_def inner_ok_def)
  have p: "held ?k e n (idem_prune (st_inner st) (st_ttl st) (req_time r))" by (rule held_prune [OF assms(3,6) d])
  show ?thesis
  proof (cases r)
    case (ReqCheck now tenant endpoint rkey body)
    then show ?thesis using p by (simp add: idem_check_def Let_def held_weaken)
  next
    case (ReqRemember now tenant endpoint rkey body response)
    then have "composite_key E (Some tenant) endpoint rkey \<noteq> ?k"
      using assms(5) composite_key_tenant [OF assms(1)] by auto
    then show ?thesis using ReqRemember held_insert [OF assms(3,4)] by (simp add: idem_remember_def Let_def)
  next
    case (ReqBoth now later tenant endpoint rkey body response)
    let ?c = "composite_key E (Some tenant) endpoint rkey"
    show ?thesis
    proof (cases "map_of (in_entries (idem_prune (st_inner st) (st_ttl st) now)) ?c")
      case None
      then have "?c \<noteq> ?k" using p ReqBoth by (auto simp: held_def)
      then show ?thesis using p held_insert [OF _ assms(4)] None ReqBoth
        by (simp add: idem_check_and_remember_def Let_def)
    next
      case (Some x)
      then show ?thesis using p ReqBoth by (simp add: idem_check_and_remember_def Let_def held_weaken)
    qed
  qed
qed

lemma held_run:
  assumes "uuid_texts E"
  shows "idem_ok st \<Longrightarrow> held (composite_key E (Some t) ep key) e n (st_inner st) \<Longrightarrow> n + length rs < st_capacity st \<Longrightarrow>
     list_all (\<lambda>r. \<not> overwrites t r \<and> \<not> entry_expired (req_time r) (st_ttl st) e) rs \<Longrightarrow>
     held (composite_key E (Some t) ep key) e (n + length rs) (st_inner (foldl (idem_step E) st rs))"
proof (induction rs arbitrary: st n)
  case (Cons r rs)
  have "held (composite_key E (Some t) ep key) e (n + 1) (st_inner (idem_step E st r))"
    using Cons.prems by (intro held_step [OF assms]) auto
  then have "held (composite_key E (Some t) ep key) e (n + 1 + length rs) (st_inner (foldl (idem_step E) (idem_step E st r) rs))"
    using Cons.prems step_ok step_frame [of E st r] by (intro Cons.IH) auto
  then show ?case by simp
qed simp

lemma fresh_holds:
  assumes "idem_check_and_remember E t0 t1 st tenant ep key body resp = (st', Fresh)" "0 < st_capacity st"
  shows "held (composite_key E tenant ep key)
      \<lparr> ie_body_hash = hash_body E body, ie_response = resp, ie_inserted_at = t1 \<rparr> 0 (st_inner st')"
proof -
  let ?k = "composite_key E tenant ep key" and ?in = "idem_prune (st_inner st) (st_ttl st) t0"
  have "st_inner st' = idem_insert (st_capacity st) ?in ?k
      \<lparr> ie_body_hash = hash_body E body, ie_response = resp, ie_inserted_at = t1 \<rparr>"
    using assms(1) by (auto simp: idem_check_and_remember_def Let_def split: option.split_asm if_split_asm)
  moreover have "held ?k e (length ([] :: string list)) (idem_insert cap ?in ?k e)" if "0 < cap" for cap e
    unfolding idem_insert_def by (rule evict_keeps [where older = "filter (\<lambda>x. x \<noteq> ?k) (in_order ?in)" and newer = "[]"])
      (use that in \<open>auto simp: update_conv'\<close>)
  ultimately show ?thesis using assms(2) by simp
qed

text \<open>
  A request is applied once. After a request has been recorded as fresh, and as long as its
  time to live has not passed and fewer requests than the capacity have come in between,
  of any tenants, endpoints and keys, repeating it with the same body replays the first
  response and repeating it with a body of another hash is a conflict. In between the same
  tenant makes no unconditional \<^verbatim>\<open>remember\<close>, and other tenants cannot interfere even with
  that, because the composite keys of two tenants never coincide.
\<close>

lemma idempotent_within_window:
  assumes "uuid_texts E" "idem_ok st" "0 \<le> st_ttl st"
    and "idem_check_and_remember E t0 t1 st (Some tenant) ep key body resp = (st1, Fresh)"
    and "length rs < st_capacity st"
    and "list_all (\<lambda>r. \<not> overwrites tenant r \<and> req_time r \<le> t1 + st_ttl st) rs" "now \<le> t1 + st_ttl st"
  shows "snd (idem_check_and_remember E now later (foldl (idem_step E) st1 rs) (Some tenant) ep key body' resp') =
           (if hash_body E body' = hash_body E body then Replay resp else Conflict)"
proof -
  let ?e = "\<lparr> ie_body_hash = hash_body E body, ie_response = resp, ie_inserted_at = t1 \<rparr>"
  let ?k = "composite_key E (Some tenant) ep key" and ?st = "foldl (idem_step E) st1 rs"
  have st1: "st1 = idem_step E st (ReqBoth t0 t1 tenant ep key body resp)" using assms(4) by simp
  have ok: "idem_ok st1" "st_capacity st1 = st_capacity st" "st_ttl st1 = st_ttl st"
    using step_ok [OF assms(2), of E "ReqBoth t0 t1 tenant ep key body resp"]
      step_frame [of E st "ReqBoth t0 t1 tenant ep key body resp"] by (simp_all only: st1)
  have alive: "\<not> entry_expired t (st_ttl st) ?e" if "t \<le> t1 + st_ttl st" for t
    using that assms(3) by simp
  have "held ?k ?e (0 + length rs) (st_inner ?st)"
    using assms(5,6) alive ok fresh_holds [OF assms(4)] by (intro held_run [OF assms(1)]) (auto simp: list_all_iff)
  then have "held ?k ?e (length rs) (idem_prune (st_inner ?st) (st_ttl ?st) now)"
    using alive [OF assms(7)] run_ok [OF ok(1), of E rs] run_frame [of E st1 rs] ok(3)
    by (intro held_prune) (auto simp: idem_ok_def inner_ok_def)
  then show ?thesis by (simp add: held_def idem_check_and_remember_def Let_def)
qed

text \<open>
  Without interleaving, the provided check-then-remember method of the trait and the atomic
  method of the store have the same outcome and leave the same store.
\<close>

lemma default_check_and_remember_equiv:
  "default_check_and_remember E now later st tenant ep key body resp =
     idem_check_and_remember E now later st tenant ep key body resp"
  by (simp add: default_check_and_remember_def idem_check_and_remember_def idem_check_def idem_remember_def
      Let_def split: option.split)

lemma exact_uuid_texts: "uuid_texts (exact_env now)"
proof -
  have "inj uuid_bits"
  proof (rule injI)
    fix u v assume "uuid_bits u = uuid_bits v"
    then have "\<forall>i \<in> set [0..<128]. bit u i = bit v i"
      unfolding uuid_bits_def map_eq_conv by (auto split: if_split_asm)
    then show "u = v" by (intro bit_word_eqI) simp
  qed
  then show ?thesis by (simp add: uuid_texts_def uuid_bits_def [abs_def] inj_def)
qed

end
