(* ===== verification/Http_Api.thy ===== *)
theory Http_Api
  imports Pure_Eval Idempotency
begin

text \<open>
  The handlers of the HTTP interface (\<^verbatim>\<open>src/api/handlers.rs\<close>, \<^verbatim>\<open>src/api/dto.rs\<close>). A header is
  looked up by its name; a body arrives deserialised. A handler returns the server, with its
  idempotency store and the registry cache of the process, and a response or a status with a
  message; \<^verbatim>\<open>None\<close> is a panic. Metrics, traces and the audit record, which is not persisted,
  have no effect on the response.
\<close>

section \<open>Requests and responses\<close>

type_synonym http_error = "nat \<times> msg"
type_synonym headers = "string \<Rightarrow> string option"

record server =
  srv_idem :: idem_store
  srv_cache :: "u64 \<rightharpoonup> registry"

type_synonym 'a reply = "(server \<times> (http_error + 'a)) option"

record position_dto =
  pd_position_id :: string
  pd_symbol :: string
  pd_side :: string
  pd_open_quantity :: decimal
  pd_avg_entry_price :: decimal
  pd_opened_at :: timestamp

record trade_dto =
  td_symbol :: string
  td_side :: string
  td_trade_side :: string
  td_price :: decimal
  td_quantity :: decimal
  td_executed_at :: timestamp
  td_realized_pnl :: "decimal option"

record bridge_position_dto = position_dto +
  bp_closed_at :: "timestamp option"
  bp_status :: "string option"
  bp_realized_pnl :: "decimal option"
  bp_commission :: "decimal option"
  bp_swap :: "decimal option"

text \<open>The fields of the envelope that the handler reads, and its tenant.\<close>

record bridge_tick =
  bt_tenant_id :: string
  bt_equity_cents :: int
  bt_balance_cents :: int
  bt_positions :: "bridge_position_dto list"
  bt_broker_time :: int

record evaluate_request =
  iq_account_id :: string
  iq_account_state :: "account option"
  iq_rule_pack :: "rule_pack option"
  iq_bridge_tick :: "bridge_tick option"
  iq_tick :: "tick option"
  iq_equity_source :: "string option"
  iq_open_positions :: "position_dto list option"
  iq_today_trades :: "trade_dto list option"
  iq_cross_reference_trades :: "trade_dto list option"

record floor_hints =
  fh_floor_daily_cents :: "int option"
  fh_floor_total_cents :: "int option"
  fh_target_equity_cents :: "int option"
  fh_floors_version :: u64

text \<open>A decision kind is rendered by its name; \<^verbatim>\<open>NotEvaluated\<close> stands for no decision.\<close>

record evaluate_response =
  ir_evaluated :: bool
  ir_decision_kind :: "decision_kind option"
  ir_winning_priority :: u32
  ir_input_hash :: string
  ir_pack_version :: u32
  ir_pack_id :: string
  ir_violations :: "violation list"
  ir_account_state :: account
  ir_hints :: "floor_hints option"

text \<open>The violations of a response stand for their rendered messages too.\<close>

record run_response =
  rr_decision_kind :: "decision_kind option"
  rr_passed :: bool
  rr_violations :: "violation list"
  rr_violation_details :: "violation list"
  rr_account_state :: account

record override_request =
  oq_account_id :: string
  oq_account_state :: "account option"
  oq_clears_violation_id :: string
  oq_violation :: violation
  oq_reason :: string
  oq_actor_id :: string

record order_request =
  rq_account_id :: string
  rq_account_state :: "account option"
  rq_symbol :: string
  rq_side :: string
  rq_quantity :: decimal
  rq_order_type :: string
  rq_price :: "decimal option"
  rq_stop_loss :: "decimal option"
  rq_take_profit :: "decimal option"

record violation_summary =
  vs_violation :: violation
  vs_cleared :: bool

text \<open>The server at its start, and the cache of registries of a fresh process.\<close>

definition server_new :: server where
  "server_new = \<lparr> srv_idem = idem_with_defaults, srv_cache = Map.empty \<rparr>"

section \<open>Checks of a request\<close>

definition extract_tenant_id :: "ext \<Rightarrow> headers \<Rightarrow> http_error + uuid" where
  "extract_tenant_id E hs =
     (case hs ''X-Tenant-Id'' of
        None \<Rightarrow> Inl (400, Lit ''missing X-Tenant-Id header'')
      | Some s \<Rightarrow> (case uuid_parse E s of None \<Rightarrow> Inl (400, Fmt ''uuid'' [Lit s]) | Some t \<Rightarrow> Inr t))"

definition parse_id :: "ext \<Rightarrow> string \<Rightarrow> http_error + uuid" where
  "parse_id E s = (case uuid_parse E s of None \<Rightarrow> Inl (400, Fmt ''uuid'' [Lit s]) | Some u \<Rightarrow> Inr u)"

definition validate_account_state :: "account \<Rightarrow> uuid \<Rightarrow> uuid \<Rightarrow> http_error + unit" where
  "validate_account_state a account_id tenant =
     (if acc_id a \<noteq> account_id then Inl (400, Fmt ''account_state.id'' [MInt (uint (acc_id a)), MInt (uint account_id)])
      else if tenant_id a \<noteq> tenant
        then Inl (403, Fmt ''account_state.tenant_id'' [MInt (uint (tenant_id a)), MInt (uint tenant)])
      else Inr ())"

text \<open>The opening of every handler: the tenant, the account id, the account and its owner; a missing account names the purpose.\<close>

definition request_account :: "string \<Rightarrow> ext \<Rightarrow> headers \<Rightarrow> string \<Rightarrow> account option \<Rightarrow> http_error + (uuid \<times> uuid \<times> account)" where
  "request_account purpose E hs account state =
     (case extract_tenant_id E hs of
        Inl e \<Rightarrow> Inl e
      | Inr tenant \<Rightarrow>
          (case parse_id E account of
             Inl e \<Rightarrow> Inl e
           | Inr account_id \<Rightarrow>
               (case state of
                  None \<Rightarrow> Inl (400, Lit (''account_state is required for '' @ purpose))
                | Some a \<Rightarrow>
                    (case validate_account_state a account_id tenant of
                       Inl e \<Rightarrow> Inl e
                     | Inr _ \<Rightarrow> Inr (tenant, account_id, a)))))"

section \<open>Wire formats\<close>

text \<open>Drawing identifiers: one per key and position in the request.\<close>

definition fresh_id :: "ext \<Rightarrow> string \<Rightarrow> nat \<Rightarrow> uuid" where
  "fresh_id E key n = new_v4 E (key @ replicate n (CHR ''#''))"

abbreviation position_side_parse :: "string \<Rightarrow> http_error + position_side" where
  "position_side_parse s \<equiv>
     (let l = to_lowercase s in
      if l = ''long'' \<or> l = ''buy'' then Inr Long
      else if l = ''short'' \<or> l = ''sell'' then Inr Short
      else Inl (400, Fmt ''invalid position side'' [Lit l]))"

definition position_into_domain :: "ext \<Rightarrow> uuid \<Rightarrow> position_dto \<Rightarrow> http_error + position" where
  "position_into_domain E account_id d =
     (case position_side_parse (pd_side d) of
        Inl e \<Rightarrow> Inl e
      | Inr side \<Rightarrow>
          (case parse_id E (pd_position_id d) of
             Inl _ \<Rightarrow> Inl (400, Fmt ''invalid position_id'' [Lit (pd_position_id d)])
           | Inr pid \<Rightarrow> Inr
               \<lparr> p_id = pid, p_account_id = account_id, p_symbol = symbol_new (pd_symbol d), p_side = side,
                 p_opened_at = pd_opened_at d, p_closed_at = None, p_status = POpen,
                 p_avg_entry_price = pd_avg_entry_price d, p_opened_quantity = pd_open_quantity d,
                 p_open_quantity = pd_open_quantity d, p_realized_pnl = 0, p_commission = 0, p_swap = 0,
                 p_stop_loss = None, p_take_profit = None, p_magic = None, p_comment = None \<rparr>))"

definition or_zero :: "decimal option \<Rightarrow> decimal" where
  "or_zero x = (case x of Some d \<Rightarrow> d | None \<Rightarrow> 0)"

definition bridge_position_into_domain :: "ext \<Rightarrow> uuid \<Rightarrow> bridge_position_dto \<Rightarrow> http_error + position" where
  "bridge_position_into_domain E account_id d =
     (case position_side_parse (pd_side d) of
        Inl e \<Rightarrow> Inl e
      | Inr side \<Rightarrow>
          (let st = (case map_option to_lowercase (bp_status d) of
                       Some s \<Rightarrow> if s = ''closed'' then PClosed else if s = ''liquidated'' then PLiquidated else POpen
                     | None \<Rightarrow> POpen) in
           case parse_id E (pd_position_id d) of
             Inl _ \<Rightarrow> Inl (400, Fmt ''invalid position_id'' [Lit (pd_position_id d)])
           | Inr pid \<Rightarrow> Inr
               \<lparr> p_id = pid, p_account_id = account_id, p_symbol = symbol_new (pd_symbol d), p_side = side,
                 p_opened_at = pd_opened_at d, p_closed_at = bp_closed_at d, p_status = st,
                 p_avg_entry_price = pd_avg_entry_price d, p_opened_quantity = pd_open_quantity d,
                 p_open_quantity = pd_open_quantity d, p_realized_pnl = or_zero (bp_realized_pnl d),
                 p_commission = or_zero (bp_commission d), p_swap = or_zero (bp_swap d),
                 p_stop_loss = None, p_take_profit = None, p_magic = None, p_comment = None \<rparr>))"

definition trade_into_domain :: "ext \<Rightarrow> uuid \<Rightarrow> nat \<Rightarrow> trade_dto \<Rightarrow> http_error + trade" where
  "trade_into_domain E account_id n d =
     (let s = to_lowercase (td_side d); ts = to_lowercase (td_trade_side d) in
      if s \<notin> {''buy'', ''long'', ''sell'', ''short''} then Inl (400, Fmt ''invalid trade side'' [Lit s])
      else if ts \<notin> {''entry'', ''open'', ''exit'', ''close''} then Inl (400, Fmt ''invalid trade_side'' [Lit ts])
      else
        (let side = (if s = ''buy'' \<or> s = ''long'' then Buy else Sell);
             trade_side = (if ts = ''entry'' \<or> ts = ''open'' then Entry else Exit);
             t = trade_new (fresh_id E ''trade'' n) (fresh_id E ''order'' n) account_id (symbol_new (td_symbol d)) side
                   trade_side (td_price d) (td_quantity d) 0 (td_executed_at d) in
         Inr (if trade_side = Exit
              then t\<lparr>t_exit_info := Some \<lparr> x_position_id = fresh_id E ''position'' n,
                      x_realized_pnl = or_zero (td_realized_pnl d), x_closed_quantity = td_quantity d,
                      x_entry_price = td_price d, x_exit_price = td_price d \<rparr>\<rparr>
              else t)))"

text \<open>All entries are converted; the error of the first that fails is the answer.\<close>

definition collect_domain :: "(nat \<Rightarrow> 'a \<Rightarrow> http_error + 'b) \<Rightarrow> 'a list \<Rightarrow> http_error + 'b list" where
  "collect_domain f xs =
     (let rs = map (\<lambda>(n, x). f n x) (enumerate 0 xs) in
      case List.map_filter (\<lambda>r. case r of Inl e \<Rightarrow> Some e | Inr _ \<Rightarrow> None) rs of
        e # _ \<Rightarrow> Inl e
      | [] \<Rightarrow> Inr (List.map_filter (\<lambda>r. case r of Inl _ \<Rightarrow> None | Inr y \<Rightarrow> Some y) rs))"

section \<open>Floor hints\<close>

definition to_cents :: "ext \<Rightarrow> money \<Rightarrow> int option" where
  "to_cents E m = do { c \<leftarrow> dmul E m 100; Some (case dto_i64 E c of Some i \<Rightarrow> i | None \<Rightarrow> 0) }"

definition floor_daily_hint :: "ext \<Rightarrow> account \<Rightarrow> int option option" where
  "floor_daily_hint E a =
     (if \<not> drawdown_on_balance (plan a) \<and> daily_loss_type (plan a) \<noteq> DailyLossNone \<and> max_daily_drawdown_pct (plan a) > 0
      then do {
        let reference = (case daily_loss_type (plan a) of
                           PctInitial \<Rightarrow> initial_balance a
                         | PctPriorDay \<Rightarrow> if drawdown_on_balance (plan a) then day_start_balance a else day_start_equity a
                         | _ \<Rightarrow> intraday_peak_equity a);
        limit \<leftarrow> dmul E (max_daily_drawdown_pct (plan a)) reference;
        floor \<leftarrow> dsub E reference limit;
        c \<leftarrow> to_cents E floor;
        Some (Some c) }
      else Some None)"

definition floor_total_hint :: "ext \<Rightarrow> account \<Rightarrow> int option option" where
  "floor_total_hint E a =
     (if \<not> drawdown_on_balance (plan a) \<and> max_total_drawdown_pct (plan a) > 0
      then do {
        let pct = max_total_drawdown_pct (plan a);
        buffer \<leftarrow> dmul E pct (initial_balance a);
        floor \<leftarrow> (case max_loss_reference (plan a) of
            Static \<Rightarrow> dsub E (initial_balance a) buffer
          | Trailing \<Rightarrow> do { x \<leftarrow> dmul E pct (peak_balance a); dsub E (peak_balance a) x }
          | EodTrailing \<Rightarrow> do {
              unlocked \<leftarrow> dsub E (day_start_balance a) buffer;
              Some (if eod_trail_locks_at_start (plan a) then min unlocked (initial_balance a) else unlocked) }
          | IntradayTrail \<Rightarrow> do { x \<leftarrow> dmul E pct (peak_equity a); dsub E (peak_equity a) x });
        c \<leftarrow> to_cents E floor;
        Some (Some c) }
      else Some None)"

definition compute_floor_hints :: "ext \<Rightarrow> account \<Rightarrow> floor_hints option option" where
  "compute_floor_hints E a = do {
     daily \<leftarrow> floor_daily_hint E a;
     total \<leftarrow> floor_total_hint E a;
     target \<leftarrow> (if profit_target_pct (plan a) > 0
       then do {
         x \<leftarrow> dmul E (profit_target_pct (plan a)) (initial_balance a);
         t \<leftarrow> dadd E (initial_balance a) x;
         c \<leftarrow> to_cents E t;
         Some (Some c) }
       else Some None);
     Some (if daily = None \<and> total = None \<and> target = None then None
           else Some \<lparr> fh_floor_daily_cents = daily, fh_floor_total_cents = total,
                       fh_target_equity_cents = target, fh_floors_version = version a \<rparr>) }"

section \<open>Evaluate\<close>

definition request_equity_source :: "evaluate_request \<Rightarrow> http_error + equity_source" where
  "request_equity_source req =
     (case iq_bridge_tick req of
        Some _ \<Rightarrow> Inr SrcBrokerReported
      | None \<Rightarrow>
          (case iq_equity_source req of
             None \<Rightarrow> Inr SrcEstimated
           | Some s \<Rightarrow>
               if s = ''estimated'' then Inr SrcEstimated
               else (case equity_source_parse s of Inl e \<Rightarrow> Inl (400, error_msg e) | Inr src \<Rightarrow> Inr src)))"

record tick_inputs =
  ti_account :: account
  ti_positions :: "position list"
  ti_trades :: "trade list"
  ti_server_time :: timestamp
  ti_tick :: "tick option"

abbreviation cents_to_decimal :: "ext \<Rightarrow> int \<Rightarrow> money option" where
  "cents_to_decimal E c \<equiv> ddiv E (of_int c) 100"

definition bridge_inputs ::
  "ext \<Rightarrow> uuid \<Rightarrow> account \<Rightarrow> bridge_tick \<Rightarrow> evaluate_request \<Rightarrow> (http_error + tick_inputs) option" where
  "bridge_inputs E account_id a bt req = do {
     eq \<leftarrow> cents_to_decimal E (bt_equity_cents bt);
     bal \<leftarrow> cents_to_decimal E (bt_balance_cents bt);
     Some (case collect_domain (\<lambda>n. bridge_position_into_domain E account_id) (bt_positions bt) of
        Inl e \<Rightarrow> Inl e
      | Inr ps \<Rightarrow>
          (case collect_domain (trade_into_domain E account_id) (case iq_today_trades req of Some ts \<Rightarrow> ts | None \<Rightarrow> []) of
             Inl e \<Rightarrow> Inl e
           | Inr ts \<Rightarrow>
               (case ts_from_millis E (bt_broker_time bt) of
                  None \<Rightarrow> Inl (400, Lit ''invalid broker_time'')
                | Some t \<Rightarrow> Inr \<lparr> ti_account = a\<lparr>equity := eq, balance := bal\<rparr>, ti_positions = ps, ti_trades = ts,
                                ti_server_time = t, ti_tick = None \<rparr>))) }"

definition legacy_inputs :: "ext \<Rightarrow> uuid \<Rightarrow> account \<Rightarrow> evaluate_request \<Rightarrow> http_error + tick_inputs" where
  "legacy_inputs E account_id a req =
     (case iq_tick req of
        None \<Rightarrow> Inl (400, Lit ''tick is required when bridge_tick is absent'')
      | Some tk \<Rightarrow>
          (case collect_domain (\<lambda>n. position_into_domain E account_id) (case iq_open_positions req of Some ps \<Rightarrow> ps | None \<Rightarrow> []) of
             Inl e \<Rightarrow> Inl e
           | Inr ps \<Rightarrow>
               (case collect_domain (trade_into_domain E account_id) (case iq_today_trades req of Some ts \<Rightarrow> ts | None \<Rightarrow> []) of
                  Inl e \<Rightarrow> Inl e
                | Inr ts \<Rightarrow> Inr \<lparr> ti_account = a, ti_positions = ps, ti_trades = ts,
                               ti_server_time = q_ts (tk_quote tk), ti_tick = Some tk \<rparr>)))"

definition raise_baselines :: "equity_source \<Rightarrow> account \<Rightarrow> account" where
  "raise_baselines src a =
     (if src = SrcBrokerReported
      then a\<lparr>peak_equity := (if equity a > peak_equity a then equity a else peak_equity a),
             peak_balance := (if balance a > peak_balance a then balance a else peak_balance a)\<rparr>
      else a)"

definition evaluate_bound ::
  "ext \<Rightarrow> registry \<Rightarrow> uuid \<Rightarrow> uuid \<Rightarrow> account \<Rightarrow> equity_source \<Rightarrow> evaluate_request \<Rightarrow> (http_error + evaluate_response) option" where
  "evaluate_bound E reg tenant account_id acc src req =
     (let pack = synthetic_from_plan (uuid_display E account_id) tenant (plan acc) (utc_now E);
          cross_account = new_v4 E ''cross_reference_account'' in
      case collect_domain (trade_into_domain E cross_account)
             (case iq_cross_reference_trades req of Some ts \<Rightarrow> ts | None \<Rightarrow> []) of
        Inl e \<Rightarrow> Some (Inl e)
      | Inr crosses \<Rightarrow> do {
          let cross = filter (\<lambda>t. t_account_id t \<noteq> account_id) crosses;
          shaped \<leftarrow> (case iq_bridge_tick req of
              Some bt \<Rightarrow> bridge_inputs E account_id acc bt req
            | None \<Rightarrow> Some (legacy_inputs E account_id acc req));
          case shaped of
            Inl e \<Rightarrow> Some (Inl e)
          | Inr ti \<Rightarrow>
              (let staleness = num_seconds E (utc_now E - ti_server_time ti) in
               if staleness > 600 then Some (Inl (422, Fmt ''tick rejected'' [MInt staleness, MInt 600]))
               else do {
                 let a1 = raise_baselines src (ti_account ti);
                 let inputs = (case ti_tick ti of
                     Some tk \<Rightarrow> with_equity_source (with_cross_reference_trades
                                 (inputs_for_tick (ti_positions ti) (ti_trades ti) tk) cross) src
                   | None \<Rightarrow> inputs_default\<lparr>ev_open_positions := ti_positions ti, ev_today_trades := ti_trades ti,
                               ev_cross_reference_trades := cross, ev_equity_source := src\<rparr>);
                 verdict \<leftarrow> pure_evaluate E reg a1 pack OnTick (ti_server_time ti) inputs;
                 case verdict of
                   Inl e \<Rightarrow> Some (Inl (500, error_msg e))
                 | Inr v \<Rightarrow> do {
                     applied \<leftarrow> apply_decision E a1 (pv_decision v) (ti_server_time ti) ''evaluate_internal'';
                     case applied of
                       Inl e \<Rightarrow> Some (Inl (500, error_msg e))
                     | Inr (a2, evs) \<Rightarrow> do {
                         hints \<leftarrow> compute_floor_hints E a2;
                         Some (Inr \<lparr> ir_evaluated = True, ir_decision_kind = Some (d_kind (pv_decision v)),
                           ir_winning_priority = d_winning_priority (pv_decision v), ir_input_hash = pv_input_hash v,
                           ir_pack_version = pv_pack_version v, ir_pack_id = pv_pack_id v,
                           ir_violations = d_all_violations (pv_decision v), ir_account_state = a2,
                           ir_hints = hints \<rparr>) } } }) })"

definition evaluate_internal_impl :: "ext \<Rightarrow> server \<Rightarrow> uuid \<Rightarrow> evaluate_request \<Rightarrow> evaluate_response reply" where
  "evaluate_internal_impl E srv tenant req =
     (case parse_id E (iq_account_id req) of
        Inl e \<Rightarrow> Some (srv, Inl e)
      | Inr account_id \<Rightarrow>
      case request_equity_source req of
        Inl e \<Rightarrow> Some (srv, Inl e)
      | Inr src \<Rightarrow>
      case iq_account_state req of
        None \<Rightarrow> Some (srv, Inl (400, Lit ''account_state is required for stateless evaluation''))
      | Some acc \<Rightarrow>
      case validate_account_state acc account_id tenant of
        Inl e \<Rightarrow> Some (srv, Inl e)
      | Inr _ \<Rightarrow>
      if evaluation_mode_of (status acc) = SkipMode
      then Some (srv, Inr \<lparr> ir_evaluated = False, ir_decision_kind = None, ir_winning_priority = 0, ir_input_hash = [],
                            ir_pack_version = 0, ir_pack_id = [], ir_violations = [], ir_account_state = acc,
                            ir_hints = None \<rparr>)
      else if iq_rule_pack req \<noteq> None then Some (srv, Inl (400, Lit ''rule_pack is no longer accepted; evaluation uses the account's bound plan''))
      else do {
        (cache, reg) \<leftarrow> get_or_build E (srv_cache srv) (plan acc);
        r \<leftarrow> evaluate_bound E reg tenant account_id acc src req;
        Some (srv\<lparr>srv_cache := cache\<rparr>, r) })"

text \<open>The JSON forms of a request and a response; a response that does not parse is an error.\<close>

record api_json =
  json_request :: "evaluate_request \<Rightarrow> string"
  json_response :: "evaluate_response \<Rightarrow> string"
  parse_response :: "string \<Rightarrow> evaluate_response option"

definition evaluate_internal ::
  "ext \<Rightarrow> api_json \<Rightarrow> int \<Rightarrow> int \<Rightarrow> server \<Rightarrow> headers \<Rightarrow> evaluate_request \<Rightarrow> evaluate_response reply" where
  "evaluate_internal E J now later srv hs req =
     (case extract_tenant_id E hs of
        Inl e \<Rightarrow> Some (srv, Inl e)
      | Inr tenant \<Rightarrow>
          (case hs ''Idempotency-Key'' of
             None \<Rightarrow> evaluate_internal_impl E srv tenant req
           | Some key \<Rightarrow> do {
               (srv1, r) \<leftarrow> evaluate_internal_impl E srv tenant req;
               case r of
                 Inl e \<Rightarrow> Some (srv1, Inl e)
               | Inr resp \<Rightarrow>
                   (let (st, outcome) = idem_check_and_remember E now later (srv_idem srv1) (Some tenant)
                          ''POST /internal/v1/evaluate'' key (json_request J req) (json_response J resp);
                        srv2 = srv1\<lparr>srv_idem := st\<rparr> in
                    Some (srv2, case outcome of
                        Replay cached \<Rightarrow>
                          (case parse_response J cached of None \<Rightarrow> Inl (500, Lit ''json'') | Some old \<Rightarrow> Inr old)
                      | Conflict \<Rightarrow> Inl (409, Lit ''Idempotency-Key was already used with a different request body'')
                      | _ \<Rightarrow> Inr resp)) }))"

section \<open>Operator actions\<close>

text \<open>A pipeline of its own: the cached registry, an empty event log and the notifier that logs.\<close>

definition handler_process :: "ext \<Rightarrow> server \<Rightarrow> account \<Rightarrow> pipeline_event \<Rightarrow> pipeline_result reply" where
  "handler_process E srv acc ev = do {
     (cache, reg) \<leftarrow> get_or_build E (srv_cache srv) (plan acc);
     r \<leftarrow> process E reg store_empty (\<lambda>v. Inr ()) acc ev;
     Some (srv\<lparr>srv_cache := cache\<rparr>, case r of Inl e \<Rightarrow> Inl (500, error_msg e) | Inr p \<Rightarrow> Inr p) }"

definition override_checks :: "override_request \<Rightarrow> uuid \<Rightarrow> uuid \<Rightarrow> uuid \<Rightarrow> account \<Rightarrow> http_error + unit" where
  "override_checks req tenant account_id clears acc =
     (if \<not> is_breach_terminal (status acc) then Inl (400, Fmt ''override.status'' [MInt (uint (acc_id acc))])
      else if v_id (oq_violation req) \<noteq> clears then Inl (400, Fmt ''violation.id'' [MInt (uint (v_id (oq_violation req))), MInt (uint clears)])
      else if v_account_id (oq_violation req) \<noteq> account_id then Inl (400, Fmt ''violation.account_id'' [MInt (uint (v_account_id (oq_violation req))), MInt (uint account_id)])
      else if v_tenant_id (oq_violation req) \<noteq> tenant then Inl (403, Fmt ''violation.tenant_id'' [MInt (uint (v_tenant_id (oq_violation req))), MInt (uint tenant)])
      else case violation_validate (oq_violation req) of
        Inl e \<Rightarrow> Inl (400, error_msg e)
      | Inr _ \<Rightarrow>
          if \<not> violation_is_terminating (oq_violation req)
          then Inl (400, Lit ''override is only valid for terminating violations'') else Inr ())"

text \<open>The response is the override record's id and time and the account.\<close>

definition override_breach :: "ext \<Rightarrow> server \<Rightarrow> headers \<Rightarrow> override_request \<Rightarrow> (uuid \<times> timestamp \<times> account) reply" where
  "override_breach E srv hs req =
     (case extract_tenant_id E hs of
        Inl e \<Rightarrow> Some (srv, Inl e)
      | Inr tenant \<Rightarrow>
      case parse_id E (oq_account_id req) of
        Inl e \<Rightarrow> Some (srv, Inl e)
      | Inr account_id \<Rightarrow>
      case parse_id E (oq_clears_violation_id req) of
        Inl e \<Rightarrow> Some (srv, Inl e)
      | Inr clears \<Rightarrow>
      case oq_account_state req of
        None \<Rightarrow> Some (srv, Inl (400, Lit ''account_state is required for stateless override''))
      | Some acc \<Rightarrow>
      case validate_account_state acc account_id tenant of
        Inl e \<Rightarrow> Some (srv, Inl e)
      | Inr _ \<Rightarrow>
      case override_checks req tenant account_id clears acc of
        Inl e \<Rightarrow> Some (srv, Inl e)
      | Inr _ \<Rightarrow> do {
          let ov = \<lparr> ov_id = new_v4 E ''override'', ov_account_id = account_id, ov_clears_violation_id = clears,
                     ov_reason = oq_reason req, ov_actor_id = oq_actor_id req, ov_at = utc_now E \<rparr>;
          (srv1, r) \<leftarrow> handler_process E srv acc (POverrideBreach ov);
          Some (srv1, case r of Inl e \<Rightarrow> Inl e | Inr p \<Rightarrow> Inr (ov_id ov, ov_at ov, pr_account p)) })"

definition manual_run :: "ext \<Rightarrow> server \<Rightarrow> headers \<Rightarrow> string \<Rightarrow> account option \<Rightarrow> run_response reply" where
  "manual_run E srv hs account state =
     (case request_account ''stateless evaluation'' E hs account state of
        Inl e \<Rightarrow> Some (srv, Inl e)
      | Inr (tenant, account_id, acc) \<Rightarrow>
          if evaluation_mode_of (status acc) = SkipMode
          then Some (srv, Inr \<lparr> rr_decision_kind = None, rr_passed = False, rr_violations = [],
                               rr_violation_details = [], rr_account_state = acc \<rparr>)
          else do {
            (srv1, r) \<leftarrow> handler_process E srv acc POnDemand;
            Some (srv1, case r of
                Inl e \<Rightarrow> Inl e
              | Inr p \<Rightarrow> Inr \<lparr> rr_decision_kind = Some (d_kind (sn_decision (pr_snapshot p))),
                             rr_passed = er_passed (pr_result p),
                             rr_violations = er_violations (pr_result p),
                             rr_violation_details = d_all_violations (er_decision (pr_result p)),
                             rr_account_state = pr_account p \<rparr>) })"

definition emergency_stop_handler ::
  "ext \<Rightarrow> server \<Rightarrow> headers \<Rightarrow> string \<Rightarrow> account option \<Rightarrow> string \<Rightarrow> string \<Rightarrow> (decision_kind option \<times> timestamp \<times> account) reply" where
  "emergency_stop_handler E srv hs account state reason actor =
     (case request_account ''stateless evaluation'' E hs account state of
        Inl e \<Rightarrow> Some (srv, Inl e)
      | Inr (tenant, account_id, acc) \<Rightarrow>
          if status acc = EmergencyStopped then Some (srv, Inr (Some DEmergency, utc_now E, acc))
          else if evaluation_mode_of (status acc) = SkipMode then Some (srv, Inr (None, utc_now E, acc))
          else do {
            (srv1, r) \<leftarrow> handler_process E srv acc (PEmergencyStop reason actor (utc_now E));
            Some (srv1, case r of
                Inl e \<Rightarrow> Inl e
              | Inr p \<Rightarrow> Inr (Some (d_kind (sn_decision (pr_snapshot p))), utc_now E, pr_account p)) })"

text \<open>
  Of a reported violation the response keeps whether an override clears it; an identifier of
  an override that does not parse is a fresh one. The account of the response is its status.
\<close>

definition breach_report ::
  "ext \<Rightarrow> server \<Rightarrow> headers \<Rightarrow> string \<Rightarrow> account option \<Rightarrow> violation list \<Rightarrow> string list \<Rightarrow>
   (account_status \<times> violation_summary list \<times> violation_summary list) reply" where
  "breach_report E srv hs account state reported clears =
     (case request_account ''breach report'' E hs account state of
        Inl e \<Rightarrow> Some (srv, Inl e)
      | Inr (tenant, account_id, acc) \<Rightarrow>
          if list_ex (\<lambda>v. v_tenant_id v \<noteq> tenant) reported
          then Some (srv, Inl (403, Fmt ''violation.tenant_id''
                 [MInt (uint (v_tenant_id (hd (filter (\<lambda>v. v_tenant_id v \<noteq> tenant) reported)))), MInt (uint tenant)]))
          else do {
            let cleared = set (map (\<lambda>(n, s). case uuid_parse E s of Some u \<Rightarrow> u | None \<Rightarrow> fresh_id E ''violation'' n)
                                 (enumerate 0 clears));
            let summary = map (\<lambda>v. \<lparr> vs_violation = v, vs_cleared = (v_id v \<in> cleared) \<rparr>) reported;
            (srv1, r) \<leftarrow> handler_process E srv acc POnDemand;
            Some (srv1, case r of
                Inl e \<Rightarrow> Inl e
              | Inr p \<Rightarrow> Inr (status (pr_account p), summary,
                          map (\<lambda>v. \<lparr> vs_violation = v, vs_cleared = False \<rparr>) (er_violations (pr_result p)))) })"

abbreviation request_order :: "ext \<Rightarrow> uuid \<Rightarrow> order_side \<Rightarrow> order_request \<Rightarrow> order" where
  "request_order E account_id side req \<equiv>
     \<lparr> o_id = new_v4 E ''order'', o_account_id = account_id, o_symbol = symbol_new (rq_symbol req), o_side = side,
       o_kind = Open,
       o_type = (if rq_order_type req = ''limit'' then Limit (or_zero (rq_price req)) else Market),
       o_quantity = rq_quantity req, o_tif = Ioc, o_stop_loss = rq_stop_loss req, o_take_profit = rq_take_profit req,
       o_comment = None, o_submitted_at = utc_now E, o_status = OPending, o_filled_quantity = 0,
       o_avg_fill_price = None \<rparr>"

definition evaluate_order_handler :: "ext \<Rightarrow> server \<Rightarrow> headers \<Rightarrow> order_request \<Rightarrow> run_response reply" where
  "evaluate_order_handler E srv hs req =
     (case request_account ''stateless evaluation'' E hs (rq_account_id req) (rq_account_state req) of
        Inl e \<Rightarrow> Some (srv, Inl e)
      | Inr (tenant, account_id, acc) \<Rightarrow>
          if evaluation_mode_of (status acc) = SkipMode
          then Some (srv, Inr \<lparr> rr_decision_kind = None, rr_passed = False, rr_violations = [],
                               rr_violation_details = [], rr_account_state = acc \<rparr>)
          else if rq_side req \<noteq> ''buy'' \<and> rq_side req \<noteq> ''sell''
          then Some (srv, Inl (400, Fmt ''invalid side'' [Lit (rq_side req)]))
          else do {
            let ord = request_order E account_id (if rq_side req = ''buy'' then Buy else Sell) req;
            (srv1, r) \<leftarrow> handler_process E srv acc (POrderSubmitted ord);
            Some (srv1, case r of
                Inl e \<Rightarrow> Inl e
              | Inr p \<Rightarrow> Inr \<lparr> rr_decision_kind = Some (d_kind (sn_decision (pr_snapshot p))),
                             rr_passed = er_passed (pr_result p),
                             rr_violations = er_violations (pr_result p),
                             rr_violation_details = d_all_violations (er_decision (pr_result p)),
                             rr_account_state = pr_account p \<rparr>) })"

section \<open>Queries\<close>

text \<open>The audit trail is kept elsewhere: an admitted query has no entries.\<close>

definition audit_log_query :: "ext \<Rightarrow> headers \<Rightarrow> uuid option \<Rightarrow> uuid option \<Rightarrow> http_error + nat" where
  "audit_log_query E hs query_tenant query_account =
     (let from_header = (case extract_tenant_id E hs of Inl _ \<Rightarrow> None | Inr t \<Rightarrow> Some t) in
      case query_tenant of
        Some t \<Rightarrow>
          (case from_header of
             Some h \<Rightarrow> if h \<noteq> t then Inl (403, Lit ''query tenant_id does not match X-Tenant-Id header'') else Inr 0
           | None \<Rightarrow> Inr 0)
      | None \<Rightarrow>
          if from_header = None \<and> query_account = None
          then Inl (400, Lit ''at least one of tenant_id or account_id is required'') else Inr 0)"

record rule_entry_dto =
  rd_id :: string
  rd_kind :: string
  rd_basis :: string
  rd_unit :: string
  rd_value :: decimal
  rd_tolerance_cents :: "int option"
  rd_early_warning_pct :: "decimal option"
  rd_priority :: u32
  rd_enabled :: bool
  rd_params_json :: "string option"
  rd_severity :: "string option"
  rd_failure_policy :: "string option"

record create_rule_pack_request =
  cp_id :: string
  cp_version :: u32
  cp_description :: string
  cp_rules :: "rule_entry_dto list"
  cp_initial_balance :: money
  cp_leverage :: u32
  cp_profit_target_pct :: pct

fun parse_entries :: "rule_entry_dto list \<Rightarrow> http_error + rule_entry list" where
  "parse_entries [] = Inr []"
| "parse_entries (r # rs) =
     (case rule_basis_from_str (rd_basis r) of
        Inl e \<Rightarrow> Inl (400, error_msg e)
      | Inr b \<Rightarrow>
          (case rule_unit_from_str (rd_unit r) of
             Inl e \<Rightarrow> Inl (400, error_msg e)
           | Inr u \<Rightarrow>
               (case parse_entries rs of
                  Inl e \<Rightarrow> Inl e
                | Inr es \<Rightarrow> Inr
                    (\<lparr> en_id = rd_id r, en_kind = rd_kind r, en_basis = b, en_unit = u, en_value = rd_value r,
                       en_tolerance_cents = rd_tolerance_cents r, en_early_warning_pct = rd_early_warning_pct r,
                       en_priority = rd_priority r, en_enabled = rd_enabled r,
                       en_params_json = (case rd_params_json r of Some j \<Rightarrow> j | None \<Rightarrow> ''{}''),
                       en_severity = rd_severity r, en_failure_policy = rd_failure_policy r \<rparr> # es))))"

text \<open>The response is the id, the version, the lifecycle and the content hash of the pack.\<close>

definition validate_rule_pack ::
  "ext \<Rightarrow> create_rule_pack_request \<Rightarrow> http_error + (string \<times> u32 \<times> string \<times> string)" where
  "validate_rule_pack E req =
     (case parse_entries (cp_rules req) of
        Inl e \<Rightarrow> Inl e
      | Inr es \<Rightarrow>
          (let pack =
             \<lparr> rp_id = cp_id req, rp_version = cp_version req, rp_tenant_id = tenant_id_named E ''validation'',
               rp_lifecycle = Draft, rp_effective_from = utc_now E, rp_superseded_by = None,
               rp_description = cp_description req, rp_rules = es, rp_initial_balance = cp_initial_balance req,
               rp_leverage = cp_leverage req, rp_profit_target_pct = cp_profit_target_pct req \<rparr> in
           case pack_validate pack of
             Inl e \<Rightarrow> Inl (400, error_msg e)
           | Inr _ \<Rightarrow> Inr (rp_id pack, rp_version pack, pack_lifecycle_display (rp_lifecycle pack), content_hash E pack)))"

section \<open>Routes\<close>

text \<open>
  The routes that take an account, with the account of the response (its status in a report),
  and the time readings of the idempotency store.
\<close>

datatype api_call =
    CallEvaluate int int evaluate_request
  | CallOverride override_request
  | CallManualRun string "account option"
  | CallEmergencyStop string "account option" string string
  | CallBreachReport string "account option" "violation list" "string list"
  | CallEvaluateOrder order_request

fun call_account :: "api_call \<Rightarrow> string \<times> account option" where
  "call_account (CallEvaluate now later req) = (iq_account_id req, iq_account_state req)"
| "call_account (CallOverride req) = (oq_account_id req, oq_account_state req)"
| "call_account (CallManualRun account state) = (account, state)"
| "call_account (CallEmergencyStop account state reason actor) = (account, state)"
| "call_account (CallBreachReport account state reported clears) = (account, state)"
| "call_account (CallEvaluateOrder req) = (rq_account_id req, rq_account_state req)"

definition mapr :: "('a \<Rightarrow> 'b) \<Rightarrow> 'a reply \<Rightarrow> 'b reply" where
  "mapr f m = map_option (\<lambda>(srv, r). (srv, map_sum id f r)) m"

fun route :: "ext \<Rightarrow> api_json \<Rightarrow> server \<Rightarrow> headers \<Rightarrow> api_call \<Rightarrow> account option reply" where
  "route E J srv hs (CallEvaluate now later req) = mapr (Some \<circ> ir_account_state) (evaluate_internal E J now later srv hs req)"
| "route E J srv hs (CallOverride req) = mapr (\<lambda>(i, t, a). Some a) (override_breach E srv hs req)"
| "route E J srv hs (CallManualRun account state) = mapr (Some \<circ> rr_account_state) (manual_run E srv hs account state)"
| "route E J srv hs (CallEmergencyStop account state reason actor) =
     mapr (\<lambda>(k, t, a). Some a) (emergency_stop_handler E srv hs account state reason actor)"
| "route E J srv hs (CallBreachReport account state reported clears) =
     mapr (\<lambda>r. None) (breach_report E srv hs account state reported clears)"
| "route E J srv hs (CallEvaluateOrder req) = mapr (Some \<circ> rr_account_state) (evaluate_order_handler E srv hs req)"

section \<open>Specification\<close>

text \<open>The request names its tenant and account, and they own the account state it carries.\<close>

definition owns :: "ext \<Rightarrow> headers \<Rightarrow> string \<times> account option \<Rightarrow> uuid \<Rightarrow> uuid \<Rightarrow> account \<Rightarrow> bool" where
  "owns E hs r tenant ident a \<longleftrightarrow> extract_tenant_id E hs = Inr tenant \<and> parse_id E (fst r) = Inr ident
     \<and> snd r = Some a \<and> acc_id a = ident \<and> tenant_id a = tenant"

text \<open>The invariant of the server: its store is well-formed and its cache holds registries of the library.\<close>

definition server_ok :: "server \<Rightarrow> bool" where
  "server_ok srv \<longleftrightarrow> idem_ok (srv_idem srv)
     \<and> (\<forall>k reg. srv_cache srv k = Some reg \<longrightarrow> (\<exists>E p. with_default_rules_for_plan E p = Some reg))"

section \<open>Inversion of replies\<close>

lemma mapr_Inr: "mapr f m = Some (srv, Inr y) \<longleftrightarrow> (\<exists>x. m = Some (srv, Inr x) \<and> y = f x)"
  by (cases m) (auto simp: mapr_def map_sum_def split: sum.splits)

lemma mapr_server: "mapr f m = Some (srv, r) \<Longrightarrow> \<exists>r'. m = Some (srv, r')"
  by (auto simp: mapr_def)

lemma validate_ok: "validate_account_state a i t = Inr u \<longleftrightarrow> acc_id a = i \<and> tenant_id a = t"
  by (auto simp: validate_account_state_def)

lemma request_account_Inr:
  "request_account purpose E hs account state = Inr (t, i, a) \<longleftrightarrow> owns E hs (account, state) t i a"
  by (auto simp: request_account_def owns_def validate_account_state_def split: sum.split_asm option.split_asm if_split_asm)

lemma handler_process_Inr:
  assumes "handler_process E srv a ev = Some (srv', Inr p)"
  obtains cache reg where "get_or_build E (srv_cache srv) (plan a) = Some (cache, reg)"
    "process E reg store_empty (\<lambda>v. Inr ()) a ev = ok p" "srv' = srv\<lparr>srv_cache := cache\<rparr>"
proof -
  obtain cache reg r where r: "get_or_build E (srv_cache srv) (plan a) = Some (cache, reg)"
      "process E reg store_empty quiet_notify a ev = Some r" "srv' = srv\<lparr>srv_cache := cache\<rparr>"
      "(case r of Inl e \<Rightarrow> Inl (500 :: nat, error_msg e) | Inr q \<Rightarrow> Inr q) = Inr p"
    using assms by (auto simp: handler_process_def run_simps)
  then have "r = Inr p" by (cases r) simp_all
  then show thesis using that r by (simp add: ok_def)
qed

lemma handler_process_server:
  assumes "handler_process E srv a ev = Some (srv', r)"
  obtains cache reg where "get_or_build E (srv_cache srv) (plan a) = Some (cache, reg)" "srv' = srv\<lparr>srv_cache := cache\<rparr>"
  using assms by (auto simp: handler_process_def run_simps)

lemma handler_process_identity:
  assumes "handler_process E srv a ev = Some (srv', Inr p)"
  shows "acc_id (pr_account p) = acc_id a \<and> tenant_id (pr_account p) = tenant_id a"
  using assms
proof (rule handler_process_Inr)
  fix cache reg assume "process E reg store_empty (\<lambda>v. Inr ()) a ev = ok p"
  from identity.process_kept [OF _ _ _ this, of "acc_id a" "tenant_id a" "initial_balance a"] show ?thesis by simp
qed

lemma apply_decision_identity:
  assumes "apply_decision E a d t actor = ok (b, evs)"
  shows "acc_id b = acc_id a \<and> tenant_id b = tenant_id a \<and> intraday_peak_equity b = intraday_peak_equity a"
  using assms
  by (auto elim!: apply_decision_cases op_elims simp: decision_target_def decision_promote_def decision_terminate_def op_defs
      Let_def upgrade_phase_def run_simps split: if_splits option.splits sum.splits)

section \<open>Ownership\<close>

lemma evaluate_impl_cases:
  assumes "evaluate_internal_impl E srv tenant req = Some (srv', Inr resp)"
  obtains (skipped) i a where "parse_id E (iq_account_id req) = Inr i" "iq_account_state req = Some a" "acc_id a = i"
      "tenant_id a = tenant" "evaluation_mode_of (status a) = SkipMode" "ir_account_state resp = a"
      "ir_decision_kind resp = None" "srv' = srv"
  | (evaluated) i a src cache reg where "parse_id E (iq_account_id req) = Inr i" "iq_account_state req = Some a"
      "acc_id a = i" "tenant_id a = tenant" "evaluation_mode_of (status a) = Evaluate" "request_equity_source req = Inr src"
      "get_or_build E (srv_cache srv) (plan a) = Some (cache, reg)"
      "evaluate_bound E reg tenant i a src req = Some (Inr resp)" "srv' = srv\<lparr>srv_cache := cache\<rparr>"
proof -
  note d = evaluate_internal_impl_def
  obtain i where i: "parse_id E (iq_account_id req) = Inr i"
    using assms by (cases "parse_id E (iq_account_id req)") (simp_all add: d)
  obtain src where src: "request_equity_source req = Inr src"
    using assms by (cases "request_equity_source req") (simp_all add: d i)
  obtain a where a: "iq_account_state req = Some a"
    using assms by (cases "iq_account_state req") (simp_all add: d i src)
  have v: "validate_account_state a i tenant = Inr ()"
    using assms by (cases "validate_account_state a i tenant") (simp_all add: d i src a)
  have own: "acc_id a = i" "tenant_id a = tenant" using v by (simp_all add: validate_ok)
  show thesis
  proof (cases "evaluation_mode_of (status a)")
    case SkipMode
    then show thesis using assms skipped [OF i a own SkipMode] by (auto simp: d i src a v)
  next
    case Evaluate
    then have "iq_rule_pack req = None" using assms by (cases "iq_rule_pack req") (simp_all add: d i src a v)
    with Evaluate obtain cache reg r where "get_or_build E (srv_cache srv) (plan a) = Some (cache, reg)"
        "evaluate_bound E reg tenant i a src req = Some (Inr resp)" "srv' = srv\<lparr>srv_cache := cache\<rparr>"
      using assms by (auto simp: d i src a v run_simps)
    then show thesis by (rule evaluated [OF i a own Evaluate src])
  qed
qed

lemma sum_case_Inr: "(case r of Inl e \<Rightarrow> Inl e | Inr x \<Rightarrow> f x) = Inr y \<longleftrightarrow> (\<exists>x. r = Inr x \<and> f x = Inr y)"
  by (cases r) auto

lemma evaluate_bound_cases:
  assumes "evaluate_bound E reg tenant i a src req = Some (Inr resp)"
  obtains ti cross v evs where
    "(case iq_bridge_tick req of Some bt \<Rightarrow> bridge_inputs E i a bt req | None \<Rightarrow> Some (legacy_inputs E i a req)) = Some (Inr ti)"
    "pure_evaluate E reg (raise_baselines src (ti_account ti)) (synthetic_from_plan (uuid_display E i) tenant (plan a) (utc_now E))
       OnTick (ti_server_time ti) (case ti_tick ti of
           Some tk \<Rightarrow> with_equity_source (with_cross_reference_trades (inputs_for_tick (ti_positions ti) (ti_trades ti) tk) cross) src
         | None \<Rightarrow> inputs_default\<lparr>ev_open_positions := ti_positions ti, ev_today_trades := ti_trades ti,
               ev_cross_reference_trades := cross, ev_equity_source := src\<rparr>) = ok v"
    "apply_decision E (raise_baselines src (ti_account ti)) (pv_decision v) (ti_server_time ti) ''evaluate_internal''
       = ok (ir_account_state resp, evs)"
    "ir_decision_kind resp = Some (d_kind (pv_decision v))" "num_seconds E (utc_now E - ti_server_time ti) \<le> 600"
    "ir_violations resp = d_all_violations (pv_decision v)"
proof -
  note d = evaluate_bound_def Let_def
  let ?cross = "collect_domain (trade_into_domain E (new_v4 E ''cross_reference_account''))
    (case iq_cross_reference_trades req of Some ts \<Rightarrow> ts | None \<Rightarrow> [])"
  obtain cs where cs: "?cross = Inr cs" using assms by (cases ?cross) (simp_all add: d)
  let ?shaped = "case iq_bridge_tick req of Some bt \<Rightarrow> bridge_inputs E i a bt req | None \<Rightarrow> Some (legacy_inputs E i a req)"
  obtain sh where sh: "?shaped = Some sh" using assms by (cases ?shaped) (simp_all add: d cs)
  obtain ti where ti: "sh = Inr ti" using assms by (cases sh) (simp_all add: d cs sh)
  have stale: "num_seconds E (utc_now E - ti_server_time ti) \<le> 600"
    using assms by (rule contrapos_pp) (simp add: d cs sh ti)
  let ?cr = "filter (\<lambda>t. t_account_id t \<noteq> i) cs"
  let ?in = "case ti_tick ti of
           Some tk \<Rightarrow> with_equity_source (with_cross_reference_trades (inputs_for_tick (ti_positions ti) (ti_trades ti) tk) ?cr) src
         | None \<Rightarrow> inputs_default\<lparr>ev_open_positions := ti_positions ti, ev_today_trades := ti_trades ti,
               ev_cross_reference_trades := ?cr, ev_equity_source := src\<rparr>"
  let ?pure = "pure_evaluate E reg (raise_baselines src (ti_account ti))
      (synthetic_from_plan (uuid_display E i) tenant (plan a) (utc_now E)) OnTick (ti_server_time ti) ?in"
  obtain w where w: "?pure = Some w" using assms stale by (cases ?pure) (simp_all add: d cs sh ti)
  obtain v where v: "w = Inr v" using assms stale w by (cases w) (simp_all add: d cs sh ti)
  let ?app = "apply_decision E (raise_baselines src (ti_account ti)) (pv_decision v) (ti_server_time ti) ''evaluate_internal''"
  obtain x where x: "?app = Some x" using assms stale w v by (cases ?app) (simp_all add: d cs sh ti)
  obtain b evs where b: "x = Inr (b, evs)" using assms stale w v x by (cases x) (auto simp: d cs sh ti)
  have "ir_account_state resp = b \<and> ir_decision_kind resp = Some (d_kind (pv_decision v)) \<and> ir_violations resp = d_all_violations (pv_decision v)"
    using assms stale w v x b by (auto simp: d cs sh ti run_simps)
  then show thesis using that [OF _ _ _ _ stale, of ?cr v evs] sh ti w v x b by (simp add: ok_def)
qed

lemma legacy_inputs_Inr:
  assumes "legacy_inputs E i a req = Inr ti"
  shows "ti_account ti = a"
proof -
  let ?ps = "collect_domain (\<lambda>n. position_into_domain E i) (case iq_open_positions req of Some ps \<Rightarrow> ps | None \<Rightarrow> [])"
  let ?ts = "collect_domain (trade_into_domain E i) (case iq_today_trades req of Some ts \<Rightarrow> ts | None \<Rightarrow> [])"
  show ?thesis using assms by (cases "iq_tick req"; cases ?ps; cases ?ts) (auto simp: legacy_inputs_def)
qed

lemma bridge_inputs_Inr:
  assumes "bridge_inputs E i a bt req = Some (Inr ti)"
  shows "\<exists>eq bal. ti_account ti = a\<lparr>equity := eq, balance := bal\<rparr>"
proof -
  let ?ps = "collect_domain (\<lambda>n. bridge_position_into_domain E i) (bt_positions bt)"
  let ?ts = "collect_domain (trade_into_domain E i) (case iq_today_trades req of Some ts \<Rightarrow> ts | None \<Rightarrow> [])"
  obtain eq bal where "cents_to_decimal E (bt_equity_cents bt) = Some eq" "cents_to_decimal E (bt_balance_cents bt) = Some bal"
    using assms by (auto simp: bridge_inputs_def run_simps)
  then have "ti_account ti = a\<lparr>equity := eq, balance := bal\<rparr>"
    using assms by (cases ?ps; cases ?ts; cases "ts_from_millis E (bt_broker_time bt)") (auto simp: bridge_inputs_def)
  then show ?thesis by blast
qed

lemma tick_inputs_account:
  assumes "(case iq_bridge_tick req of Some bt \<Rightarrow> bridge_inputs E i a bt req | None \<Rightarrow> Some (legacy_inputs E i a req)) = Some (Inr ti)"
  shows "\<exists>eq bal. ti_account ti = a\<lparr>equity := eq, balance := bal\<rparr>"
proof (cases "iq_bridge_tick req")
  case None
  then have "ti_account ti = a" using assms legacy_inputs_Inr by simp
  then have "ti_account ti = a\<lparr>equity := equity a, balance := balance a\<rparr>" by simp
  then show ?thesis by blast
qed (use assms bridge_inputs_Inr in simp)

lemma evaluate_bound_account:
  assumes "evaluate_bound E reg tenant i a src req = Some (Inr resp)"
  shows "acc_id (ir_account_state resp) = acc_id a \<and> tenant_id (ir_account_state resp) = tenant_id a
     \<and> intraday_peak_equity (ir_account_state resp) = intraday_peak_equity a"
  using assms
proof (rule evaluate_bound_cases)
  fix ti cross v evs
  assume ti: "(case iq_bridge_tick req of Some bt \<Rightarrow> bridge_inputs E i a bt req | None \<Rightarrow> Some (legacy_inputs E i a req)) = Some (Inr ti)"
    and ap: "apply_decision E (raise_baselines src (ti_account ti)) (pv_decision v) (ti_server_time ti) ''evaluate_internal''
       = ok (ir_account_state resp, evs)"
  obtain eq bal where "ti_account ti = a\<lparr>equity := eq, balance := bal\<rparr>"
    using tick_inputs_account [OF ti] by blast
  then show ?thesis using apply_decision_identity [OF ap] by (simp add: raise_baselines_def)
qed

lemma evaluate_impl_account:
  assumes "evaluate_internal_impl E srv tenant req = Some (srv', Inr resp)" "extract_tenant_id E hs = Inr tenant"
  obtains i a where "owns E hs (iq_account_id req, iq_account_state req) tenant i a"
    "acc_id (ir_account_state resp) = i" "tenant_id (ir_account_state resp) = tenant"
    "intraday_peak_equity (ir_account_state resp) = intraday_peak_equity a"
  using assms(1)
proof (rule evaluate_impl_cases)
  fix i a assume "parse_id E (iq_account_id req) = Inr i" "iq_account_state req = Some a" "acc_id a = i" "tenant_id a = tenant"
    "ir_account_state resp = a"
  then show thesis using that assms(2) by (auto simp: owns_def)
next
  fix i a src cache reg
  assume "parse_id E (iq_account_id req) = Inr i" "iq_account_state req = Some a" "acc_id a = i" "tenant_id a = tenant"
    "evaluate_bound E reg tenant i a src req = Some (Inr resp)"
  then show thesis using that assms(2) evaluate_bound_account by (auto simp: owns_def)
qed

lemma override_breach_Inr:
  assumes "override_breach E srv hs req = Some (srv', Inr x)"
  shows "\<exists>t i a ev p. owns E hs (oq_account_id req, oq_account_state req) t i a \<and> is_breach_terminal (status a)
    \<and> handler_process E srv a (POverrideBreach ev) = Some (srv', Inr p) \<and> snd (snd x) = pr_account p"
proof -
  note d = override_breach_def
  obtain t where t: "extract_tenant_id E hs = Inr t" using assms by (cases "extract_tenant_id E hs") (simp_all add: d)
  obtain i where i: "parse_id E (oq_account_id req) = Inr i"
    using assms by (cases "parse_id E (oq_account_id req)") (simp_all add: d t)
  obtain c where c: "parse_id E (oq_clears_violation_id req) = Inr c"
    using assms by (cases "parse_id E (oq_clears_violation_id req)") (simp_all add: d t i)
  obtain a where a: "oq_account_state req = Some a" using assms by (cases "oq_account_state req") (simp_all add: d t i c)
  have v: "validate_account_state a i t = Inr ()"
    using assms by (cases "validate_account_state a i t") (simp_all add: d t i c a)
  have ch: "override_checks req t i c a = Inr ()"
    using assms by (cases "override_checks req t i c a") (simp_all add: d t i c a v)
  have "is_breach_terminal (status a)" using ch by (simp add: override_checks_def split: if_split_asm)
  moreover have "owns E hs (oq_account_id req, oq_account_state req) t i a" using t i a v by (simp add: owns_def validate_ok)
  moreover obtain ev q where q: "handler_process E srv a (POverrideBreach ev) = Some (srv', q)"
      "(case q of Inl e \<Rightarrow> Inl e | Inr p \<Rightarrow> Inr (ov_id ev, ov_at ev, pr_account p)) = Inr x"
    using assms by (auto simp: d t i c a v ch run_simps)
  moreover obtain p where "q = Inr p" "snd (snd x) = pr_account p" using q(2) by (cases q) auto
  ultimately show ?thesis by blast
qed

lemma manual_run_Inr:
  assumes "manual_run E srv hs account state = Some (srv', Inr x)"
  shows "\<exists>t i a. owns E hs (account, state) t i a
    \<and> (rr_account_state x = a \<and> srv' = srv
       \<or> (\<exists>p. handler_process E srv a POnDemand = Some (srv', Inr p) \<and> rr_account_state x = pr_account p))"
proof -
  note d = manual_run_def
  obtain t i a where r: "request_account ''stateless evaluation'' E hs account state = Inr (t, i, a)"
    using assms by (cases "request_account ''stateless evaluation'' E hs account state") (auto simp: d)
  have own: "owns E hs (account, state) t i a" using r request_account_Inr by blast
  show ?thesis
  proof (cases "evaluation_mode_of (status a) = SkipMode")
    case True
    then have "rr_account_state x = a \<and> srv' = srv" using assms by (auto simp: d r)
    then show ?thesis using own by blast
  next
    case False
    then obtain q where q: "handler_process E srv a POnDemand = Some (srv', q)"
      using assms by (auto simp: d r run_simps)
    then obtain p where "q = Inr p" "rr_account_state x = pr_account p"
      using assms False by (cases q) (auto simp: d r)
    then show ?thesis using own q by blast
  qed
qed

lemma emergency_stop_Inr:
  assumes "emergency_stop_handler E srv hs account state reason actor = Some (srv', Inr x)"
  shows "\<exists>t i a. owns E hs (account, state) t i a
    \<and> (evaluation_mode_of (status a) = SkipMode \<and> snd (snd x) = a \<and> srv' = srv
       \<or> evaluation_mode_of (status a) = Evaluate
         \<and> (\<exists>p. handler_process E srv a (PEmergencyStop reason actor (utc_now E)) = Some (srv', Inr p)
              \<and> snd (snd x) = pr_account p))"
proof -
  note d = emergency_stop_handler_def
  obtain t i a where r: "request_account ''stateless evaluation'' E hs account state = Inr (t, i, a)"
    using assms by (cases "request_account ''stateless evaluation'' E hs account state") (auto simp: d)
  have own: "owns E hs (account, state) t i a" using r request_account_Inr by blast
  show ?thesis
  proof (cases "evaluation_mode_of (status a)")
    case SkipMode
    then have "snd (snd x) = a \<and> srv' = srv" using assms by (auto simp: d r split: if_split_asm)
    then show ?thesis using own SkipMode by blast
  next
    case Evaluate
    then have ne: "status a \<noteq> EmergencyStopped" by auto
    then obtain q where q: "handler_process E srv a (PEmergencyStop reason actor (utc_now E)) = Some (srv', q)"
      using assms Evaluate by (auto simp: d r run_simps)
    then obtain p where "q = Inr p" "snd (snd x) = pr_account p"
      using assms Evaluate ne by (cases q) (auto simp: d r)
    then show ?thesis using own q Evaluate by blast
  qed
qed

lemma breach_report_Inr:
  assumes "breach_report E srv hs account state reported clears = Some (srv', Inr x)"
  shows "\<exists>t i a p. owns E hs (account, state) t i a \<and> (\<forall>v \<in> set reported. v_tenant_id v = t)
    \<and> handler_process E srv a POnDemand = Some (srv', Inr p) \<and> fst x = status (pr_account p)"
proof -
  note d = breach_report_def
  obtain t i a where r: "request_account ''breach report'' E hs account state = Inr (t, i, a)"
    using assms by (cases "request_account ''breach report'' E hs account state") (auto simp: d)
  have l: "\<not> list_ex (\<lambda>v. v_tenant_id v \<noteq> t) reported" using assms by (rule contrapos_pp) (simp add: d r)
  then obtain q where q: "handler_process E srv a POnDemand = Some (srv', q)"
    using assms by (auto simp: d r run_simps)
  then obtain p where "q = Inr p" "fst x = status (pr_account p)" using assms l by (cases q) (auto simp: d r)
  moreover have "\<forall>v \<in> set reported. v_tenant_id v = t" using l by (auto simp: list_ex_iff)
  ultimately show ?thesis using r q request_account_Inr by blast
qed

lemma evaluate_order_Inr:
  assumes "evaluate_order_handler E srv hs req = Some (srv', Inr x)"
  shows "\<exists>t i a. owns E hs (rq_account_id req, rq_account_state req) t i a
    \<and> (evaluation_mode_of (status a) = SkipMode \<and> rr_account_state x = a \<and> srv' = srv
       \<or> (\<exists>p. handler_process E srv a (POrderSubmitted (request_order E i (if rq_side req = ''buy'' then Buy else Sell) req))
              = Some (srv', Inr p) \<and> rr_account_state x = pr_account p))"
proof -
  note d = evaluate_order_handler_def
  obtain t i a where r: "request_account ''stateless evaluation'' E hs (rq_account_id req) (rq_account_state req) = Inr (t, i, a)"
    using assms by (cases "request_account ''stateless evaluation'' E hs (rq_account_id req) (rq_account_state req)") (auto simp: d)
  have own: "owns E hs (rq_account_id req, rq_account_state req) t i a" using r request_account_Inr by blast
  show ?thesis
  proof (cases "evaluation_mode_of (status a) = SkipMode")
    case True
    then have "evaluation_mode_of (status a) = SkipMode \<and> rr_account_state x = a \<and> srv' = srv" using assms by (auto simp: d r)
    then show ?thesis using own by blast
  next
    case False
    let ?ord = "request_order E i (if rq_side req = ''buy'' then Buy else Sell) req"
    have side: "\<not> (rq_side req \<noteq> ''buy'' \<and> rq_side req \<noteq> ''sell'')"
      using assms False by (rule_tac contrapos_pp) (simp_all add: d r)
    obtain q where q: "handler_process E srv a (POrderSubmitted ?ord) = Some (srv', q)"
      using assms False side by (cases "handler_process E srv a (POrderSubmitted ?ord)") (auto simp: d r)
    then obtain p where "q = Inr p" "rr_account_state x = pr_account p"
      using assms False side by (cases q) (auto simp: d r)
    then show ?thesis using own q by blast
  qed
qed

lemma route_operator:
  assumes "route E J srv hs call = Some (srv', Inr r)" "\<And>now later req. call \<noteq> CallEvaluate now later req"
  shows "\<exists>t i a. owns E hs (call_account call) t i a
    \<and> (r = None \<or> r = Some a \<or> (\<exists>ev p. handler_process E srv a ev = Some (srv', Inr p) \<and> r = Some (pr_account p)))"
proof (cases call)
  case (CallOverride req)
  then obtain x where x: "override_breach E srv hs req = Some (srv', Inr x)" "r = Some (snd (snd x))"
    using assms(1) by (auto simp: mapr_Inr)
  obtain t i a ev p where "owns E hs (call_account call) t i a" "r = Some (pr_account p)"
      "handler_process E srv a (POverrideBreach ev) = Some (srv', Inr p)"
    using override_breach_Inr [OF x(1)] x(2) CallOverride by auto
  then show ?thesis by blast
next
  case (CallManualRun account state)
  then obtain x where x: "manual_run E srv hs account state = Some (srv', Inr x)" "r = Some (rr_account_state x)"
    using assms(1) by (auto simp: mapr_Inr)
  then obtain t i a where "owns E hs (call_account call) t i a"
      "r = Some a \<or> (\<exists>p. handler_process E srv a POnDemand = Some (srv', Inr p) \<and> r = Some (pr_account p))"
    using manual_run_Inr [OF x(1)] CallManualRun by auto
  then show ?thesis by blast
next
  case (CallEmergencyStop account state reason actor)
  then obtain x where x: "emergency_stop_handler E srv hs account state reason actor = Some (srv', Inr x)" "r = Some (snd (snd x))"
    using assms(1) by (auto simp: mapr_Inr)
  then obtain t i a where "owns E hs (call_account call) t i a"
      "r = Some a \<or> (\<exists>p. handler_process E srv a (PEmergencyStop reason actor (utc_now E)) = Some (srv', Inr p)
         \<and> r = Some (pr_account p))"
    using emergency_stop_Inr [OF x(1)] CallEmergencyStop by auto
  then show ?thesis by blast
next
  case (CallBreachReport account state reported clears)
  then obtain x where "breach_report E srv hs account state reported clears = Some (srv', Inr x)" "r = None"
    using assms(1) by (auto simp: mapr_Inr)
  then show ?thesis using breach_report_Inr CallBreachReport by simp blast
next
  case (CallEvaluateOrder req)
  then obtain x where x: "evaluate_order_handler E srv hs req = Some (srv', Inr x)" "r = Some (rr_account_state x)"
    using assms(1) by (auto simp: mapr_Inr)
  then obtain t i a where "owns E hs (call_account call) t i a"
      "r = Some a \<or> (\<exists>ord p. handler_process E srv a (POrderSubmitted ord) = Some (srv', Inr p) \<and> r = Some (pr_account p))"
    using evaluate_order_Inr [OF x(1)] unfolding CallEvaluateOrder call_account.simps x(2) option.inject by blast
  then show ?thesis by blast
qed (use assms(2) in blast)

lemma route_owns:
  assumes "route E J srv hs call = Some (srv', Inr r)" "hs ''Idempotency-Key'' = None"
  shows "\<exists>t i a. owns E hs (call_account call) t i a \<and> (\<forall>b. r = Some b \<longrightarrow> acc_id b = i \<and> tenant_id b = t)"
proof (cases "\<exists>now later req. call = CallEvaluate now later req")
  case True
  then obtain now later req where call: "call = CallEvaluate now later req" by blast
  then obtain resp where resp: "evaluate_internal E J now later srv hs req = Some (srv', Inr resp)" "r = Some (ir_account_state resp)"
    using assms(1) by (auto simp: mapr_Inr)
  obtain t where t: "extract_tenant_id E hs = Inr t"
    using resp(1) by (cases "extract_tenant_id E hs") (simp_all add: evaluate_internal_def)
  then have "evaluate_internal_impl E srv t req = Some (srv', Inr resp)"
    using resp(1) assms(2) by (simp add: evaluate_internal_def)
  from this t show ?thesis by (rule evaluate_impl_account) (use resp(2) call in auto)
next
  case False
  then obtain t i a where own: "owns E hs (call_account call) t i a"
      "r = None \<or> r = Some a \<or> (\<exists>ev p. handler_process E srv a ev = Some (srv', Inr p) \<and> r = Some (pr_account p))"
    using route_operator [OF assms(1)] by blast
  then have "\<forall>b. r = Some b \<longrightarrow> acc_id b = i \<and> tenant_id b = t"
    using handler_process_identity by (fastforce simp: owns_def)
  with own(1) show ?thesis by blast
qed

section \<open>The server\<close>

lemma get_or_build_cache:
  assumes "get_or_build E cache p = Some (cache', reg)"
  shows "cache' = cache \<or> (\<exists>k. cache' = cache(k \<mapsto> reg) \<and> with_default_rules_for_plan E p = Some reg)"
  using assms by (auto simp: get_or_build_def run_simps split: option.split_asm)

lemma evaluate_impl_server:
  assumes "evaluate_internal_impl E srv tenant req = Some (srv', r)"
  shows "srv' = srv \<or> (\<exists>p cache reg. get_or_build E (srv_cache srv) p = Some (cache, reg) \<and> srv' = srv\<lparr>srv_cache := cache\<rparr>)"
  using assms
  by (auto simp: evaluate_internal_impl_def run_simps split: sum.split_asm option.split_asm if_split_asm)

lemma reply_bind: "(do { (s, r) \<leftarrow> m; Some (s, f r) }) = Some (srv', x) \<Longrightarrow> \<exists>q. m = Some (srv', q)"
  by (cases m) auto

lemma handler_servers:
  "override_breach E srv hs oreq = Some (srv', ro) \<Longrightarrow> srv' = srv \<or> (\<exists>a ev q. handler_process E srv a ev = Some (srv', q))"
  "manual_run E srv hs account state = Some (srv', rm) \<Longrightarrow> srv' = srv \<or> (\<exists>a ev q. handler_process E srv a ev = Some (srv', q))"
  "emergency_stop_handler E srv hs account state reason actor = Some (srv', re) \<Longrightarrow> srv' = srv \<or> (\<exists>a ev q. handler_process E srv a ev = Some (srv', q))"
  "breach_report E srv hs account state reported clears = Some (srv', rb) \<Longrightarrow> srv' = srv \<or> (\<exists>a ev q. handler_process E srv a ev = Some (srv', q))"
  "evaluate_order_handler E srv hs req = Some (srv', rq) \<Longrightarrow> srv' = srv \<or> (\<exists>a ev q. handler_process E srv a ev = Some (srv', q))"
  subgoal by (simp add: override_breach_def Let_def split: sum.split_asm option.split_asm) (blast dest: reply_bind)
  subgoal by (simp add: manual_run_def split: sum.split_asm if_split_asm prod.split_asm) (blast dest: reply_bind)
  subgoal by (simp add: emergency_stop_handler_def split: sum.split_asm if_split_asm prod.split_asm) (blast dest: reply_bind)
  subgoal by (simp add: breach_report_def Let_def split: sum.split_asm if_split_asm prod.split_asm) (blast dest: reply_bind)
  subgoal by (simp add: evaluate_order_handler_def Let_def split: sum.split_asm if_split_asm prod.split_asm) (blast dest: reply_bind)+
  done

end
