(* ===== verification/Http_Runs.thy ===== *)
theory Http_Runs
  imports Http_Api
begin

text \<open>
  What the HTTP interface guarantees: the state of the server over any sequence of requests,
  retries under an idempotency key, ownership of accounts, the emergency stop, the advertised
  floors, and evaluations on estimated figures.
\<close>

section \<open>Sequences of requests\<close>

text \<open>A server answers requests one after the other, each with the environment it meets.\<close>

inductive server_run :: "api_json \<Rightarrow> server \<Rightarrow> (ext \<times> headers \<times> api_call) list \<Rightarrow> server \<Rightarrow> bool" for J where
  idle: "server_run J srv [] srv"
| served: "route E J srv hs call = Some (srv1, r) \<Longrightarrow> server_run J srv1 rs srv2 \<Longrightarrow> server_run J srv ((E, hs, call) # rs) srv2"

fun call_time :: "api_call \<Rightarrow> int option" where
  "call_time (CallEvaluate now later req) = Some now"
| "call_time _ = None"

text \<open>Two environments print identifiers and hash alike.\<close>

definition same_texts :: "ext \<Rightarrow> ext \<Rightarrow> bool" where
  "same_texts E E' \<longleftrightarrow> uuid_display E' = uuid_display E \<and> sha256_digest E' = sha256_digest E"

abbreviation evaluate_endpoint :: string where
  "evaluate_endpoint \<equiv> ''POST /internal/v1/evaluate''"

text \<open>Concrete requests and a concrete server for the witnesses.\<close>

abbreviation active_account :: account where
  "active_account \<equiv> demo_account\<lparr>status := Active\<rparr>"

definition demo_request :: "timestamp \<Rightarrow> evaluate_request" where
  "demo_request t = \<lparr> iq_account_id = uuid_bits 7, iq_account_state = Some active_account, iq_rule_pack = None,
     iq_bridge_tick = None, iq_tick = Some (demo_tick t), iq_equity_source = None, iq_open_positions = None,
     iq_today_trades = None, iq_cross_reference_trades = None \<rparr>"

definition demo_server :: server where
  "demo_server = \<lparr> srv_idem = idem_new 3 10, srv_cache = [plan_cache_key (exact_env 0) (plan demo_account) \<mapsto> registry_empty] \<rparr>"

definition demo_headers :: "string option \<Rightarrow> headers" where
  "demo_headers key = (\<lambda>h. if h = ''X-Tenant-Id'' then Some (uuid_bits 5) else if h = ''Idempotency-Key'' then key else None)"

definition demo_json :: api_json where
  "demo_json = \<lparr> json_request = (\<lambda>q. ''q''), json_response = (\<lambda>r. ''r''), parse_response = (\<lambda>s. None) \<rparr>"

section \<open>The state of the server\<close>

lemma handler_process_frame:
  assumes "handler_process E srv a ev = Some (srv', r)"
  shows "srv_idem srv' = srv_idem srv \<and> (\<exists>p reg. get_or_build E (srv_cache srv) p = Some (srv_cache srv', reg))"
  using assms by (rule handler_process_server) auto

lemma evaluate_impl_frame:
  assumes "evaluate_internal_impl E srv tenant req = Some (srv', r)"
  shows "srv_idem srv' = srv_idem srv"
    and "srv_cache srv' = srv_cache srv \<or> (\<exists>p reg. get_or_build E (srv_cache srv) p = Some (srv_cache srv', reg))"
  using evaluate_impl_server [OF assms] by auto

lemma evaluate_internal_keyed:
  assumes "extract_tenant_id E hs = Inr t" "hs ''Idempotency-Key'' = Some key"
    and "evaluate_internal_impl E srv t req = Some (srv1, Inr resp)"
    and "idem_check_and_remember E now later (srv_idem srv) (Some t) evaluate_endpoint key (json_request J req) (json_response J resp) = (st, out)"
  shows "evaluate_internal E J now later srv hs req = Some (srv1\<lparr>srv_idem := st\<rparr>, case out of
      Replay cached \<Rightarrow> (case parse_response J cached of None \<Rightarrow> Inl (500, Lit ''json'') | Some old \<Rightarrow> Inr old)
    | Conflict \<Rightarrow> Inl (409, Lit ''Idempotency-Key was already used with a different request body'')
    | _ \<Rightarrow> Inr resp)"
  using assms evaluate_impl_frame(1) [OF assms(3)] by (simp add: evaluate_internal_def)

lemma evaluate_internal_server:
  assumes "evaluate_internal E J now later srv hs req = Some (srv', r)"
  shows "(srv_cache srv' = srv_cache srv \<or> (\<exists>p reg. get_or_build E (srv_cache srv) p = Some (srv_cache srv', reg)))
    \<and> (srv_idem srv' = srv_idem srv \<or> (\<exists>t key resp.
         srv_idem srv' = idem_step E (srv_idem srv) (ReqBoth now later t evaluate_endpoint key (json_request J req) resp)))"
proof (cases "extract_tenant_id E hs")
  case (Inl e)
  then show ?thesis using assms by (simp add: evaluate_internal_def)
next
  case (Inr t)
  show ?thesis
  proof (cases "hs ''Idempotency-Key''")
    case None
    then have "evaluate_internal_impl E srv t req = Some (srv', r)" using assms Inr by (simp add: evaluate_internal_def)
    from evaluate_impl_frame [OF this] show ?thesis by simp
  next
    case (Some key)
    then obtain srv1 q where q: "evaluate_internal_impl E srv t req = Some (srv1, q)"
      using assms Inr by (auto simp: evaluate_internal_def run_simps)
    show ?thesis
    proof (cases q)
      case (Inl e)
      then have "srv' = srv1" using assms q Inr Some by (simp add: evaluate_internal_def)
      then show ?thesis using evaluate_impl_frame [OF q] by simp
    next
      case resp: (Inr resp)
      let ?both = "idem_check_and_remember E now later (srv_idem srv) (Some t) evaluate_endpoint key (json_request J req) (json_response J resp)"
      have "srv' = srv1\<lparr>srv_idem := fst ?both\<rparr>"
        using assms evaluate_internal_keyed [OF Inr Some q [unfolded resp], of now later J] by (cases ?both) simp
      then have "srv_cache srv' = srv_cache srv1" "srv_idem srv' = idem_step E (srv_idem srv)
          (ReqBoth now later t evaluate_endpoint key (json_request J req) (json_response J resp))" by simp_all
      then show ?thesis using evaluate_impl_frame(2) [OF q] by (simp only:) blast
    qed
  qed
qed

lemma route_server:
  assumes "route E J srv hs call = Some (srv', r)"
  shows "srv_cache srv' = srv_cache srv \<or> (\<exists>p reg. get_or_build E (srv_cache srv) p = Some (srv_cache srv', reg))"
    and "srv_idem srv' = srv_idem srv \<or> (\<exists>now later req t key resp. call = CallEvaluate now later req
       \<and> srv_idem srv' = idem_step E (srv_idem srv) (ReqBoth now later t evaluate_endpoint key (json_request J req) resp))"
proof -
  have *: "(srv_cache srv' = srv_cache srv \<or> (\<exists>p reg. get_or_build E (srv_cache srv) p = Some (srv_cache srv', reg)))
      \<and> srv_idem srv' = srv_idem srv"
    if "srv' = srv \<or> (\<exists>a ev q. handler_process E srv a ev = Some (srv', q))"
    using that handler_process_frame by blast
  have "(srv_cache srv' = srv_cache srv \<or> (\<exists>p reg. get_or_build E (srv_cache srv) p = Some (srv_cache srv', reg)))
    \<and> (srv_idem srv' = srv_idem srv \<or> (\<exists>now later req t key resp. call = CallEvaluate now later req
       \<and> srv_idem srv' = idem_step E (srv_idem srv) (ReqBoth now later t evaluate_endpoint key (json_request J req) resp)))"
  proof (cases call)
    case (CallEvaluate now later req)
    then obtain q where "evaluate_internal E J now later srv hs req = Some (srv', q)"
      using assms by (auto dest: mapr_server)
    from evaluate_internal_server [OF this] show ?thesis using CallEvaluate by (elim conjE disjE exE) blast+
  next
    case (CallOverride req)
    then obtain q where q: "override_breach E srv hs req = Some (srv', q)" using assms by (auto dest: mapr_server)
    from * [OF handler_servers(1) [OF q]] show ?thesis by blast
  next
    case (CallManualRun account state)
    then obtain q where q: "manual_run E srv hs account state = Some (srv', q)" using assms by (auto dest: mapr_server)
    from * [OF handler_servers(2) [OF q]] show ?thesis by blast
  next
    case (CallEmergencyStop account state reason actor)
    then obtain q where q: "emergency_stop_handler E srv hs account state reason actor = Some (srv', q)" using assms by (auto dest: mapr_server)
    from * [OF handler_servers(3) [OF q]] show ?thesis by blast
  next
    case (CallBreachReport account state reported clears)
    then obtain q where q: "breach_report E srv hs account state reported clears = Some (srv', q)" using assms by (auto dest: mapr_server)
    from * [OF handler_servers(4) [OF q]] show ?thesis by blast
  next
    case (CallEvaluateOrder req)
    then obtain q where q: "evaluate_order_handler E srv hs req = Some (srv', q)" using assms by (auto dest: mapr_server)
    from * [OF handler_servers(5) [OF q]] show ?thesis by blast
  qed
  then show "srv_cache srv' = srv_cache srv \<or> (\<exists>p reg. get_or_build E (srv_cache srv) p = Some (srv_cache srv', reg))"
    and "srv_idem srv' = srv_idem srv \<or> (\<exists>now later req t key resp. call = CallEvaluate now later req
       \<and> srv_idem srv' = idem_step E (srv_idem srv) (ReqBoth now later t evaluate_endpoint key (json_request J req) resp))"
    by blast+
qed

lemma route_ok:
  assumes "server_ok srv" "route E J srv hs call = Some (srv', r)"
  shows "server_ok srv'"
proof -
  have "idem_ok (srv_idem srv')" using route_server(2) [OF assms(2)] assms(1) step_ok by (auto simp: server_ok_def simp del: idem_step.simps)
  moreover have "\<exists>E p. with_default_rules_for_plan E p = Some reg" if k: "srv_cache srv' k = Some reg" for k reg
  proof -
    have old: "\<exists>E p. with_default_rules_for_plan E p = Some reg" if "srv_cache srv k = Some reg"
      using that assms(1) by (auto simp: server_ok_def)
    from route_server(1) [OF assms(2)] show ?thesis
    proof (elim disjE exE)
      fix p reg' assume "get_or_build E (srv_cache srv) p = Some (srv_cache srv', reg')"
      from get_or_build_cache [OF this] consider "srv_cache srv' = srv_cache srv"
        | k' where "srv_cache srv' = (srv_cache srv)(k' \<mapsto> reg')" "with_default_rules_for_plan E p = Some reg'" by blast
      then show ?thesis
      proof cases
        case (2 k')
        then show ?thesis using k old by (cases "k = k'") auto
      qed (use k old in simp)
    qed (use k old in simp)
  qed
  ultimately show ?thesis by (simp add: server_ok_def)
qed

lemma cached_default_rules:
  assumes "server_ok srv" "get_or_build E (srv_cache srv) p = Some (cache, reg)"
  shows "\<exists>E0. library_registry E0 reg \<and> set (reg_rules reg) \<subseteq> set (default_rules E0)"
proof -
  from assms have "\<exists>E0 q. with_default_rules_for_plan E0 q = Some reg"
    by (simp add: server_ok_def get_or_build_def run_simps split: option.split_asm) blast+
  then obtain E0 q where q: "with_default_rules_for_plan E0 q = Some reg" by blast
  then have "set (reg_rules reg) \<subseteq> set (default_rules E0)"
    by (auto simp: with_default_rules_for_plan_def registry_empty_def dest!: register_all_rules)
  then show ?thesis using q by (auto simp: library_registry_def)
qed

section \<open>Retries\<close>

lemma same_texts_store:
  assumes "same_texts E E'"
  shows "composite_key E' = composite_key E" "hash_body E' = hash_body E"
    "idem_check_and_remember E' = idem_check_and_remember E"
proof -
  show "composite_key E' = composite_key E" "hash_body E' = hash_body E"
    using assms by (simp_all add: same_texts_def composite_key_def hash_body_def finalize_hex_def fun_eq_iff split: option.split)
  then show "idem_check_and_remember E' = idem_check_and_remember E"
    by (simp add: idem_check_and_remember_def fun_eq_iff)
qed

lemma route_idem:
  assumes "route E' J srv hs call = Some (srv', r)" "same_texts E E'" "\<forall>now. call_time call = Some now \<longrightarrow> now \<le> bound"
  shows "\<exists>qs. srv_idem srv' = foldl (idem_step E) (srv_idem srv) qs \<and> length qs \<le> 1
    \<and> list_all (\<lambda>q. \<not> overwrites t q \<and> req_time q \<le> bound) qs"
  using route_server(2) [OF assms(1)]
proof (elim disjE exE conjE)
  assume "srv_idem srv' = srv_idem srv"
  then show ?thesis by (intro exI [of _ "[]"]) simp
next
  fix now later req u key resp
  assume "call = CallEvaluate now later req"
    "srv_idem srv' = idem_step E' (srv_idem srv) (ReqBoth now later u evaluate_endpoint key (json_request J req) resp)"
  then show ?thesis using assms(3) same_texts_store(3) [OF assms(2)]
    by (intro exI [of _ "[ReqBoth now later u evaluate_endpoint key (json_request J req) resp]"]) simp
qed

lemma server_run_idem:
  assumes "server_run J srv rs srv'"
    and "list_all (\<lambda>(E', hs, call). same_texts E E' \<and> (\<forall>now. call_time call = Some now \<longrightarrow> now \<le> bound)) rs"
  shows "\<exists>qs. srv_idem srv' = foldl (idem_step E) (srv_idem srv) qs \<and> length qs \<le> length rs
    \<and> list_all (\<lambda>q. \<not> overwrites t q \<and> req_time q \<le> bound) qs"
  using assms
proof (induction rule: server_run.induct)
  case (idle srv)
  then show ?case by (intro exI [of _ "[]"]) simp
next
  case (served E' srv hs call srv1 r rs srv2)
  then obtain qs where qs: "srv_idem srv2 = foldl (idem_step E) (srv_idem srv1) qs" "length qs \<le> length rs"
      "list_all (\<lambda>q. \<not> overwrites t q \<and> req_time q \<le> bound) qs" by auto
  obtain q where "srv_idem srv1 = foldl (idem_step E) (srv_idem srv) q" "length q \<le> 1"
      "list_all (\<lambda>q. \<not> overwrites t q \<and> req_time q \<le> bound) q"
    using route_idem [OF served.hyps(1), of E bound] served.prems by auto
  with qs show ?case by (intro exI [of _ "q @ qs"]) simp
qed

lemma evaluate_internal_Inr:
  assumes "evaluate_internal E J now later srv hs req = Some (srv', Inr resp)" "extract_tenant_id E hs = Inr t"
    and "hs ''Idempotency-Key'' = Some key"
  obtains srv1 own st out where "evaluate_internal_impl E srv t req = Some (srv1, Inr own)"
    "idem_check_and_remember E now later (srv_idem srv) (Some t) evaluate_endpoint key (json_request J req) (json_response J own) = (st, out)"
    "srv' = srv1\<lparr>srv_idem := st\<rparr>" "out \<in> {Fresh, OutcomeError} \<and> resp = own \<or> (\<exists>cached. out = Replay cached \<and> parse_response J cached = Some resp)"
proof -
  obtain srv1 q where q: "evaluate_internal_impl E srv t req = Some (srv1, q)"
    using assms by (auto simp: evaluate_internal_def run_simps)
  obtain own where own: "q = Inr own" using assms q by (cases q) (simp_all add: evaluate_internal_def)
  obtain st out where out: "idem_check_and_remember E now later (srv_idem srv) (Some t) evaluate_endpoint key (json_request J req)
      (json_response J own) = (st, out)" by force
  from evaluate_internal_keyed [OF assms(2,3) q [unfolded own] out] assms(1)
  have "srv' = srv1\<lparr>srv_idem := st\<rparr>" "out \<in> {Fresh, OutcomeError} \<and> resp = own \<or> (\<exists>cached. out = Replay cached \<and> parse_response J cached = Some resp)"
    by (auto split: idempotency_outcome.split_asm option.split_asm)
  with that q own out show thesis by blast
qed

text \<open>
  C7. A retried evaluation is answered like the first. Once a request with an idempotency key
  has been answered and recorded, and as long as its time to live has not passed and fewer
  requests than the capacity have been served in between, whatever they were and whoever
  sent them, a request of the same tenant with the same key that is answered at all has the
  same body, up to the hash, and gets the first response.
\<close>

theorem retry_answers_alike:
  assumes "uuid_texts E" "idem_ok (srv_idem srv)" "0 \<le> st_ttl (srv_idem srv)"
    and "extract_tenant_id E hs = Inr t" "hs ''Idempotency-Key'' = Some key"
    and "map_of (in_entries (idem_prune (st_inner (srv_idem srv)) (st_ttl (srv_idem srv)) t0)) (composite_key E (Some t) evaluate_endpoint key) = None"
    and "evaluate_internal E J t0 t1 srv hs req = Some (srv1, Inr resp)" "parse_response J (json_response J resp) = Some resp"
    and "server_run J srv1 rs srv2" "length rs < st_capacity (srv_idem srv)"
    and "list_all (\<lambda>(E', hs, call). same_texts E E'
           \<and> (\<forall>now. call_time call = Some now \<longrightarrow> now \<le> t1 + st_ttl (srv_idem srv))) rs"
    and "same_texts E E'" "now \<le> t1 + st_ttl (srv_idem srv)"
    and "extract_tenant_id E' hs' = Inr t" "hs' ''Idempotency-Key'' = Some key"
    and "evaluate_internal E' J now later srv2 hs' req' = Some (srv3, Inr resp')"
  shows "hash_body E (json_request J req') = hash_body E (json_request J req) \<and> resp' = resp"
proof -
  obtain s own st out where first: "idem_check_and_remember E t0 t1 (srv_idem srv) (Some t) evaluate_endpoint key (json_request J req)
        (json_response J own) = (st, out)" "srv1 = s\<lparr>srv_idem := st\<rparr>"
      "out \<in> {Fresh, OutcomeError} \<and> resp = own \<or> (\<exists>cached. out = Replay cached \<and> parse_response J cached = Some resp)"
    by (rule evaluate_internal_Inr [OF assms(7,4,5)])
  then have fresh: "idem_check_and_remember E t0 t1 (srv_idem srv) (Some t) evaluate_endpoint key (json_request J req)
      (json_response J resp) = (st, Fresh)" using assms(6) by (auto simp: idem_check_and_remember_def Let_def)
  obtain qs where qs: "srv_idem srv2 = foldl (idem_step E) st qs" "length qs \<le> length rs"
      "list_all (\<lambda>q. \<not> overwrites t q \<and> req_time q \<le> t1 + st_ttl (srv_idem srv)) qs"
    using server_run_idem [OF assms(9,11), of t] first(2) by auto
  obtain s' own' st' out' where again: "idem_check_and_remember E' now later (srv_idem srv2) (Some t) evaluate_endpoint key
        (json_request J req') (json_response J own') = (st', out')"
      "out' \<in> {Fresh, OutcomeError} \<and> resp' = own' \<or> (\<exists>cached. out' = Replay cached \<and> parse_response J cached = Some resp')"
    by (rule evaluate_internal_Inr [OF assms(16,14,15)])
  have "snd (idem_check_and_remember E now later (foldl (idem_step E) st qs) (Some t) evaluate_endpoint key
      (json_request J req') (json_response J own')) =
      (if hash_body E (json_request J req') = hash_body E (json_request J req) then Replay (json_response J resp) else Conflict)"
    using qs(2) assms(10) by (intro idempotent_within_window [OF assms(1,2,3) fresh _ qs(3) assms(13)]) simp
  then have "out' = (if hash_body E (json_request J req') = hash_body E (json_request J req) then Replay (json_response J resp) else Conflict)"
    using again(1) same_texts_store(3) [OF assms(12)] qs(1) by simp
  with again(2) assms(8) show ?thesis by (auto split: if_split_asm)
qed

lemma demo_cache: "get_or_build (exact_env t) (srv_cache demo_server) (plan demo_account) = Some (srv_cache demo_server, registry_empty)"
  by (simp add: get_or_build_def demo_server_def plan_cache_key_def)

lemma demo_bits [simp]: "bits_uuid (uuid_bits 5) = Some 5" "bits_uuid (uuid_bits 7) = Some 7"
  by (simp_all add: uuid_bits_def bits_uuid_def upt_rec)

lemma exact_decision:
  assumes "active_trading_days a < min_trading_days (plan a)" "acc_open_positions a = []"
  shows "\<exists>b evs. apply_decision (exact_env now) a d t actor = ok (b, evs)"
proof -
  obtain a1 ev1 where 1: "decision_target (exact_env now) a d t = (a1, ev1)" by force
  then have a1: "active_trading_days a1 < min_trading_days (plan a1)" "acc_open_positions a1 = []"
    using assms by (auto simp: decision_target_def mark_target_reached_def split: if_split_asm)
  then have 2: "decision_promote (exact_env now) a1 t = Inr (a1, [])" by (auto simp: decision_promote_def not_le [symmetric])
  obtain li where "liquidation_new (exact_env now) (acc_id a1) (tenant_id a1) [] (liquidation_reason_of d)
      (case d_all_violations d of [] \<Rightarrow> None | v # _ \<Rightarrow> Some (v_id v)) actor t = Some li"
    by (simp add: liquidation_new_def Let_def dsum_def)
  then have "decision_terminate (exact_env now) a1 d t actor \<noteq> None"
    using a1(2) by (cases "account_status_target d") (simp_all add: decision_terminate_def Let_def)
  then obtain b ev3 where "decision_terminate (exact_env now) a1 d t actor = Some (b, ev3)" by auto
  with 1 2 show ?thesis by (simp add: apply_decision_def)
qed

lemma exact_to_cents [simp]: "to_cents (exact_env now) m = Some \<lfloor>m * 100\<rfloor>"
  by (simp add: to_cents_def exact_env_def)

lemma exact_hints: "\<exists>h. compute_floor_hints (exact_env now) a = Some h"
  by (auto simp: compute_floor_hints_def floor_daily_hint_def floor_total_hint_def Let_def split: loss_reference.split)

lemma demo_bound:
  assumes "trunc_div (now - t) 1000000000 \<le> 600" "\<forall>ctx. list_all (\<lambda>r. r_is_enabled r ctx \<noteq> None) (reg_rules reg)"
  shows "\<exists>resp. evaluate_bound (exact_env now) reg 5 7 active_account SrcEstimated (demo_request t) = Some (Inr resp)"
proof -
  let ?E = "exact_env now" and ?tk = "demo_tick t"
  let ?i = "with_equity_source (with_cross_reference_trades (inputs_for_tick [] [] ?tk) []) SrcEstimated"
  obtain v where v: "pure_evaluate ?E reg active_account (synthetic_from_plan (uuid_display ?E 7) 5 (plan active_account) (utc_now ?E))
      OnTick t ?i = ok v" by (rule pure_evaluate_returns [OF assms(2) [rule_format]])
  have active: "active_trading_days active_account < min_trading_days (plan active_account)" "acc_open_positions active_account = []"
    by (simp_all add: account_new_def plan_default_def Let_def)
  obtain b evs where b: "apply_decision ?E active_account (pv_decision v) t ''evaluate_internal'' = ok (b, evs)"
    using exact_decision [OF active, of now "pv_decision v"] by blast
  obtain h where h: "compute_floor_hints ?E b = Some h" using exact_hints by blast
  have li: "legacy_inputs ?E 7 active_account (demo_request t) =
      Inr \<lparr> ti_account = active_account, ti_positions = [], ti_trades = [], ti_server_time = t, ti_tick = Some ?tk \<rparr>"
    by (simp add: legacy_inputs_def demo_request_def collect_domain_def demo_tick_def)
  have "iq_bridge_tick (demo_request t) = None" "iq_cross_reference_trades (demo_request t) = None"
    by (simp_all add: demo_request_def)
  then show ?thesis using assms(1) v b h
    by (simp add: evaluate_bound_def Let_def li raise_baselines_def ok_def collect_domain_def)
qed

lemma demo_evaluation:
  assumes "trunc_div (now - t) 1000000000 \<le> 600" "get_or_build (exact_env now) (srv_cache srv) (plan demo_account) = Some (cache, reg)"
    and "\<forall>ctx. list_all (\<lambda>r. r_is_enabled r ctx \<noteq> None) (reg_rules reg)"
  shows "\<exists>resp. evaluate_internal_impl (exact_env now) srv 5 (demo_request t) = Some (srv\<lparr>srv_cache := cache\<rparr>, Inr resp)"
proof -
  have "iq_account_id (demo_request t) = uuid_bits 7" "iq_account_state (demo_request t) = Some active_account"
      "iq_rule_pack (demo_request t) = None" "request_equity_source (demo_request t) = Inr SrcEstimated"
    by (simp_all add: demo_request_def request_equity_source_def)
  moreover have "validate_account_state active_account 7 5 = Inr ()"
    by (simp add: validate_account_state_def account_new_def Let_def)
  ultimately show ?thesis using demo_bound [OF assms(1,3)] assms(2)
    by (auto simp: evaluate_internal_impl_def parse_id_def)
qed

lemma demo_cached_evaluation:
  assumes "trunc_div (now - t) 1000000000 \<le> 600" "srv_cache srv = srv_cache demo_server"
  shows "\<exists>resp. evaluate_internal_impl (exact_env now) srv 5 (demo_request t) = Some (srv, Inr resp)"
proof -
  have "get_or_build (exact_env now) (srv_cache srv) (plan demo_account) = Some (srv_cache srv, registry_empty)"
    using demo_cache [of now] assms(2) by simp
  from demo_evaluation [OF assms(1) this] show ?thesis by (simp add: registry_empty_def)
qed

theorem retry_answers_alike_witness:
  "\<exists>J srv1 srv2 resp. evaluate_internal (exact_env 0) J 1 2 demo_server (demo_headers (Some ''k'')) (demo_request 0) = Some (srv1, Inr resp)
     \<and> evaluate_internal (exact_env 1000000000) J 3 4 srv1 (demo_headers (Some ''k'')) (demo_request 0) = Some (srv2, Inr resp)"
proof -
  let ?hs = "demo_headers (Some ''k'')" and ?ep = evaluate_endpoint
  obtain resp where resp: "evaluate_internal_impl (exact_env 0) demo_server 5 (demo_request 0) = Some (demo_server, Inr resp)"
    using demo_cached_evaluation [of 0 0 demo_server] by (auto simp: trunc_div_def)
  let ?J = "\<lparr> json_request = (\<lambda>q. ''q''), json_response = (\<lambda>r. ''r''), parse_response = (\<lambda>s. Some resp) \<rparr>"
  have hs: "extract_tenant_id (exact_env t) ?hs = Inr 5" "?hs ''Idempotency-Key'' = Some ''k''" for t
    by (simp_all add: extract_tenant_id_def demo_headers_def)
  obtain st where st: "idem_check_and_remember (exact_env 0) 1 2 (srv_idem demo_server) (Some 5) ?ep ''k'' ''q'' ''r'' = (st, Fresh)"
    by (simp add: idem_check_and_remember_def demo_server_def idem_new_def idem_prune_def Let_def)
  let ?srv1 = "demo_server\<lparr>srv_idem := st\<rparr>"
  have first: "evaluate_internal (exact_env 0) ?J 1 2 demo_server ?hs (demo_request 0) = Some (?srv1, Inr resp)"
    using evaluate_internal_keyed [OF hs resp, of 1 2 ?J st Fresh] st by simp
  obtain own where own: "evaluate_internal_impl (exact_env 1000000000) ?srv1 5 (demo_request 0) = Some (?srv1, Inr own)"
    using demo_cached_evaluation [of 1000000000 0 ?srv1] by (auto simp: trunc_div_def)
  obtain st' out where both: "idem_check_and_remember (exact_env 1000000000) 3 4 st (Some 5) ?ep ''k'' ''q'' ''r'' = (st', out)" by force
  have same: "same_texts (exact_env 0) (exact_env 1000000000)" by (simp add: same_texts_def fun_eq_iff)
  have "out \<noteq> Conflict" using st both unfolding same_texts_store(3) [OF same]
    by (auto simp: idem_check_and_remember_def idem_insert_def demo_server_def idem_new_def idem_prune_def Let_def
        split: option.split_asm if_split_asm)
  then obtain resp' where again: "evaluate_internal (exact_env 1000000000) ?J 3 4 ?srv1 ?hs (demo_request 0) = Some (?srv1\<lparr>srv_idem := st'\<rparr>, Inr resp')"
    using evaluate_internal_keyed [OF hs own, of 3 4 ?J st' out] both by (cases out) auto
  have "resp' = resp"
    using retry_answers_alike [OF exact_uuid_texts _ _ hs _ first _ server_run.idle _ _ same _ hs again]
    by (simp add: demo_server_def idem_ok_def inner_ok_def idem_new_def idem_prune_def)
  then show ?thesis using first again by blast
qed


text \<open>
  C37. A retry can be refused although its answer is stored: the evaluation comes before the
  lookup of the key, so once the request's tick is older than ten minutes the retry is
  rejected as stale even if the store would replay the recorded response.
\<close>

theorem late_retry_refused:
  assumes "owns E hs (iq_account_id req, iq_account_state req) t i a" "hs ''Idempotency-Key'' = Some key"
    and "snd (idem_check E now (srv_idem srv) (Some t) evaluate_endpoint key (json_request J req)) = Replay cached"
    and "evaluation_mode_of (status a) = Evaluate" "iq_rule_pack req = None" "request_equity_source req = Inr src"
    and "iq_bridge_tick req = None" "iq_cross_reference_trades req = None" "legacy_inputs E i a req = Inr ti"
    and "600 < num_seconds E (utc_now E - ti_server_time ti)" "get_or_build E (srv_cache srv) (plan a) = Some (cache, reg)"
  shows "\<exists>srv' m. evaluate_internal E J now later srv hs req = Some (srv', Inl (422, m)) \<and> srv_idem srv' = srv_idem srv"
proof -
  have "evaluate_bound E reg t i a src req = Some (Inl (422, Fmt ''tick rejected'' [MInt (num_seconds E (utc_now E - ti_server_time ti)), MInt 600]))"
    using assms(7-10) by (simp add: evaluate_bound_def collect_domain_def Let_def)
  then show ?thesis using assms
    by (auto simp: evaluate_internal_def evaluate_internal_impl_def owns_def validate_account_state_def)
qed

theorem late_retry_refused_witness:
  "\<exists>srv srv' m. snd (idem_check (exact_env (700 * 1000000000)) 3 (srv_idem srv) (Some 5) evaluate_endpoint ''k'' (json_request demo_json (demo_request 0))) = Replay ''r''
     \<and> evaluate_internal (exact_env (700 * 1000000000)) demo_json 3 4 srv (demo_headers (Some ''k'')) (demo_request 0) = Some (srv', Inl (422, m))"
proof -
  let ?E = "exact_env (700 * 1000000000)"
  let ?srv = "demo_server\<lparr>srv_idem := fst (idem_remember ?E 2 (idem_new 3 10) (Some 5) evaluate_endpoint ''k'' ''q'' ''r'')\<rparr>"
  have replay: "snd (idem_check ?E 3 (srv_idem ?srv) (Some 5) evaluate_endpoint ''k'' (json_request demo_json (demo_request 0))) = Replay ''r''"
    by (auto simp: demo_json_def idem_check_def idem_remember_def idem_insert_def idem_new_def idem_prune_def Let_def)
  have own: "owns ?E (demo_headers (Some ''k'')) (iq_account_id (demo_request 0), iq_account_state (demo_request 0)) 5 7 active_account"
    by (simp add: owns_def extract_tenant_id_def demo_headers_def parse_id_def demo_request_def account_new_def Let_def)
  have li: "legacy_inputs ?E 7 active_account (demo_request 0) = Inr \<lparr> ti_account = active_account, ti_positions = [],
      ti_trades = [], ti_server_time = 0, ti_tick = Some (demo_tick 0) \<rparr>"
    by (simp add: legacy_inputs_def demo_request_def collect_domain_def demo_tick_def)
  have cache: "get_or_build ?E (srv_cache ?srv) (plan active_account) = Some (srv_cache demo_server, registry_empty)"
    using demo_cache by simp
  have "\<exists>srv' m. evaluate_internal ?E demo_json 3 4 ?srv (demo_headers (Some ''k'')) (demo_request 0) = Some (srv', Inl (422, m))
      \<and> srv_idem srv' = srv_idem ?srv"
    by (rule late_retry_refused [OF own _ replay _ _ _ _ _ li _ cache])
      (simp_all add: demo_headers_def demo_request_def request_equity_source_def trunc_div_def)
  then show ?thesis using replay by blast
qed

section \<open>Ownership, the emergency stop and the advertised floors\<close>

text \<open>
  C15. Every request that concerns an account is bound to its owner. A request whose account
  state has another id than the request names, or another tenant than the header names, is
  refused as a bad or a forbidden request, whatever else it carries, also with an
  idempotency key, and it leaves the server as it was.
\<close>

theorem foreign_account_refused:
  assumes "extract_tenant_id E hs = Inr t" "parse_id E (fst (call_account call)) = Inr i"
    and "snd (call_account call) = Some a" "acc_id a \<noteq> i \<or> tenant_id a \<noteq> t"
  shows "\<exists>code m. route E J srv hs call = Some (srv, Inl (code, m)) \<and> code \<in> {400, 403}"
proof -
  obtain code m where v: "validate_account_state a i t = Inl (code, m)" "code \<in> {400, 403}"
    using assms(4) by (cases "acc_id a = i") (auto simp: validate_account_state_def)
  have r: "request_account purpose E hs (fst (call_account call)) (snd (call_account call)) = Inl (code, m)" for purpose
    using assms v(1) by (simp add: request_account_def)
  show ?thesis
  proof (cases call)
    case (CallEvaluate now later req)
    obtain code' m' where "evaluate_internal_impl E srv t req = Some (srv, Inl (code', m'))" "code' \<in> {400, 403}"
      using assms v CallEvaluate
      by (cases "request_equity_source req") (auto simp: evaluate_internal_impl_def request_equity_source_def split: option.split_asm if_split_asm sum.split_asm)
    then show ?thesis using assms(1) CallEvaluate by (auto simp: evaluate_internal_def mapr_def split: option.split)
  next
    case (CallOverride req)
    then show ?thesis using assms v
      by (cases "parse_id E (oq_clears_violation_id req)") (auto simp: override_breach_def mapr_def parse_id_def split: option.split_asm)
  qed (use r v(2) in \<open>auto simp: mapr_def manual_run_def emergency_stop_handler_def breach_report_def evaluate_order_handler_def\<close>)
qed

theorem foreign_account_refused_witness:
  "\<exists>code m. route (exact_env 0) demo_json demo_server (demo_headers (Some ''k'')) (CallManualRun (uuid_bits 7) (Some (demo_account\<lparr>tenant_id := 6\<rparr>)))
     = Some (demo_server, Inl (code, m)) \<and> code \<in> {400, 403}"
  using foreign_account_refused [of "exact_env 0" "demo_headers (Some ''k'')" 5 "CallManualRun (uuid_bits 7) (Some (demo_account\<lparr>tenant_id := 6\<rparr>))" 7
      "demo_account\<lparr>tenant_id := 6\<rparr>" demo_json demo_server]
  by (simp add: extract_tenant_id_def demo_headers_def parse_id_def)

text \<open>
  An answer concerns the account that was asked about. Whenever a request without an
  idempotency key is answered, its tenant and account id own the account state it carries,
  and the account of the answer has that id and that tenant.
\<close>

lemma answer_is_the_owners:
  assumes "route E J srv hs call = Some (srv', Inr (Some b))" "hs ''Idempotency-Key'' = None"
  shows "\<exists>t i a. owns E hs (call_account call) t i a \<and> acc_id b = i \<and> tenant_id b = t"
  using route_owns [OF assms] by blast

text \<open>
  C22. An emergency stop halts the account: whenever the endpoint answers, the account it
  returns is excluded from evaluation, and an account that was evaluated before is failed or
  emergency stopped.
\<close>

theorem emergency_stop_halts:
  assumes "emergency_stop_handler E srv hs account (Some a) reason actor = Some (srv', Inr (k, stamp, b))"
  shows "evaluation_mode_of (status b) = SkipMode
     \<and> (evaluation_mode_of (status a) = Evaluate \<longrightarrow> status b \<in> {Failed, EmergencyStopped})"
proof -
  from emergency_stop_Inr [OF assms] consider "evaluation_mode_of (status a) = SkipMode" "b = a"
    | p where "evaluation_mode_of (status a) = Evaluate" "handler_process E srv a (PEmergencyStop reason actor (utc_now E)) = Some (srv', Inr p)"
      "b = pr_account p" by (auto simp: owns_def)
  then show ?thesis
  proof cases
    case 2
    from 2(2) obtain reg where "process E reg store_empty (\<lambda>v. Inr ()) a (PEmergencyStop reason actor (utc_now E)) = ok p"
      by (rule handler_process_Inr)
    then have "status (pr_account p) \<in> {Failed, EmergencyStopped}"
    proof (rule process_cases)
      fix a0 ev0 ap a2 dev
      assume app: "apply_event E store_empty a0 (PEmergencyStop reason actor (utc_now E)) = ok ap"
        and dec: "apply_decision E (consume_fill (ap_state ap) (ap_trade_fill ap)) (er_decision (pr_result p)) (utc_now E)
              (actor_of (PEmergencyStop reason actor (utc_now E))) = ok (a2, dev)"
        and p: "pr_account p = stamp_last_tick a2 (PEmergencyStop reason actor (utc_now E))"
      have "status (ap_state ap) = EmergencyStopped"
        using app by (rule apply_event_cases) (auto simp: emergency_stop_def dest!: sym [of _ "ap_state ap"])
      then have "status_step\<^sup>*\<^sup>* EmergencyStopped (status a2)"
        using lifecycle.decision_kept [OF _ dec, of EmergencyStopped] by simp
      then show ?thesis using breach_closed p by auto
    qed
    then show ?thesis using 2 by auto
  qed auto
qed

theorem emergency_stop_halts_witness:
  "\<exists>srv k t b. emergency_stop_handler (exact_env 0) demo_server (demo_headers None) (uuid_bits 7) (Some active_account) ''r'' ''ops''
     = Some (srv, Inr (k, t, b)) \<and> status b \<in> {Failed, EmergencyStopped}"
proof -
  obtain p where "process (exact_env 0) registry_empty store_empty (\<lambda>v. Inr ()) active_account (PEmergencyStop ''r'' ''ops'' 0) = ok p"
    by (simp add: process_eval emergency_stop_def)
  then have "handler_process (exact_env 0) demo_server active_account (PEmergencyStop ''r'' ''ops'' 0) = Some (demo_server, Inr p)"
    using demo_cache [of 0] by (simp add: handler_process_def ok_def)
  moreover have "request_account ''stateless evaluation'' (exact_env 0) (demo_headers None) (uuid_bits 7) (Some active_account) = Inr (5, 7, active_account)"
    unfolding request_account_Inr
    by (simp add: owns_def extract_tenant_id_def demo_headers_def parse_id_def account_new_def Let_def)
  ultimately have "emergency_stop_handler (exact_env 0) demo_server (demo_headers None) (uuid_bits 7) (Some active_account) ''r'' ''ops''
      = Some (demo_server, Inr (Some (d_kind (sn_decision (pr_snapshot p))), 0, pr_account p))"
    by (simp add: emergency_stop_handler_def)
  from emergency_stop_halts [OF this] this show ?thesis by auto
qed



text \<open>
  The advertised daily floor is not the floor of the daily-drawdown rule. For a daily limit
  taken from the initial balance the hint subtracts the limit from the initial balance,
  while the rule, and the comment on the hint, subtract it from the equity at the start of
  the day: after a gain the rule liquidates an account that is well above its advertised
  floor.
\<close>

lemma daily_floor_hint_differs:
  "\<exists>a. floor_daily_hint (exact_env 0) a = Some (Some 950000) \<and> equity a = 10400 \<and> day_start_equity a = 11000
     \<and> daily_loss_type (plan a) = PctInitial
     \<and> (\<forall>ctx. c_account ctx = a \<longrightarrow> is_broker_reported (c_equity_input ctx) \<longrightarrow>
          settles (\<lambda>v. \<exists>x. v = Liquidate x) (daily_drawdown_evaluate (exact_env 0) None ctx))"
proof -
  let ?a = "demo_account\<lparr>plan := (plan_default 3 0)\<lparr>daily_loss_type := PctInitial\<rparr>, equity := 10400, day_start_equity := 11000,
    started_at := Some 0\<rparr>"
  have "settles (\<lambda>v. \<exists>x. v = Liquidate x) (daily_drawdown_evaluate (exact_env 0) None ctx)"
    if "c_account ctx = ?a" "is_broker_reported (c_equity_input ctx)" for ctx
    using that guards_pass [of ctx]
    by (simp add: daily_drawdown_evaluate_def daily_drawdown_effective_pct_def daily_drawdown_reference_def param_value_def
        tolerance_money_def param_tolerance_def account_new_def plan_default_def with_breach_def Let_def)
  moreover have "floor_daily_hint (exact_env 0) ?a = Some (Some 950000)"
    by (simp add: floor_daily_hint_def account_new_def plan_default_def Let_def)
  ultimately show ?thesis by (intro exI [of _ ?a]) (simp add: account_new_def Let_def)
qed

section \<open>Estimated figures\<close>

lemma server_run_ok:
  assumes "server_run J srv rs srv'" "server_ok srv"
  shows "server_ok srv'"
  using assms
proof (induction rule: server_run.induct)
  case (served E' srv hs call srv1 r rs srv2)
  then show ?case using route_ok by auto
qed

lemma server_new_ok: "server_ok server_new"
  by (simp add: server_ok_def server_new_def idem_with_defaults_def inner_ok_new)

lemma pure_evaluate_decision:
  assumes "pure_evaluate E reg a pack k now i = ok v"
  obtains res where "evaluator_evaluate E reg (pure_context E a k now i) = ok res" "er_decision res = pv_decision v"
  using assms by (auto simp: pure_evaluate_def evaluator_evaluate_def Let_def run_simps)

lemma request_account_money:
  assumes "evaluate_bound E reg tenant i a src req = Some (Inr resp)" "iq_bridge_tick req = None"
  shows "balance (ir_account_state resp) = balance a \<and> equity (ir_account_state resp) = equity a"
  using assms(1)
proof (rule evaluate_bound_cases)
  fix ti cross v evs
  assume "(case iq_bridge_tick req of Some bt \<Rightarrow> bridge_inputs E i a bt req | None \<Rightarrow> Some (legacy_inputs E i a req)) = Some (Inr ti)"
    and ap: "apply_decision E (raise_baselines src (ti_account ti)) (pv_decision v) (ti_server_time ti) ''evaluate_internal''
       = ok (ir_account_state resp, evs)"
  then have "ti_account ti = a" using assms(2) legacy_inputs_Inr by simp
  then show ?thesis using quiet.decision_kept [OF _ ap, of "balance a" "equity a"] by (simp add: raise_baselines_def)
qed

lemma request_decision:
  assumes "library_registry E0 reg" "set (reg_rules reg) \<subseteq> set (default_rules E0)"
    and "evaluate_bound E reg tenant i a SrcEstimated req = Some (Inr resp)" "iq_bridge_tick req = None"
  shows "ir_decision_kind resp \<notin> {Some DLiquidate, Some DEmergency}
     \<and> (status (ir_account_state resp) \<in> {Failed, EmergencyStopped} \<longrightarrow>
          status a \<in> {Failed, EmergencyStopped} \<or> (\<exists>x \<in> set (ir_violations resp). out_of_time x))"
  using assms(3)
proof (rule evaluate_bound_cases)
  fix ti :: tick_inputs and v evs and cross :: "trade list"
  let ?src = SrcEstimated
  let ?i = "case ti_tick ti of
           Some tk \<Rightarrow> with_equity_source (with_cross_reference_trades (inputs_for_tick (ti_positions ti) (ti_trades ti) tk) cross) ?src
         | None \<Rightarrow> inputs_default\<lparr>ev_open_positions := ti_positions ti, ev_today_trades := ti_trades ti,
               ev_cross_reference_trades := cross, ev_equity_source := ?src\<rparr>"
  assume "(case iq_bridge_tick req of Some bt \<Rightarrow> bridge_inputs E i a bt req | None \<Rightarrow> Some (legacy_inputs E i a req)) = Some (Inr ti)"
    and v: "pure_evaluate E reg (raise_baselines ?src (ti_account ti)) (synthetic_from_plan (uuid_display E i) tenant (plan a) (utc_now E))
       OnTick (ti_server_time ti) ?i = ok v"
    and ap: "apply_decision E (raise_baselines ?src (ti_account ti)) (pv_decision v) (ti_server_time ti) ''evaluate_internal''
       = ok (ir_account_state resp, evs)"
    and k: "ir_decision_kind resp = Some (d_kind (pv_decision v))" "ir_violations resp = d_all_violations (pv_decision v)"
  then have a: "ti_account ti = a" using assms(4) legacy_inputs_Inr by simp
  have i: "ev_equity_source ?i = ?src" "ev_pending_order ?i = None"
    by (simp_all add: with_equity_source_def with_cross_reference_trades_def inputs_for_tick_def inputs_default_def split: option.split)
  let ?ctx = "pure_context E (raise_baselines ?src (ti_account ti)) OnTick (ti_server_time ti) ?i"
  from v obtain res where res: "evaluator_evaluate E reg ?ctx = ok res" "er_decision res = pv_decision v"
    by (rule pure_evaluate_decision)
  have ctx: "c_kind ?ctx = OnTick" "c_pending_order ?ctx = None" "\<not> is_broker_reported (c_equity_input ?ctx)"
    using i by (simp_all add: pure_context_def with_estimated_equity_def Let_def)
  have kind: "d_kind (pv_decision v) \<notin> {DLiquidate, DEmergency}"
    using library_decision [OF assms(1) res(1)] ctx(3) res(2) by auto
  have "status a \<in> {Failed, EmergencyStopped} \<or> d_kind (pv_decision v) = DFail"
    if "status (ir_account_state resp) \<in> {Failed, EmergencyStopped}"
    using apply_decision_alive [OF ap] kind that a by (auto simp: raise_baselines_def)
  then show ?thesis using tick_decision_late [OF assms(2) res(1) ctx] res(2) kind k by auto
qed


lemma demo_library:
  "\<exists>cache reg. get_or_build (exact_env 0) Map.empty (plan demo_account) = Some (cache, reg)
     \<and> (\<forall>ctx. list_all (\<lambda>r. r_is_enabled r ctx \<noteq> None) (reg_rules reg))"
proof -
  let ?E = "exact_env 0" and ?p = "plan demo_account"
  have "distinct (map (rule_id ?E) (default_rules ?E))" by (rule default_rules_distinct [OF exact_env_hashes])
  from register_all_distinct [OF distinct_map_filter [OF this]]
  obtain reg where reg: "with_default_rules_for_plan ?E ?p = Some reg"
      "reg_rules reg = filter (\<lambda>r. \<not> plan_drops_rule ?E ?p (rule_id ?E r)) (default_rules ?E)"
    by (auto simp: with_default_rules_for_plan_def)
  have "list_all (\<lambda>r. r_is_enabled r ctx \<noteq> None) (reg_rules reg)" for ctx
    using default_rules_enabled_total [of ctx ?E] by (auto simp: reg(2) list_all_iff)
  then show ?thesis using reg(1) by (simp add: get_or_build_def)
qed


text \<open>
  The endpoint never raises the intraday peak. Whatever equity a request reports, the
  account of the answer has the intraday peak it came with, so a daily limit that trails the
  intraday high is measured from a peak that only the pipeline's own ticks raise; the
  pipeline's \<^verbatim>\<open>update_equity\<close> raises it together with the peak equity, which the endpoint
  does raise.
\<close>

lemma endpoint_keeps_intraday_peak:
  assumes "evaluate_internal E J now later srv hs req = Some (srv', Inr resp)" "hs ''Idempotency-Key'' = None"
    and "iq_account_state req = Some a"
  shows "intraday_peak_equity (ir_account_state resp) = intraday_peak_equity a
     \<and> (\<forall>eq. intraday_peak_equity a < eq \<longrightarrow> intraday_peak_equity (update_equity a eq) = eq)"
proof -
  obtain t where t: "extract_tenant_id E hs = Inr t"
    using assms(1) by (cases "extract_tenant_id E hs") (simp_all add: evaluate_internal_def)
  then have "evaluate_internal_impl E srv t req = Some (srv', Inr resp)" using assms(1,2) by (simp add: evaluate_internal_def)
  from evaluate_impl_account [OF this t] have "intraday_peak_equity (ir_account_state resp) = intraday_peak_equity a"
    using assms(3) by (auto simp: owns_def)
  then show ?thesis by (simp add: update_equity_def)
qed

end
