(* ===== verification/Replay_Runs.thy ===== *)
theory Replay_Runs
  imports Pipeline_Runs
begin

text \<open>
  The pipeline and the event store together: a run whose events are appended to the store,
  between the events of other accounts, and the replay of that store. Apart from starts,
  broker ticks and payouts, replaying the log gives back the money of the live account.
\<close>

section \<open>Logged runs\<close>

text \<open>Domain events that move no money when they are replayed.\<close>

fun bookkeeping :: "domain_event_kind \<Rightarrow> bool" where
  "bookkeeping (EvAccountStarted p) = False"
| "bookkeeping (EvTradeFilled t) = False"
| "bookkeeping (EvAccountSnapshotted s) = False"
| "bookkeeping (EvPayoutApproved m f) = False"
| "bookkeeping _ = True"

text \<open>Pipeline events whose effect on the money is in the log.\<close>

fun replayable :: "pipeline_event \<Rightarrow> bool" where
  "replayable (PAccountStarted t) = False"
| "replayable (PTick tk eq bal) = False"
| "replayable PPayoutApprove = False"
| "replayable _ = True"

definition same_money :: "account \<Rightarrow> account \<Rightarrow> bool" where
  "same_money a b \<longleftrightarrow> balance a = balance b \<and> total_realized_pnl a = total_realized_pnl b"

definition same_sums :: "ext \<Rightarrow> ext \<Rightarrow> bool" where
  "same_sums E0 E \<longleftrightarrow> dadd E = dadd E0 \<and> dsub E = dsub E0"

definition logs :: "uuid \<Rightarrow> domain_event list \<Rightarrow> bool" where
  "logs i es \<longleftrightarrow> list_all (\<lambda>e. bookkeeping (e_kind e) \<and> e_account_id e = i) es"

text \<open>
  The caller appends the events of every result to the store; events of other accounts come
  in between.
\<close>

inductive logged_run :: "ext \<Rightarrow> event_store \<Rightarrow> account \<Rightarrow> pipeline_event list \<Rightarrow> event_store \<Rightarrow> account \<Rightarrow> bool" for E0 where
  idle: "logged_run E0 st a [] st a"
| handled: "logged_run E0 st a evs st' b \<Longrightarrow> same_sums E0 E \<Longrightarrow> process E reg st' notify b ev = ok r \<Longrightarrow>
    logged_run E0 st a (evs @ [ev]) (foldl store_append st' (pr_events r)) (pr_account r)"
| elsewhere: "logged_run E0 st a evs st' b \<Longrightarrow> e_account_id e \<noteq> acc_id a \<Longrightarrow>
    logged_run E0 st a evs (store_append st' e) b"

text \<open>A fill and a log that starts an account, for a concrete instance.\<close>

definition demo_fill :: trade where
  "demo_fill = (trade_new 1 2 7 ''EURUSD'' Buy Entry 1 1 5 0)\<lparr>t_swap := 2\<rparr>"

definition demo_log :: event_store where
  "demo_log = store_append store_empty (domain_event_new (exact_env 0) 7 (EvAccountStarted (plan_default 3 0)) 0)"

section \<open>The events of a step\<close>

lemma replay_bookkeeping:
  assumes "bookkeeping k"
  obtains d where "replay_event E i c t k = ok d" "same_money c d"
  using assms by (cases k) (auto simp: same_money_def split: option.splits)

lemma replay_bookkeepings:
  "list_all (\<lambda>e. bookkeeping (e_kind e)) es \<Longrightarrow> \<exists>d. replay_events E i c es = ok d \<and> same_money c d"
proof (induction es arbitrary: c)
  case (Cons e es)
  then have "bookkeeping (e_kind e)" by simp
  then obtain d where d: "replay_event E i c (e_occurred_at e) (e_kind e) = ok d" "same_money c d"
    by (rule replay_bookkeeping)
  with Cons show ?case by (fastforce simp: same_money_def)
qed (simp add: same_money_def)

lemma rollover_logs: "auto_rollover E a ev = Some (b, es) \<Longrightarrow> logs (acc_id a) es"
  by (auto simp: auto_rollover_def logs_def Let_def Option.bind_eq_Some_conv split: pipeline_event.split_asm if_split_asm)

lemma logs_append [simp]: "logs i (es @ fs) \<longleftrightarrow> logs i es \<and> logs i fs"
  by (simp add: logs_def)

lemma decision_logs:
  assumes "apply_decision E a d t actor = ok (b, es)"
  shows "logs (acc_id a) es"
  using assms
proof (rule apply_decision_cases)
  fix a1 ev1 a2 ev2 ev3
  assume t: "decision_target E a d t = (a1, ev1)" and p: "decision_promote E a1 t = Inr (a2, ev2)"
    and e: "decision_terminate E a2 d t actor = Some (b, ev3)" and es: "es = ev1 @ ev2 @ ev3"
  have 1: "acc_id a1 = acc_id a" "logs (acc_id a) ev1"
    using t by (auto simp: decision_target_def logs_def op_defs split: if_split_asm)
  have 2: "acc_id a2 = acc_id a"
    using p by (rule decision_promote_update) (simp_all add: 1 op_defs)
  have "logs (acc_id a) ev2"
    using p by (auto simp: decision_promote_def Let_def logs_def 1(1) split: if_split_asm sum.split_asm)
  moreover have "logs (acc_id a) ev3"
    using e by (auto simp: decision_terminate_def Let_def logs_def 2 Option.bind_eq_Some_conv split: if_split_asm option.split_asm)
  ultimately show ?thesis by (simp add: es 1)
qed

interpretation booked: account_transitions "\<lambda>E. True" "\<lambda>ev. \<not> moves_money ev"
  "\<lambda>a. balance a = x \<and> total_realized_pnl a = y" for x y
  by unfold_locales (auto simp: op_defs elim!: op_elims dest!: op_dests)

lemma quiet_arm_logs:
  assumes "apply_arm E a ops ev = ok (b, k, fill, es)" "replayable ev" "\<not> moves_money ev" "acc_id b = acc_id a"
  shows "logs (acc_id a) es"
proof (cases ev)
  case PPayoutRequest
  with assms show ?thesis
    by (cases "mark_payout_pending a") (auto simp: run_simps logs_def split: if_split_asm)
qed (use assms in \<open>auto simp: run_simps logs_def split: if_split_asm sum.split_asm\<close>)

lemma fill_arm:
  assumes "apply_arm E a ops (PTradeFilled t) = ok (b, k, fill, es)"
  obtains c e where "apply_realized_pnl E a (case t_exit_info t of Some x \<Rightarrow> x_realized_pnl x | None \<Rightarrow> 0)
      (t_commission t) (t_swap t) (t_executed_at t) = Some c"
    "b = mark_active_trading_day c" "es = [e]" "e_kind e = EvTradeFilled t" "e_account_id e = acc_id b"
proof (cases "filled_position E ops t")
  case (Inr pos)
  then show thesis using assms that by (auto simp: run_simps)
qed (use assms in \<open>auto simp: run_simps\<close>)

lemma replay_fill:
  assumes "same_sums E0 E" "same_money c a"
    and "apply_realized_pnl E a (case t_exit_info t of Some x \<Rightarrow> x_realized_pnl x | None \<Rightarrow> 0)
      (t_commission t) (t_swap t) now = Some b"
  obtains d where "replay_event E0 i c stamp (EvTradeFilled t) = ok d" "same_money d (mark_active_trading_day b)"
  using assms unfolding apply_realized_pnl_def
  by (auto simp: same_sums_def same_money_def net_pnl_def run_simps op_defs)

lemma same_money_trans: "same_money a b \<Longrightarrow> same_money b c \<Longrightarrow> same_money a c"
  by (simp add: same_money_def)

lemma replay_logged:
  assumes "logs j es" "same_money c a"
  obtains d where "replay_events E i c es = ok d" "same_money d a"
  using replay_bookkeepings [of es E i c] assms by (force simp: logs_def list_all_iff same_money_def)

lemma money_rollover:
  assumes "auto_rollover E a ev = Some (b, es)"
  shows "same_money a b"
  using booked.rollover_kept [OF TrueI conjI [OF refl refl] assms] by (simp add: same_money_def)

lemma money_arm:
  assumes "\<not> moves_money ev" "apply_arm E a ops ev = ok (b, k, fill, es)"
  shows "same_money a b"
  using booked.arm_kept [OF TrueI assms(1) conjI [OF refl refl] assms(2)] by (simp add: same_money_def)

lemma money_decision:
  assumes "apply_decision E (consume_fill a fill) d t actor = ok (b, es)"
  shows "same_money a (stamp_last_tick b ev)"
  using booked.decision_kept [OF conjI [OF refl refl] assms] by (simp add: same_money_def)

lemma replay_fill_arm:
  assumes "same_sums E0 E" "apply_arm E a ops (PTradeFilled t) = ok (b, k, fill, es)" "same_money c a" "acc_id b = acc_id a"
  shows "\<exists>d. replay_events E0 i c es = ok d \<and> same_money d b" and "list_all (\<lambda>e. e_account_id e = acc_id a) es"
proof -
  obtain x e where x: "apply_realized_pnl E a (case t_exit_info t of Some x \<Rightarrow> x_realized_pnl x | None \<Rightarrow> 0)
      (t_commission t) (t_swap t) (t_executed_at t) = Some x"
    and b: "b = mark_active_trading_day x" and e: "es = [e]" "e_kind e = EvTradeFilled t" "e_account_id e = acc_id b"
    by (rule fill_arm [OF assms(2)])
  obtain d where "replay_event E0 i c (e_occurred_at e) (EvTradeFilled t) = ok d" "same_money d b"
    unfolding b by (rule replay_fill [OF assms(1,3) x])
  then show "\<exists>d. replay_events E0 i c es = ok d \<and> same_money d b" by (simp add: e)
  show "list_all (\<lambda>e. e_account_id e = acc_id a) es" by (simp add: e assms(4))
qed

lemma replay_arm:
  assumes "same_sums E0 E" "apply_arm E a ops ev = ok (b, k, fill, es)" "replayable ev" "same_money c a" "acc_id b = acc_id a"
  shows "\<exists>d. replay_events E0 i c es = ok d \<and> same_money d b" and "list_all (\<lambda>e. e_account_id e = acc_id a) es"
proof -
  have "(\<exists>d. replay_events E0 i c es = ok d \<and> same_money d b) \<and> list_all (\<lambda>e. e_account_id e = acc_id a) es"
  proof (cases "moves_money ev")
    case True
    then obtain t where t: "ev = PTradeFilled t" using assms(3) by (cases ev) simp_all
    show ?thesis using replay_fill_arm [OF assms(1) assms(2) [unfolded t] assms(4,5)] by (rule conjI)
  next
    case False
    have lg: "logs (acc_id a) es" by (rule quiet_arm_logs [OF assms(2,3) False assms(5)])
    obtain d where "replay_events E0 i c es = ok d" "same_money d b"
      by (rule replay_logged [OF lg same_money_trans [OF assms(4) money_arm [OF False assms(2)]]])
    moreover have "list_all (\<lambda>e. e_account_id e = acc_id a) es" using lg by (simp add: logs_def list_all_iff)
    ultimately show ?thesis by blast
  qed
  then show "\<exists>d. replay_events E0 i c es = ok d \<and> same_money d b" "list_all (\<lambda>e. e_account_id e = acc_id a) es"
    by (rule conjunct1, rule conjunct2)
qed

lemma logs_keyed: "logs i es \<Longrightarrow> list_all (\<lambda>e. e_account_id e = i) es"
  by (simp add: logs_def list_all_iff)

lemma replay_step:
  assumes "same_sums E0 E" "process E reg st notify a ev = ok r" "replayable ev" "same_money c a"
  shows "\<exists>d. replay_events E0 i c (pr_events r) = ok d \<and> same_money d (pr_account r)"
    and "list_all (\<lambda>e. e_account_id e = acc_id a) (pr_events r)"
proof -
  obtain a0 ev0 ap a2 dev where roll: "auto_rollover E a ev = Some (a0, ev0)" and app: "apply_event E st a0 ev = ok ap"
    and dec: "apply_decision E (consume_fill (ap_state ap) (ap_trade_fill ap)) (er_decision (pr_result r)) (utc_now E) (actor_of ev) = ok (a2, dev)"
    and r: "pr_account r = stamp_last_tick a2 ev"
    and evs: "pr_events r = ev0 @ ap_events ap @ dev @ emit_decision_event E (acc_id a) (er_decision (pr_result r))
       @ map (\<lambda>v. domain_event_new E (acc_id a) (EvRuleViolated v) (utc_now E)) (er_violations (pr_result r))"
    using assms(2) by (rule process_cases)
  from app obtain ts where arm: "apply_arm E (a0\<lparr>acc_today_trades := ts\<rparr>) (acc_open_positions a0) ev =
      ok (ap_state ap, ap_ctx_kind ap, ap_trade_fill ap, ap_events ap)" by (rule apply_event_cases)
  let ?a1 = "a0\<lparr>acc_today_trades := ts\<rparr>"
  have id0: "acc_id ?a1 = acc_id a" using identity.rollover_kept [OF TrueI conjI [OF refl conjI [OF refl refl]] roll] by simp
  have id1: "acc_id (ap_state ap) = acc_id ?a1"
    using identity.arm_kept [OF TrueI TrueI conjI [OF refl conjI [OF refl refl]] arm] by simp
  have m0: "same_money a ?a1" using money_rollover [OF roll] by (simp add: same_money_def)
  have m2: "same_money (ap_state ap) (pr_account r)" unfolding r by (rule money_decision [OF dec])
  let ?tail = "dev @ emit_decision_event E (acc_id a) (er_decision (pr_result r))
       @ map (\<lambda>v. domain_event_new E (acc_id a) (EvRuleViolated v) (utc_now E)) (er_violations (pr_result r))"
  have dev: "logs (acc_id a) dev" using decision_logs [OF dec] id0 id1 by simp
  have tail: "logs (acc_id a) ?tail" using dev by (simp add: emit_decision_event_def) (simp add: logs_def list_all_iff)
  obtain c1 where c1: "replay_events E0 i c ev0 = ok c1" "same_money c1 a"
    by (rule replay_logged [OF rollover_logs [OF roll] assms(4)])
  note arms = replay_arm [OF assms(1) arm assms(3) same_money_trans [OF c1(2) m0] id1]
  obtain c2 where c2: "replay_events E0 i c1 (ap_events ap) = ok c2" "same_money c2 (ap_state ap)"
    using arms(1) by blast
  obtain c3 where "replay_events E0 i c2 ?tail = ok c3" "same_money c3 (pr_account r)"
    by (rule replay_logged [OF tail same_money_trans [OF c2(2) m2]])
  then show "\<exists>d. replay_events E0 i c (pr_events r) = ok d \<and> same_money d (pr_account r)"
    unfolding evs replay_events_append c1(1) c2(1) by (simp add: c2(1))
  show "list_all (\<lambda>e. e_account_id e = acc_id a) (pr_events r)"
    unfolding evs list_all_append using logs_keyed [OF rollover_logs [OF roll]] arms(2) [unfolded id0] logs_keyed [OF tail] by simp
qed

text \<open>
  C11. The log replays to the money of the live account. In a run in which the events of every
  result are appended to the store, in any interleaving with other accounts, replaying the
  store afterwards succeeds and gives the balance and the total profit of the live account,
  provided it did before and the run has no start, broker tick or approved payout.
\<close>

theorem log_replays_money:
  assumes "logged_run E0 st a evs st' b" "list_all replayable evs"
    and "replay E0 st (acc_id a) = ok c" "same_money c a"
  shows "\<exists>d. replay E0 st' (acc_id a) = ok d \<and> same_money d b"
proof -
  have "acc_id b = acc_id a \<and> (\<exists>d. replay E0 st' (acc_id a) = ok d \<and> same_money d b)"
    using assms
  proof (induction rule: logged_run.induct)
    case (handled st a evs st' b E reg notify ev r)
    then obtain d where d: "acc_id b = acc_id a" "replay E0 st' (acc_id a) = ok d" "same_money d b" "replayable ev" by auto
    have "acc_id (pr_account r) = acc_id a" using identity.process_kept [OF TrueI TrueI conjI [OF refl conjI [OF refl refl]] handled.hyps(3)] d(1) by simp
    moreover have "filter (\<lambda>e. e_account_id e = acc_id a) (pr_events r) = pr_events r"
      using replay_step(2) [OF handled.hyps(2,3) d(4,3)] d(1) by (auto simp: list_all_iff filter_id_conv)
    ultimately show ?case
      using replay_more [OF replay_starts [OF d(2)], of E0 "pr_events r"] replay_step(1) [OF handled.hyps(2,3) d(4,3)]
      by (simp add: d(2))
  next
    case (elsewhere st a evs st' b e)
    then obtain d where d: "replay E0 st' (acc_id a) = ok d" "same_money d b" "acc_id b = acc_id a" by blast
    then show ?case using replay_more [OF replay_starts [OF d(1)], of E0 "[e]"] elsewhere.hyps(2) by simp
  qed simp
  then show ?thesis by blast
qed

lemma demo_log_replays: "\<exists>c. replay (exact_env 0) demo_log 7 = ok c \<and> same_money c demo_account"
proof -
  have "store_all demo_log 7 = [domain_event_new (exact_env 0) 7 (EvAccountStarted (plan_default 3 0)) 0]"
    by (simp add: demo_log_def store_append_def store_empty_def store_all_def)
  then show ?thesis
    by (simp add: replay_def account_start_def trading_day_start_def account_new_def plan_default_def same_money_def Let_def)
qed

lemma demo_fill_processed:
  "\<exists>r. process (exact_env 0) registry_empty demo_log quiet_notify demo_account (PTradeFilled demo_fill) = ok r
     \<and> balance (pr_account r) = 9993"
  by (simp add: process_eval apply_realized_pnl_def demo_fill_def trade_new_def filled_position_def mark_active_trading_day_def)

theorem log_replays_money_witness:
  "\<exists>st b d. logged_run (exact_env 0) demo_log demo_account [PTradeFilled demo_fill] st b
     \<and> replay (exact_env 0) st 7 = ok d \<and> balance d = 9993"
proof -
  obtain r where r: "process (exact_env 0) registry_empty demo_log quiet_notify demo_account (PTradeFilled demo_fill) = ok r"
    "balance (pr_account r) = 9993" using demo_fill_processed by blast
  have run: "logged_run (exact_env 0) demo_log demo_account [PTradeFilled demo_fill]
      (foldl store_append demo_log (pr_events r)) (pr_account r)"
    using logged_run.handled [OF logged_run.idle _ r(1)] by (simp add: same_sums_def)
  have rp: "list_all replayable [PTradeFilled demo_fill]" by simp
  have id: "acc_id demo_account = 7" by (simp add: account_new_def Let_def)
  obtain c where c: "replay (exact_env 0) demo_log (acc_id demo_account) = ok c" "same_money c demo_account"
    using demo_log_replays by (auto simp only: id)
  obtain d where "replay (exact_env 0) (foldl store_append demo_log (pr_events r)) 7 = ok d" "same_money d (pr_account r)"
    using log_replays_money [OF run rp c] by (auto simp only: id)
  then show ?thesis using run r(2) by (auto simp: same_money_def)
qed

end
