(* ===== verification/Risk_Analytics.thy ===== *)
theory Risk_Analytics
  imports Trading_Types Concrete_Env "HOL-Library.AList"
begin

text \<open>
  The risk analytics of \<^verbatim>\<open>src/risk\<close>: \<^verbatim>\<open>metrics.rs\<close> (ratios, drawdowns and trade statistics of
  an equity curve), \<^verbatim>\<open>drawdown.rs\<close>, \<^verbatim>\<open>var.rs\<close> (parametric value at risk) and \<^verbatim>\<open>exposure.rs\<close>.
  A curve and a list of trades are lists of money values. The square root is \<^verbatim>\<open>None\<close> where
  the library's is; a panic of a decimal operator propagates.
\<close>

section \<open>Drawdowns\<close>

text \<open>\<^verbatim>\<open>metrics.rs\<close>: the running peak starts at zero.\<close>

fun max_drawdown_loop :: "ext \<Rightarrow> decimal \<Rightarrow> decimal \<Rightarrow> money list \<Rightarrow> decimal option" where
  "max_drawdown_loop E peak max_dd [] = Some max_dd"
| "max_drawdown_loop E peak max_dd (m # ms) =
     (let peak' = (if m > peak then m else peak) in
      do { dd \<leftarrow> dsub E peak' m;
           max_drawdown_loop E peak' (if dd > max_dd then dd else max_dd) ms })"

definition max_drawdown :: "ext \<Rightarrow> money list \<Rightarrow> decimal option" where
  "max_drawdown E equity = max_drawdown_loop E 0 0 equity"

fun max_drawdown_pct_loop :: "ext \<Rightarrow> decimal \<Rightarrow> decimal \<Rightarrow> money list \<Rightarrow> decimal option" where
  "max_drawdown_pct_loop E peak max_dd_pct [] = Some max_dd_pct"
| "max_drawdown_pct_loop E peak max_dd_pct (m # ms) =
     (let peak' = (if m > peak then m else peak) in
      if peak' = 0 then max_drawdown_pct_loop E peak' max_dd_pct ms
      else do { drop \<leftarrow> dsub E peak' m;
                dd_pct \<leftarrow> ddiv E drop peak';
                max_drawdown_pct_loop E peak' (if dd_pct > max_dd_pct then dd_pct else max_dd_pct) ms })"

definition max_drawdown_pct :: "ext \<Rightarrow> money list \<Rightarrow> decimal option" where
  "max_drawdown_pct E equity = max_drawdown_pct_loop E 0 0 equity"

text \<open>\<^verbatim>\<open>drawdown.rs\<close>: a second copy of the drawdown, as a fold, and the longest time under water.\<close>

definition helper_max_drawdown :: "ext \<Rightarrow> money list \<Rightarrow> decimal option" where
  "helper_max_drawdown E equity =
     Option.bind (foldo (\<lambda>(peak, mdd) m.
         (let peak' = (if m > peak then m else peak) in
          do { dd \<leftarrow> dsub E peak' m; Some (peak', if dd > mdd then dd else mdd) })) (0, 0) equity)
       (\<lambda>(peak, mdd). Some mdd)"

abbreviation longer :: "nat \<Rightarrow> nat \<Rightarrow> u32 \<Rightarrow> u32 option" where
  "longer till s longest \<equiv>
     (if s \<le> till then Some (let len = usize_as_u32 (till - s) in if len > longest then len else longest) else None)"

fun duration_loop ::
  "decimal \<Rightarrow> nat option \<Rightarrow> u32 \<Rightarrow> nat \<Rightarrow> money list \<Rightarrow> (nat option \<times> u32) option" where
  "duration_loop peak start longest i [] = Some (start, longest)"
| "duration_loop peak start longest i (m # ms) =
     (if m > peak then
        (case start of
           Some s \<Rightarrow> do { longest' \<leftarrow> longer i s longest; duration_loop m None longest' (i + 1) ms }
         | None \<Rightarrow> duration_loop m None longest (i + 1) ms)
      else if start = None \<and> peak > 0 then
        (if i = 0 then None else duration_loop peak (Some (i - 1)) longest (i + 1) ms)
      else duration_loop peak start longest (i + 1) ms)"

definition max_drawdown_duration :: "money list \<Rightarrow> u32 option" where
  "max_drawdown_duration equity = do {
     (start, longest) \<leftarrow> duration_loop 0 None 0 0 equity;
     (case start of Some s \<Rightarrow> longer (length equity) s longest | None \<Rightarrow> Some longest) }"

section \<open>Ratios\<close>

text \<open>\<^verbatim>\<open>returns\<close> of \<^verbatim>\<open>metrics.rs\<close>: relative changes over the windows of two samples.\<close>

fun equity_returns :: "ext \<Rightarrow> money list \<Rightarrow> decimal list option" where
  "equity_returns E (prev # cur # ms) =
     (if prev = 0 then equity_returns E (cur # ms)
      else do { d \<leftarrow> dsub E cur prev;
                r \<leftarrow> ddiv E d prev;
                rs \<leftarrow> equity_returns E (cur # ms);
                Some (r # rs) })"
| "equity_returns E ms = Some []"

abbreviation decimal_of_usize :: "nat \<Rightarrow> decimal" where
  "decimal_of_usize n \<equiv> of_nat n"

abbreviation mean_of :: "ext \<Rightarrow> decimal list \<Rightarrow> decimal option" where
  "mean_of E rets \<equiv> Option.bind (dsum E rets) (\<lambda>s. ddiv E s (decimal_of_usize (length rets)))"

definition variance_of :: "ext \<Rightarrow> decimal list \<Rightarrow> decimal \<Rightarrow> decimal option" where
  "variance_of E rets mean = do {
     squares \<leftarrow> mapo (\<lambda>r. do { d \<leftarrow> dsub E r mean; dmul E d d }) rets;
     s \<leftarrow> dsum E squares;
     ddiv E s (decimal_of_usize (length rets)) }"

abbreviation sqrt_or :: "ext \<Rightarrow> decimal \<Rightarrow> decimal \<Rightarrow> decimal" where
  "sqrt_or E d x \<equiv> (case dsqrt E x of Some r \<Rightarrow> r | None \<Rightarrow> d)"

abbreviation annualized_ratio :: "ext \<Rightarrow> decimal \<Rightarrow> decimal \<Rightarrow> decimal option" where
  "annualized_ratio E mean std \<equiv>
     (if std = 0 then Some 0 else Option.bind (ddiv E mean std) (\<lambda>q. dmul E q (sqrt_or E 1 252)))"

definition sharpe_ratio :: "ext \<Rightarrow> money list \<Rightarrow> decimal option" where
  "sharpe_ratio E equity = do {
     rets \<leftarrow> equity_returns E equity;
     if rets = [] then Some 0
     else do {
       mean \<leftarrow> mean_of E rets;
       var \<leftarrow> variance_of E rets mean;
       annualized_ratio E mean (sqrt_or E 0 var) } }"

definition sortino_ratio :: "ext \<Rightarrow> money list \<Rightarrow> decimal option" where
  "sortino_ratio E equity = do {
     rets \<leftarrow> equity_returns E equity;
     if rets = [] then Some 0
     else do {
       mean \<leftarrow> mean_of E rets;
       downside \<leftarrow> mapo (\<lambda>r. if r < 0 then dsub E r 0 else Some 0) rets;
       let downside_n = decimal_of_usize (length downside);
       if downside_n = 0 then Some 0
       else do {
         squares \<leftarrow> mapo (\<lambda>d. dmul E d d) downside;
         s \<leftarrow> dsum E squares;
         var \<leftarrow> ddiv E s downside_n;
         annualized_ratio E mean (sqrt_or E 0 var) } } }"

abbreviation first_or_zero :: "money list \<Rightarrow> money" where
  "first_or_zero ms \<equiv> (case ms of [] \<Rightarrow> 0 | m # _ \<Rightarrow> m)"

abbreviation last_or_zero :: "money list \<Rightarrow> money" where
  "last_or_zero ms \<equiv> (if ms = [] then 0 else last ms)"

definition calmar_ratio :: "ext \<Rightarrow> money list \<Rightarrow> decimal option" where
  "calmar_ratio E equity = do {
     max_dd \<leftarrow> max_drawdown_pct E equity;
     if max_dd = 0 \<or> length equity < 2 \<or> first_or_zero equity = 0 then Some 0
     else do {
       gain \<leftarrow> dsub E (last_or_zero equity) (first_or_zero equity);
       total_ret \<leftarrow> ddiv E gain (first_or_zero equity);
       let n = decimal_of_usize (length equity);
       if n = 0 then Some 0
       else do {
         per_year \<leftarrow> ddiv E 252 n;
         annualized \<leftarrow> dmul E total_ret per_year;
         ddiv E annualized max_dd } } }"

definition recovery_factor :: "ext \<Rightarrow> money list \<Rightarrow> decimal option" where
  "recovery_factor E equity =
     (if length equity < 2 then Some 0
      else do {
        profit \<leftarrow> dsub E (last_or_zero equity) (first_or_zero equity);
        mdd \<leftarrow> max_drawdown E equity;
        if mdd = 0 then Some 0 else ddiv E profit mdd })"

section \<open>Trade statistics\<close>

abbreviation gains :: "money list \<Rightarrow> money list" where
  "gains trades \<equiv> filter (\<lambda>p. p > 0) trades"

abbreviation losses :: "money list \<Rightarrow> money list" where
  "losses trades \<equiv> filter (\<lambda>p. p < 0) trades"

definition profit_factor :: "ext \<Rightarrow> money list \<Rightarrow> decimal option" where
  "profit_factor E trades = do {
     gross_profit \<leftarrow> dsum E (gains trades);
     gross_loss \<leftarrow> dsum E (map abs (losses trades));
     if gross_loss = 0 then Some (if gross_profit = 0 then 0 else gross_profit)
     else ddiv E gross_profit gross_loss }"

definition expectancy :: "ext \<Rightarrow> money list \<Rightarrow> decimal option" where
  "expectancy E trades =
     (if trades = [] then Some 0
      else do { s \<leftarrow> dsum E trades; ddiv E s (decimal_of_usize (length trades)) })"

fun streak_count :: "bool option \<Rightarrow> u32 \<Rightarrow> money list \<Rightarrow> u32" where
  "streak_count prev streaks [] = streaks"
| "streak_count prev streaks (t # ts) =
     streak_count (Some (t > 0))
       (case prev of None \<Rightarrow> streaks + 1 | Some p2 \<Rightarrow> if p2 \<noteq> (t > 0) then streaks + 1 else streaks) ts"

definition z_score :: "ext \<Rightarrow> money list \<Rightarrow> decimal option" where
  "z_score E trades =
     (if length trades < 10 then Some 0
      else do {
        let n = decimal_of_usize (length trades);
        let wins = decimal_of_usize (length (gains trades));
        p \<leftarrow> ddiv E wins n;
        q \<leftarrow> dsub E 1 p;
        if p = 0 \<or> q = 0 then Some 0
        else do {
          let r = of_nat (unat (streak_count None 0 trades));
          rest \<leftarrow> dsub E n wins;
          w2 \<leftarrow> dmul E 2 wins;
          pairs \<leftarrow> dmul E w2 rest;
          share \<leftarrow> ddiv E pairs n;
          expected \<leftarrow> dadd E share 1;
          n2 \<leftarrow> dmul E 2 n;
          n23 \<leftarrow> dsub E n2 3;
          numer \<leftarrow> dmul E pairs n23;
          nn \<leftarrow> dmul E n n;
          n1 \<leftarrow> dsub E n 1;
          denom \<leftarrow> dmul E nn n1;
          var_r \<leftarrow> ddiv E numer denom;
          let std_r = sqrt_or E 0 var_r;
          if std_r = 0 then Some 0
          else do { d \<leftarrow> dsub E r expected; ddiv E d std_r } } })"

text \<open>\<^verbatim>\<open>Iterator::max\<close> keeps the last of equal elements.\<close>

abbreviation max_or_zero :: "decimal list \<Rightarrow> decimal" where
  "max_or_zero xs \<equiv> (case xs of [] \<Rightarrow> 0 | x # ys \<Rightarrow> foldl (\<lambda>m y. if y \<ge> m then y else m) x ys)"

record trade_statistics =
  ts_profit_factor :: decimal
  ts_total :: nat
  ts_wins :: nat
  ts_losses :: nat
  ts_avg_win :: decimal
  ts_avg_loss :: decimal
  ts_largest_win :: decimal
  ts_largest_loss :: decimal
  ts_expectancy :: decimal
  ts_win_rate :: decimal
  ts_z_score :: decimal

definition trade_stats :: "ext \<Rightarrow> money list \<Rightarrow> trade_statistics option" where
  "trade_stats E trades =
     (if trades = [] then
        Some \<lparr> ts_profit_factor = 0, ts_total = 0, ts_wins = 0, ts_losses = 0, ts_avg_win = 0, ts_avg_loss = 0,
               ts_largest_win = 0, ts_largest_loss = 0, ts_expectancy = 0, ts_win_rate = 0, ts_z_score = 0 \<rparr>
      else do {
        let total = length trades;
        let n_wins = length (gains trades);
        let n_losses = length (losses trades);
        gp \<leftarrow> dsum E (gains trades);
        gl \<leftarrow> dsum E (map abs (losses trades));
        pf \<leftarrow> (if gl = 0 then Some (if gp = 0 then 0 else 100) else ddiv E gp gl);
        avg_w \<leftarrow> (if n_wins = 0 then Some 0 else ddiv E gp (decimal_of_usize n_wins));
        avg_l \<leftarrow> (if n_losses = 0 then Some 0 else ddiv E gl (decimal_of_usize n_losses));
        let lw = max_or_zero (gains trades);
        let ll = max_or_zero (map abs (losses trades));
        win_rate \<leftarrow> (if total = 0 then Some 0 else ddiv E (decimal_of_usize n_wins) (decimal_of_usize total));
        expect \<leftarrow> expectancy E trades;
        zs \<leftarrow> z_score E trades;
        Some \<lparr> ts_profit_factor = pf, ts_total = total, ts_wins = n_wins, ts_losses = n_losses, ts_avg_win = avg_w,
               ts_avg_loss = avg_l, ts_largest_win = lw, ts_largest_loss = ll, ts_expectancy = expect,
               ts_win_rate = win_rate, ts_z_score = zs \<rparr> })"

record risk_metrics =
  rm_sharpe :: decimal
  rm_sortino :: decimal
  rm_calmar :: decimal
  rm_profit_factor :: decimal
  rm_max_drawdown :: decimal
  rm_max_drawdown_pct :: decimal
  rm_expectancy :: decimal
  rm_win_rate :: decimal
  rm_total_trades :: nat
  rm_winning_trades :: nat
  rm_losing_trades :: nat
  rm_avg_win :: decimal
  rm_avg_loss :: decimal
  rm_largest_win :: decimal
  rm_largest_loss :: decimal
  rm_avg_holding_time_minutes :: decimal
  rm_z_score :: decimal
  rm_recovery_factor :: decimal

definition risk_compute :: "ext \<Rightarrow> money list \<Rightarrow> money list \<Rightarrow> risk_metrics option" where
  "risk_compute E equity_curve trades_pnl = do {
     sharpe \<leftarrow> sharpe_ratio E equity_curve;
     sortino \<leftarrow> sortino_ratio E equity_curve;
     max_dd \<leftarrow> max_drawdown E equity_curve;
     max_dd_pct \<leftarrow> max_drawdown_pct E equity_curve;
     calmar \<leftarrow> calmar_ratio E equity_curve;
     st \<leftarrow> trade_stats E trades_pnl;
     recovery \<leftarrow> recovery_factor E equity_curve;
     Some \<lparr> rm_sharpe = sharpe, rm_sortino = sortino, rm_calmar = calmar, rm_profit_factor = ts_profit_factor st,
            rm_max_drawdown = max_dd, rm_max_drawdown_pct = max_dd_pct, rm_expectancy = ts_expectancy st,
            rm_win_rate = ts_win_rate st, rm_total_trades = ts_total st, rm_winning_trades = ts_wins st,
            rm_losing_trades = ts_losses st, rm_avg_win = ts_avg_win st, rm_avg_loss = ts_avg_loss st,
            rm_largest_win = ts_largest_win st, rm_largest_loss = ts_largest_loss st,
            rm_avg_holding_time_minutes = 0, rm_z_score = ts_z_score st, rm_recovery_factor = recovery \<rparr> }"

definition curve_validate :: "money list \<Rightarrow> unit res" where
  "curve_validate equity =
     (if equity = [] then Inl (InvalidState (Lit ''equity curve is empty''))
      else if list_ex (\<lambda>m. m < 0) equity then Inl (InvalidState (Lit ''equity curve contains negative values''))
      else Inr ())"

section \<open>Value at risk\<close>

definition var_z :: "ext \<Rightarrow> decimal \<Rightarrow> decimal option" where
  "var_z E confidence = do {
     d95 \<leftarrow> dsub E confidence (95 / 100);
     if \<bar>d95\<bar> < 1 / 1000 then Some (1645 / 1000)
     else do {
       d99 \<leftarrow> dsub E confidence (99 / 100);
       if \<bar>d99\<bar> < 1 / 1000 then Some (2326 / 1000)
       else if 95 / 100 \<le> confidence \<and> confidence \<le> 99 / 100 then do {
         x \<leftarrow> dsub E confidence (95 / 100);
         y \<leftarrow> dsub E (99 / 100) (95 / 100);
         t \<leftarrow> ddiv E x y;
         z \<leftarrow> dsub E (2326 / 1000) (1645 / 1000);
         tz \<leftarrow> dmul E t z;
         dadd E (1645 / 1000) tz }
       else Some 2 } }"

definition parametric_var :: "ext \<Rightarrow> decimal list \<Rightarrow> decimal \<Rightarrow> u32 \<Rightarrow> money option" where
  "parametric_var E rets confidence horizon_days =
     (if rets = [] then Some 0
      else do {
        mean \<leftarrow> mean_of E rets;
        var \<leftarrow> variance_of E rets mean;
        let std = sqrt_or E 0 var;
        if std = 0 then Some 0
        else do {
          z \<leftarrow> var_z E confidence;
          let horizon_scale = sqrt_or E 1 (of_nat (unat horizon_days));
          drift \<leftarrow> dmul E mean horizon_scale;
          zs \<leftarrow> dmul E z std;
          spread \<leftarrow> dmul E zs horizon_scale;
          var_pct \<leftarrow> dadd E drift spread;
          Some \<bar>var_pct\<bar> } })"

definition es_z :: "ext \<Rightarrow> decimal \<Rightarrow> decimal option" where
  "es_z E confidence = do {
     d95 \<leftarrow> dsub E confidence (95 / 100);
     if \<bar>d95\<bar> < 1 / 1000 then Some (1645 / 1000)
     else do {
       d99 \<leftarrow> dsub E confidence (99 / 100);
       Some (if \<bar>d99\<bar> < 1 / 1000 then 2326 / 1000 else 2) } }"

text \<open>\<^verbatim>\<open>Decimal::PI\<close> with its 28 decimals.\<close>

abbreviation decimal_pi :: decimal where
  "decimal_pi \<equiv> 31415926535897932384626433833 / 10 ^ 28"

definition expected_shortfall :: "ext \<Rightarrow> decimal list \<Rightarrow> decimal \<Rightarrow> u32 \<Rightarrow> money option" where
  "expected_shortfall E rets confidence horizon_days =
     (if rets = [] then Some 0
      else do {
        var \<leftarrow> parametric_var E rets confidence horizon_days;
        mean \<leftarrow> mean_of E rets;
        var2 \<leftarrow> variance_of E rets mean;
        let std = sqrt_or E 0 var2;
        if std = 0 then Some 0
        else do {
          z \<leftarrow> es_z E confidence;
          let horizon_scale = sqrt_or E 1 (of_nat (unat horizon_days));
          h \<leftarrow> dmul E (- 5 / 10) z;
          e \<leftarrow> dmul E h z;
          ex \<leftarrow> dexp E e;
          tau \<leftarrow> dmul E 2 decimal_pi;
          pdf \<leftarrow> ddiv E ex (sqrt_or E 1 tau);
          drift \<leftarrow> dmul E mean horizon_scale;
          ss \<leftarrow> dmul E std horizon_scale;
          sp \<leftarrow> dmul E ss pdf;
          tail \<leftarrow> dsub E 1 confidence;
          spread \<leftarrow> ddiv E sp tail;
          es_pct \<leftarrow> dadd E drift spread;
          Some \<bar>es_pct\<bar> } })"

section \<open>Exposure\<close>

record exposure_report =
  ex_gross :: money
  ex_net :: money
  ex_long_count :: u32
  ex_short_count :: u32
  ex_long_volume :: decimal
  ex_short_volume :: decimal
  ex_net_volume :: decimal
  ex_symbol_concentration :: "(symbol \<times> decimal) list"

abbreviation exposure_empty :: exposure_report where
  "exposure_empty \<equiv>
     \<lparr> ex_gross = 0, ex_net = 0, ex_long_count = 0, ex_short_count = 0, ex_long_volume = 0, ex_short_volume = 0,
       ex_net_volume = 0, ex_symbol_concentration = [] \<rparr>"

definition exposure_add :: "ext \<Rightarrow> (symbol \<Rightarrow> quote option) \<Rightarrow> exposure_report \<Rightarrow> position \<Rightarrow> exposure_report option" where
  "exposure_add E quotes x p =
     (case quotes (p_symbol p) of
        None \<Rightarrow> Some x
      | Some q \<Rightarrow> do {
          price \<leftarrow> quote_mid E q;
          notional \<leftarrow> dmul E price (p_open_quantity p);
          gross \<leftarrow> dadd E (ex_gross x) notional;
          x' \<leftarrow> (case p_side p of
              Long \<Rightarrow> do {
                net \<leftarrow> dadd E (ex_net x) notional;
                vol \<leftarrow> dadd E (ex_long_volume x) (p_open_quantity p);
                net_vol \<leftarrow> dadd E (ex_net_volume x) (p_open_quantity p);
                Some (x\<lparr>ex_net := net, ex_long_count := ex_long_count x + 1, ex_long_volume := vol,
                        ex_net_volume := net_vol\<rparr>) }
            | Short \<Rightarrow> do {
                net \<leftarrow> dsub E (ex_net x) notional;
                vol \<leftarrow> dadd E (ex_short_volume x) (p_open_quantity p);
                net_vol \<leftarrow> dsub E (ex_net_volume x) (p_open_quantity p);
                Some (x\<lparr>ex_net := net, ex_short_count := ex_short_count x + 1, ex_short_volume := vol,
                        ex_net_volume := net_vol\<rparr>) });
          let held_before = (case map_of (ex_symbol_concentration x) (p_symbol p) of Some v \<Rightarrow> v | None \<Rightarrow> 0);
          conc \<leftarrow> dadd E held_before notional;
          Some (x'\<lparr>ex_gross := gross,
                   ex_symbol_concentration := AList.update (p_symbol p) conc (ex_symbol_concentration x)\<rparr>) })"

definition exposure_compute :: "ext \<Rightarrow> position list \<Rightarrow> (symbol \<Rightarrow> quote option) \<Rightarrow> exposure_report option" where
  "exposure_compute E positions quotes = foldo (exposure_add E quotes) exposure_empty (filter is_open positions)"

text \<open>
  \<^verbatim>\<open>max_by\<close> keeps the last of equal elements; the order of a hash map is arbitrary, so the
  order in which its entries are visited is an argument.
\<close>

definition last_max :: "(symbol \<times> decimal) list \<Rightarrow> (symbol \<times> decimal) option" where
  "last_max kvs = foldl (\<lambda>best kv. case best of None \<Rightarrow> Some kv | Some b \<Rightarrow> Some (if snd kv \<ge> snd b then kv else b)) None kvs"

definition top_symbol ::
  "ext \<Rightarrow> exposure_report \<Rightarrow> (symbol \<times> decimal) list \<Rightarrow> (symbol \<times> decimal) option option" where
  "top_symbol E x visited =
     (if ex_gross x = 0 then Some None
      else do {
        shares \<leftarrow> mapo (\<lambda>(k, v). do { s \<leftarrow> ddiv E v (ex_gross x); Some (k, s) }) visited;
        Some (last_max shares) })"

section \<open>Specification\<close>

text \<open>The largest fall from a sample to a later one.\<close>

definition largest_drop :: "money list \<Rightarrow> money" where
  "largest_drop ms = Max (set [ms ! i - ms ! j. j \<leftarrow> [0..<length ms], i \<leftarrow> [0..<Suc j]])"

fun drops_from :: "money \<Rightarrow> money list \<Rightarrow> money list" where
  "drops_from peak [] = []"
| "drops_from peak (m # ms) = (max peak m - m) # drops_from (max peak m) ms"

text \<open>
  Differences of decimals between zero and the minuend do not overflow and are exact; a
  quotient of such decimals is a ratio between zero and one.
\<close>

definition drops_exact :: "ext \<Rightarrow> bool" where
  "drops_exact E \<longleftrightarrow> (\<forall>x y. 0 \<le> y \<longrightarrow> y \<le> x \<longrightarrow> dsub E x y = Some (x - y))"

definition unit_ratios :: "ext \<Rightarrow> bool" where
  "unit_ratios E \<longleftrightarrow> (\<forall>x y z. ddiv E x y = Some z \<longrightarrow> 0 \<le> x \<longrightarrow> x \<le> y \<longrightarrow> 0 < y \<longrightarrow> 0 \<le> z \<and> z \<le> 1)"

text \<open>Products of non-negative decimals are non-negative.\<close>

definition products_nonneg :: "ext \<Rightarrow> bool" where
  "products_nonneg E \<longleftrightarrow> (\<forall>x y z. dmul E x y = Some z \<longrightarrow> 0 \<le> x \<longrightarrow> 0 \<le> y \<longrightarrow> 0 \<le> z)"

definition mids_nonneg :: "ext \<Rightarrow> (symbol \<Rightarrow> quote option) \<Rightarrow> bool" where
  "mids_nonneg E quotes \<longleftrightarrow> (\<forall>s q m. quotes s = Some q \<longrightarrow> quote_mid E q = Some m \<longrightarrow> 0 \<le> m)"

text \<open>A position that counts: it is open and its symbol has a quote.\<close>

definition counted :: "(symbol \<Rightarrow> quote option) \<Rightarrow> position_side \<Rightarrow> position list \<Rightarrow> position list" where
  "counted quotes side ps = filter (\<lambda>p. is_open p \<and> quotes (p_symbol p) \<noteq> None \<and> p_side p = side) ps"

text \<open>The books of a report balance, for quotes of any sign; with non-negative prices they are also bounded.\<close>

definition exposure_sums :: "exposure_report \<Rightarrow> bool" where
  "exposure_sums x \<longleftrightarrow> ex_net_volume x = ex_long_volume x - ex_short_volume x
     \<and> ex_gross x = (\<Sum>(k, v) \<leftarrow> ex_symbol_concentration x. v) \<and> distinct (map fst (ex_symbol_concentration x))"

definition exposure_bounded :: "exposure_report \<Rightarrow> bool" where
  "exposure_bounded x \<longleftrightarrow> \<bar>ex_net x\<bar> \<le> ex_gross x \<and> (\<forall>(k, v) \<in> set (ex_symbol_concentration x). 0 \<le> v \<and> v \<le> ex_gross x)"

text \<open>The counters and volumes of a report grow by the positions that count.\<close>

definition exposure_grows :: "(symbol \<Rightarrow> quote option) \<Rightarrow> position list \<Rightarrow> exposure_report \<Rightarrow> exposure_report \<Rightarrow> bool" where
  "exposure_grows quotes ps x y \<longleftrightarrow>
     ex_long_count y = ex_long_count x + of_nat (length (counted quotes Long ps))
   \<and> ex_short_count y = ex_short_count x + of_nat (length (counted quotes Short ps))
   \<and> ex_long_volume y = ex_long_volume x + (\<Sum>p \<leftarrow> counted quotes Long ps. p_open_quantity p)
   \<and> ex_short_volume y = ex_short_volume x + (\<Sum>p \<leftarrow> counted quotes Short ps. p_open_quantity p)"

definition before :: "exposure_report \<Rightarrow> symbol \<Rightarrow> decimal" where
  "before x k = (case map_of (ex_symbol_concentration x) k of Some v \<Rightarrow> v | None \<Rightarrow> 0)"

definition demo_position :: "symbol \<Rightarrow> position_side \<Rightarrow> quantity \<Rightarrow> position" where
  "demo_position sy side qty = position_open 1 2 sy side 100 qty 0 0 None None None None"

lemma exact_drops: "drops_exact (exact_env now)"
  by (simp add: drops_exact_def)

lemma exact_ratios: "unit_ratios (exact_env now)"
  by (simp add: unit_ratios_def)

section \<open>Drawdown of a curve\<close>

lemma curve_valid: "curve_validate ms = Inr () \<longleftrightarrow> ms \<noteq> [] \<and> (\<forall>m \<in> set ms. 0 \<le> m)"
  by (auto simp: curve_validate_def list_ex_iff simp flip: not_less)

lemma max_drawdown_loop_drops:
  assumes "drops_exact E"
  shows "0 \<le> peak \<Longrightarrow> \<forall>m \<in> set ms. 0 \<le> m \<Longrightarrow>
     max_drawdown_loop E peak dd ms = Some (Max (insert dd (set (drops_from peak ms))))"
proof (induction ms arbitrary: peak dd)
  case (Cons m ms)
  have p: "(if m > peak then m else peak) = max peak m" by simp
  have "dsub E (max peak m) m = Some (max peak m - m)" using assms Cons.prems by (simp add: drops_exact_def)
  moreover have "max_drawdown_loop E (max peak m) d ms = Some (Max (insert d (set (drops_from (max peak m) ms))))" for d
    using Cons by simp
  moreover have "(if d > dd then d else dd) = max dd d" for d :: money by simp
  moreover have "Max (insert (max dd d) X) = Max (insert dd (insert d X))" if "finite X" for d :: money and X
    using that by (cases "X = {}") (simp_all add: max.assoc)
  ultimately show ?case unfolding max_drawdown_loop.simps p Let_def by simp
qed simp

lemma drops_from_nth:
  "j < length ms \<Longrightarrow> drops_from peak ms ! j = Max (insert peak (set (take (Suc j) ms))) - ms ! j"
proof (induction ms arbitrary: peak j)
  case (Cons m ms)
  show ?case
  proof (cases j)
    case (Suc k)
    have "Max (insert (max peak m) (set (take (Suc k) ms))) = Max (insert peak (insert m (set (take (Suc k) ms))))"
      by (cases "set (take (Suc k) ms) = {}") (simp_all add: max.assoc)
    then show ?thesis using Cons Suc by simp
  qed simp
qed simp

lemma length_drops_from [simp]: "length (drops_from peak ms) = length ms"
  by (induction ms arbitrary: peak) simp_all

lemma drop_pairs:
  "set [ms ! i - ms ! j. j \<leftarrow> [0..<length ms], i \<leftarrow> [0..<Suc j]] = {ms ! i - ms ! j | i j. i \<le> j \<and> j < length ms}"
  by (force simp: less_Suc_eq_le simp del: upt_Suc)

lemma largest_drop_le_iff:
  "ms \<noteq> [] \<Longrightarrow> largest_drop ms \<le> x \<longleftrightarrow> (\<forall>i j. i \<le> j \<longrightarrow> j < length ms \<longrightarrow> ms ! i - ms ! j \<le> x)"
proof -
  assume "ms \<noteq> []"
  then have "{ms ! i - ms ! j | i j. i \<le> j \<and> j < length ms} \<noteq> {}" by auto
  moreover have "finite {ms ! i - ms ! j | i j. i \<le> j \<and> j < length ms}" by (simp flip: drop_pairs)
  ultimately show ?thesis unfolding largest_drop_def drop_pairs by (auto simp: Max_le_iff)
qed

lemma largest_drop_ge: "i \<le> j \<Longrightarrow> j < length ms \<Longrightarrow> ms ! i - ms ! j \<le> largest_drop ms"
  using largest_drop_le_iff [of ms "largest_drop ms"] by force

lemma drops_from_largest:
  assumes "ms \<noteq> []" "\<forall>m \<in> set ms. 0 \<le> m"
  shows "Max (insert 0 (set (drops_from 0 ms))) = largest_drop ms"
proof (rule antisym)
  have zero: "0 \<le> largest_drop ms" using largest_drop_ge [of 0 0 ms] assms(1) by simp
  have "drops_from 0 ms ! j \<le> largest_drop ms" if j: "j < length ms" for j
  proof -
    let ?P = "insert 0 (set (take (Suc j) ms))"
    have "Max ?P \<in> ?P" by (rule Max_in) auto
    then consider "Max ?P = 0" | i where "i < Suc j" "Max ?P = ms ! i" using j by (auto simp: in_set_conv_nth)
    then have "Max ?P - ms ! j \<le> largest_drop ms"
    proof cases
      case 1
      then show ?thesis using zero assms(2) j nth_mem [OF j] by (metis diff_0 neg_le_0_iff_le order_trans)
    next
      case 2
      then show ?thesis using largest_drop_ge [of i j ms] j by simp
    qed
    then show ?thesis using drops_from_nth [OF j] by simp
  qed
  then show "Max (insert 0 (set (drops_from 0 ms))) \<le> largest_drop ms"
    using zero by (auto simp: in_set_conv_nth)
next
  have "ms ! i - ms ! j \<le> Max (insert 0 (set (drops_from 0 ms)))" if "i \<le> j" "j < length ms" for i j
  proof -
    have "ms ! i \<in> set (take (Suc j) ms)" using that by (auto simp: in_set_conv_nth intro!: exI [of _ i])
    then have "ms ! i - ms ! j \<le> drops_from 0 ms ! j" using drops_from_nth [OF that(2)] by simp
    also have "\<dots> \<le> Max (insert 0 (set (drops_from 0 ms)))" using that(2) by (intro Max_ge) auto
    finally show ?thesis .
  qed
  then show "largest_drop ms \<le> Max (insert 0 (set (drops_from 0 ms)))"
    using assms(1) by (simp add: largest_drop_le_iff)
qed

lemma helper_max_drawdown_eq: "helper_max_drawdown E ms = max_drawdown E ms"
proof -
  have "Option.bind (foldo (\<lambda>(peak, mdd) m. (let peak' = (if m > peak then m else peak) in
          do { dd \<leftarrow> dsub E peak' m; Some (peak', if dd > mdd then dd else mdd) })) (p, d) ms)
       (\<lambda>(peak, mdd). Some mdd) = max_drawdown_loop E p d ms" for p d
    by (induction ms arbitrary: p d) (auto simp: Let_def split: bind_split)
  then show ?thesis by (simp add: helper_max_drawdown_def max_drawdown_def)
qed

lemma drawdown_largest:
  assumes "drops_exact E" "curve_validate ms = Inr ()"
  shows "max_drawdown E ms = Some (largest_drop ms)"
  using assms max_drawdown_loop_drops [OF assms(1), of 0 ms 0] drops_from_largest [of ms]
  by (simp add: max_drawdown_def curve_valid)

text \<open>
  C24. The maximum drawdown of an equity curve is its largest fall. On every curve that the
  curve validation accepts, both implementations of the drawdown return, and what they
  return is the largest difference between a sample and a later one, although they only
  keep a running peak that starts at zero.
\<close>

theorem max_drawdown_is_largest_drop:
  assumes "drops_exact E" "curve_validate ms = Inr ()"
  shows "max_drawdown E ms = Some (largest_drop ms) \<and> helper_max_drawdown E ms = Some (largest_drop ms)"
  by (simp add: helper_max_drawdown_eq drawdown_largest [OF assms])

theorem max_drawdown_is_largest_drop_witness:
  "max_drawdown (exact_env 0) [100, 130, 90, 120] = Some 40
   \<and> helper_max_drawdown (exact_env 0) [100, 130, 90, 120] = Some 40"
proof -
  have "largest_drop [100, 130, 90, 120] = 40" by (simp add: largest_drop_def)
  moreover have "curve_validate [100, 130, 90, 120] = Inr ()" by (simp add: curve_validate_def)
  ultimately show ?thesis using max_drawdown_is_largest_drop [OF exact_drops] by simp
qed

section \<open>Bounds of the metrics\<close>

lemma max_drawdown_loop_mono: "max_drawdown_loop E peak dd ms = Some r \<Longrightarrow> dd \<le> r"
  by (induction ms arbitrary: peak dd) (force simp: run_simps split: if_split_asm)+

lemma max_drawdown_pct_loop_unit:
  assumes "sums_exact E" "unit_ratios E"
  shows "max_drawdown_pct_loop E peak dd ms = Some r \<Longrightarrow> 0 \<le> peak \<Longrightarrow> \<forall>m \<in> set ms. 0 \<le> m \<Longrightarrow>
     0 \<le> dd \<and> dd \<le> 1 \<Longrightarrow> 0 \<le> r \<and> r \<le> 1"
proof (induction ms arbitrary: peak dd)
  case (Cons m ms)
  let ?p = "if m > peak then m else peak"
  have p: "0 \<le> ?p" "m \<le> ?p" using Cons.prems by auto
  show ?case
  proof (cases "?p = 0")
    case True
    then show ?thesis using Cons.IH [of ?p dd] Cons.prems p by (simp add: Let_def)
  next
    case False
    obtain drop q where d: "dsub E ?p m = Some drop" "ddiv E drop ?p = Some q"
        "max_drawdown_pct_loop E ?p (if q > dd then q else dd) ms = Some r"
      using Cons.prems(1) False by (auto simp: run_simps)
    have drop: "drop = ?p - m" using sums_exactD(2) [OF assms(1) d(1)] .
    have "0 \<le> m" using Cons.prems(3) by simp
    then have "0 \<le> drop" "drop \<le> ?p" "0 < ?p" unfolding drop using p False by linarith+
    then have "0 \<le> q \<and> q \<le> 1" using assms(2) d(2) unfolding unit_ratios_def by blast
    then show ?thesis using Cons.IH [OF d(3) p(1)] Cons.prems by auto
  qed
qed simp

lemma gains_losses: "length (gains ts) + length (losses ts) \<le> length ts"
  by (induction ts) auto

lemma trade_stats_bounds:
  assumes "unit_ratios E" "trade_stats E ts = Some st"
  shows "ts_total st = length ts" "ts_wins st + ts_losses st \<le> ts_total st" "0 \<le> ts_win_rate st \<and> ts_win_rate st \<le> 1"
proof -
  have "0 \<le> r \<and> r \<le> 1" if "ddiv E (decimal_of_usize (length (gains ts))) (decimal_of_usize (length ts)) = Some r" "ts \<noteq> []" for r
  proof -
    have "decimal_of_usize (length (gains ts)) \<le> decimal_of_usize (length ts)" by simp
    moreover have "0 < decimal_of_usize (length ts)" using that(2) by simp
    moreover have "0 \<le> decimal_of_usize (length (gains ts))" by simp
    ultimately show ?thesis using assms(1) that(1) unfolding unit_ratios_def by blast
  qed
  moreover have "ts_total st = length ts \<and> ts_wins st = length (gains ts) \<and> ts_losses st = length (losses ts)
      \<and> ddiv E (decimal_of_usize (length (gains ts))) (decimal_of_usize (length ts)) = Some (ts_win_rate st)" if "ts \<noteq> []"
    using assms(2) that unfolding trade_stats_def by (clarsimp simp: run_simps split del: if_split)
  ultimately show "ts_total st = length ts" "ts_wins st + ts_losses st \<le> ts_total st"
      "0 \<le> ts_win_rate st \<and> ts_win_rate st \<le> 1"
    using assms(2) gains_losses [of ts] by (cases "ts = []"; force simp: trade_stats_def)+
qed

text \<open>
  The reported risk metrics are in range. When the metrics of a valid equity curve and of
  any list of trades are computed, the relative drawdown and the win rate lie between zero
  and one, the money drawdown is non-negative and at most the highest sample, every trade
  is counted, and wins and losses together are at most all trades.
\<close>

lemma risk_metrics_in_range:
  assumes "drops_exact E" "sums_exact E" "unit_ratios E" "curve_validate ms = Inr ()"
    and "risk_compute E ms trades = Some r"
  shows "0 \<le> rm_max_drawdown_pct r \<and> rm_max_drawdown_pct r \<le> 1
     \<and> 0 \<le> rm_win_rate r \<and> rm_win_rate r \<le> 1
     \<and> 0 \<le> rm_max_drawdown r \<and> rm_max_drawdown r \<le> Max (set ms)
     \<and> rm_total_trades r = length trades \<and> rm_winning_trades r + rm_losing_trades r \<le> length trades"
proof -
  have v: "ms \<noteq> []" "\<forall>m \<in> set ms. 0 \<le> m" using assms(4) by (simp_all add: curve_valid)
  obtain st where st: "trade_stats E trades = Some st" and r: "max_drawdown E ms = Some (rm_max_drawdown r)"
      "max_drawdown_pct E ms = Some (rm_max_drawdown_pct r)" "rm_win_rate r = ts_win_rate st"
      "rm_total_trades r = ts_total st" "rm_winning_trades r = ts_wins st" "rm_losing_trades r = ts_losses st"
    using assms(5) unfolding risk_compute_def by (auto simp: run_simps)
  have mdd: "rm_max_drawdown r = largest_drop ms" using drawdown_largest [OF assms(1,4)] r(1) by simp
  have "ms ! i - ms ! j \<le> Max (set ms)" if "i \<le> j" "j < length ms" for i j
  proof -
    have "ms ! i \<le> Max (set ms)" "0 \<le> ms ! j" using that v(2) by auto
    then show ?thesis by linarith
  qed
  then have "0 \<le> rm_max_drawdown r \<and> rm_max_drawdown r \<le> Max (set ms)"
    using max_drawdown_loop_mono r(1) v(1) unfolding max_drawdown_def mdd by (auto simp: largest_drop_le_iff)
  moreover have "0 \<le> rm_max_drawdown_pct r \<and> rm_max_drawdown_pct r \<le> 1"
    using max_drawdown_pct_loop_unit [OF assms(2,3) _ order_refl v(2)] r(2) by (simp add: max_drawdown_pct_def)
  ultimately show ?thesis using trade_stats_bounds [OF assms(3) st] r by simp
qed

section \<open>Time under water\<close>

lemma longer_bound:
  assumes "s \<le> n" "n < 2 ^ 32" "unat l \<le> n"
  obtains l' where "longer n s l = Some l'" "unat l' \<le> n"
proof -
  have "unat (usize_as_u32 (n - s)) \<le> n"
    unfolding usize_as_u32_def using take_bit_nat_less_eq_self [of 32 "n - s"] by (simp add: unat_of_nat del: of_nat_diff)
  then show ?thesis using that assms by (cases "usize_as_u32 (n - s) > l") (auto simp: Let_def)
qed

lemma duration_loop_returns:
  "i + length ms < 2 ^ 32 \<Longrightarrow> unat longest \<le> i \<Longrightarrow> (\<forall>s. start = Some s \<longrightarrow> s \<le> i) \<Longrightarrow> (peak > 0 \<longrightarrow> 0 < i) \<Longrightarrow>
   \<exists>start' longest'. duration_loop peak start longest i ms = Some (start', longest')
     \<and> unat longest' \<le> i + length ms \<and> (\<forall>s. start' = Some s \<longrightarrow> s \<le> i + length ms)"
proof (induction ms arbitrary: peak start longest i)
  case (Cons m ms)
  have IH: "\<exists>start' longest'. duration_loop peak' start'' l (i + 1) ms = Some (start', longest')
       \<and> unat longest' \<le> i + length (m # ms) \<and> (\<forall>s. start' = Some s \<longrightarrow> s \<le> i + length (m # ms))"
    if "unat l \<le> i" "\<forall>s. start'' = Some s \<longrightarrow> s \<le> i" for peak' start'' l
    using Cons.IH [of "i + 1" l start'' peak'] Cons.prems(1) that by fastforce
  show ?case
  proof (cases "m > peak")
    case True
    show ?thesis
    proof (cases start)
      case None
      then show ?thesis using True IH [of longest None m] Cons.prems by simp
    next
      case (Some s)
      then obtain l' where l': "longer i s longest = Some l'" "unat l' \<le> i"
        using Cons.prems longer_bound [of s i longest] by (metis add_lessD1)
      then show ?thesis using True Some IH [of l' None m] by simp
    qed
  next
    case False
    then show ?thesis using IH [of longest start peak] IH [of longest "Some (i - 1)" peak] Cons.prems by auto
  qed
qed simp

text \<open>
  The longest time under water is computed without underflow of an index, and is at most the
  number of samples of the curve.
\<close>

lemma max_drawdown_duration_bound:
  assumes "length ms < 2 ^ 32"
  obtains d where "max_drawdown_duration ms = Some d" "unat d \<le> length ms"
proof -
  obtain start longest where d: "duration_loop 0 None 0 0 ms = Some (start, longest)" "unat longest \<le> length ms"
      "\<forall>s. start = Some s \<longrightarrow> s \<le> length ms"
    using duration_loop_returns [of 0 ms 0 None 0] assms by auto
  show thesis
  proof (cases start)
    case None
    then show ?thesis using d that by (simp add: max_drawdown_duration_def)
  next
    case (Some s)
    then obtain l where "longer (length ms) s longest = Some l" "unat l \<le> length ms"
      using longer_bound [of s "length ms" longest] assms d by auto
    then show ?thesis using Some d that by (simp add: max_drawdown_duration_def)
  qed
qed

section \<open>Exposure accounting\<close>

lemma sum_update:
  "distinct (map fst kvs) \<Longrightarrow>
   (\<Sum>(k, v) \<leftarrow> AList.update k' w kvs. v) = (\<Sum>(k, v) \<leftarrow> kvs. v) - (case map_of kvs k' of Some v \<Rightarrow> v | None \<Rightarrow> 0) + (w :: rat)"
  by (induction kvs) (auto split: option.split simp: map_of_eq_None_iff dest: map_of_SomeD)

lemma update_members: "(k, v) \<in> set (AList.update k' w kvs) \<Longrightarrow> v = w \<or> (k, v) \<in> set kvs"
  by (induction kvs) (auto split: if_split_asm)

lemma exposure_add_cases:
  assumes "sums_exact E" "exposure_add E quotes x p = Some y"
  obtains (skipped) "quotes (p_symbol p) = None" "y = x"
  | (added) q m n where "quotes (p_symbol p) = Some q" "quote_mid E q = Some m" "dmul E m (p_open_quantity p) = Some n"
      "ex_gross y = ex_gross x + n"
      "ex_symbol_concentration y = AList.update (p_symbol p) (before x (p_symbol p) + n) (ex_symbol_concentration x)"
      "ex_net y = (case p_side p of Long \<Rightarrow> ex_net x + n | Short \<Rightarrow> ex_net x - n)"
      "ex_net_volume y - ex_long_volume y + ex_short_volume y = ex_net_volume x - ex_long_volume x + ex_short_volume x"
      "ex_long_count y = ex_long_count x + (if p_side p = Long then 1 else 0)"
      "ex_short_count y = ex_short_count x + (if p_side p = Short then 1 else 0)"
      "ex_long_volume y = ex_long_volume x + (if p_side p = Long then p_open_quantity p else 0)"
      "ex_short_volume y = ex_short_volume x + (if p_side p = Short then p_open_quantity p else 0)"
proof (cases "quotes (p_symbol p)")
  case None
  then show thesis using skipped assms(2) by (simp add: exposure_add_def)
next
  case (Some q)
  obtain m n where m: "quote_mid E q = Some m" "dmul E m (p_open_quantity p) = Some n"
    using assms(2) Some by (auto simp: exposure_add_def run_simps)
  note exact = sums_exactD [OF assms(1)]
  show thesis
    by (rule added [OF Some m]; use assms(2) Some m in \<open>cases "p_side p"; clarsimp simp: exposure_add_def before_def run_simps dest!: exact\<close>)
qed

lemma exposure_add_sums:
  assumes "sums_exact E" "exposure_add E quotes x p = Some y" "exposure_sums x"
  shows "exposure_sums y"
  using assms(1,2)
proof (cases rule: exposure_add_cases)
  case (added q m n)
  have x: "distinct (map fst (ex_symbol_concentration x))" "ex_gross x = (\<Sum>(k, v) \<leftarrow> ex_symbol_concentration x. v)"
    using assms(3) by (auto simp: exposure_sums_def)
  have "ex_net_volume y = ex_long_volume y - ex_short_volume y"
    using added(7) assms(3) by (simp add: exposure_sums_def)
  moreover have "ex_gross y = (\<Sum>(k, v) \<leftarrow> ex_symbol_concentration y. v)"
    unfolding added(4,5) sum_update [OF x(1)] x(2) by (simp add: before_def)
  moreover have "distinct (map fst (ex_symbol_concentration y))" unfolding added(5) by (rule distinct_update [OF x(1)])
  ultimately show ?thesis unfolding exposure_sums_def by blast
qed (use assms(3) in simp)

lemma exposure_add_bounded:
  assumes "sums_exact E" "products_nonneg E" "mids_nonneg E quotes" "is_open p"
    and "exposure_add E quotes x p = Some y" "exposure_bounded x"
  shows "exposure_bounded y"
  using assms(1,5)
proof (cases rule: exposure_add_cases)
  case (added q m n)
  have "0 \<le> m" "0 \<le> p_open_quantity p"
    using assms(3,4) added(1,2) by (auto simp: mids_nonneg_def is_open_def quantity_is_positive_def)
  then have n: "0 \<le> n" using assms(2) added(3) unfolding products_nonneg_def by blast
  have x: "\<bar>ex_net x\<bar> \<le> ex_gross x" "\<And>k v. (k, v) \<in> set (ex_symbol_concentration x) \<Longrightarrow> 0 \<le> v \<and> v \<le> ex_gross x"
    using assms(6) by (auto simp: exposure_bounded_def)
  have b: "0 \<le> before x (p_symbol p) \<and> before x (p_symbol p) \<le> ex_gross x"
    using x by (auto simp: before_def split: option.split dest: map_of_SomeD)
  have "\<bar>ex_net y\<bar> \<le> ex_gross y" using x(1) n added(4,6) by (cases "p_side p") auto
  moreover have "0 \<le> v \<and> v \<le> ex_gross y" if "(k, v) \<in> set (ex_symbol_concentration y)" for k v
    using update_members [OF that [unfolded added(5)]] x(2) [of k v] b n added(4) by auto
  ultimately show ?thesis unfolding exposure_bounded_def by blast
qed (use assms(6) in simp)

lemma exposure_add_grows:
  assumes "sums_exact E" "is_open p" "exposure_add E quotes x p = Some y"
  shows "exposure_grows quotes [p] x y"
  using assms(1,3) by (cases rule: exposure_add_cases) (simp_all add: assms(2) exposure_grows_def counted_def)

lemma exposure_grows_Cons: "exposure_grows quotes [p] x y \<Longrightarrow> exposure_grows quotes ps y z \<Longrightarrow> exposure_grows quotes (p # ps) x z"
  by (auto simp: exposure_grows_def counted_def)

lemma exposure_fold_sums:
  assumes "sums_exact E"
  shows "foldo (exposure_add E quotes) x (filter is_open ps) = Some y \<Longrightarrow> exposure_sums x \<Longrightarrow>
     exposure_sums y \<and> exposure_grows quotes ps x y \<and>
     (products_nonneg E \<longrightarrow> mids_nonneg E quotes \<longrightarrow> exposure_bounded x \<longrightarrow> exposure_bounded y)"
proof (induction ps arbitrary: x)
  case (Cons p ps)
  show ?case
  proof (cases "is_open p")
    case True
    then obtain z where z: "exposure_add E quotes x p = Some z" "foldo (exposure_add E quotes) z (filter is_open ps) = Some y"
      using Cons.prems(1) by (auto simp: run_simps)
    note IH = Cons.IH [OF z(2) exposure_add_sums [OF assms z(1) Cons.prems(2)]]
    show ?thesis
      using IH exposure_grows_Cons [OF exposure_add_grows [OF assms True z(1)]] exposure_add_bounded [OF assms _ _ True z(1)] by blast
  next
    case False
    then show ?thesis using Cons by (simp add: exposure_grows_def counted_def)
  qed
qed (simp add: exposure_grows_def counted_def)

text \<open>
  C36. Exposure reports add up. Whatever the quotes, when the exposure of a list of positions is
  computed the long and short counters and volumes are those of the open positions of each
  side that have a quote (the counters in 32 bits), the net volume is the long minus the short volume, there is
  one concentration per symbol, and the concentrations sum to the gross exposure. If no mid
  price is negative, the net exposure is moreover at most the gross exposure in size and
  every concentration lies between zero and the gross exposure.
\<close>

theorem exposure_adds_up:
  assumes "sums_exact E" "exposure_compute E ps quotes = Some x"
  shows "exposure_sums x \<and> exposure_grows quotes ps exposure_empty x
     \<and> (products_nonneg E \<longrightarrow> mids_nonneg E quotes \<longrightarrow> exposure_bounded x)"
proof -
  have "exposure_sums exposure_empty" "exposure_bounded exposure_empty" by (simp_all add: exposure_sums_def exposure_bounded_def)
  then show ?thesis using exposure_fold_sums [OF assms(1) assms(2) [unfolded exposure_compute_def]] by blast
qed

theorem exposure_adds_up_witness:
  "\<exists>x. exposure_compute (exact_env 0) [demo_position ''ES'' Long 2, demo_position ''ES'' Short 1, demo_position ''NQ'' Short 3]
       (\<lambda>s. if s = ''ES'' then Some \<lparr> q_bid = 10, q_ask = 12, q_ts = 0 \<rparr> else None) = Some x
     \<and> exposure_sums x \<and> exposure_bounded x \<and> ex_gross x = 33 \<and> ex_net x = 11 \<and> ex_short_count x = 1 \<and> ex_long_volume x = 2"
proof -
  let ?ps = "[demo_position ''ES'' Long 2, demo_position ''ES'' Short 1, demo_position ''NQ'' Short 3]"
  let ?q = "\<lambda>s. if s = ''ES'' then Some \<lparr> q_bid = 10, q_ask = 12, q_ts = 0 \<rparr> else None"
  obtain x where x: "exposure_compute (exact_env 0) ?ps ?q = Some x" "ex_gross x = 33" "ex_net x = 11"
    by (simp add: exposure_compute_def exposure_add_def demo_position_def position_open_def is_open_def
      quantity_is_positive_def quote_mid_def)
  have "products_nonneg (exact_env 0)" by (simp add: products_nonneg_def)
  moreover have "mids_nonneg (exact_env 0) ?q" by (simp add: mids_nonneg_def quote_mid_def)
  ultimately show ?thesis using exposure_adds_up [OF exact_env_sums x(1)] x
    by (simp add: exposure_grows_def counted_def demo_position_def position_open_def is_open_def quantity_is_positive_def)
qed

lemma last_max_snoc:
  "last_max (kvs @ [kv]) = Some (case last_max kvs of None \<Rightarrow> kv | Some b \<Rightarrow> if snd kv \<ge> snd b then kv else b)"
  by (simp add: last_max_def split: option.split)

lemma last_max_None: "last_max kvs = None \<longleftrightarrow> kvs = []"
  by (cases kvs rule: rev_cases) (simp_all add: last_max_snoc, simp add: last_max_def)

text \<open>The most concentrated symbol has the largest share of the entries visited.\<close>

lemma last_max_is_max:
  assumes "last_max kvs = Some kv"
  shows "kv \<in> set kvs \<and> (\<forall>kv' \<in> set kvs. snd kv' \<le> snd kv)"
  using assms
proof (induction kvs arbitrary: kv rule: rev_induct)
  case (snoc a kvs)
  then show ?case by (cases "last_max kvs") (auto simp: last_max_snoc last_max_None split: if_split_asm)
qed (simp add: last_max_def)

end
