(* ===== verification/Promotion.thy ===== *)
theory Promotion
  imports Pipeline_Runs
begin

text \<open>
  Promotion makes progress: an account whose target has been reached is promoted once it has
  traded on enough days, and in the funded phase, which has no successor, the same
  situation stops the pipeline.
\<close>

section \<open>Waiting for promotion\<close>

definition awaits_promotion :: "account \<Rightarrow> bool" where
  "awaits_promotion a \<longleftrightarrow> status a = TargetHitPending \<and> target_reached_at a \<noteq> None
     \<and> unat (active_trading_days a) < 2 ^ 31 \<and> unat (min_trading_days (plan a)) < 2 ^ 31"

definition missing_days :: "account \<Rightarrow> nat" where
  "missing_days a = unat (min_trading_days (plan a)) - unat (active_trading_days a)"

text \<open>The plan asks for no profitable days, or for no more than the account has had.\<close>

definition profitable_days_met :: "account \<Rightarrow> bool" where
  "profitable_days_met a = (case min_profitable_days (plan a) of None \<Rightarrow> True | Some n \<Rightarrow> n \<le> profitable_days_count a)"

text \<open>A fill on a day that no earlier fill has counted.\<close>

definition first_fill :: "ext \<Rightarrow> account \<Rightarrow> trade \<Rightarrow> bool" where
  "first_fill E a t \<longleftrightarrow> (\<exists>b evs. auto_rollover E a (PTradeFilled t) = Some (b, evs) \<and> \<not> day_counted_today b)"

text \<open>Trading days that the rules do not end: one processed first fill per day.\<close>

inductive trading_days :: "account \<Rightarrow> nat \<Rightarrow> account \<Rightarrow> bool" where
  start: "trading_days a 0 a"
| day: "first_fill E a t \<Longrightarrow> process E reg st notify a (PTradeFilled t) = ok r \<Longrightarrow>
    account_status_target (er_decision (pr_result r)) = None \<Longrightarrow> trading_days (pr_account r) n b \<Longrightarrow> trading_days a (Suc n) b"

text \<open>An account one day short of its minimum, and a fill.\<close>

definition pending_account :: account where
  "pending_account = demo_account\<lparr>status := TargetHitPending, target_reached_at := Some 0, active_trading_days := 2\<rparr>"

definition pending_fill :: trade where
  "pending_fill = trade_new 1 2 7 ''EURUSD'' Buy Entry 1 1 5 0"

section \<open>One day\<close>

lemma close_trading_day_days:
  assumes "close_trading_day E a = Some b"
  shows "active_trading_days b = active_trading_days a \<or> active_trading_days b = active_trading_days a + 1"
proof -
  obtain c e where c: "add_winning_day E (stamp_day_extremes a) = Some c" and e: "count_qualifying_day E c = Some e"
    and b: "b = (if \<not> day_counted_today e then e\<lparr>active_trading_days := active_trading_days e + 1\<rparr> else e)"
    using assms unfolding close_trading_day_def by (auto simp only: Option.bind_eq_Some_conv option.inject)
  have "active_trading_days c = active_trading_days a"
    using c by (rule add_winning_day_cases) (simp add: stamp_day_extremes_def Let_def)
  moreover have "active_trading_days e = active_trading_days c"
    using count_qualifying_day_cases [OF e] by (elim disjE) simp_all
  ultimately show ?thesis unfolding b by simp
qed

lemma rollover_day_days:
  assumes "rollover_day E a h ts = Some b"
  shows "active_trading_days b = active_trading_days a \<or> h \<and> active_trading_days b = active_trading_days a + 1"
  using assms
proof (rule rollover_day_cases)
  fix c t assume c: "(if h then close_trading_day E a else Some a) = Some c" and b: "b = (start_trading_day c)\<lparr>current_trading_day_start := Some t\<rparr>"
  have "active_trading_days c = active_trading_days a \<or> h \<and> active_trading_days c = active_trading_days a + 1"
    using c close_trading_day_days [of E a c] by (cases h) simp_all
  then show ?thesis by (simp add: b start_trading_day_def)
qed

lemma loop_days:
  assumes "rollover_loop E event_ts day first a = Some b"
  shows "active_trading_days b = active_trading_days a \<or> first \<and> active_trading_days b = active_trading_days a + 1"
proof (rule rollover_loop.raw_induct [where P = "\<lambda>E ts d f a b. active_trading_days b = active_trading_days a
      \<or> f \<and> active_trading_days b = active_trading_days a + 1", OF _ assms])
  fix loop E event_ts day first a b
  assume IH: "\<And>E ts d f a b. loop E ts d f a = Some b \<Longrightarrow> active_trading_days b = active_trading_days a
      \<or> f \<and> active_trading_days b = active_trading_days a + 1"
    and eq: "(if case current_trading_day_start a of None \<Rightarrow> True | Some s \<Rightarrow> s < day
      then Option.bind (current_trading_day_start a) (\<lambda>cur.
           Option.bind (next_trading_day_start E (plan a) cur) (\<lambda>next_start.
           Option.bind (rollover_day E a (if first then today_realized_pnl a \<noteq> 0 else False)
                  (Some (if next_start \<ge> day then event_ts else next_start)))
             (\<lambda>c. loop E event_ts day False c)))
      else Some a) = Some b"
  show "active_trading_days b = active_trading_days a \<or> first \<and> active_trading_days b = active_trading_days a + 1"
  proof (cases "case current_trading_day_start a of None \<Rightarrow> True | Some s \<Rightarrow> s < day")
    case True
    then obtain ts c where c: "rollover_day E a (if first then today_realized_pnl a \<noteq> 0 else False) (Some ts) = Some c" "loop E event_ts day False c = Some b"
      using eq by (auto simp only: if_True Option.bind_eq_Some_conv)
    have "active_trading_days c = active_trading_days a \<or> first \<and> active_trading_days c = active_trading_days a + 1"
      using rollover_day_days [OF c(1)] by (auto split: if_split_asm)
    then show ?thesis using IH [OF c(2)] by simp
  next
    case False
    then show ?thesis using eq by simp
  qed
qed

interpretation waiting: day_transitions "\<lambda>E. True" "\<lambda>a. plan a = p \<and> status a = s \<and> target_reached_at a = r" for p s r
  by unfold_locales (auto simp: op_defs elim!: op_elims)

lemma rollover_waits:
  assumes "auto_rollover E a (PTradeFilled t) = Some (b, evs)"
  shows "plan b = plan a \<and> status b = status a \<and> target_reached_at b = target_reached_at a
    \<and> (active_trading_days b = active_trading_days a \<or> active_trading_days b = active_trading_days a + 1)"
proof -
  have "active_trading_days b = active_trading_days a \<or> active_trading_days b = active_trading_days a + 1"
    using assms by (auto simp: auto_rollover_def Let_def Option.bind_eq_Some_conv split: if_split_asm dest: loop_days)
  then show ?thesis using waiting.rollover_kept [OF _ _ assms, of "plan a" "status a" "target_reached_at a"] by simp
qed

lemma fill_counts_day:
  assumes "process E reg st notify a (PTradeFilled t) = ok r" "first_fill E a t"
  obtains c d dev where "plan c = plan a" "status c = status a" "target_reached_at c = target_reached_at a"
    "active_trading_days c = active_trading_days a + 1 \<or> active_trading_days c = active_trading_days a + 2"
    "d = er_decision (pr_result r)" "apply_decision E c d (utc_now E) (actor_of (PTradeFilled t)) = ok (pr_account r, dev)"
  using assms(1)
proof (rule process_cases)
  fix a0 ev0 ap a2 dev
  assume roll: "auto_rollover E a (PTradeFilled t) = Some (a0, ev0)" and app: "apply_event E st a0 (PTradeFilled t) = ok ap"
    and dec: "apply_decision E (consume_fill (ap_state ap) (ap_trade_fill ap)) (er_decision (pr_result r)) (utc_now E) (actor_of (PTradeFilled t)) = ok (a2, dev)"
    and r: "pr_account r = stamp_last_tick a2 (PTradeFilled t)"
  let ?c = "consume_fill (ap_state ap) (ap_trade_fill ap)"
  from app obtain ts where arm: "apply_arm E (a0\<lparr>acc_today_trades := ts\<rparr>) (acc_open_positions a0) (PTradeFilled t) =
      ok (ap_state ap, ap_ctx_kind ap, ap_trade_fill ap, ap_events ap)" by (rule apply_event_cases)
  have counted: "\<not> day_counted_today a0" using assms(2) roll by (simp add: first_fill_def)
  obtain b pnl where b: "apply_realized_pnl E (a0\<lparr>acc_today_trades := ts\<rparr>) pnl (t_commission t) (t_swap t) (t_executed_at t) = Some b"
      "ap_state ap = mark_active_trading_day b"
    using arm by (cases "filled_position E (acc_open_positions a0) t") (auto simp: run_simps)
  have *: "plan b = plan a0 \<and> status b = status a0 \<and> target_reached_at b = target_reached_at a0
      \<and> active_trading_days b = active_trading_days a0 \<and> day_counted_today b = day_counted_today a0"
    using b(1) by (rule apply_realized_pnl_update) simp
  have "active_trading_days ?c = active_trading_days a0 + 1" "target_reached_at ?c = target_reached_at a0"
    using b(2) * counted by (simp_all add: consume_fill_def mark_active_trading_day_def Let_def split: option.split)
  moreover have "plan ?c = plan a0" "status ?c = status a0" using b(2) * by (simp_all add: mark_active_trading_day_def)
  moreover have "pr_account r = a2" using r by simp
  moreover note rollover_waits [OF roll] dec
  ultimately show thesis
    by (intro that [where c = ?c and d = "er_decision (pr_result r)" and dev = dev]) (auto simp: add.assoc)
qed

lemma pending_decision:
  assumes "apply_decision E c d t actor = ok (b, evs)" "status c = TargetHitPending" "target_reached_at c \<noteq> None"
  shows "min_trading_days (plan c) \<le> active_trading_days c \<Longrightarrow>
      plan_phase (plan c) \<noteq> FundedPhase \<and> plan b = with_phase (plan c) (next_phase_for (plan_phase (plan c)))"
    and "active_trading_days c < min_trading_days (plan c) \<Longrightarrow> account_status_target d = None \<Longrightarrow> b = c"
proof -
  obtain a1 ev1 a2 ev2 ev3 where s: "decision_target E c d t = (a1, ev1)" "decision_promote E a1 t = Inr (a2, ev2)"
      "decision_terminate E a2 d t actor = Some (b, ev3)" using assms(1) by (rule apply_decision_cases)
  have a1: "a1 = c" using s(1) assms(3) by (auto simp: decision_target_def mark_target_reached_def split: if_split_asm)
  {
    assume "min_trading_days (plan c) \<le> active_trading_days c"
    then obtain u where u: "upgrade_phase (c\<lparr>status := Passed\<rparr>) (next_phase_for (plan_phase (plan c))) = Inr u" "a2 = reset_for_phase u"
      using s(2) assms(2,3) a1 by (auto simp: decision_promote_def Let_def split: sum.split_asm)
    then have "plan_phase (plan c) \<noteq> FundedPhase \<and> plan a2 = with_phase (plan c) (next_phase_for (plan_phase (plan c)))"
      by (auto simp: upgrade_phase_def reset_for_phase_def split: if_split_asm)
    then show "plan_phase (plan c) \<noteq> FundedPhase \<and> plan b = with_phase (plan c) (next_phase_for (plan_phase (plan c)))"
      using s(3) by (auto elim: decision_terminate_update)
  }
  assume "active_trading_days c < min_trading_days (plan c)" "account_status_target d = None"
  then show "b = c" using s(2,3) a1 by (auto simp: decision_promote_def decision_terminate_def not_le [symmetric])
qed

lemma unat_next: "unat (w :: u32) < 2 ^ 31 \<Longrightarrow> unat (w + 1) = unat w + 1 \<and> unat (w + 2) = unat w + 2"
  by (simp add: unat_word_ariths)

lemma trading_days_rank: "trading_days a n b \<Longrightarrow> phase_rank (plan_phase (plan a)) \<le> phase_rank (plan_phase (plan b))"
proof (induction rule: trading_days.induct)
  case (day E a t reg st notify r n b)
  have "phase_rank (plan_phase (plan a)) \<le> phase_rank (plan_phase (plan (pr_account r)))"
    using plans.process_kept [OF _ _ _ day.hyps(2), of "plan a"] by (simp add: with_phase_def)
  then show ?case using day.IH by simp
qed simp

lemma days_promote:
  assumes "trading_days a n b" "awaits_promotion a" "plan_phase (plan a) \<noteq> FundedPhase" "max 1 (missing_days a) \<le> n"
  shows "phase_rank (plan_phase (plan a)) < phase_rank (plan_phase (plan b))"
  using assms
proof (induction rule: trading_days.induct)
  case (day E a t reg st notify r n b)
  obtain c d dev where c: "plan c = plan a" "status c = status a" "target_reached_at c = target_reached_at a"
      "active_trading_days c = active_trading_days a + 1 \<or> active_trading_days c = active_trading_days a + 2"
      "d = er_decision (pr_result r)" "apply_decision E c d (utc_now E) (actor_of (PTradeFilled t)) = ok (pr_account r, dev)"
    using day.hyps(2,1) by (rule fill_counts_day)
  have pend: "status c = TargetHitPending" "target_reached_at c \<noteq> None" using c day.prems(1) by (simp_all add: awaits_promotion_def)
  show ?case
  proof (cases "min_trading_days (plan c) \<le> active_trading_days c")
    case True
    then have "plan (pr_account r) = with_phase (plan a) (next_phase_for (plan_phase (plan a)))"
      using pending_decision(1) [OF c(6) pend] c(1) by simp
    then have "phase_rank (plan_phase (plan a)) < phase_rank (plan_phase (plan (pr_account r)))"
      using day.prems(2) by (cases "plan_phase (plan a)") (simp_all add: with_phase_def)
    then show ?thesis using trading_days_rank [OF day.hyps(4)] by simp
  next
    case False
    then have less: "unat (active_trading_days c) < unat (min_trading_days (plan a))" using c(1) by (simp add: not_le word_less_nat_alt)
    have r: "pr_account r = c" using pending_decision(2) [OF c(6) pend] False day.hyps(3) c(5) by simp
    have next_day: "unat (active_trading_days c) \<ge> unat (active_trading_days a) + 1"
      using c(4) unat_next [of "active_trading_days a"] day.prems(1) by (auto simp: awaits_promotion_def)
    have "awaits_promotion c" using pend less c(1) day.prems(1) by (simp add: awaits_promotion_def)
    moreover have "max 1 (missing_days c) \<le> n" using less next_day day.prems(3) c(1) by (simp add: missing_days_def)
    ultimately show ?thesis using day.IH day.prems(2) c(1) r by simp
  qed
qed simp

lemma pending_simps:
  "awaits_promotion pending_account" "plan_phase (plan pending_account) = Phase1" "missing_days pending_account = 1"
  by (simp_all add: awaits_promotion_def missing_days_def pending_account_def account_new_def plan_default_def Let_def)

lemma pending_first_fill: "plan a = plan pending_account \<Longrightarrow> current_trading_day_start a = None \<Longrightarrow> \<not> day_counted_today a \<Longrightarrow>
    first_fill (exact_env 0) a pending_fill"
  by (simp add: first_fill_def auto_rollover_def pending_fill_def trade_new_def pending_account_def account_new_def plan_default_def
      trading_day_start_def Let_def)



text \<open>
  C40. The requirement of profitable days does not bind. A plan can ask for a number of
  profitable days to pass a phase, but promotion never looks at it: an account that lacks
  some of them, with its target reached and enough trading days, is promoted by whatever
  decision is applied to it next, and the upgrade is logged.
\<close>

theorem promotion_ignores_profitable_days:
  assumes "apply_decision E a d now actor = ok (b, evs)" "status a = TargetHitPending" "target_reached_at a \<noteq> None"
    and "min_trading_days (plan a) \<le> active_trading_days a" "\<not> profitable_days_met a"
  shows "phase_rank (plan_phase (plan a)) < phase_rank (plan_phase (plan b)) \<and> \<not> profitable_days_met b
     \<and> (\<exists>e \<in> set evs. e_kind e = EvPlanUpgraded (plan_phase (plan a)) (plan_phase (plan b)))"
  using assms(1)
proof (rule apply_decision_cases)
  fix a1 ev1 a2 ev2 ev3
  assume s: "decision_target E a d now = (a1, ev1)" "decision_promote E a1 now = Inr (a2, ev2)"
      "decision_terminate E a2 d now actor = Some (b, ev3)" "evs = ev1 @ ev2 @ ev3"
  have a1: "a1 = a" using s(1) assms(3) by (auto simp: decision_target_def mark_target_reached_def split: if_split_asm)
  obtain u where u: "upgrade_phase (a\<lparr>status := Passed\<rparr>) (next_phase_for (plan_phase (plan a))) = Inr u" "a2 = reset_for_phase u"
      "\<exists>e \<in> set ev2. e_kind e = EvPlanUpgraded (plan_phase (plan a)) (next_phase_for (plan_phase (plan a)))"
    using s(2) assms(2-4) a1 by (auto simp: decision_promote_def Let_def domain_event_new_def split: sum.split_asm)
  have a2: "plan_phase (plan a) \<noteq> FundedPhase" "plan a2 = with_phase (plan a) (next_phase_for (plan_phase (plan a)))"
      "profitable_days_count a2 = profitable_days_count a"
    using u(1,2) by (auto simp: upgrade_phase_def reset_for_phase_def split: if_split_asm)
  have b: "plan b = plan a2" "profitable_days_count b = profitable_days_count a2" using s(3) by (auto elim: decision_terminate_update)
  show ?thesis
    using a2 b u(3) assms(5) s(4) by (cases "plan_phase (plan a)") (auto simp: with_phase_def profitable_days_met_def split: option.split_asm)
qed

theorem promotion_ignores_profitable_days_witness:
  "\<exists>a b evs. \<not> profitable_days_met a \<and> plan_phase (plan a) = Phase1
     \<and> apply_decision (exact_env 0) a decision_default 0 ''x'' = ok (b, evs) \<and> 0 < phase_rank (plan_phase (plan b))"
proof -
  let ?a = "pending_account\<lparr>plan := (plan pending_account)\<lparr>min_profitable_days := Some 5\<rparr>, active_trading_days := 3\<rparr>"
  obtain b evs where b: "apply_decision (exact_env 0) ?a decision_default 0 ''x'' = ok (b, evs)"
    by (simp add: apply_decision_def decision_target_def decision_promote_def decision_terminate_def upgrade_phase_def
      reset_for_phase_def with_phase_def account_status_target_def decision_default_def pending_account_def account_new_def plan_default_def Let_def)
  have a: "\<not> profitable_days_met ?a" "plan_phase (plan ?a) = Phase1" "status ?a = TargetHitPending" "target_reached_at ?a \<noteq> None"
      "min_trading_days (plan ?a) \<le> active_trading_days ?a"
    by (simp_all add: profitable_days_met_def pending_account_def account_new_def plan_default_def Let_def)
  from promotion_ignores_profitable_days [OF b a(3-5,1)] show ?thesis using a(1,2) b by auto
qed

text \<open>
  C38. A funded account that reaches a target jams. The funded phase has no successor, so the
  promotion of a funded account is an error: once its target is recorded and at most one
  trading day is missing, no fill of a new day is ever processed, whatever the rules say.
\<close>

theorem funded_target_jams:
  assumes "awaits_promotion a" "plan_phase (plan a) = FundedPhase" "missing_days a \<le> 1" "first_fill E a t"
  shows "process E reg st notify a (PTradeFilled t) \<noteq> ok r"
proof
  assume ok: "process E reg st notify a (PTradeFilled t) = ok r"
  from this assms(4) show False
  proof (rule fill_counts_day)
    fix c d dev assume c: "plan c = plan a" "status c = status a" "target_reached_at c = target_reached_at a"
      "active_trading_days c = active_trading_days a + 1 \<or> active_trading_days c = active_trading_days a + 2"
      "apply_decision E c d (utc_now E) (actor_of (PTradeFilled t)) = ok (pr_account r, dev)"
    have "unat (min_trading_days (plan c)) \<le> unat (active_trading_days c)"
      using c(1,4) unat_next [of "active_trading_days a"] assms(1,3) by (auto simp: awaits_promotion_def missing_days_def)
    then show False using pending_decision(1) [OF c(5)] c(1-3) assms(1,2) by (simp add: awaits_promotion_def word_le_nat_alt)
  qed
qed

theorem funded_target_jams_witness:
  "\<exists>a. plan_phase (plan a) = FundedPhase \<and> status a = TargetHitPending \<and> first_fill (exact_env 0) a pending_fill
     \<and> (\<forall>reg st r. process (exact_env 0) reg st quiet_notify a (PTradeFilled pending_fill) \<noteq> ok r)"
proof -
  let ?a = "pending_account\<lparr>plan := with_phase (plan pending_account) FundedPhase\<rparr>"
  have "awaits_promotion ?a" "plan_phase (plan ?a) = FundedPhase" "missing_days ?a \<le> 1" "status ?a = TargetHitPending"
    by (simp_all add: awaits_promotion_def missing_days_def pending_account_def account_new_def plan_default_def with_phase_def Let_def)
  moreover have "first_fill (exact_env 0) ?a pending_fill"
    by (simp add: first_fill_def auto_rollover_def pending_fill_def trade_new_def pending_account_def account_new_def plan_default_def
        trading_day_start_def with_phase_def Let_def)
  ultimately show ?thesis using funded_target_jams [of ?a] by blast
qed

end
