(* ===== verification/Presets.thy ===== *)
theory Presets
  imports Plan
begin

text \<open>
  The named challenge plans of \<^verbatim>\<open>src/config/presets.rs\<close>, one function each, as updates of a
  base plan in the order of the source. Every preset ends with \<^verbatim>\<open>validate().unwrap()\<close>,
  so a preset that does not validate is a panic.
\<close>

section \<open>Base plan\<close>

definition base_plan :: "ext \<Rightarrow> string \<Rightarrow> string \<Rightarrow> money \<Rightarrow> challenge_plan" where
  "base_plan E firm program bal =
     (plan_default (new_v4 E ''challenge'') (utc_now E))
       \<lparr>plan_id := new_v4 E ''challenge'',
        meta := \<lparr> firm_name = firm, program_name = program, meta_version = ''1.0.0'', currency = ''USD'',
                  meta_description = firm @ '' '' @ program @ '' evaluation program'' \<rparr>,
        initial_balance_money := bal, effective_at := utc_now E\<rparr>"

definition validated :: "challenge_plan \<Rightarrow> challenge_plan option" where
  "validated p = (case plan_validate p of Inl e \<Rightarrow> None | Inr _ \<Rightarrow> Some p)"

section \<open>Presets\<close>

definition ftmo_phase1 :: "ext \<Rightarrow> challenge_plan option" where
  "ftmo_phase1 E = validated
     ((base_plan E ''FTMO'' ''Challenge'' 10000)\<lparr>plan_phase := Phase1, profit_target_pct := 10 / 100, max_daily_drawdown_pct := 5 / 100,
       max_total_drawdown_pct := 10 / 100, daily_loss_type := PctInitial,
       max_loss_reference := Static, drawdown_on_balance := False, min_trading_days := 4,
       time_limit_days := Some 30, news_trading_allowed := True, overnight_holding_allowed := True,
       weekend_holding_allowed := False, hedging_allowed := True, grid_trading_allowed := True,
       require_stop_loss := True, consistency_pct := Some (40 / 100), leverage := 100\<rparr>)"

definition ftmo_phase2 :: "ext \<Rightarrow> challenge_plan option" where
  "ftmo_phase2 E = do {
     p \<leftarrow> ftmo_phase1 E;
     validated (p\<lparr>plan_phase := Phase2, meta := (meta p)\<lparr>program_name := ''Verification''\<rparr>,
       profit_target_pct := 5 / 100, time_limit_days := Some 60\<rparr>) }"

definition ftmo_funded :: "ext \<Rightarrow> challenge_plan option" where
  "ftmo_funded E = do {
     p \<leftarrow> ftmo_phase2 E;
     validated (p\<lparr>plan_phase := FundedPhase, meta := (meta p)\<lparr>program_name := ''Funded''\<rparr>,
       profit_target_pct := 0, time_limit_days := None, max_loss_reference := Trailing,
       trailing_drawdown_enabled := True, trailing_drawdown_pct := 10 / 100,
       consistency_pct := Some (40 / 100)\<rparr>) }"

definition myforexfunds_phase1 :: "ext \<Rightarrow> challenge_plan option" where
  "myforexfunds_phase1 E = validated
     ((base_plan E ''MyForexFunds'' ''Challenge'' 50000)\<lparr>plan_phase := Phase1, profit_target_pct := 8 / 100, max_daily_drawdown_pct := 5 / 100,
       max_total_drawdown_pct := 10 / 100, max_loss_reference := Static, min_trading_days := 0,
       time_limit_days := None, news_trading_allowed := True, overnight_holding_allowed := True,
       weekend_holding_allowed := True, hedging_allowed := True, require_stop_loss := False,
       consistency_pct := None, leverage := 500\<rparr>)"

definition thefundedtrader_phase1 :: "ext \<Rightarrow> challenge_plan option" where
  "thefundedtrader_phase1 E = validated
     ((base_plan E ''The Funded Trader'' ''Challenge'' 100000)\<lparr>plan_phase := Phase1, profit_target_pct := 10 / 100, max_daily_drawdown_pct := 5 / 100,
       max_total_drawdown_pct := 10 / 100, max_loss_reference := Static, min_trading_days := 0,
       time_limit_days := None, news_trading_allowed := False, overnight_holding_allowed := False,
       weekend_holding_allowed := False, hedging_allowed := False, require_stop_loss := True,
       consistency_pct := None, leverage := 100\<rparr>)"

definition surgetrader_plan :: "ext \<Rightarrow> challenge_plan option" where
  "surgetrader_plan E = validated
     ((base_plan E ''SurgeTrader'' ''One-Step'' 25000)\<lparr>plan_phase := Phase1, profit_target_pct := 10 / 100, max_daily_drawdown_pct := 3 / 100,
       max_total_drawdown_pct := 5 / 100, max_loss_reference := Static, min_trading_days := 0,
       time_limit_days := None, news_trading_allowed := True, overnight_holding_allowed := True,
       weekend_holding_allowed := True, hedging_allowed := True, require_stop_loss := False,
       consistency_pct := None, leverage := 30\<rparr>)"

definition custom :: "ext \<Rightarrow> string \<Rightarrow> money \<Rightarrow> challenge_plan" where
  "custom E name bal = base_plan E ''Custom'' name bal"

definition ftmo_1step :: "ext \<Rightarrow> challenge_plan option" where
  "ftmo_1step E = validated
     ((base_plan E ''FTMO'' ''1-Step Challenge'' 10000)\<lparr>plan_phase := Phase1, profit_target_pct := 10 / 100, max_daily_drawdown_pct := 3 / 100,
       max_total_drawdown_pct := 10 / 100, daily_loss_type := PctInitial,
       max_loss_reference := EodTrailing, drawdown_on_balance := False, min_trading_days := 0,
       time_limit_days := None, inactivity_days := Some 30, news_trading_allowed := True,
       overnight_holding_allowed := True, weekend_holding_allowed := False, hedging_allowed := True,
       grid_trading_allowed := True, require_stop_loss := True, consistency_pct := Some (50 / 100),
       consistency_type := BestDayPctOfPositiveDays, leverage := 100\<rparr>)"

definition ftmo_instant_funding :: "ext \<Rightarrow> challenge_plan option" where
  "ftmo_instant_funding E = validated
     ((base_plan E ''FTMO'' ''Instant Funding'' 10000)\<lparr>plan_phase := FundedPhase, profit_target_pct := 5 / 100, max_daily_drawdown_pct := 5 / 100,
       max_total_drawdown_pct := 10 / 100, max_loss_reference := Trailing,
       trailing_drawdown_enabled := True, trailing_drawdown_pct := 10 / 100,
       drawdown_on_balance := False, min_trading_days := 0, time_limit_days := None,
       news_trading_allowed := True, overnight_holding_allowed := True,
       weekend_holding_allowed := False, hedging_allowed := True, grid_trading_allowed := False,
       require_stop_loss := True, consistency_pct := Some (40 / 100), leverage := 100\<rparr>)"

definition fundednext_1step :: "ext \<Rightarrow> challenge_plan option" where
  "fundednext_1step E = validated
     ((base_plan E ''FundedNext'' ''1-Step'' 50000)\<lparr>plan_phase := Phase1, profit_target_pct := 8 / 100, max_daily_drawdown_pct := 5 / 100,
       max_total_drawdown_pct := 10 / 100, max_loss_reference := EodTrailing, min_trading_days := 0,
       time_limit_days := None, inactivity_days := Some 30, news_trading_allowed := True,
       overnight_holding_allowed := True, weekend_holding_allowed := True, hedging_allowed := True,
       require_stop_loss := False, consistency_pct := None, leverage := 100\<rparr>)"

definition topstep_futures :: "ext \<Rightarrow> challenge_plan option" where
  "topstep_futures E = validated
     ((base_plan E ''Topstep'' ''Trading Combine'' 50000)\<lparr>plan_phase := Phase1, profit_target_pct := 6 / 100, max_daily_drawdown_pct := 0,
       daily_loss_type := DailyLossNone, max_total_drawdown_pct := 10 / 100,
       max_loss_reference := EodTrailing, eod_trail_locks_at_start := True,
       per_trade_max_loss_pct := Some (2 / 100), min_trading_days := 5, time_limit_days := None,
       inactivity_days := Some 30, news_trading_allowed := True, overnight_holding_allowed := True,
       weekend_holding_allowed := True, hedging_allowed := False, require_stop_loss := True,
       consistency_pct := None, leverage := 1\<rparr>)"

definition topstep_100k_combine :: "ext \<Rightarrow> challenge_plan option" where
  "topstep_100k_combine E = do {
     p \<leftarrow> topstep_futures E;
     validated (p\<lparr>meta := (meta p)\<lparr>program_name := ''100K Trading Combine''\<rparr>,
       initial_balance_money := 100000, max_total_drawdown_pct := 3 / 100\<rparr>) }"

definition topstep_150k_combine :: "ext \<Rightarrow> challenge_plan option" where
  "topstep_150k_combine E = do {
     p \<leftarrow> topstep_100k_combine E;
     validated (p\<lparr>meta := (meta p)\<lparr>program_name := ''150K Trading Combine''\<rparr>,
       initial_balance_money := 150000\<rparr>) }"

definition fundingpips_1step :: "ext \<Rightarrow> challenge_plan option" where
  "fundingpips_1step E = validated
     ((base_plan E ''FundingPips'' ''1 Step'' 50000)\<lparr>plan_phase := Phase1, profit_target_pct := 10 / 100, max_daily_drawdown_pct := 3 / 100,
       max_total_drawdown_pct := 6 / 100, daily_loss_type := PctPriorDay,
       max_loss_reference := Static, min_trading_days := 3, time_limit_days := None,
       consistency_pct := None, consistency_type := ConsistencyNone, leverage := 100\<rparr>)"

definition fundingpips_2step_standard_phase1 :: "ext \<Rightarrow> challenge_plan option" where
  "fundingpips_2step_standard_phase1 E = validated
     ((base_plan E ''FundingPips'' ''2 Step Standard - Phase 1'' 50000)\<lparr>plan_phase := Phase1, profit_target_pct := 8 / 100, max_daily_drawdown_pct := 5 / 100,
       max_total_drawdown_pct := 10 / 100, daily_loss_type := PctPriorDay,
       max_loss_reference := Static, min_trading_days := 3, consistency_pct := None,
       consistency_type := ConsistencyNone, leverage := 100\<rparr>)"

definition fundingpips_2step_standard_phase2 :: "ext \<Rightarrow> challenge_plan option" where
  "fundingpips_2step_standard_phase2 E = do {
     p \<leftarrow> fundingpips_2step_standard_phase1 E;
     validated (p\<lparr>plan_phase := Phase2,
       meta := (meta p)\<lparr>program_name := ''2 Step Standard - Phase 2''\<rparr>,
       profit_target_pct := 5 / 100\<rparr>) }"

definition fundingpips_2step_flex_phase1 :: "ext \<Rightarrow> challenge_plan option" where
  "fundingpips_2step_flex_phase1 E = validated
     ((base_plan E ''FundingPips'' ''2 Step Flex - Phase 1'' 50000)\<lparr>plan_phase := Phase1, profit_target_pct := 10 / 100, max_daily_drawdown_pct := 4 / 100,
       max_total_drawdown_pct := 12 / 100, daily_loss_type := PctPriorDay,
       max_loss_reference := Static, min_trading_days := 0, consistency_pct := None,
       consistency_type := ConsistencyNone, leverage := 100\<rparr>)"

definition fundingpips_2step_flex_phase2 :: "ext \<Rightarrow> challenge_plan option" where
  "fundingpips_2step_flex_phase2 E = do {
     p \<leftarrow> fundingpips_2step_flex_phase1 E;
     validated (p\<lparr>plan_phase := Phase2,
       meta := (meta p)\<lparr>program_name := ''2 Step Flex - Phase 2''\<rparr>,
       profit_target_pct := 6 / 100\<rparr>) }"

definition fundingpips_2step_pro_phase1 :: "ext \<Rightarrow> challenge_plan option" where
  "fundingpips_2step_pro_phase1 E = validated
     ((base_plan E ''FundingPips'' ''2 Step Pro - Phase 1'' 50000)\<lparr>plan_phase := Phase1, profit_target_pct := 6 / 100, max_daily_drawdown_pct := 3 / 100,
       max_total_drawdown_pct := 6 / 100, daily_loss_type := PctPriorDay,
       max_loss_reference := Static, min_trading_days := 1, consistency_pct := None,
       consistency_type := ConsistencyNone, leverage := 100\<rparr>)"

definition fundingpips_2step_pro_phase2 :: "ext \<Rightarrow> challenge_plan option" where
  "fundingpips_2step_pro_phase2 E = do {
     p \<leftarrow> fundingpips_2step_pro_phase1 E;
     validated (p\<lparr>plan_phase := Phase2,
       meta := (meta p)\<lparr>program_name := ''2 Step Pro - Phase 2''\<rparr>\<rparr>) }"

definition fundingpips_zero :: "ext \<Rightarrow> challenge_plan option" where
  "fundingpips_zero E = validated
     ((base_plan E ''FundingPips'' ''Zero'' 50000)\<lparr>plan_phase := FundedPhase, profit_target_pct := 0, max_daily_drawdown_pct := 3 / 100,
       max_total_drawdown_pct := 5 / 100, daily_loss_type := PctPriorDay,
       max_loss_reference := IntradayTrail, eod_trail_locks_at_start := True,
       min_profitable_days := Some 7, consistency_pct := Some (15 / 100),
       consistency_type := BestDayPctOfTotal, min_trading_days := 0, time_limit_days := None,
       leverage := 100\<rparr>)"

definition the5ers_1step :: "ext \<Rightarrow> challenge_plan option" where
  "the5ers_1step E = validated
     ((base_plan E ''The5%ers'' ''1-Step'' 100000)\<lparr>plan_phase := Phase1, profit_target_pct := 10 / 100, max_daily_drawdown_pct := 3 / 100,
       max_total_drawdown_pct := 6 / 100, daily_loss_type := PctPriorDay,
       max_loss_reference := Static, min_trading_days := 0, consistency_pct := Some (50 / 100),
       consistency_type := BestDayPctOfTotal, consistency_applies_on_funded_stage := True,
       leverage := 100\<rparr>)"

definition the5ers_2step_phase1 :: "ext \<Rightarrow> challenge_plan option" where
  "the5ers_2step_phase1 E = validated
     ((base_plan E ''The5%ers'' ''2-Step (8/5) - Phase 1'' 100000)\<lparr>plan_phase := Phase1, profit_target_pct := 8 / 100, max_daily_drawdown_pct := 3 / 100,
       max_total_drawdown_pct := 10 / 100, daily_loss_type := PctPriorDay,
       max_loss_reference := Static, min_trading_days := 1, consistency_pct := None,
       consistency_type := ConsistencyNone, leverage := 100\<rparr>)"

definition the5ers_2step_phase2 :: "ext \<Rightarrow> challenge_plan option" where
  "the5ers_2step_phase2 E = do {
     p \<leftarrow> the5ers_2step_phase1 E;
     validated (p\<lparr>plan_phase := Phase2,
       meta := (meta p)\<lparr>program_name := ''2-Step (8/5) - Phase 2''\<rparr>,
       profit_target_pct := 5 / 100\<rparr>) }"

definition breakout_1step_classic :: "ext \<Rightarrow> challenge_plan option" where
  "breakout_1step_classic E = validated
     ((base_plan E ''Breakout'' ''1-Step Classic'' 50000)\<lparr>plan_phase := Phase1, profit_target_pct := 10 / 100, max_daily_drawdown_pct := 3 / 100,
       max_total_drawdown_pct := 6 / 100, daily_loss_type := PctPriorDay,
       max_loss_reference := Static, consistency_pct := None, consistency_type := ConsistencyNone,
       leverage := 100\<rparr>)"

definition breakout_1step_pro :: "ext \<Rightarrow> challenge_plan option" where
  "breakout_1step_pro E = validated
     ((base_plan E ''Breakout'' ''1-Step Pro'' 50000)\<lparr>plan_phase := Phase1, profit_target_pct := 12 / 100, max_daily_drawdown_pct := 3 / 100,
       max_total_drawdown_pct := 5 / 100, daily_loss_type := PctPriorDay,
       max_loss_reference := Static, consistency_pct := None, consistency_type := ConsistencyNone,
       leverage := 100\<rparr>)"

definition breakout_1step_turbo :: "ext \<Rightarrow> challenge_plan option" where
  "breakout_1step_turbo E = validated
     ((base_plan E ''Breakout'' ''1-Step Turbo'' 50000)\<lparr>plan_phase := Phase1, profit_target_pct := 9 / 100, max_daily_drawdown_pct := 3 / 100,
       max_total_drawdown_pct := 3 / 100, daily_loss_type := PctPriorDay,
       max_loss_reference := Static, consistency_pct := None, consistency_type := ConsistencyNone,
       leverage := 100\<rparr>)"

definition breakout_2step_phase1 :: "ext \<Rightarrow> challenge_plan option" where
  "breakout_2step_phase1 E = validated
     ((base_plan E ''Breakout'' ''2-Step - Phase 1'' 50000)\<lparr>plan_phase := Phase1, profit_target_pct := 5 / 100, max_daily_drawdown_pct := 5 / 100,
       max_total_drawdown_pct := 8 / 100, daily_loss_type := PctPriorDay,
       max_loss_reference := IntradayTrail, eod_trail_locks_at_start := True,
       consistency_pct := None, consistency_type := ConsistencyNone, leverage := 100\<rparr>)"

definition breakout_2step_phase2 :: "ext \<Rightarrow> challenge_plan option" where
  "breakout_2step_phase2 E = do {
     p \<leftarrow> breakout_2step_phase1 E;
     validated (p\<lparr>plan_phase := Phase2, meta := (meta p)\<lparr>program_name := ''2-Step - Phase 2''\<rparr>,
       profit_target_pct := 10 / 100\<rparr>) }"

definition hyrotrader_1step_standard :: "ext \<Rightarrow> challenge_plan option" where
  "hyrotrader_1step_standard E = validated
     ((base_plan E ''HyroTrader'' ''1-Step Standard'' 50000)\<lparr>plan_phase := Phase1, profit_target_pct := 10 / 100, max_daily_drawdown_pct := 4 / 100,
       max_total_drawdown_pct := 6 / 100, daily_loss_type := TrailingIntradayHigh,
       max_loss_reference := Static, min_trading_days := 5, consistency_pct := Some (40 / 100),
       consistency_type := BestDayPctOfPositiveDays, per_trade_max_loss_pct := Some (3 / 100),
       grid_trading_allowed := False, hedging_allowed := False,
       cross_account_hedging_prohibited := True, lowcap_exposure_limit_pct := Some (5 / 100),
       leverage := 100\<rparr>)"

definition hyrotrader_1step_swing :: "ext \<Rightarrow> challenge_plan option" where
  "hyrotrader_1step_swing E = do {
     p \<leftarrow> hyrotrader_1step_standard E;
     validated (p\<lparr>meta := (meta p)\<lparr>program_name := ''1-Step Swing''\<rparr>,
       daily_loss_type := PctPriorDay\<rparr>) }"

definition hyrotrader_2step_standard_phase1 :: "ext \<Rightarrow> challenge_plan option" where
  "hyrotrader_2step_standard_phase1 E = validated
     ((base_plan E ''HyroTrader'' ''2-Step Standard - Phase 1'' 50000)\<lparr>plan_phase := Phase1, profit_target_pct := 10 / 100, max_daily_drawdown_pct := 5 / 100,
       max_total_drawdown_pct := 10 / 100, daily_loss_type := TrailingIntradayHigh,
       max_loss_reference := Static, min_trading_days := 5, consistency_pct := Some (40 / 100),
       consistency_type := BestDayPctOfPositiveDays, per_trade_max_loss_pct := Some (3 / 100),
       grid_trading_allowed := False, hedging_allowed := False,
       cross_account_hedging_prohibited := True, lowcap_exposure_limit_pct := Some (5 / 100),
       leverage := 100\<rparr>)"

definition hyrotrader_2step_standard_phase2 :: "ext \<Rightarrow> challenge_plan option" where
  "hyrotrader_2step_standard_phase2 E = do {
     p \<leftarrow> hyrotrader_2step_standard_phase1 E;
     validated (p\<lparr>plan_phase := Phase2,
       meta := (meta p)\<lparr>program_name := ''2-Step Standard - Phase 2''\<rparr>,
       profit_target_pct := 5 / 100\<rparr>) }"

definition hyrotrader_2step_swing_phase1 :: "ext \<Rightarrow> challenge_plan option" where
  "hyrotrader_2step_swing_phase1 E = do {
     p \<leftarrow> hyrotrader_2step_standard_phase1 E;
     validated (p\<lparr>meta := (meta p)\<lparr>program_name := ''2-Step Swing - Phase 1''\<rparr>,
       daily_loss_type := PctPriorDay\<rparr>) }"

definition hyrotrader_2step_swing_phase2 :: "ext \<Rightarrow> challenge_plan option" where
  "hyrotrader_2step_swing_phase2 E = do {
     p \<leftarrow> hyrotrader_2step_swing_phase1 E;
     validated (p\<lparr>plan_phase := Phase2,
       meta := (meta p)\<lparr>program_name := ''2-Step Swing - Phase 2''\<rparr>,
       profit_target_pct := 5 / 100\<rparr>) }"

definition bitfunded_2step_phase1 :: "ext \<Rightarrow> challenge_plan option" where
  "bitfunded_2step_phase1 E = validated
     ((base_plan E ''Bitfunded'' ''2-Step - Phase 1'' 50000)\<lparr>plan_phase := Phase1, profit_target_pct := 8 / 100, max_daily_drawdown_pct := 5 / 100,
       max_total_drawdown_pct := 10 / 100, daily_loss_type := PctInitial,
       max_loss_reference := Static, consistency_pct := None, consistency_type := ConsistencyNone,
       leverage := 100\<rparr>)"

definition bitfunded_2step_phase2 :: "ext \<Rightarrow> challenge_plan option" where
  "bitfunded_2step_phase2 E = do {
     p \<leftarrow> bitfunded_2step_phase1 E;
     validated (p\<lparr>plan_phase := Phase2, meta := (meta p)\<lparr>program_name := ''2-Step - Phase 2''\<rparr>,
       profit_target_pct := 5 / 100, max_total_drawdown_pct := 8 / 100\<rparr>) }"

definition bitfunded_1step :: "ext \<Rightarrow> challenge_plan option" where
  "bitfunded_1step E = validated
     ((base_plan E ''Bitfunded'' ''1-Step'' 50000)\<lparr>plan_phase := Phase1, profit_target_pct := 10 / 100, max_daily_drawdown_pct := 4 / 100,
       max_total_drawdown_pct := 6 / 100, daily_loss_type := PctInitial,
       max_loss_reference := Static, consistency_pct := None, consistency_type := ConsistencyNone,
       leverage := 100\<rparr>)"

definition bitfunded_instant :: "ext \<Rightarrow> challenge_plan option" where
  "bitfunded_instant E = validated
     ((base_plan E ''Bitfunded'' ''Instant'' 5000)\<lparr>plan_phase := FundedPhase, profit_target_pct := 0, max_daily_drawdown_pct := 3 / 100,
       max_total_drawdown_pct := 6 / 100, daily_loss_type := PctInitial,
       max_loss_reference := Static, consistency_pct := None, consistency_type := ConsistencyNone,
       leverage := 100\<rparr>)"

definition apex_eod_trail :: "ext \<Rightarrow> money \<Rightarrow> challenge_plan option" where
  "apex_eod_trail E account_size = validated
     ((base_plan E ''Apex Trader Funding'' ''EOD Trail Evaluation'' account_size)\<lparr>plan_phase := Phase1, profit_target_pct := 6 / 100, max_daily_drawdown_pct := 2 / 100,
       daily_loss_type := PctInitial, daily_loss_soft := True, max_total_drawdown_pct := 4 / 100,
       max_loss_reference := EodTrailing, min_trading_days := 0, time_limit_days := Some 30,
       consistency_pct := None, consistency_type := ConsistencyNone, leverage := 1\<rparr>)"

definition apex_intraday_trail :: "ext \<Rightarrow> money \<Rightarrow> challenge_plan option" where
  "apex_intraday_trail E account_size = validated
     ((base_plan E ''Apex Trader Funding'' ''Intraday Trail Evaluation'' account_size)\<lparr>plan_phase := Phase1, profit_target_pct := 6 / 100, max_daily_drawdown_pct := 0,
       daily_loss_type := DailyLossNone, max_total_drawdown_pct := 4 / 100,
       max_loss_reference := IntradayTrail, min_trading_days := 0, time_limit_days := Some 30,
       consistency_pct := None, consistency_type := ConsistencyNone, leverage := 1\<rparr>)"

section \<open>Specification\<close>

definition all_presets :: "ext \<Rightarrow> challenge_plan option list" where
  "all_presets E =
     [ftmo_phase1 E, ftmo_phase2 E, ftmo_funded E, myforexfunds_phase1 E, thefundedtrader_phase1 E,
      surgetrader_plan E, ftmo_1step E, ftmo_instant_funding E, fundednext_1step E, topstep_futures E,
      topstep_100k_combine E, topstep_150k_combine E, fundingpips_1step E,
      fundingpips_2step_standard_phase1 E, fundingpips_2step_standard_phase2 E,
      fundingpips_2step_flex_phase1 E, fundingpips_2step_flex_phase2 E, fundingpips_2step_pro_phase1 E,
      fundingpips_2step_pro_phase2 E, fundingpips_zero E, the5ers_1step E, the5ers_2step_phase1 E,
      the5ers_2step_phase2 E, breakout_1step_classic E, breakout_1step_pro E, breakout_1step_turbo E,
      breakout_2step_phase1 E, breakout_2step_phase2 E, hyrotrader_1step_standard E,
      hyrotrader_1step_swing E, hyrotrader_2step_standard_phase1 E, hyrotrader_2step_standard_phase2 E,
      hyrotrader_2step_swing_phase1 E, hyrotrader_2step_swing_phase2 E, bitfunded_2step_phase1 E,
      bitfunded_2step_phase2 E, bitfunded_1step E, bitfunded_instant E]"

text \<open>
  A usable plan: it validates, the daily limit is no laxer than the total one, the total
  limit is positive, a phase before funding has a target, and leverage is positive.
\<close>

definition usable_plan :: "challenge_plan \<Rightarrow> bool" where
  "usable_plan p \<longleftrightarrow> plan_validate p = Inr () \<and> max_daily_drawdown_pct p \<le> max_total_drawdown_pct p
     \<and> 0 < max_total_drawdown_pct p \<and> (plan_phase p = FundedPhase \<or> 0 < profit_target_pct p) \<and> 0 < leverage p"

section \<open>Every preset returns a usable plan\<close>

lemmas preset_simps = validated_def base_plan_def plan_default_def plan_validate_def usable_plan_def

lemmas preset_defs =
  ftmo_phase1_def ftmo_phase2_def ftmo_funded_def myforexfunds_phase1_def thefundedtrader_phase1_def
  surgetrader_plan_def ftmo_1step_def ftmo_instant_funding_def fundednext_1step_def topstep_futures_def
  topstep_100k_combine_def topstep_150k_combine_def fundingpips_1step_def
  fundingpips_2step_standard_phase1_def fundingpips_2step_standard_phase2_def
  fundingpips_2step_flex_phase1_def fundingpips_2step_flex_phase2_def fundingpips_2step_pro_phase1_def
  fundingpips_2step_pro_phase2_def fundingpips_zero_def the5ers_1step_def the5ers_2step_phase1_def
  the5ers_2step_phase2_def breakout_1step_classic_def breakout_1step_pro_def breakout_1step_turbo_def
  breakout_2step_phase1_def breakout_2step_phase2_def hyrotrader_1step_standard_def
  hyrotrader_1step_swing_def hyrotrader_2step_standard_phase1_def hyrotrader_2step_standard_phase2_def
  hyrotrader_2step_swing_phase1_def hyrotrader_2step_swing_phase2_def bitfunded_2step_phase1_def
  bitfunded_2step_phase2_def bitfunded_1step_def bitfunded_instant_def

text \<open>
  No named preset panics, and each is a usable plan; the two presets that take an account
  size return such a plan exactly for a positive size and panic otherwise.
\<close>

lemma named_presets_usable: "list_all (\<lambda>pr. \<exists>p. pr = Some p \<and> usable_plan p) (all_presets E)"
  unfolding all_presets_def list.pred_inject by (intro conjI TrueI) (simp_all add: preset_defs preset_simps)

lemma apex_usable:
  "(\<exists>p. apex_eod_trail E account_size = Some p \<and> usable_plan p) \<longleftrightarrow> 0 < account_size"
  "(\<exists>p. apex_intraday_trail E account_size = Some p \<and> usable_plan p) \<longleftrightarrow> 0 < account_size"
  "apex_eod_trail E account_size = None \<longleftrightarrow> account_size \<le> 0" "apex_intraday_trail E account_size = None \<longleftrightarrow> account_size \<le> 0"
  by (auto simp: apex_eod_trail_def apex_intraday_trail_def preset_simps)

end
