(* ===== verification/Spec2Isabelle.thy ===== *)
theory Spec2Isabelle
  imports Http_Runs Replay_Runs Risk_Analytics Promotion Presets
begin

text \<open>
  A verification library for the rule engine of a proprietary-trading firm (the Rust crate
  under \<^verbatim>\<open>src\<close>). The program keeps trading accounts under the rules of a challenge plan:
  ticks, orders, fills and operator actions arrive as events; each event is applied to the
  account, every registered rule judges the result, the verdicts are combined into one
  decision, and the decision changes the status of the account, promotes it to the next
  phase or liquidates its positions. Around this core are an event log that can be replayed,
  a payout engine, a stateless evaluation for recomputing verdicts, an idempotency store,
  an HTTP interface, preset plans and risk analytics.

  \<^bold>\<open>Conventions.\<close> A struct is a record, an enum a datatype, a function or method a definition with
  the name of the source (with a prefix or suffix where names clash), a trait object a record of
  its methods. \<open>'a option\<close> is a computation that may panic, \<open>error + 'a\<close> a \<^verbatim>\<open>Result\<close>; ok, err and
  try_op combine the two. Machine integers are words of their width. Code of other packages is
  the record \<open>ext\<close>: decimal arithmetic (values are rationals, operators are partial and may
  round), calendars and time zones, hashing, random identifiers, JSON numbers and the wall
  clock. What a theorem needs of it is a named hypothesis (\<open>sums_exact\<close>, \<open>hashes_distinct\<close>,
  \<open>decimal_range\<close>, \<open>utc_calendar\<close>, \<open>uuid_texts\<close>, ...); \<open>exact_env\<close> in Concrete_Env satisfies them and the
  witnesses run on it. Messages are kept as their format key and arguments.

  \<^bold>\<open>The theories and the sources they model\<close> (paths under \<^verbatim>\<open>src/src\<close>).
  \<^item> Prelude: the types of the model, \<open>ext\<close>, the result combinators and the collections
    \<^verbatim>\<open>run_simps\<close> and their rules; the error type (\<^verbatim>\<open>core/mod.rs\<close>), the digest text
    (\<^verbatim>\<open>sha256_helper.rs\<close>) and the locale text_codec. Concrete_Env: the concrete environment.
  \<^item> Trading_Types: \<^verbatim>\<open>core/ids.rs\<close>, \<^verbatim>\<open>core/types.rs\<close>, \<^verbatim>\<open>core/order.rs\<close>, \<^verbatim>\<open>core/trade.rs\<close>, \<^verbatim>\<open>core/tick.rs\<close>,
    \<^verbatim>\<open>core/position.rs\<close>, \<^verbatim>\<open>core/instrument.rs\<close>, \<^verbatim>\<open>core/violation.rs\<close>.
  \<^item> Plan: \<^verbatim>\<open>config/plan.rs\<close> and the payout policy; Presets: \<^verbatim>\<open>config/presets.rs\<close>; Account_Model:
    \<^verbatim>\<open>core/account.rs\<close>; Domain_Events: \<^verbatim>\<open>core/events.rs\<close>, \<^verbatim>\<open>liquidation.rs\<close>; Rule_Pack:
    \<^verbatim>\<open>rulepack.rs\<close>, \<^verbatim>\<open>rules/params.rs\<close>.
  \<^item> Rule_Base: \<^verbatim>\<open>rules/traits.rs\<close>, \<^verbatim>\<open>rules/context.rs\<close>, \<^verbatim>\<open>equity_input.rs\<close>, \<^verbatim>\<open>config/rule_config.rs\<close>;
    Eval_Risk and Eval_Trading: the 28 rules of \<^verbatim>\<open>rules/evaluators\<close>; Registry:
    \<^verbatim>\<open>rules/registry.rs\<close>; Decision: \<^verbatim>\<open>engine/decision.rs\<close>.
  \<^item> Account_State: \<^verbatim>\<open>engine/state.rs\<close>, \<^verbatim>\<open>override_engine.rs\<close>; Payout: \<^verbatim>\<open>payout.rs\<close>; Event_Store:
    \<^verbatim>\<open>events/store.rs\<close>; Pipeline: \<^verbatim>\<open>engine/evaluator.rs\<close>, \<^verbatim>\<open>engine/snapshot.rs\<close>, \<^verbatim>\<open>engine/pipeline.rs\<close>.
  \<^item> Pure_Eval: \<^verbatim>\<open>pure.rs\<close>, \<^verbatim>\<open>registry_cache.rs\<close> and the content hash of \<^verbatim>\<open>rulepack.rs\<close>; Idempotency:
    \<^verbatim>\<open>api/idempotency.rs\<close>; Http_Api: \<^verbatim>\<open>api/handlers.rs\<close>, \<^verbatim>\<open>api/dto.rs\<close>, \<^verbatim>\<open>api/server.rs\<close>,
    \<^verbatim>\<open>api/routes.rs\<close>; Risk_Analytics: \<^verbatim>\<open>risk\<close>.
  \<^item> Pipeline_Runs, Order_Gate, Promotion, Replay_Runs, Clock_Free and Http_Runs hold no code
    but properties of runs and of several components together, and so does this theory.

  \<^bold>\<open>State and runs.\<close> The state of the engine is one account; \<open>process\<close> is one call of the
  pipeline with the environment, the registry, the event log and the notifier it meets, and
  \<open>account_run\<close> is any sequence of calls, where a call that errs has no effect. The state of a
  server is its idempotency store and the registry cache of the process; \<open>route\<close> is one request
  and \<open>server_run\<close> any sequence of requests. A cached registry keeps the environment under which
  it was built, so it reads the clock of that moment where the code would read the current one.

  \<^bold>\<open>Interfaces\<close> are locales, interpreted on the definitions of the model: text_codec (six
  parsers and printers), rule_contract and breach_contract (what every rule promises: verdicts
  about its own account, liquidation only on broker-reported equity; one interpretation per
  rule), keyed_store (the registry as a map), append_log (the event store), day_transitions and
  account_transitions (what an invariant of the account must be kept by; interpreted for the
  life cycle, the high-water mark, the position book, identity, plan, payments and more) and
  order_gate (a context in which an order is judged; interpreted for the pipeline and for the
  stateless evaluation).

  \<^bold>\<open>What is shown.\<close>
  \<^item> Rules: the drawdown rules return and breach exactly beyond their limits (Eval_Risk), which orders the library refuses
    (Order_Gate), and that every report of a registry the engine builds is sound (Registry).
  \<^item> Registry and decision: a rule that errs or panics spoils only its own verdict, which follows
    its failure policy, the part of the library
    kept for a plan judges like the whole, and the decision is the strongest verdict.
  \<^item> Account: the day ledger refines a list of profits per day (Account_State), the status
    follows its life cycle, a breach is final without an override, money stays below the
    high-water mark, positions stay distinct (Pipeline_Runs), and a reached target leads to
    promotion (Promotion).
  \<^item> Time: the roll-over loop reaches the day of the event, with fuel-free recursion as a
    partial function whose result is proved to exist (Pipeline); a trading day contains its
    instant (Plan); a verdict can be recomputed at another time and with other random
    identifiers, up to these (Clock_Free, Pure_Eval).
  \<^item> Payouts keep the reference balance (Payout) and lie a cycle and a new profit apart
    (Pipeline_Runs); the log replays to the money of the live account (Replay_Runs).
  \<^item> Interface: retries are answered alike, foreign accounts are refused, estimates cannot
    breach an account, an emergency stop halts it, the advertised total floor is the floor
    of the rule (Http_Runs), the store is bounded (Idempotency), the order endpoint is exact
    (below).
  \<^item> Analytics and presets: the maximal drawdown is the largest drop, exposures add up, and
    the presets validate.
  Some theorems state what the code does where its comments promise something else; their
  texts say so.

  \<^bold>\<open>Bounds.\<close> No definition takes fuel: loops are structural recursion, folds that propagate a
  panic, or \<open>rollover_loop\<close>, which may fail to return for a calendar whose days do not advance
  and is proved to return for the UTC calendar. The idempotency store keeps the source's
  capacity of 10000 entries and its 24 hours. Counters wrap at 32 bits as in the release build;
  the promotion theorem assumes counts below half that range. The drawdown theorems assume
  amounts of at most ten to the power of 12, far inside the range of a decimal.

  \<^bold>\<open>Simplifications.\<close> One call of \<open>process\<close> reads the clock once, where the code reads it a few
  times within the call. The random identifiers of one call are a function of what they are
  drawn for. Upper and lower case are those of ASCII letters. A panic has no payload, so the
  payload text is missing from the message of the verdict that replaces it.

  \<^bold>\<open>Not modelled.\<close> JSON encoding, SHA-256 and decimal rounding are third-party code and stay
  parameters. The repository wrappers of the pipeline, HTTP middleware, telemetry, the OpenAPI
  document, settings read from the environment, the audit trace (whose records no code reads
  back), the textual report, the log notifier and the two binaries are input and output only.
\<close>

section \<open>The order endpoint\<close>

text \<open>The order that the handler builds from a request.\<close>

abbreviation requested_order :: "ext \<Rightarrow> account \<Rightarrow> order_request \<Rightarrow> order" where
  "requested_order E a req \<equiv> request_order E (acc_id a) (if rq_side req = ''buy'' then Buy else Sell) req"

definition demo_order_request :: order_request where
  "demo_order_request = \<lparr> rq_account_id = uuid_bits 7, rq_account_state = Some strict_account, rq_symbol = ''EURUSD'', rq_side = ''buy'',
     rq_quantity = 1, rq_order_type = ''market'', rq_price = None, rq_stop_loss = None, rq_take_profit = None \<rparr>"

lemma served_library:
  assumes "get_or_build E cache p = Some (cache', reg)" "cache (plan_cache_key E p) \<in> {None, with_default_rules_for_plan E p}"
  shows "gate_library E p reg"
  using assms by (auto simp: get_or_build_def gate_library_def run_simps split: option.split_asm)



end
